(* ===== verification/Prelude.thy ===== *)
theory Prelude
  imports Complex_Main "HOL-Library.Word" "HOL-Library.Sublist" "HOL-Library.More_List"
begin

text \<open>
  Shared ground of the development: Go error values and their chains, the parts of Go's
  \<open>strings\<close> and \<open>strconv\<close> packages the program calls, bounded append-only buffers, and the
  generic list lemmas the component theories rest on.

  Go strings are byte strings, and so are HOL strings: a \<open>char\<close> is one byte.
  A Go \<open>error\<close> result is \<open>error option\<close> (nil is \<open>None\<close>), a \<open>(T, error)\<close> result is
  \<open>error + T\<close>.
\<close>

named_theorems svc_frame \<open>fields an operation leaves alone\<close>
named_theorems svc_inv \<open>operations that keep a component invariant\<close>

section \<open>Go error values\<close>

datatype error =
    Errors string                          \<comment> \<open>errors.New, fmt.Errorf without a wrapped error\<close>
  | Wrap string error string               \<comment> \<open>fmt.Errorf with one \<open>%w\<close> between two texts\<close>
  | CodedError string string bool "error option"  \<comment> \<open>appd.CodedError: code, message, retryable, cause\<close>
  | ConnectError string bool error         \<comment> \<open>vpn.ConnectError: stage, retryable, wrapped error\<close>
  | ValidationError error                  \<comment> \<open>profileio.ValidationError\<close>
  | ErrNotFound                            \<comment> \<open>secret.ErrNotFound\<close>
  | Canceled                               \<comment> \<open>context.Canceled\<close>
  | DeadlineExceeded                       \<comment> \<open>context.DeadlineExceeded\<close>
  | JoinE error error                      \<comment> \<open>errors.Join of two non-nil errors\<close>

text \<open>\<open>err.Error()\<close>.\<close>

fun err_msg :: "error \<Rightarrow> string" where
  "err_msg (Errors m) = m"
| "err_msg (Wrap pre e post) = pre @ err_msg e @ post"
| "err_msg (CodedError _ m _ _) = m"
| "err_msg (ConnectError stage _ e) = stage @ '': '' @ err_msg e"
| "err_msg (ValidationError e) = err_msg e"
| "err_msg ErrNotFound = ''secret not found''"
| "err_msg Canceled = ''context canceled''"
| "err_msg DeadlineExceeded = ''context deadline exceeded''"
| "err_msg (JoinE e f) = err_msg e @ [CHR 0x0A] @ err_msg f"

text \<open>\<open>errors.Is\<close> against one of the sentinel values \<open>ErrNotFound\<close>, \<open>Canceled\<close>,
  \<open>DeadlineExceeded\<close>: the error itself or anything it unwraps to.\<close>

fun errors_is :: "error \<Rightarrow> error \<Rightarrow> bool" where
  "errors_is (Wrap pre e post) t = errors_is e t"
| "errors_is (CodedError c m r cause) t = (case cause of None \<Rightarrow> False | Some e \<Rightarrow> errors_is e t)"
| "errors_is (ConnectError st r e) t = errors_is e t"
| "errors_is (ValidationError e) t = errors_is e t"
| "errors_is (JoinE e f) t = (errors_is e t \<or> errors_is f t)"
| "errors_is e t = (e = t)"

text \<open>\<open>errors.As\<close> to \<open>*ConnectError\<close>: the retryable flag of the first one in the chain.\<close>

fun as_connect :: "error \<Rightarrow> bool option" where
  "as_connect (ConnectError st r e) = Some r"
| "as_connect (Wrap pre e post) = as_connect e"
| "as_connect (CodedError c m r cause) = (case cause of None \<Rightarrow> None | Some e \<Rightarrow> as_connect e)"
| "as_connect (ValidationError e) = as_connect e"
| "as_connect (JoinE e f) = (case as_connect e of None \<Rightarrow> as_connect f | Some r \<Rightarrow> Some r)"
| "as_connect e = None"

text \<open>\<open>errors.As\<close> to \<open>*CodedError\<close>: code, message and retryable flag of the first one.\<close>

fun as_coded :: "error \<Rightarrow> (string \<times> string \<times> bool) option" where
  "as_coded (CodedError c m r cause) = Some (c, m, r)"
| "as_coded (ConnectError st r e) = as_coded e"
| "as_coded (Wrap pre e post) = as_coded e"
| "as_coded (ValidationError e) = as_coded e"
| "as_coded (JoinE e f) = (case as_coded e of None \<Rightarrow> as_coded f | Some r \<Rightarrow> Some r)"
| "as_coded e = None"

section \<open>The strings package\<close>

text \<open>The UTF-8 encodings of the runes \<open>unicode.IsSpace\<close> accepts.\<close>

definition space_runes :: "string list" where
  "space_runes = [[CHR 0x09], [CHR 0x0A], [CHR 0x0B], [CHR 0x0C], [CHR 0x0D], [CHR 0x20],
     [CHR 0xC2, CHR 0x85], [CHR 0xC2, CHR 0xA0], [CHR 0xE1, CHR 0x9A, CHR 0x80],
     [CHR 0xE2, CHR 0x80, CHR 0x80], [CHR 0xE2, CHR 0x80, CHR 0x81], [CHR 0xE2, CHR 0x80, CHR 0x82],
     [CHR 0xE2, CHR 0x80, CHR 0x83], [CHR 0xE2, CHR 0x80, CHR 0x84], [CHR 0xE2, CHR 0x80, CHR 0x85],
     [CHR 0xE2, CHR 0x80, CHR 0x86], [CHR 0xE2, CHR 0x80, CHR 0x87], [CHR 0xE2, CHR 0x80, CHR 0x88],
     [CHR 0xE2, CHR 0x80, CHR 0x89], [CHR 0xE2, CHR 0x80, CHR 0x8A], [CHR 0xE2, CHR 0x80, CHR 0xA8],
     [CHR 0xE2, CHR 0x80, CHR 0xA9], [CHR 0xE2, CHR 0x80, CHR 0xAF], [CHR 0xE2, CHR 0x81, CHR 0x9F],
     [CHR 0xE3, CHR 0x80, CHR 0x80]]"

text \<open>Drop matching non-empty prefixes as long as there is one.\<close>

function drop_runes :: "string list \<Rightarrow> string \<Rightarrow> string" where
  "drop_runes rs s =
     (case find (\<lambda>r. r \<noteq> [] \<and> prefix r s) rs of
        None \<Rightarrow> s
      | Some r \<Rightarrow> drop_runes rs (drop (length r) s))"
  by pat_completeness auto
termination
proof (relation "measure (\<lambda>(rs, s). length s)", goal_cases)
  case (2 rs s r)
  then have "r \<noteq> []" "prefix r s"
    by (auto simp: find_Some_iff)
  then show ?case
    by (cases s) (auto simp: prefix_def)
qed simp

declare drop_runes.simps [simp del]

definition trim_left :: "string \<Rightarrow> string" where
  "trim_left s = drop_runes space_runes s"

definition trim_right :: "string \<Rightarrow> string" where
  "trim_right s = rev (drop_runes (map rev space_runes) (rev s))"

text \<open>\<open>strings.TrimSpace\<close>.\<close>

definition TrimSpace :: "string \<Rightarrow> string" where
  "TrimSpace s = trim_right (trim_left s)"

lemma drop_runes_no_prefix: "find (\<lambda>r. r \<noteq> [] \<and> prefix r (drop_runes rs s)) rs = None"
proof (induction rs s rule: drop_runes.induct)
  case (1 rs s)
  show ?case
    by (cases "find (\<lambda>r. r \<noteq> [] \<and> prefix r s) rs")
      (simp_all add: drop_runes.simps [of rs s] 1)
qed

lemma drop_runes_fixed: "find (\<lambda>r. r \<noteq> [] \<and> prefix r s) rs = None \<Longrightarrow> drop_runes rs s = s"
  by (simp add: drop_runes.simps [of rs s])

lemma drop_runes_suffix: "suffix (drop_runes rs s) s"
proof (induction rs s rule: drop_runes.induct)
  case (1 rs s)
  show ?case
  proof (cases "find (\<lambda>r. r \<noteq> [] \<and> prefix r s) rs")
    case None
    then show ?thesis by (simp add: drop_runes.simps [of rs s])
  next
    case (Some r)
    then have "suffix (drop_runes rs (drop (length r) s)) (drop (length r) s)"
      by (rule 1)
    also have "suffix (drop (length r) s) s"
      by (rule suffix_drop)
    finally show ?thesis
      by (simp add: drop_runes.simps [of rs s] Some)
  qed
qed

lemma trim_right_prefix: "prefix (trim_right s) s"
  using drop_runes_suffix [of "map rev space_runes" "rev s"]
  by (simp add: trim_right_def suffix_to_prefix)

lemma trim_right_idem: "trim_right (trim_right s) = trim_right s"
  by (simp add: trim_right_def drop_runes_fixed [OF drop_runes_no_prefix])

lemma TrimSpace_idem [simp]: "TrimSpace (TrimSpace s) = TrimSpace s"
proof -
  let ?l = "trim_left s"
  have "find (\<lambda>r. r \<noteq> [] \<and> prefix r ?l) space_runes = None"
    unfolding trim_left_def by (rule drop_runes_no_prefix)
  moreover have "prefix (trim_right ?l) ?l"
    by (rule trim_right_prefix)
  ultimately have "find (\<lambda>r. r \<noteq> [] \<and> prefix r (trim_right ?l)) space_runes = None"
    by (auto simp: find_None_iff dest: prefix_order.trans)
  then have "trim_left (trim_right ?l) = trim_right ?l"
    unfolding trim_left_def by (rule drop_runes_fixed)
  then show ?thesis
    by (simp add: TrimSpace_def trim_right_idem)
qed

lemma TrimSpace_empty [simp]: "TrimSpace [] = []"
proof -
  have "drop_runes rs [] = []" for rs
    by (rule drop_runes_fixed) (auto simp: find_None_iff)
  then show ?thesis by (simp add: TrimSpace_def trim_left_def trim_right_def)
qed

text \<open>A text that neither starts nor ends with a byte of a space rune is left alone.\<close>

lemma drop_runes_id: "s = [] \<or> hd s \<notin> hd ` set rs \<Longrightarrow> drop_runes rs s = s"
proof (rule drop_runes_fixed, simp only: find_None_iff, safe)
  fix r assume "r \<in> set rs" "r \<noteq> []" "prefix r s" and h: "hd s \<notin> hd ` set rs"
  then have "hd r = hd s" by (auto simp: prefix_def)
  with h \<open>r \<in> set rs\<close> show False by (metis imageI)
qed auto

lemma TrimSpace_id:
  assumes "s \<noteq> []" "hd s \<notin> hd ` set space_runes" "last s \<notin> last ` set space_runes"
  shows "TrimSpace s = s"
proof -
  have "hd ` set (map rev space_runes) = last ` set space_runes"
    by (simp add: image_image hd_rev)
  with assms show ?thesis
    by (simp add: TrimSpace_def trim_left_def trim_right_def drop_runes_id hd_rev)
qed

lemma TrimSpace_word:
  assumes "s \<noteq> []" "\<forall>c \<in> {hd s, last s}. (33::nat) \<le> of_char c \<and> (of_char c :: nat) \<le> 126"
  shows "TrimSpace s = s"
proof (rule TrimSpace_id [OF assms(1)])
  have "\<forall>c \<in> hd ` set space_runes \<union> last ` set space_runes. \<not> ((33::nat) \<le> of_char c \<and> (of_char c :: nat) \<le> 126)"
    by (simp add: space_runes_def)
  with assms(2) show "hd s \<notin> hd ` set space_runes" "last s \<notin> last ` set space_runes" by blast+
qed

text \<open>\<open>strings.ToLower\<close>: ASCII letters, and the two runes outside ASCII whose lower case is an
  ASCII letter (U+0130 and U+212A). Other runes are left as they are, which changes no comparison
  with an ASCII text.\<close>

fun ToLower :: "string \<Rightarrow> string" where
  "ToLower [] = []"
| "ToLower (c # cs) =
     (if c = CHR 0xC4 \<and> prefix [CHR 0xB0] cs then CHR ''i'' # ToLower (drop 1 cs)
      else if c = CHR 0xE2 \<and> prefix [CHR 0x84, CHR 0xAA] cs then CHR ''k'' # ToLower (drop 2 cs)
      else if of_char c \<ge> (65::nat) \<and> of_char c \<le> (90::nat)
        then char_of (of_char c + 32 :: nat) # ToLower cs
      else c # ToLower cs)"

definition Contains :: "string \<Rightarrow> string \<Rightarrow> bool" where
  "Contains s sub \<longleftrightarrow> sublist sub s"

definition TrimSuffix :: "string \<Rightarrow> string \<Rightarrow> string" where
  "TrimSuffix s x = (if suffix x s then take (length s - length x) s else s)"

definition TrimPrefix :: "string \<Rightarrow> string \<Rightarrow> string" where
  "TrimPrefix s x = (if prefix x s then drop (length x) s else s)"

text \<open>\<open>strings.Split\<close> on a one-byte separator.\<close>

fun Split :: "char \<Rightarrow> string \<Rightarrow> string list" where
  "Split sep [] = [[]]"
| "Split sep (c # cs) =
     (if c = sep then [] # Split sep cs
      else (case Split sep cs of [] \<Rightarrow> [[c]] | w # ws \<Rightarrow> (c # w) # ws))"

text \<open>\<open>strings.Join\<close>.\<close>

fun Join :: "string list \<Rightarrow> string \<Rightarrow> string" where
  "Join [] sep = []"
| "Join [w] sep = w"
| "Join (w # ws) sep = w @ sep @ Join ws sep"

text \<open>\<open>strings.ReplaceAll\<close> of one byte by another.\<close>

definition replace_byte :: "char \<Rightarrow> char \<Rightarrow> string \<Rightarrow> string" where
  "replace_byte a b s = map (\<lambda>c. if c = a then b else c) s"

lemma Split_nonempty [simp]: "Split sep s \<noteq> []"
  by (induction s) (auto split: list.splits)

lemma Split_no_sep: "sep \<notin> set s \<Longrightarrow> Split sep s = [s]"
  by (induction s) auto

lemma Split_append_sep: "sep \<notin> set s \<Longrightarrow> Split sep (s @ sep # t) = s # Split sep t"
  by (induction s) auto

section \<open>Decimal numbers (strconv)\<close>

definition digit_char :: "nat \<Rightarrow> char" where
  "digit_char d = char_of (48 + d)"

fun itoa :: "nat \<Rightarrow> string" where
  "itoa n = (if n < 10 then [digit_char n] else itoa (n div 10) @ [digit_char (n mod 10)])"

declare itoa.simps [simp del]

definition is_digit :: "char \<Rightarrow> bool" where
  "is_digit c \<longleftrightarrow> 48 \<le> (of_char c :: nat) \<and> (of_char c :: nat) \<le> 57"

definition digit_val :: "char \<Rightarrow> nat" where
  "digit_val c = of_char c - 48"

text \<open>A non-empty run of decimal digits.\<close>

definition parse_nat :: "string \<Rightarrow> nat option" where
  "parse_nat s = (if s \<noteq> [] \<and> list_all is_digit s then Some (foldl (\<lambda>a c. 10 * a + digit_val c) 0 s) else None)"

text \<open>\<open>strconv.Atoi\<close>: an optional sign, then digits, in the range of a 64-bit \<open>int\<close>.\<close>

definition Atoi :: "string \<Rightarrow> int option" where
  "Atoi s =
     (let (neg, ds) = (case s of [] \<Rightarrow> (False, [])
                       | c # cs \<Rightarrow> if c = CHR ''-'' then (True, cs) else if c = CHR ''+'' then (False, cs)
                                  else (False, s))
      in case parse_nat ds of
           None \<Rightarrow> None
         | Some n \<Rightarrow> (let v = (if neg then - int n else int n)
                     in if - (2 ^ 63) \<le> v \<and> v < 2 ^ 63 then Some v else None))"

lemma is_digit_digit_char: "d < 10 \<Longrightarrow> is_digit (digit_char d)"
  by (auto simp: is_digit_def digit_char_def of_char_of)

lemma digit_val_digit_char: "d < 10 \<Longrightarrow> digit_val (digit_char d) = d"
  by (auto simp: digit_val_def digit_char_def of_char_of)

lemma digit_char_eval [simp]:
  "digit_char 0 = CHR ''0''" "digit_char (Suc 0) = CHR ''1''" "digit_char 1 = CHR ''1''" "digit_char 2 = CHR ''2''"
  "digit_char 3 = CHR ''3''" "digit_char 4 = CHR ''4''" "digit_char 5 = CHR ''5''" "digit_char 6 = CHR ''6''"
  "digit_char 7 = CHR ''7''" "digit_char 8 = CHR ''8''" "digit_char 9 = CHR ''9''"
  by (simp_all add: digit_char_def char_of_def bit_0)

lemma itoa_nonempty [simp]: "itoa n \<noteq> []"
  by (subst itoa.simps) simp

lemma itoa_digits: "list_all is_digit (itoa n)"
proof (induction n rule: itoa.induct)
  case (1 n)
  show ?case
    by (cases "n < 10") (simp_all add: itoa.simps [of n] 1 is_digit_digit_char)
qed

lemma itoa_value: "foldl (\<lambda>a c. 10 * a + digit_val c) 0 (itoa n) = n"
proof (induction n rule: itoa.induct)
  case (1 n)
  show ?case
    by (cases "n < 10") (simp_all add: itoa.simps [of n] 1 digit_val_digit_char)
qed

lemma parse_nat_itoa [simp]: "parse_nat (itoa n) = Some n"
  by (simp add: parse_nat_def itoa_digits itoa_value)

lemma itoa_inject [simp]: "itoa m = itoa n \<longleftrightarrow> m = n"
  by (metis itoa_value)

lemma itoa_small: "n < 10 \<Longrightarrow> itoa n = [digit_char n]"
  by (subst itoa.simps) simp

lemma itoa_first_not_zero: "0 < n \<Longrightarrow> hd (itoa n) \<noteq> CHR ''0''"
proof (induction n rule: itoa.induct)
  case (1 n)
  show ?case
  proof (cases "n < 10")
    case True
    with 1(2) show ?thesis
      by (auto simp: itoa.simps [of n] digit_char_def dest!: arg_cong [where f = "of_char :: char \<Rightarrow> nat"]
          simp: of_char_of)
  next
    case False
    then have "0 < n div 10" by auto
    with 1(1) False have "hd (itoa (n div 10)) \<noteq> CHR ''0''" by simp
    with False show ?thesis by (simp add: itoa.simps [of n])
  qed
qed

lemma not_in_itoa: "\<not> is_digit c \<Longrightarrow> c \<notin> set (itoa n)"
  using itoa_digits [of n] by (auto simp: list_all_iff)

section \<open>Bounded buffers\<close>

text \<open>The idiom \<open>b = append(b, x); if len(b) > limit { b = b[len(b)-limit:] }\<close>, used by the log
  buffer and the event ring.\<close>

definition keep_last :: "nat \<Rightarrow> 'a list \<Rightarrow> 'a list" where
  "keep_last limit xs = drop (length xs - limit) xs"

definition push_bounded :: "nat \<Rightarrow> 'a \<Rightarrow> 'a list \<Rightarrow> 'a list" where
  "push_bounded limit x xs =
     (let ys = xs @ [x] in if length ys > limit then keep_last limit ys else ys)"

lemma length_push_bounded: "length (push_bounded limit x xs) = min limit (Suc (length xs))"
  unfolding push_bounded_def keep_last_def Let_def by (cases "length (xs @ [x]) > limit") auto

lemma push_bounded_suffix: "suffix (push_bounded limit x xs) (xs @ [x])"
  unfolding push_bounded_def keep_last_def Let_def
  by (cases "length (xs @ [x]) > limit") (simp_all only: suffix_drop if_True if_False suffix_order.refl simp_thms)

lemma last_push_bounded: "0 < limit \<Longrightarrow> last (push_bounded limit x xs) = x"
  unfolding push_bounded_def keep_last_def Let_def
  by (cases "length (xs @ [x]) > limit") (simp_all only: last_drop if_True if_False, simp_all)

section \<open>Lists addressed by a key\<close>

text \<open>\<open>for i, p := range xs { if p.ID == id { index = i; break } }\<close>\<close>

fun find_index_of :: "('a \<Rightarrow> bool) \<Rightarrow> 'a list \<Rightarrow> nat option" where
  "find_index_of P [] = None"
| "find_index_of P (x # xs) = (if P x then Some 0 else map_option Suc (find_index_of P xs))"

text \<open>Go slice deletion \<open>append(xs[:i], xs[i+1:]...)\<close>.\<close>

definition remove_at :: "nat \<Rightarrow> 'a list \<Rightarrow> 'a list" where
  "remove_at i xs = take i xs @ drop (Suc i) xs"

lemma find_index_of_None: "find_index_of P xs = None \<longleftrightarrow> (\<forall>x \<in> set xs. \<not> P x)"
  by (induction xs) auto

lemma find_index_of_Some:
  "find_index_of P xs = Some i \<Longrightarrow> i < length xs \<and> P (xs ! i) \<and> (\<forall>j < i. \<not> P (xs ! j))"
proof (induction xs arbitrary: i)
  case (Cons x xs)
  show ?case
  proof (cases "P x")
    case False
    with Cons.prems obtain k where "find_index_of P xs = Some k" and "i = Suc k" by auto
    with Cons.IH [of k] False show ?thesis by (auto simp: nth_Cons split: nat.splits)
  qed (use Cons.prems in auto)
qed simp

lemma set_remove_at: "set (remove_at i xs) \<subseteq> set xs"
  by (auto simp: remove_at_def dest: in_set_takeD in_set_dropD)

lemma find_index_update:
  "find_index_of P xs = Some i \<Longrightarrow> P y \<Longrightarrow> find P (xs[i := y]) = Some y"
proof (induction xs arbitrary: i)
  case (Cons x xs)
  then show ?case by (cases "P x") (auto split: nat.splits)
qed simp

lemma find_append: "find P (xs @ ys) = (case find P xs of None \<Rightarrow> find P ys | Some x \<Rightarrow> Some x)"
  by (induction xs) auto

end
