(* ===== verification/Types.thy ===== *)
theory Types
  imports Prelude
begin

text \<open>
  The wire and state types of \<open>internal/types/types.go\<close> and the backend interface types of
  \<open>internal/vpn/vpn.go\<close>, as records with the source's fields, and the small functions beside them.

  Conventions. A pointer field is an \<open>option\<close>. A slice is a list; where the code tells a nil slice
  from an empty one (update requests), it is an \<open>option\<close> of a list. An instant is a natural number
  of nanoseconds with \<open>0\<close> the zero \<open>time.Time\<close>; a field that holds a formatted instant or the
  empty string is a \<open>stamp\<close>: the instant it formats, or \<open>None\<close>. Rates are exact quotients.
\<close>

type_synonym time = nat
type_synonym stamp = "time option"
type_synonym u64 = "64 word"

section \<open>internal/types\<close>

datatype State = StateDisconnected | StateConnecting | StateConnected | StateReconnecting | StateError

text \<open>\<open>ProfileScope\<close> is a string type: two named values and anything else a request may carry.\<close>

datatype ProfileScope = ProfileScopeUser | ProfileScopeMachine | ScopeOther string

record RouteSpec =
  rs_Destination :: string
  rs_Action :: string
  rs_Metric :: int
  rs_Source :: string
  rs_Enabled :: bool

record Profile =
  prof_ID :: string
  prof_Name :: string
  prof_ServerURL :: string
  prof_Username :: string
  prof_SecretRef :: string
  prof_Scope :: ProfileScope
  prof_OwnerID :: string
  prof_Group :: string
  prof_AcceptServerRoutes :: bool
  prof_AutoReconnect :: "bool option"
  prof_ApplyDNS :: "bool option"
  prof_CustomInclude :: "string list"
  prof_CustomExclude :: "string list"
  prof_DNSOverrides :: "string list"
  prof_SOCKS5Enabled :: bool
  prof_SOCKS5Listen :: string
  prof_MTU :: int
  prof_CreatedAt :: stamp
  prof_UpdatedAt :: stamp

record ProfileCreateRequest =
  cr_Name :: string
  cr_ServerURL :: string
  cr_Username :: string
  cr_Password :: string
  cr_Group :: string
  cr_Scope :: "ProfileScope option"          \<comment> \<open>the empty scope is \<open>None\<close>\<close>
  cr_AcceptServerRoutes :: "bool option"
  cr_AutoReconnect :: "bool option"
  cr_ApplyDNS :: "bool option"
  cr_CustomInclude :: "string list"
  cr_CustomExclude :: "string list"
  cr_DNSOverrides :: "string list"
  cr_SOCKS5Enabled :: bool
  cr_SOCKS5Listen :: string
  cr_MTU :: int

record ProfileUpdateRequest =
  ur_Name :: "string option"
  ur_ServerURL :: "string option"
  ur_Username :: "string option"
  ur_Group :: "string option"
  ur_AcceptServerRoutes :: "bool option"
  ur_AutoReconnect :: "bool option"
  ur_ApplyDNS :: "bool option"
  ur_CustomInclude :: "string list option"
  ur_CustomExclude :: "string list option"
  ur_DNSOverrides :: "string list option"
  ur_SOCKS5Enabled :: "bool option"
  ur_SOCKS5Listen :: "string option"
  ur_MTU :: "int option"
  ur_Password :: "string option"

record UnderlayInfo =
  ui_InterfaceName :: string
  ui_InterfaceIndex :: int
  ui_LocalIPv4 :: string
  ui_Gateway :: string
  ui_GatewayInterface :: int
  ui_RouteMetric :: int
  ui_Generation :: u64

record SessionInfo =
  si_ConnectionID :: string
  si_ServerAddress :: string
  si_LocalAddress :: string
  si_RemoteAddress :: string
  si_Hostname :: string
  si_TUNName :: string
  si_VPNAddress :: string
  si_VPNMask :: string
  si_DNS :: "string list"
  si_MTU :: int
  si_SplitInclude :: "string list"
  si_SplitExclude :: "string list"
  si_TLSCipher :: string
  si_DTLSCipher :: string
  si_Underlay :: "UnderlayInfo option"

record NetworkChangeInfo =
  nci_Before :: "UnderlayInfo option"
  nci_After :: "UnderlayInfo option"
  nci_Reasons :: "string list"
  nci_RebindRequired :: bool
  nci_Error :: string
  nci_Time :: stamp

record ConnectionFault =
  cf_Code :: string
  cf_Transport :: string
  cf_Error :: string
  cf_Time :: stamp

record ConnectionEvent =
  ce_ID :: string
  ce_ConnectionID :: string
  ce_ProfileID :: string
  ce_Kind :: string
  ce_ReasonCode :: string
  ce_Transport :: string
  ce_Error :: string
  ce_Attempt :: int
  ce_NextRetryAt :: stamp
  ce_SessionStarted :: stamp
  ce_SessionEnded :: stamp
  ce_DurationMS :: int
  ce_Time :: stamp
  ce_TransportFaults :: "ConnectionFault list"

record ReconnectSnapshot =
  rsn_Active :: bool
  rsn_ProfileID :: string
  rsn_Attempt :: int
  rsn_NextRetryAt :: stamp
  rsn_LifecycleID :: string

record TrafficStats =
  ts_BytesSent :: u64
  ts_BytesReceived :: u64

record TrafficSnapshot =
  tr_Connected :: bool
  tr_BytesSent :: u64
  tr_BytesReceived :: u64
  tr_BytesSentPerSecond :: rat
  tr_BytesReceivedPerSecond :: rat
  tr_SampledAt :: stamp

datatype OperationState = OperationRunning | OperationSucceeded | OperationFailed

record Operation =
  op_ID :: string
  op_Kind :: string
  op_ProfileID :: string
  op_AttemptID :: string
  op_State :: OperationState
  op_ErrorCode :: string
  op_Error :: string
  op_StartedAt :: stamp
  op_EndedAt :: stamp
  op_OwnerID :: string

record Status =
  st_State :: State
  st_CurrentProfileID :: string
  st_SelectedProfileID :: string
  st_ConnectedProfileID :: string
  st_ControlMode :: string
  st_AttemptID :: string
  st_Operation :: "Operation option"
  st_Session :: "SessionInfo option"
  st_EffectiveRoutes :: "RouteSpec list"
  st_LastError :: string
  st_SOCKS5Enabled :: bool
  st_SOCKS5Listen :: string
  st_UpdatedAt :: stamp

record ComponentStatus =
  cs_Name :: string
  cs_Ready :: bool
  cs_Message :: string

record ReadyStatus =
  rdy_Ready :: bool
  rdy_Components :: "ComponentStatus list"

record ControlModeRequest =
  cm_Mode :: string
  cm_ProfileID :: string

record RouteUpdateRequest =
  ru_AcceptServerRoutes :: "bool option"
  ru_CustomInclude :: "string list option"
  ru_CustomExclude :: "string list option"

record LoginRequest =
  lr_ProfileID :: string
  lr_Name :: string
  lr_ServerURL :: string
  lr_Username :: string
  lr_Group :: string
  lr_Password :: string

record LogEntry =
  le_Time :: stamp
  le_Level :: string
  le_Message :: string

record Notify =
  nt_Epoch :: string
  nt_Revision :: u64
  nt_Version :: string
  nt_Event :: string
  nt_Status :: "Status option"
  nt_Traffic :: "TrafficSnapshot option"
  nt_Profile :: "Profile option"
  nt_Profiles :: "Profile list"
  nt_Logs :: "LogEntry list"
  nt_Message :: string
  nt_Error :: string
  nt_Connection :: "ConnectionEvent option"
  nt_Network :: "NetworkChangeInfo option"
  nt_Operation :: "Operation option"
  nt_Time :: stamp

text \<open>Zero values of the structs the code builds with only some fields set.\<close>

definition zero_traffic :: TrafficSnapshot where
  "zero_traffic = \<lparr>tr_Connected = False, tr_BytesSent = 0, tr_BytesReceived = 0,
     tr_BytesSentPerSecond = 0, tr_BytesReceivedPerSecond = 0, tr_SampledAt = None\<rparr>"

definition zero_event :: ConnectionEvent where
  "zero_event = \<lparr>ce_ID = '''', ce_ConnectionID = '''', ce_ProfileID = '''', ce_Kind = '''',
     ce_ReasonCode = '''', ce_Transport = '''', ce_Error = '''', ce_Attempt = 0, ce_NextRetryAt = None,
     ce_SessionStarted = None, ce_SessionEnded = None, ce_DurationMS = 0, ce_Time = None,
     ce_TransportFaults = []\<rparr>"

definition zero_notify :: Notify where
  "zero_notify = \<lparr>nt_Epoch = '''', nt_Revision = 0, nt_Version = '''', nt_Event = '''', nt_Status = None,
     nt_Traffic = None, nt_Profile = None, nt_Profiles = [], nt_Logs = [], nt_Message = '''',
     nt_Error = '''', nt_Connection = None, nt_Network = None, nt_Operation = None, nt_Time = None\<rparr>"

definition zero_reconnect :: ReconnectSnapshot where
  "zero_reconnect = \<lparr>rsn_Active = False, rsn_ProfileID = '''', rsn_Attempt = 0, rsn_NextRetryAt = None,
     rsn_LifecycleID = ''''\<rparr>"

text \<open>\<open>func BoolValue\<close>\<close>

definition BoolValue :: "bool option \<Rightarrow> bool \<Rightarrow> bool" where
  "BoolValue v defaultValue = (case v of None \<Rightarrow> defaultValue | Some b \<Rightarrow> b)"

text \<open>\<open>func NewProfile\<close>, given the generated ID and the current time.\<close>

definition NewProfile :: "string \<Rightarrow> string \<Rightarrow> time \<Rightarrow> Profile" where
  "NewProfile pid name now = \<lparr>prof_ID = pid, prof_Name = name, prof_ServerURL = '''', prof_Username = '''',
     prof_SecretRef = '''', prof_Scope = ProfileScopeMachine, prof_OwnerID = ''system'', prof_Group = '''',
     prof_AcceptServerRoutes = True, prof_AutoReconnect = Some False, prof_ApplyDNS = Some True,
     prof_CustomInclude = [], prof_CustomExclude = [], prof_DNSOverrides = [], prof_SOCKS5Enabled = False,
     prof_SOCKS5Listen = ''127.0.0.1:1080'', prof_MTU = 1399, prof_CreatedAt = Some now,
     prof_UpdatedAt = Some now\<rparr>"

text \<open>\<open>func newIDFrom\<close>: sixteen random bytes in lower-case hexadecimal; a short read is an error.\<close>

definition hex_char :: "nat \<Rightarrow> char" where
  "hex_char d = (if d < 10 then char_of (48 + d) else char_of (87 + d))"

definition hex_encode :: "8 word list \<Rightarrow> string" where
  "hex_encode bs = concat (map (\<lambda>b. [hex_char (unat b div 16), hex_char (unat b mod 16)]) bs)"

definition newIDFrom :: "error + 8 word list \<Rightarrow> error + string" where
  "newIDFrom reader = (case reader of Inl e \<Rightarrow> Inl e
     | Inr bs \<Rightarrow> if length bs < 16 then Inl (Errors ''unexpected EOF'') else Inr (hex_encode (take 16 bs)))"

section \<open>internal/vpn\<close>

text \<open>\<open>func WrapConnectError\<close>, \<open>func IsRetryable\<close>\<close>

definition WrapConnectError :: "string \<Rightarrow> bool \<Rightarrow> error option \<Rightarrow> error option" where
  "WrapConnectError stage retryable err = map_option (ConnectError stage retryable) err"

definition IsRetryable :: "error \<Rightarrow> bool" where
  "IsRetryable err \<longleftrightarrow> as_connect err = Some True"

record NetworkSnapshot =
  ns_InterfaceName :: string
  ns_InterfaceIndex :: int
  ns_LocalIPv4 :: string
  ns_Gateway :: string
  ns_GatewayInterface :: int
  ns_RouteMetric :: int
  ns_Generation :: u64

record NetworkChange =
  nc_Before :: NetworkSnapshot
  nc_After :: NetworkSnapshot
  nc_Reasons :: "string list"
  nc_RebindRequired :: bool
  nc_Error :: string

record DisconnectInfo =
  di_Code :: string
  di_Transport :: string
  di_Error :: string
  di_Time :: stamp
  di_TransportFaults :: "ConnectionFault list"   \<comment> \<open>\<open>vpn.TransportFault\<close> has the same four fields\<close>

record Event =
  ev_Type :: string
  ev_ConnectionID :: string
  ev_Err :: "error option"
  ev_Close :: "DisconnectInfo option"
  ev_Network :: "NetworkChange option"
  ev_Component :: string

record ConnectRequest =
  rq_Profile :: Profile
  rq_Password :: string
  rq_AttemptID :: string
  rq_ConnectionID :: string
  rq_OwnerID :: string

section \<open>Lemmas\<close>

lemma BoolValue_simps [simp]: "BoolValue None d = d" "BoolValue (Some b) d = b"
  by (simp_all add: BoolValue_def)

lemma length_hex_encode: "length (hex_encode bs) = 2 * length bs"
  by (simp add: hex_encode_def length_concat comp_def sum_list_triv)

lemma IsRetryable_simps [simp]:
  "IsRetryable (ConnectError st r e) = r"
  "IsRetryable (Wrap a e b) = IsRetryable e"
  "IsRetryable (Errors m) = False"
  "IsRetryable Canceled = False"
  by (simp_all add: IsRetryable_def)

lemma hex_char_inject: "i < 16 \<Longrightarrow> j < 16 \<Longrightarrow> hex_char i = hex_char j \<Longrightarrow> i = j"
  by (auto simp: hex_char_def dest!: arg_cong [where f = "of_char :: char \<Rightarrow> nat"] simp: of_char_of split: if_splits)

lemma hex_encode_inject: "hex_encode bs = hex_encode cs \<Longrightarrow> bs = cs"
proof (induction bs arbitrary: cs)
  case Nil
  then show ?case by (cases cs) (auto simp: hex_encode_def)
next
  case (Cons b bs)
  from Cons.prems obtain c cs' where cs: "cs = c # cs'"
    by (cases cs) (auto simp: hex_encode_def)
  have lt: "unat w div 16 < 16" for w :: "8 word"
    using unsigned_less [of w, where ?'a = nat] by auto
  from Cons.prems cs have h: "hex_char (unat b div 16) = hex_char (unat c div 16)"
      "hex_char (unat b mod 16) = hex_char (unat c mod 16)" "hex_encode bs = hex_encode cs'"
    by (auto simp: hex_encode_def)
  have "unat b div 16 = unat c div 16" using h(1) by (rule hex_char_inject [OF lt lt])
  moreover have "unat b mod 16 = unat c mod 16" using h(2) by (rule hex_char_inject [rotated 2]) auto
  ultimately have "b = c" by (metis div_mult_mod_eq unsigned_word_eqI)
  with Cons.IH h(3) cs show ?case by simp
qed

end
