(* ===== verification/Store.thy ===== *)
theory Store
  imports Types "HOL-Library.AList"
begin

text \<open>
  Durable storage. \<open>internal/store/file/store.go\<close>: the state file, its private representation and
  the staged, atomic \<open>Save\<close>; \<open>internal/secret\<close>: the in-memory and the file secret store.

  A file is its decoded content, or the reason it cannot be decoded; a call that touches the
  operating system takes the fault it meets, if any, as an argument: the stage and the error.
  Go maps with string keys are association lists read with \<open>map_of\<close>. JSON encoding is modelled
  by what it does to the values: it drops the fields tagged \<open>json:"-"\<close> of \<open>types.Profile\<close> and
  keeps every other field. The interfaces the daemon relies on are the locales \<open>state_store\<close> and
  \<open>secret_store\<close>.
\<close>

section \<open>internal/store/file: data\<close>

record Intent =
  in_Version :: int
  in_Kind :: string
  in_ProfileID :: string
  in_NewProfile :: "Profile option"
  in_OldSecretRef :: string
  in_NewSecretRef :: string

record Data =
  d_SchemaVersion :: int
  d_Profiles :: "Profile list"
  d_CurrentProfileID :: string
  d_SelectedProfiles :: "(string \<times> string) list"
  d_ControlMode :: string
  d_MachineProfileID :: string
  d_Intent :: "Intent option"

record storedProfile =
  sp_Profile :: Profile
  sp_SecretRef :: string
  sp_OwnerID :: string

record storedIntent =
  sin_Version :: int
  sin_Kind :: string
  sin_ProfileID :: string
  sin_NewProfile :: "storedProfile option"
  sin_OldSecretRef :: string
  sin_NewSecretRef :: string

record storedData =
  sd_SchemaVersion :: int
  sd_Profiles :: "storedProfile list"
  sd_CurrentProfileID :: string
  sd_SelectedProfiles :: "(string \<times> string) list"
  sd_ControlMode :: string
  sd_MachineProfileID :: string
  sd_Intent :: "storedIntent option"

definition CurrentSchemaVersion :: int where
  "CurrentSchemaVersion = 2"

definition toStoredProfile :: "Profile \<Rightarrow> storedProfile" where
  "toStoredProfile p = \<lparr>sp_Profile = p, sp_SecretRef = prof_SecretRef p, sp_OwnerID = prof_OwnerID p\<rparr>"

definition fromStoredProfile :: "storedProfile \<Rightarrow> Profile" where
  "fromStoredProfile sp = (sp_Profile sp)\<lparr>prof_SecretRef := sp_SecretRef sp, prof_OwnerID := sp_OwnerID sp\<rparr>"

definition toStoredIntent :: "Intent \<Rightarrow> storedIntent" where
  "toStoredIntent i = \<lparr>sin_Version = in_Version i, sin_Kind = in_Kind i, sin_ProfileID = in_ProfileID i,
     sin_NewProfile = map_option toStoredProfile (in_NewProfile i),
     sin_OldSecretRef = in_OldSecretRef i, sin_NewSecretRef = in_NewSecretRef i\<rparr>"

definition fromStoredIntent :: "storedIntent \<Rightarrow> Intent" where
  "fromStoredIntent i = \<lparr>in_Version = sin_Version i, in_Kind = sin_Kind i, in_ProfileID = sin_ProfileID i,
     in_NewProfile = map_option fromStoredProfile (sin_NewProfile i),
     in_OldSecretRef = sin_OldSecretRef i, in_NewSecretRef = sin_NewSecretRef i\<rparr>"

definition toStoredData :: "Data \<Rightarrow> storedData" where
  "toStoredData d = \<lparr>sd_SchemaVersion = d_SchemaVersion d, sd_Profiles = map toStoredProfile (d_Profiles d),
     sd_CurrentProfileID = d_CurrentProfileID d, sd_SelectedProfiles = d_SelectedProfiles d,
     sd_ControlMode = d_ControlMode d, sd_MachineProfileID = d_MachineProfileID d,
     sd_Intent = map_option toStoredIntent (d_Intent d)\<rparr>"

definition fromStoredData :: "storedData \<Rightarrow> Data" where
  "fromStoredData d = \<lparr>d_SchemaVersion = sd_SchemaVersion d, d_Profiles = map fromStoredProfile (sd_Profiles d),
     d_CurrentProfileID = sd_CurrentProfileID d, d_SelectedProfiles = sd_SelectedProfiles d,
     d_ControlMode = sd_ControlMode d, d_MachineProfileID = sd_MachineProfileID d,
     d_Intent = map_option fromStoredIntent (sd_Intent d)\<rparr>"

text \<open>What a decoder reads back of an encoded value: \<open>Profile.SecretRef\<close> and \<open>Profile.OwnerID\<close> are
  tagged \<open>json:"-"\<close> and come back empty.\<close>

definition json_Profile :: "Profile \<Rightarrow> Profile" where
  "json_Profile p = p\<lparr>prof_SecretRef := [], prof_OwnerID := []\<rparr>"

definition json_storedProfile :: "storedProfile \<Rightarrow> storedProfile" where
  "json_storedProfile sp = sp\<lparr>sp_Profile := json_Profile (sp_Profile sp)\<rparr>"

definition json_storedIntent :: "storedIntent \<Rightarrow> storedIntent" where
  "json_storedIntent i = i\<lparr>sin_NewProfile := map_option json_storedProfile (sin_NewProfile i)\<rparr>"

definition json_storedData :: "storedData \<Rightarrow> storedData" where
  "json_storedData d = d\<lparr>sd_Profiles := map json_storedProfile (sd_Profiles d),
     sd_Intent := map_option json_storedIntent (sd_Intent d)\<rparr>"

section \<open>internal/store/file: Load and Save\<close>

datatype state_file =
    NoFile                         \<comment> \<open>\<open>os.ErrNotExist\<close>\<close>
  | Unreadable error               \<comment> \<open>any other error of \<open>os.ReadFile\<close>\<close>
  | Blank                          \<comment> \<open>nothing but white space\<close>
  | Undecodable error              \<comment> \<open>the first JSON value does not decode\<close>
  | ManyValues                     \<comment> \<open>a second JSON value follows\<close>
  | TrailingData error             \<comment> \<open>something else follows\<close>
  | StateDoc storedData

definition Load :: "string \<Rightarrow> state_file \<Rightarrow> error + Data" where
  "Load path file =
     (case file of
        NoFile \<Rightarrow> Inr \<lparr>d_SchemaVersion = CurrentSchemaVersion, d_Profiles = [], d_CurrentProfileID = [],
                    d_SelectedProfiles = [], d_ControlMode = ''user'', d_MachineProfileID = [], d_Intent = None\<rparr>
      | Unreadable e \<Rightarrow> Inl e
      | Blank \<Rightarrow> Inl (Errors (''state file '' @ path @ '' is empty''))
      | Undecodable e \<Rightarrow> Inl e
      | ManyValues \<Rightarrow> Inl (Errors ''state file contains multiple JSON values'')
      | TrailingData e \<Rightarrow> Inl (Wrap ''state file contains trailing data: '' e [])
      | StateDoc d \<Rightarrow> Inr (fromStoredData d))"

text \<open>The stages of a staged atomic write, in the order \<open>Save\<close> runs them.\<close>

datatype stage = StMkdirAll | StSecureDir | StMarshal | StCreateTemp | StChmod | StWrite | StSync | StClose
  | StReplace | StSecureFile | StSyncDir | StStat | StLoadSecureDir | StLoadSecureFile | StReadFile | StRemove

type_synonym fault = "(stage \<times> error) option"

definition fails :: "fault \<Rightarrow> stage \<Rightarrow> error option" where
  "fails f st = (case f of None \<Rightarrow> None | Some (st', e) \<Rightarrow> if st' = st then Some e else None)"

fun run_stages :: "fault \<Rightarrow> stage list \<Rightarrow> error option" where
  "run_stages f [] = None"
| "run_stages f (st # sts) = (case fails f st of Some e \<Rightarrow> Some e | None \<Rightarrow> run_stages f sts)"

text \<open>\<open>Store.Save\<close>: the file changes at the rename; the two stages after it can still fail.\<close>

definition Save :: "fault \<Rightarrow> state_file \<Rightarrow> Data \<Rightarrow> state_file \<times> error option" where
  "Save f file data =
     (case run_stages f [StMkdirAll, StMarshal, StCreateTemp, StChmod, StWrite, StSync, StClose, StReplace] of
        Some e \<Rightarrow> (file, Some e)
      | None \<Rightarrow>
          (let file' = StateDoc (json_storedData (toStoredData data))
           in case fails f StSecureFile of
                Some e \<Rightarrow> (file', Some (Wrap ''secure state file: '' e []))
              | None \<Rightarrow> (file', fails f StSyncDir)))"

text \<open>Encoding loses nothing: what \<open>Save\<close> writes is read back whole, private fields included.\<close>

lemma fromStoredProfile_json [simp]: "fromStoredProfile (json_storedProfile (toStoredProfile p)) = p"
  by (simp add: fromStoredProfile_def json_storedProfile_def json_Profile_def toStoredProfile_def)

lemma fromStoredIntent_json [simp]: "fromStoredIntent (json_storedIntent (toStoredIntent i)) = i"
  by (cases "in_NewProfile i") (simp_all add: fromStoredIntent_def json_storedIntent_def toStoredIntent_def)

lemma stored_roundtrip: "fromStoredData (json_storedData (toStoredData d)) = d"
  by (cases "d_Intent d") (simp_all add: fromStoredData_def json_storedData_def toStoredData_def comp_def)

lemma Load_StateDoc [simp]: "Load path (StateDoc (json_storedData (toStoredData d))) = Inr d"
  by (simp add: Load_def stored_roundtrip)

lemma Save_cases:
  "fst (Save f file d) = file \<and> snd (Save f file d) \<noteq> None
    \<or> fst (Save f file d) = StateDoc (json_storedData (toStoredData d))"
  by (auto simp: Save_def Let_def split: option.splits)

lemma run_stages_None [simp]: "run_stages None sts = None"
  by (induction sts) (auto simp: fails_def)

lemma Save_no_fault [simp]: "Save None file d = (StateDoc (json_storedData (toStoredData d)), None)"
  by (simp add: Save_def Let_def fails_def)

section \<open>The interface of a state store\<close>

text \<open>What \<open>appd.Store\<close> promises: a save that succeeds is what the next load returns, and a save that
  fails leaves the old state or the new one, never a mixture.\<close>

locale state_store =
  fixes load :: "'s \<Rightarrow> error + 'd"
    and save :: "'f \<Rightarrow> 's \<Rightarrow> 'd \<Rightarrow> 's \<times> error option"
  assumes save_ok: "save f s d = (s', None) \<Longrightarrow> load s' = Inr d"
    and save_atomic: "save f s d = (s', Some e) \<Longrightarrow> load s' = load s \<or> load s' = Inr d"
begin

text \<open>A run of saves, each with its fault.\<close>

primrec saves :: "('f \<times> 'd) list \<Rightarrow> 's \<Rightarrow> 's" where
  "saves [] s = s"
| "saves (fd # fds) s = saves fds (fst (save (fst fd) s (snd fd)))"

lemma save_load: "load (fst (save f s d)) = load s \<or> load (fst (save f s d)) = Inr d"
proof (cases "save f s d")
  case (Pair s' r)
  then show ?thesis using save_ok save_atomic by (cases r) auto
qed

lemma saves_atomic: "load (saves fds s) = load s \<or> (\<exists>d \<in> snd ` set fds. load (saves fds s) = Inr d)"
proof (induction fds arbitrary: s)
  case (Cons fd fds)
  from Cons [of "fst (save (fst fd) s (snd fd))"] save_load [of "fst fd" s "snd fd"] show ?case by auto
qed simp

end

interpretation file_store: state_store "Load path" Save
proof unfold_locales
  fix f s d s' assume "Save f s d = (s', None)"
  with Save_cases [of f s d] show "Load path s' = Inr d" by auto
next
  fix f s d s' e assume "Save f s d = (s', Some e)"
  with Save_cases [of f s d] show "Load path s' = Load path s \<or> Load path s' = Inr d" by auto
qed


section \<open>internal/secret\<close>

text \<open>\<open>MemoryStore\<close>\<close>

type_synonym secrets = "(string \<times> string) list"

definition not_found :: "string \<Rightarrow> error" where
  "not_found ref = Wrap [] ErrNotFound ('': '' @ ref)"

definition Memory_Get :: "secrets \<Rightarrow> string \<Rightarrow> error + string" where
  "Memory_Get data ref = (case map_of data ref of None \<Rightarrow> Inl (not_found ref) | Some v \<Rightarrow> Inr v)"

definition Memory_Put :: "unit \<Rightarrow> secrets \<Rightarrow> string \<Rightarrow> string \<Rightarrow> secrets \<times> error option" where
  "Memory_Put _ data ref v = (AList.update ref v data, None)"

definition Memory_Delete :: "unit \<Rightarrow> secrets \<Rightarrow> string \<Rightarrow> secrets \<times> error option" where
  "Memory_Delete _ data ref = (AList.delete ref data, None)"

text \<open>\<open>FileStore\<close>: the file and the fault of a call.\<close>

datatype secret_file =
    SecretNoFile
  | SecretEmpty                  \<comment> \<open>no bytes\<close>
  | SecretBad error              \<comment> \<open>does not decode\<close>
  | SecretNull                   \<comment> \<open>JSON null\<close>
  | SecretDoc secrets

definition loadLocked :: "string \<Rightarrow> fault \<Rightarrow> secret_file \<Rightarrow> error + secrets" where
  "loadLocked path f file =
     (case fails f StStat of
        Some e \<Rightarrow> Inl e
      | None \<Rightarrow> if file = SecretNoFile then Inr [] else (case fails f StLoadSecureDir of
        Some e \<Rightarrow> Inl (Wrap ''secure secret directory: '' e [])
      | None \<Rightarrow> (case fails f StLoadSecureFile of
        Some e \<Rightarrow> Inl (Wrap ''secure secret file: '' e [])
      | None \<Rightarrow> (case fails f StReadFile of
        Some e \<Rightarrow> Inl e
      | None \<Rightarrow> (case file of
            SecretNoFile \<Rightarrow> Inr []
          | SecretEmpty \<Rightarrow> Inr []
          | SecretBad e \<Rightarrow> Inl (Wrap (''load secret file '' @ path @ '': '') e [])
          | SecretNull \<Rightarrow> Inr []
          | SecretDoc d \<Rightarrow> Inr d)))))"

definition saveLocked :: "fault \<Rightarrow> secret_file \<Rightarrow> secrets \<Rightarrow> secret_file \<times> error option" where
  "saveLocked f file data =
     (case fails f StMkdirAll of
        Some e \<Rightarrow> (file, Some e)
      | None \<Rightarrow> (case fails f StSecureDir of
        Some e \<Rightarrow> (file, Some (Wrap ''secure secret directory: '' e []))
      | None \<Rightarrow> (case run_stages f [StMarshal, StCreateTemp, StChmod, StWrite, StSync, StClose, StReplace] of
        Some e \<Rightarrow> (file, Some e)
      | None \<Rightarrow> (case fails f StSecureFile of
        Some e \<Rightarrow> (SecretDoc data, Some (Wrap ''secure secret file: '' e []))
      | None \<Rightarrow> (SecretDoc data, fails f StSyncDir)))))"

definition File_Get :: "string \<Rightarrow> fault \<Rightarrow> secret_file \<Rightarrow> string \<Rightarrow> error + string" where
  "File_Get path f file ref = (case loadLocked path f file of
      Inl e \<Rightarrow> Inl e
    | Inr data \<Rightarrow> (case map_of data ref of None \<Rightarrow> Inl (not_found ref) | Some v \<Rightarrow> Inr v))"

definition File_Put :: "string \<Rightarrow> fault \<Rightarrow> secret_file \<Rightarrow> string \<Rightarrow> string \<Rightarrow> secret_file \<times> error option" where
  "File_Put path f file ref v = (case loadLocked path f file of
      Inl e \<Rightarrow> (file, Some e)
    | Inr data \<Rightarrow> saveLocked f file (AList.update ref v data))"

definition File_Delete :: "string \<Rightarrow> fault \<Rightarrow> secret_file \<Rightarrow> string \<Rightarrow> secret_file \<times> error option" where
  "File_Delete path f file ref = (case loadLocked path f file of
      Inl e \<Rightarrow> (file, Some e)
    | Inr data \<Rightarrow> (case map_of data ref of None \<Rightarrow> (file, None)
                   | Some v \<Rightarrow> saveLocked f file (AList.delete ref data)))"

section \<open>The interface of a secret store\<close>

text \<open>What the daemon relies on of \<open>secret.Store\<close>, stated on the references a store holds: a call that
  reports success has done its work, a call that fails has done it whole or not at all, and no call
  touches another reference.\<close>

locale secret_store =
  fixes lookup :: "'s \<Rightarrow> string \<Rightarrow> string option"
    and get :: "'s \<Rightarrow> string \<Rightarrow> error + string"
    and put :: "'f \<Rightarrow> 's \<Rightarrow> string \<Rightarrow> string \<Rightarrow> 's \<times> error option"
    and del :: "'f \<Rightarrow> 's \<Rightarrow> string \<Rightarrow> 's \<times> error option"
  assumes get_found: "lookup s r = Some v \<Longrightarrow> get s r = Inr v \<or> (\<exists>e. get s r = Inl e \<and> \<not> errors_is e ErrNotFound)"
    and get_ok: "get s r = Inr v \<Longrightarrow> lookup s r = Some v"
    and put_ok: "put f s r v = (s', None) \<Longrightarrow> lookup s' = (lookup s)(r \<mapsto> v)"
    and put_err: "put f s r v = (s', Some e) \<Longrightarrow> lookup s' = lookup s \<or> lookup s' = (lookup s)(r \<mapsto> v)"
    and del_ok: "del f s r = (s', None) \<Longrightarrow> lookup s' = (lookup s)(r := None)"
    and del_err: "del f s r = (s', Some e) \<Longrightarrow> lookup s' = lookup s \<or> lookup s' = (lookup s)(r := None)"
begin

lemma put_other: "r' \<noteq> r \<Longrightarrow> lookup (fst (put f s r v)) r' = lookup s r'"
  using put_ok [of f s r v "fst (put f s r v)"] put_err [of f s r v "fst (put f s r v)"]
  by (cases "snd (put f s r v)") (auto simp: prod_eq_iff)

lemma del_other: "r' \<noteq> r \<Longrightarrow> lookup (fst (del f s r)) r' = lookup s r'"
  using del_ok [of f s r "fst (del f s r)"] del_err [of f s r "fst (del f s r)"]
  by (cases "snd (del f s r)") (auto simp: prod_eq_iff)

text \<open>A secret once stored survives any later writes and deletions of other references.\<close>

lemma put_survives:
  assumes "put f s r v = (s1, None)" "r' \<noteq> r" "r'' \<noteq> r"
  shows "lookup (fst (del h (fst (put g s1 r' w)) r'')) r = Some v"
  using assms put_ok [OF assms(1)] by (simp add: put_other del_other)

end

interpretation memory: secret_store map_of Memory_Get Memory_Put Memory_Delete
  by unfold_locales (auto simp: Memory_Get_def Memory_Put_def Memory_Delete_def update_conv' delete_conv'
      split: option.splits)

text \<open>The secrets a file holds.\<close>

definition file_secrets :: "secret_file \<Rightarrow> string \<rightharpoonup> string" where
  "file_secrets file = (case file of SecretDoc d \<Rightarrow> map_of d | _ \<Rightarrow> Map.empty)"

lemma loadLocked_secrets: "loadLocked path f file = Inr d \<Longrightarrow> map_of d = file_secrets file"
  by (auto simp: loadLocked_def file_secrets_def split: if_splits option.splits secret_file.splits)

lemma saveLocked_secrets:
  "saveLocked f file d = (file', None) \<Longrightarrow> file_secrets file' = map_of d"
  "saveLocked f file d = (file', Some e) \<Longrightarrow> file' = file \<or> file_secrets file' = map_of d"
  by (auto simp: saveLocked_def file_secrets_def split: option.splits)

interpretation secret_file: secret_store file_secrets "File_Get path None" "File_Put path" "File_Delete path"
proof unfold_locales
  fix s r v assume "file_secrets s r = Some v"
  then show "File_Get path None s r = Inr v \<or> (\<exists>e. File_Get path None s r = Inl e \<and> \<not> errors_is e ErrNotFound)"
    by (auto simp: File_Get_def file_secrets_def loadLocked_def fails_def split: secret_file.splits)
next
  fix s r v assume "File_Get path None s r = Inr v"
  then show "file_secrets s r = Some v"
    by (auto simp: File_Get_def split: sum.splits option.splits dest: loadLocked_secrets)
next
  fix f s r v s' assume "File_Put path f s r v = (s', None)"
  then show "file_secrets s' = (file_secrets s)(r \<mapsto> v)"
    by (auto simp: File_Put_def update_conv' split: sum.splits dest!: loadLocked_secrets saveLocked_secrets(1))
next
  fix f s r v s' e assume "File_Put path f s r v = (s', Some e)"
  then show "file_secrets s' = file_secrets s \<or> file_secrets s' = (file_secrets s)(r \<mapsto> v)"
    by (auto simp: File_Put_def update_conv' split: sum.splits dest!: loadLocked_secrets saveLocked_secrets(2))
next
  fix f s r s' assume "File_Delete path f s r = (s', None)"
  then show "file_secrets s' = (file_secrets s)(r := None)"
    by (auto simp: File_Delete_def delete_conv' split: sum.splits option.splits
        dest!: loadLocked_secrets saveLocked_secrets(1))
next
  fix f s r s' e assume "File_Delete path f s r = (s', Some e)"
  then show "file_secrets s' = file_secrets s \<or> file_secrets s' = (file_secrets s)(r := None)"
    by (auto simp: File_Delete_def delete_conv' split: sum.splits option.splits
        dest!: loadLocked_secrets saveLocked_secrets(2))
qed

lemma File_Get_eq:
  "loadLocked path f file = Inr d \<Longrightarrow>
    File_Get path None file = (\<lambda>r. case map_of d r of None \<Rightarrow> Inl (not_found r) | Some v \<Rightarrow> Inr v)"
  by (auto simp: fun_eq_iff File_Get_def loadLocked_def fails_def
      split: if_splits option.splits secret_file.splits)

lemma File_Get_SecretDoc:
  "File_Get path None (SecretDoc d) = (\<lambda>r. case map_of d r of None \<Rightarrow> Inl (not_found r) | Some v \<Rightarrow> Inr v)"
  by (rule File_Get_eq [of path None]) (simp add: loadLocked_def fails_def)

lemma saveLocked_cases:
  "saveLocked f file d = (file', r) \<Longrightarrow> file' = SecretDoc d \<or> file' = file \<and> r \<noteq> None"
  by (auto simp: saveLocked_def split: option.splits)

text \<open>Writing a secret to the secret file changes what every later \<open>Get\<close> returns at that reference
  and at no other, whatever fault the write meets: a successful \<open>Put\<close> has done it, a failed one has done
  it completely or left every reference as it was.\<close>

theorem File_Put_Get:
  "case File_Put path f disk r v of
     (disk', None) \<Rightarrow> File_Get path None disk' = (File_Get path None disk)(r := Inr v)
   | (disk', Some e) \<Rightarrow> File_Get path None disk' \<in> {File_Get path None disk, (File_Get path None disk)(r := Inr v)}"
proof (cases "loadLocked path f disk")
  case (Inl e)
  then show ?thesis by (simp add: File_Put_def)
next
  case (Inr d)
  have new: "File_Get path None (SecretDoc (AList.update r v d)) = (File_Get path None disk)(r := Inr v)"
    by (auto simp: File_Get_SecretDoc File_Get_eq [OF Inr] update_conv' fun_eq_iff)
  with saveLocked_cases [of f disk "AList.update r v d"] Inr show ?thesis
    by (auto simp: File_Put_def split: prod.splits option.splits)
qed

end
