(* ===== verification/Bus.thy ===== *)
theory Bus
  imports Types "HOL-Library.Multiset"
begin

text \<open>
  What the daemon tells its clients: the log buffer (\<open>internal/logbuf\<close>), the connection history, the
  event ring with its revision counter and the watcher channels (\<open>internal/appd/daemon.go\<close>:
  \<open>emitLocked\<close>, \<open>recordConnectionLocked\<close>, \<open>sanitizeDiagnostic\<close>; \<open>internal/appd/v2.go\<close>: the replay
  decision of \<open>WatchSince\<close>) and the traffic sampler.

  The current time is an argument of every definition that reads the clock. A watcher is the list of
  notifications buffered in its channel; a full channel is closed and its watcher dropped.
\<close>

section \<open>Clock and texts\<close>

text \<open>\<open>func now\<close>: RFC 3339 keeps whole seconds.\<close>

definition now :: "time \<Rightarrow> stamp" where
  "now t = Some (t - t mod 1000000000)"

text \<open>\<open>func sanitizeDiagnostic\<close>\<close>

definition sanitizeDiagnostic :: "string \<Rightarrow> string" where
  "sanitizeDiagnostic v0 =
     (let v = TrimSpace (replace_byte (CHR 0x0A) (CHR '' '') (replace_byte (CHR 0x0D) (CHR '' '') v0))
      in if 512 < length v then take 512 v else v)"

text \<open>\<open>%q\<close> of \<open>fmt\<close>: bytes outside ASCII are kept, as \<open>strconv.Quote\<close> keeps printable runes.\<close>

definition hex2 :: "char \<Rightarrow> string" where
  "hex2 c = [CHR 0x5C, CHR ''x''] @ [hex_char (of_char c div 16), hex_char (of_char c mod 16)]"

definition quote_char :: "char \<Rightarrow> string" where
  "quote_char c =
     (if c = CHR 0x22 then [CHR 0x5C, CHR 0x22]
      else if c = CHR 0x5C then [CHR 0x5C, CHR 0x5C]
      else if c = CHR 0x07 then [CHR 0x5C, CHR ''a''] else if c = CHR 0x08 then [CHR 0x5C, CHR ''b'']
      else if c = CHR 0x0C then [CHR 0x5C, CHR ''f''] else if c = CHR 0x0A then [CHR 0x5C, CHR ''n'']
      else if c = CHR 0x0D then [CHR 0x5C, CHR ''r''] else if c = CHR 0x09 then [CHR 0x5C, CHR ''t'']
      else if c = CHR 0x0B then [CHR 0x5C, CHR ''v'']
      else if (of_char c :: nat) < 32 \<or> (of_char c :: nat) = 127 then hex2 c
      else [c])"

definition quote :: "string \<Rightarrow> string" where
  "quote s = [CHR 0x22] @ concat (map quote_char s) @ [CHR 0x22]"

text \<open>\<open>%d\<close> of a signed and of an unsigned number.\<close>

definition fmt_int :: "int \<Rightarrow> string" where
  "fmt_int i = (if i < 0 then CHR ''-'' # itoa (nat (- i)) else itoa (nat i))"

definition fmt_u64 :: "u64 \<Rightarrow> string" where
  "fmt_u64 w = itoa (unat w)"

definition fmt_bool :: "bool \<Rightarrow> string" where
  "fmt_bool b = (if b then ''true'' else ''false'')"

section \<open>internal/logbuf\<close>

record Buffer =
  lb_entries :: "LogEntry list"
  lb_limit :: int

definition logbuf_New :: "int \<Rightarrow> Buffer" where
  "logbuf_New limit = \<lparr>lb_entries = [], lb_limit = (if limit \<le> 0 then 200 else limit)\<rparr>"

definition logbuf_Add :: "time \<Rightarrow> string \<Rightarrow> string \<Rightarrow> Buffer \<Rightarrow> Buffer" where
  "logbuf_Add t level message b =
     b\<lparr>lb_entries := push_bounded (nat (lb_limit b)) \<lparr>le_Time = now t, le_Level = level, le_Message = message\<rparr> (lb_entries b)\<rparr>"

definition logbuf_Snapshot :: "Buffer \<Rightarrow> LogEntry list" where
  "logbuf_Snapshot b = lb_entries b"

section \<open>Events\<close>

record bus =
  b_version :: string                              \<comment> \<open>\<open>buildinfo.Version\<close>\<close>
  b_epoch :: string
  b_revision :: u64
  b_eventRing :: "Notify list"
  b_watchers :: "(nat \<times> Notify list) list"
  b_closedWatchers :: "(nat \<times> Notify list) list"  \<comment> \<open>closed channels, with what is still buffered\<close>
  b_nextWatcherID :: nat
  b_logs :: Buffer
  b_connectionSeq :: u64
  b_connectionHistory :: "ConnectionEvent list"

definition new_bus :: "string \<Rightarrow> string \<Rightarrow> bus" where
  "new_bus version epoch = \<lparr>b_version = version, b_epoch = epoch, b_revision = 0, b_eventRing = [],
     b_watchers = [], b_closedWatchers = [], b_nextWatcherID = 0, b_logs = logbuf_New 500,
     b_connectionSeq = 0, b_connectionHistory = []\<rparr>"

text \<open>\<open>s.logs.Add\<close>\<close>

definition addLog :: "time \<Rightarrow> string \<Rightarrow> string \<Rightarrow> bus \<Rightarrow> bus" where
  "addLog t level message b = b\<lparr>b_logs := logbuf_Add t level message (b_logs b)\<rparr>"

text \<open>\<open>func (s *Service) emitLocked\<close>: the channel of a watcher buffers 32 notifications.\<close>

definition emitLocked :: "time \<Rightarrow> Notify \<Rightarrow> bus \<Rightarrow> bus" where
  "emitLocked t notify0 b =
     (let revision = b_revision b + 1;
          notify = notify0\<lparr>nt_Version := b_version b, nt_Time := now t, nt_Epoch := b_epoch b,
                           nt_Revision := revision\<rparr>
      in b\<lparr>b_revision := revision,
           b_eventRing := push_bounded 1024 notify (b_eventRing b),
           b_watchers := map (\<lambda>(i, q). (i, q @ [notify])) (filter (\<lambda>(i, q). length q < 32) (b_watchers b)),
           b_closedWatchers := b_closedWatchers b @ filter (\<lambda>(i, q). \<not> length q < 32) (b_watchers b)\<rparr>)"

text \<open>\<open>func (s *Service) recordConnectionLocked\<close>\<close>

definition recordConnectionLocked :: "time \<Rightarrow> ConnectionEvent \<Rightarrow> bus \<Rightarrow> bus" where
  "recordConnectionLocked t event0 b =
     (let seq = b_connectionSeq b + 1;
          event = event0\<lparr>ce_ID := ''connection-event-'' @ fmt_u64 seq,
                         ce_Time := (if ce_Time event0 = None then now t else ce_Time event0),
                         ce_Error := sanitizeDiagnostic (ce_Error event0)\<rparr>;
          history = (if 64 \<le> length (b_connectionHistory b) then keep_last 63 (b_connectionHistory b)
                     else b_connectionHistory b);
          b1 = b\<lparr>b_connectionSeq := seq, b_connectionHistory := history @ [event]\<rparr>;
          b2 = addLog t ''info'' (''appd: connection event kind='' @ ce_Kind event @ '' profile='' @ ce_ProfileID event
                 @ '' reason='' @ ce_ReasonCode event @ '' attempt='' @ fmt_int (ce_Attempt event)) b1
      in emitLocked t (zero_notify\<lparr>nt_Event := ''connection'', nt_Connection := Some event, nt_Message := ce_Kind event\<rparr>) b2)"

text \<open>\<open>WatchSince\<close>: whether a client that holds revision \<open>since\<close> of \<open>epoch\<close> needs a snapshot, and the
  events to replay otherwise, as they are in the ring.\<close>

definition watch_replay :: "string \<Rightarrow> u64 \<Rightarrow> bus \<Rightarrow> bool \<times> Notify list" where
  "watch_replay epoch since b =
     (let need1 = (epoch \<noteq> b_epoch b \<or> since = 0);
          need2 = (need1 \<or> (b_eventRing b \<noteq> [] \<and> since + 1 < nt_Revision (hd (b_eventRing b))));
          replay = (if need2 then [] else filter (\<lambda>event. since < nt_Revision event) (b_eventRing b));
          need3 = (need2 \<or> (replay = [] \<and> since < b_revision b))
      in (need3, replay))"

text \<open>\<open>WatchSince\<close>: registration of the live channel.\<close>

definition add_watcher :: "bus \<Rightarrow> bus" where
  "add_watcher b = b\<lparr>b_watchers := b_watchers b @ [(b_nextWatcherID b, [])], b_nextWatcherID := b_nextWatcherID b + 1\<rparr>"

text \<open>The forwarding goroutine of \<open>WatchSince\<close> takes the next event of its live channel; the goroutine
  that waits for the client's context removes the watcher.\<close>

definition recv_watcher :: "nat \<Rightarrow> bus \<Rightarrow> bus \<times> Notify option" where
  "recv_watcher w b =
     (let pop = map (\<lambda>(i, q). (i, if i = w then tl q else q));
          front = (\<lambda>q. if q = [] then None else Some (hd q))
      in case map_of (b_watchers b) w of
           Some q \<Rightarrow> (b\<lparr>b_watchers := pop (b_watchers b)\<rparr>, front q)
         | None \<Rightarrow> (case map_of (b_closedWatchers b) w of
               Some q \<Rightarrow> (b\<lparr>b_closedWatchers := pop (b_closedWatchers b)\<rparr>, front q)
             | None \<Rightarrow> (b, None)))"

definition cancel_watcher :: "nat \<Rightarrow> bus \<Rightarrow> bus" where
  "cancel_watcher w b =
     b\<lparr>b_watchers := filter (\<lambda>(i, q). i \<noteq> w) (b_watchers b),
       b_closedWatchers := b_closedWatchers b @ filter (\<lambda>(i, q). i = w) (b_watchers b)\<rparr>"

section \<open>Traffic\<close>

record traffic_state =
  tf_traffic :: TrafficSnapshot
  tf_lastTraffic :: "TrafficStats option"
  tf_lastTrafficAt :: time

definition new_traffic :: traffic_state where
  "new_traffic = \<lparr>tf_traffic = zero_traffic, tf_lastTraffic = None, tf_lastTrafficAt = 0\<rparr>"

text \<open>\<open>func (s *Service) clearTrafficLocked\<close>\<close>

definition clearTrafficLocked :: "traffic_state \<Rightarrow> traffic_state \<times> bool" where
  "clearTrafficLocked tf =
     (let tr = tf_traffic tf
      in (new_traffic,
          tr_Connected tr \<or> tr_BytesSent tr \<noteq> 0 \<or> tr_BytesReceived tr \<noteq> 0
            \<or> tr_BytesSentPerSecond tr \<noteq> 0 \<or> tr_BytesReceivedPerSecond tr \<noteq> 0))"

text \<open>\<open>func (s *Service) sampleTrafficLocked\<close>, given the connection state and \<open>backend.Traffic()\<close>.\<close>

definition rate :: "u64 \<Rightarrow> u64 \<Rightarrow> rat \<Rightarrow> rat" where
  "rate bytes prev seconds = (if prev \<le> bytes then of_nat (unat (bytes - prev)) / seconds else 0)"

definition sampleTrafficLocked :: "State \<Rightarrow> TrafficStats option \<Rightarrow> time \<Rightarrow> traffic_state \<Rightarrow> traffic_state \<times> bool" where
  "sampleTrafficLocked state backend_totals t tf =
     (if state \<noteq> StateConnected then clearTrafficLocked tf
      else case backend_totals of
        None \<Rightarrow> clearTrafficLocked tf
      | Some totals \<Rightarrow>
          (let base = zero_traffic\<lparr>tr_Connected := True, tr_BytesSent := ts_BytesSent totals,
                        tr_BytesReceived := ts_BytesReceived totals, tr_SampledAt := now t\<rparr>;
               next = (case tf_lastTraffic tf of
                   None \<Rightarrow> base
                 | Some prev \<Rightarrow>
                     if tf_lastTrafficAt tf \<noteq> 0 \<and> tf_lastTrafficAt tf < t
                     then (let seconds = of_nat (t - tf_lastTrafficAt tf) / 1000000000
                           in base\<lparr>tr_BytesSentPerSecond := rate (ts_BytesSent totals) (ts_BytesSent prev) seconds,
                                   tr_BytesReceivedPerSecond := rate (ts_BytesReceived totals) (ts_BytesReceived prev) seconds\<rparr>)
                     else base)
           in (\<lparr>tf_traffic = next, tf_lastTraffic = Some totals, tf_lastTrafficAt = t\<rparr>, True)))"

section \<open>Bounds\<close>

lemma sanitize_length: "length (sanitizeDiagnostic v) \<le> 512"
  by (simp add: sanitizeDiagnostic_def Let_def)

lemma TrimSpace_subset: "set (TrimSpace v) \<subseteq> set v"
  using trim_right_prefix [of "trim_left v"] drop_runes_suffix [of space_runes v]
  by (auto simp: TrimSpace_def trim_left_def dest: set_mono_prefix set_mono_suffix)

lemma sanitize_no_newline: "CHR 0x0A \<notin> set (sanitizeDiagnostic v)" "CHR 0x0D \<notin> set (sanitizeDiagnostic v)"
proof -
  let ?w = "replace_byte (CHR 0x0A) (CHR '' '') (replace_byte (CHR 0x0D) (CHR '' '') v)"
  have "set (sanitizeDiagnostic v) \<subseteq> set ?w"
    using TrimSpace_subset [of ?w] by (auto simp: sanitizeDiagnostic_def Let_def dest: in_set_takeD)
  moreover have "CHR 0x0A \<notin> set ?w" "CHR 0x0D \<notin> set ?w"
    by (auto simp: replace_byte_def)
  ultimately show "CHR 0x0A \<notin> set (sanitizeDiagnostic v)" "CHR 0x0D \<notin> set (sanitizeDiagnostic v)" by auto
qed

definition clean_text :: "string \<Rightarrow> bool" where
  "clean_text v \<longleftrightarrow> length v \<le> 512 \<and> CHR 0x0A \<notin> set v \<and> CHR 0x0D \<notin> set v"

lemma sanitize_clean: "clean_text (sanitizeDiagnostic v)"
  using sanitize_length sanitize_no_newline by (simp add: clean_text_def)

text \<open>What is bounded: the history, the log and the ring; every recorded error is one short line.\<close>

definition bus_bounded :: "bus \<Rightarrow> bool" where
  "bus_bounded b \<longleftrightarrow> length (b_connectionHistory b) \<le> 64
     \<and> (\<forall>e \<in> set (b_connectionHistory b). clean_text (ce_Error e))
     \<and> lb_limit (b_logs b) = 500 \<and> length (lb_entries (b_logs b)) \<le> 500
     \<and> length (b_eventRing b) \<le> 1024 \<and> (\<forall>(i, q) \<in> set (b_watchers b). length q \<le> 32)"

lemma emit_fields [simp]:
  "b_connectionHistory (emitLocked t n b) = b_connectionHistory b" "b_logs (emitLocked t n b) = b_logs b"
  "b_connectionSeq (emitLocked t n b) = b_connectionSeq b" "b_epoch (emitLocked t n b) = b_epoch b"
  "b_version (emitLocked t n b) = b_version b" "b_nextWatcherID (emitLocked t n b) = b_nextWatcherID b"
  "b_revision (emitLocked t n b) = b_revision b + 1"
  by (simp_all add: emitLocked_def Let_def)

lemma addLog_fields [simp]:
  "b_connectionHistory (addLog t l m b) = b_connectionHistory b" "b_eventRing (addLog t l m b) = b_eventRing b"
  "b_connectionSeq (addLog t l m b) = b_connectionSeq b" "b_epoch (addLog t l m b) = b_epoch b"
  "b_version (addLog t l m b) = b_version b" "b_nextWatcherID (addLog t l m b) = b_nextWatcherID b"
  "b_revision (addLog t l m b) = b_revision b" "b_watchers (addLog t l m b) = b_watchers b"
  "b_closedWatchers (addLog t l m b) = b_closedWatchers b"
  by (simp_all add: addLog_def)

lemma new_bus_bounded: "bus_bounded (new_bus v e)"
  by (simp add: bus_bounded_def new_bus_def logbuf_New_def)

lemma emitLocked_bounded [svc_inv]: "bus_bounded b \<Longrightarrow> bus_bounded (emitLocked t n b)"
  by (auto simp: bus_bounded_def) (auto simp: emitLocked_def Let_def length_push_bounded)

lemma addLog_bounded [svc_inv]: "bus_bounded b \<Longrightarrow> bus_bounded (addLog t l m b)"
  by (auto simp: bus_bounded_def) (auto simp: addLog_def logbuf_Add_def length_push_bounded)

lemma recordConnectionLocked_bounded [svc_inv]: "bus_bounded b \<Longrightarrow> bus_bounded (recordConnectionLocked t e b)"
proof -
  assume b: "bus_bounded b"
  let ?h = "if 64 \<le> length (b_connectionHistory b) then keep_last 63 (b_connectionHistory b) else b_connectionHistory b"
  have h: "length ?h \<le> 63" "set ?h \<subseteq> set (b_connectionHistory b)"
    by (auto simp: keep_last_def dest: in_set_dropD)
  then have "bus_bounded (b\<lparr>b_connectionSeq := s, b_connectionHistory := ?h @ [x]\<rparr>)" if "clean_text (ce_Error x)" for s x
    using b that by (auto simp: bus_bounded_def)
  then show ?thesis
    unfolding recordConnectionLocked_def Let_def
    by (intro emitLocked_bounded addLog_bounded) (simp add: sanitize_clean)
qed

section \<open>Revisions\<close>

text \<open>The ring holds the latest events, with consecutive revisions.\<close>

definition revs :: "Notify list \<Rightarrow> nat list" where
  "revs ns = map (unat \<circ> nt_Revision) ns"

definition ring_ok :: "nat \<Rightarrow> bus \<Rightarrow> bool" where
  "ring_ok n b \<longleftrightarrow> unat (b_revision b) = n \<and> revs (b_eventRing b) = [Suc n - min 1024 n ..< Suc n]"

lemma revs_simps [simp]: "revs [] = []" "revs (xs @ ys) = revs xs @ revs ys" "length (revs xs) = length xs"
  "revs (x # xs) = unat (nt_Revision x) # revs xs"
  by (simp_all add: revs_def)

lemma revs_drop: "revs (drop k xs) = drop k (revs xs)"
  by (simp add: revs_def drop_map)

lemma unat_inc: "unat (w :: u64) = n \<Longrightarrow> Suc n < 2 ^ 64 \<Longrightarrow> unat (w + 1) = Suc n"
  by (simp add: unat_word_ariths)

lemma emit_ring:
  "b_eventRing (emitLocked t n b) = push_bounded 1024 (n\<lparr>nt_Version := b_version b, nt_Time := now t,
     nt_Epoch := b_epoch b, nt_Revision := b_revision b + 1\<rparr>) (b_eventRing b)"
  by (simp add: emitLocked_def Let_def)

lemma emit_ring_ok:
  assumes "ring_ok n b" "Suc n < 2 ^ 64"
  shows "ring_ok (Suc n) (emitLocked t x b)"
proof -
  have r: "unat (b_revision b + 1) = Suc n" using assms unat_inc by (auto simp: ring_ok_def)
  have old: "revs (b_eventRing b) = [Suc n - min 1024 n ..< Suc n]" using assms by (simp add: ring_ok_def)
  have len: "length (b_eventRing b) = min 1024 n"
    using arg_cong [where f = length, OF old] by (simp del: upt_Suc)
  let ?x = "x\<lparr>nt_Version := b_version b, nt_Time := now t, nt_Epoch := b_epoch b, nt_Revision := b_revision b + 1\<rparr>"
  have new: "revs (b_eventRing b @ [?x]) = [Suc n - min 1024 n ..< Suc (Suc n)]"
    by (simp add: old r upt_Suc_append del: upt_Suc)
  have "b_eventRing (emitLocked t x b) = drop (Suc (min 1024 n) - 1024) (b_eventRing b @ [?x])"
    unfolding emit_ring push_bounded_def keep_last_def Let_def using len by (cases "n < 1024") simp_all
  then have "revs (b_eventRing (emitLocked t x b)) = drop (Suc (min 1024 n) - 1024) [Suc n - min 1024 n ..< Suc (Suc n)]"
    by (simp only: revs_drop new)
  also have "\<dots> = [Suc (Suc n) - min 1024 (Suc n) ..< Suc (Suc n)]"
    unfolding drop_upt by (rule arg_cong2 [where f = upt]) (auto simp: min_def)
  finally show ?thesis using r by (simp add: ring_ok_def)
qed

text \<open>A run of emitted events.\<close>

definition emits :: "(time \<times> Notify) list \<Rightarrow> bus \<Rightarrow> bus" where
  "emits ns b = foldl (\<lambda>b (t, n). emitLocked t n b) b ns"

lemma emits_simps [simp]: "emits [] b = b" "emits (x # xs) b = emits xs (emitLocked (fst x) (snd x) b)"
  by (simp_all add: emits_def case_prod_beta)

lemma emits_ring_ok: "ring_ok n b \<Longrightarrow> n + length ns < 2 ^ 64 \<Longrightarrow> ring_ok (n + length ns) (emits ns b)"
proof (induction ns arbitrary: n b)
  case (Cons x xs)
  then show ?case using Cons.IH [of "Suc n" "emitLocked (fst x) (snd x) b"] emit_ring_ok [of n b] by simp
qed simp

lemma new_bus_ring_ok: "ring_ok 0 (new_bus v e)"
  by (simp add: ring_ok_def new_bus_def)

lemma emits_epoch [simp]: "b_epoch (emits ns b) = b_epoch b"
  by (induction ns arbitrary: b) simp_all

lemma filter_upt_greater: "filter (\<lambda>i. s < i) [a ..< b] = [max (Suc s) a ..< b]"
proof (induction b)
  case (Suc b)
  then show ?case by (cases "a \<le> b") (auto simp: max_def)
qed simp

lemma revs_filter: "revs (filter (\<lambda>e. s < nt_Revision e) xs) = filter (\<lambda>i. unat s < i) (revs xs)"
  by (simp add: revs_def filter_map comp_def word_less_nat_alt)

lemma watch_replay_ring:
  assumes r: "ring_ok n b" and e: "epoch = b_epoch b" and s: "since \<noteq> 0" "Suc (unat since) < 2 ^ 64"
  shows "watch_replay epoch since b =
      (unat since + 1024 < n, if unat since + 1024 < n then [] else filter (\<lambda>x. since < nt_Revision x) (b_eventRing b))"
    and "\<not> unat since + 1024 < n \<Longrightarrow> revs (filter (\<lambda>x. since < nt_Revision x) (b_eventRing b)) = [Suc (unat since) ..< Suc n]"
proof -
  let ?ring = "b_eventRing b" and ?f = "filter (\<lambda>x. since < nt_Revision x) (b_eventRing b)"
  have ring: "revs ?ring = [Suc n - min 1024 n ..< Suc n]" and rev: "unat (b_revision b) = n"
    using r by (simp_all add: ring_ok_def)
  show 2: "revs ?f = [Suc (unat since) ..< Suc n]" if "\<not> unat since + 1024 < n"
  proof -
    have "max (Suc (unat since)) (Suc n - min 1024 n) = Suc (unat since)" using that by (auto simp: max_def min_def)
    then show ?thesis unfolding revs_filter ring filter_upt_greater by simp
  qed
  have inc: "unat (since + 1) = Suc (unat since)" using s(2) unat_inc by blast
  have hd: "unat (nt_Revision (hd ?ring)) = Suc n - min 1024 n" if "?ring \<noteq> []"
    using arg_cong [where f = hd, OF ring] that arg_cong [where f = length, OF ring]
    by (cases ?ring) (auto simp: hd_upt simp del: upt_Suc)
  have ne: "?ring \<noteq> [] \<longleftrightarrow> 0 < n"
    using arg_cong [where f = length, OF ring] by (cases ?ring) (auto simp: min_def simp del: upt_Suc split: if_splits)
  have need: "(?ring \<noteq> [] \<and> since + 1 < nt_Revision (hd ?ring)) \<longleftrightarrow> unat since + 1024 < n"
    using hd ne inc by (auto simp: word_less_nat_alt min_def split: if_splits)
  have "\<not> (?f = [] \<and> since < b_revision b)" if "\<not> unat since + 1024 < n"
    using arg_cong [where f = length, OF 2 [OF that]] rev by (auto simp: word_less_nat_alt simp del: upt_Suc)
  with need e s(1) show "watch_replay epoch since b = (unat since + 1024 < n, if unat since + 1024 < n then [] else ?f)"
    by (auto simp: watch_replay_def Let_def)
qed

text \<open>C11: a client that resumes the event stream never misses an event silently. Over the whole life of a
  daemon that has emitted \<open>ns\<close> events, a client of revision \<open>since\<close> either gets a snapshot, and then only
  because it names another epoch, no revision or one that fell out of the ring of 1024 events, or it
  is replayed exactly the revisions after \<open>since\<close> up to the current one, in order.\<close>

theorem watch_replay_gap_free:
  assumes "length ns < 2 ^ 64" "unat since \<noteq> 2 ^ 64 - 1"
  shows "let b = emits ns (new_bus version epoch); (snapshot, events) = watch_replay e since b
    in if snapshot then e \<noteq> epoch \<or> since = 0 \<or> unat since + 1024 < length ns
       else map (\<lambda>x. unat (nt_Revision x)) events = [Suc (unat since) ..< Suc (length ns)]"
proof -
  let ?b = "emits ns (new_bus version epoch)"
  have ring: "ring_ok (length ns) ?b" using emits_ring_ok [OF new_bus_ring_ok, of ns] assms by simp
  have ep: "b_epoch ?b = epoch" by (simp add: new_bus_def)
  have "Suc (unat since) < 2 ^ 64" using assms(2) unsigned_less [of since, where ?'a = nat] by simp
  with watch_replay_ring [OF ring, of e since] ep show ?thesis
    by (cases "e = epoch \<and> since \<noteq> 0")
      (auto simp: revs_def comp_def, auto simp: watch_replay_def Let_def split: if_splits)
qed

theorem watch_replay_gap_free_witness:
  "let b = emits (replicate 3 (0, zero_notify)) (new_bus [] ''e'');
       (snapshot, events) = watch_replay ''e'' 1 b
   in if snapshot then False else map (\<lambda>x. unat (nt_Revision x)) events = [2, 3]"
  using watch_replay_gap_free [of "replicate 3 (0, zero_notify)" 1 "[]" "''e''" "''e''"]
  by (auto simp: Let_def numeral_3_eq_3 split: prod.splits if_splits)

section \<open>The stream of a watcher\<close>

text \<open>Everything that can happen to the bus while a watcher listens: events are emitted, clients come and
  go, and the goroutine of some watcher takes the next event of its channel. \<open>got\<close> collects what
  watcher \<open>w\<close> has been handed.\<close>

datatype bus_op = BEmit time Notify | BLog time string string | BRecord time ConnectionEvent
  | BWatch | BCancel nat | BRecv nat

fun bus_step :: "nat \<Rightarrow> bus \<times> Notify list \<Rightarrow> bus_op \<Rightarrow> bus \<times> Notify list" where
  "bus_step w (b, got) (BEmit t n) = (emitLocked t n b, got)"
| "bus_step w (b, got) (BLog t l m) = (addLog t l m b, got)"
| "bus_step w (b, got) (BRecord t e) = (recordConnectionLocked t e b, got)"
| "bus_step w (b, got) BWatch = (add_watcher b, got)"
| "bus_step w (b, got) (BCancel i) = (cancel_watcher i b, got)"
| "bus_step w (b, got) (BRecv i) =
     (let (b', r) = recv_watcher i b in (b', if i = w then got @ (case r of None \<Rightarrow> [] | Some n \<Rightarrow> [n]) else got))"

text \<open>Watcher numbers are never reused.\<close>

definition watchers_ok :: "bus \<Rightarrow> bool" where
  "watchers_ok b \<longleftrightarrow> distinct (map fst (b_watchers b @ b_closedWatchers b))
     \<and> (\<forall>i \<in> fst ` set (b_watchers b @ b_closedWatchers b). i < b_nextWatcherID b)"

definition queue_of :: "nat \<Rightarrow> bus \<Rightarrow> Notify list" where
  "queue_of w b = (case map_of (b_watchers b @ b_closedWatchers b) w of Some q \<Rightarrow> q | None \<Rightarrow> [])"

text \<open>Delivered and buffered events together are the revisions after \<open>r\<close>, without a gap, and up to the
  current one as long as the watcher is registered.\<close>

definition stream_ok :: "nat \<Rightarrow> nat \<Rightarrow> bus \<times> Notify list \<Rightarrow> bool" where
  "stream_ok r w st \<longleftrightarrow> (case st of (b, got) \<Rightarrow> watchers_ok b \<and> w < b_nextWatcherID b \<and>
     (\<exists>k. r \<le> k \<and> k \<le> unat (b_revision b) \<and> revs (got @ queue_of w b) = [Suc r ..< Suc k]
        \<and> (w \<in> fst ` set (b_watchers b) \<longrightarrow> k = unat (b_revision b))))"

lemma emit_watchers:
  "b_watchers (emitLocked t n b) = map (\<lambda>x. (fst x, snd x @ [n\<lparr>nt_Version := b_version b, nt_Time := now t,
      nt_Epoch := b_epoch b, nt_Revision := b_revision b + 1\<rparr>])) (filter (\<lambda>x. length (snd x) < 32) (b_watchers b))"
  "b_closedWatchers (emitLocked t n b) = b_closedWatchers b @ filter (\<lambda>x. \<not> length (snd x) < 32) (b_watchers b)"
  by (simp_all add: emitLocked_def Let_def case_prod_unfold)

lemma map_of_filter_snd:
  "distinct (map fst xs) \<Longrightarrow> map_of (filter (\<lambda>x. P (snd x)) xs) w =
     (case map_of xs w of None \<Rightarrow> None | Some q \<Rightarrow> if P q then Some q else None)"
proof (induction xs)
  case (Cons x xs)
  have "fst x = w \<Longrightarrow> map_of xs w = None" using Cons.prems by (auto simp: map_of_eq_None_iff)
  with Cons show ?case by (auto split: option.splits)
qed simp

lemma map_of_map_snd: "map_of (map (\<lambda>x. (fst x, f (snd x))) xs) w = map_option f (map_of xs w)"
  by (induction xs) auto

lemma in_keys_map_of: "w \<in> fst ` set xs \<longleftrightarrow> map_of xs w \<noteq> None"
  by (simp add: map_of_eq_None_iff)

lemma watchers_okD: "watchers_ok b \<Longrightarrow> distinct (map fst (b_watchers b))"
  "watchers_ok b \<Longrightarrow> map_of (b_watchers b) w = Some q \<Longrightarrow> map_of (b_closedWatchers b) w = None"
  by (auto simp: watchers_ok_def map_of_eq_None_iff dest!: map_of_SomeD) force

text \<open>No operation but registration changes which watcher numbers are in use.\<close>

definition keys_of :: "bus \<Rightarrow> nat multiset" where
  "keys_of b = mset (map fst (b_watchers b @ b_closedWatchers b))"

lemma watchers_ok_keys:
  assumes "watchers_ok b" "keys_of b' = keys_of b" "b_nextWatcherID b' = b_nextWatcherID b"
  shows "watchers_ok b'"
proof -
  have m: "mset (map fst (b_watchers b' @ b_closedWatchers b')) = mset (map fst (b_watchers b @ b_closedWatchers b))"
    using assms(2) by (simp only: keys_of_def)
  show ?thesis
    using assms(1,3) mset_eq_imp_distinct_iff [OF m] mset_eq_setD [OF m]
    by (simp only: watchers_ok_def set_map) blast
qed

lemma mset_fst_partition: "mset (map fst (filter P xs)) + mset (map fst (filter (\<lambda>x. \<not> P x) xs)) = mset (map fst xs)"
  by (induction xs) auto

lemma emit_keys [simp]: "keys_of (emitLocked t n b) = keys_of b"
  using mset_fst_partition [of "\<lambda>x. length (snd x) < 32" "b_watchers b"]
  by (simp add: keys_of_def emit_watchers comp_def ac_simps)

lemma addLog_keys [simp]: "keys_of (addLog t l m b) = keys_of b"
  by (simp add: keys_of_def)

lemma cancel_keys [simp]: "keys_of (cancel_watcher w b) = keys_of b"
  using mset_fst_partition [of "\<lambda>x. fst x \<noteq> w" "b_watchers b"]
  by (simp add: keys_of_def cancel_watcher_def case_prod_unfold ac_simps)

lemma recv_keys [simp]: "keys_of (fst (recv_watcher w b)) = keys_of b"
  "b_nextWatcherID (fst (recv_watcher w b)) = b_nextWatcherID b"
  "b_revision (fst (recv_watcher w b)) = b_revision b"
  by (auto simp: keys_of_def recv_watcher_def Let_def comp_def case_prod_unfold multiset.map_comp split: option.splits)

lemma emit_queue:
  assumes "watchers_ok b"
  shows "queue_of w (emitLocked t n b) = queue_of w b
    \<or> (\<exists>x. nt_Revision x = b_revision b + 1 \<and> w \<in> fst ` set (b_watchers b)
        \<and> w \<in> fst ` set (b_watchers (emitLocked t n b)) \<and> queue_of w (emitLocked t n b) = queue_of w b @ [x])"
    and "w \<in> fst ` set (b_watchers (emitLocked t n b)) \<Longrightarrow>
      w \<in> fst ` set (b_watchers b) \<and> queue_of w (emitLocked t n b) \<noteq> queue_of w b"
proof -
  let ?x = "n\<lparr>nt_Version := b_version b, nt_Time := now t, nt_Epoch := b_epoch b, nt_Revision := b_revision b + 1\<rparr>"
  note d = watchers_okD(1) [OF assms]
  have live: "map_of (b_watchers (emitLocked t n b)) w =
      (case map_of (b_watchers b) w of None \<Rightarrow> None | Some q \<Rightarrow> if length q < 32 then Some (q @ [?x]) else None)"
    by (auto simp: emit_watchers map_of_map_snd [of "\<lambda>q. q @ [?x]"] map_of_filter_snd [OF d, of "\<lambda>q. length q < 32"] split: option.splits)
  have closed: "map_of (b_closedWatchers (emitLocked t n b)) w =
      (case map_of (b_watchers b) w of None \<Rightarrow> map_of (b_closedWatchers b) w
       | Some q \<Rightarrow> if \<not> length q < 32 then Some q else map_of (b_closedWatchers b) w)"
    using watchers_okD(2) [OF assms, of w]
    by (auto simp: emit_watchers map_add_def map_of_filter_snd [OF d, of "\<lambda>q. \<not> length q < 32"] split: option.splits)
  show "queue_of w (emitLocked t n b) = queue_of w b
    \<or> (\<exists>x. nt_Revision x = b_revision b + 1 \<and> w \<in> fst ` set (b_watchers b)
        \<and> w \<in> fst ` set (b_watchers (emitLocked t n b)) \<and> queue_of w (emitLocked t n b) = queue_of w b @ [x])"
    by (auto simp: queue_of_def map_add_def live closed in_keys_map_of split: option.splits)
  show "w \<in> fst ` set (b_watchers (emitLocked t n b)) \<Longrightarrow>
      w \<in> fst ` set (b_watchers b) \<and> queue_of w (emitLocked t n b) \<noteq> queue_of w b"
    by (auto simp: queue_of_def map_add_def live closed in_keys_map_of split: option.splits if_splits)
qed

lemma stream_emit:
  assumes "stream_ok r w (b, got)" "Suc (unat (b_revision b)) < 2 ^ 64"
  shows "stream_ok r w (emitLocked t n b, got)"
proof -
  let ?b = "emitLocked t n b"
  from assms(1) obtain k where b: "watchers_ok b" "w < b_nextWatcherID b" and
    k: "r \<le> k" "k \<le> unat (b_revision b)" "revs (got @ queue_of w b) = [Suc r ..< Suc k]"
       "w \<in> fst ` set (b_watchers b) \<Longrightarrow> k = unat (b_revision b)"
    by (auto simp: stream_ok_def)
  have rev: "unat (b_revision ?b) = Suc (unat (b_revision b))" using unat_inc [OF refl assms(2)] by simp
  have ok: "watchers_ok ?b" using b(1) by (rule watchers_ok_keys) simp_all
  consider "queue_of w ?b = queue_of w b" "w \<notin> fst ` set (b_watchers ?b)"
    | x where "nt_Revision x = b_revision b + 1" "w \<in> fst ` set (b_watchers b)" "queue_of w ?b = queue_of w b @ [x]"
    using emit_queue [OF b(1), of w t n] by blast
  then show ?thesis
  proof cases
    case 1
    with k ok b(2) rev show ?thesis unfolding stream_ok_def by (auto intro!: exI [of _ k])
  next
    case 2
    then have "revs (got @ queue_of w ?b) = [Suc r ..< Suc (Suc k)]"
      using k unat_inc [OF refl assms(2)] by simp
    with k 2 ok b(2) rev show ?thesis unfolding stream_ok_def by (auto intro!: exI [of _ "Suc k"])
  qed
qed

lemma addLog_queue [simp]: "queue_of w (addLog t l m b) = queue_of w b"
  by (simp add: queue_of_def)

lemma stream_same:
  assumes "stream_ok r w (b, got)" "keys_of b' = keys_of b" "b_nextWatcherID b' = b_nextWatcherID b"
    "b_revision b' = b_revision b" "got' @ queue_of w b' = got @ queue_of w b"
    "fst ` set (b_watchers b') \<subseteq> fst ` set (b_watchers b)"
  shows "stream_ok r w (b', got')"
proof -
  have "watchers_ok b" using assms(1) by (simp add: stream_ok_def)
  then have "watchers_ok b'" by (rule watchers_ok_keys) fact+
  moreover obtain k where "r \<le> k" "k \<le> unat (b_revision b)" "revs (got @ queue_of w b) = [Suc r ..< Suc k]"
      "w \<in> fst ` set (b_watchers b) \<longrightarrow> k = unat (b_revision b)" "w < b_nextWatcherID b"
    using assms(1) unfolding stream_ok_def by blast
  ultimately show ?thesis
    unfolding stream_ok_def prod.case assms(3-5) using assms(6) by blast
qed

lemma stream_addLog: "stream_ok r w (b, got) \<Longrightarrow> stream_ok r w (addLog t l m b, got)"
  by (erule stream_same) simp_all

lemma stream_record:
  assumes "stream_ok r w (b, got)" "Suc (unat (b_revision b)) < 2 ^ 64"
  shows "stream_ok r w (recordConnectionLocked t e b, got)"
proof -
  have "stream_ok r w (b\<lparr>b_connectionSeq := x, b_connectionHistory := y\<rparr>, got)" for x y
    using assms(1) by (rule stream_same) (simp_all add: keys_of_def queue_of_def)
  then show ?thesis
    unfolding recordConnectionLocked_def Let_def using assms(2) by (intro stream_emit stream_addLog) simp_all
qed

lemma add_watcher_fields [simp]:
  "b_watchers (add_watcher b) = b_watchers b @ [(b_nextWatcherID b, [])]"
  "b_closedWatchers (add_watcher b) = b_closedWatchers b" "b_revision (add_watcher b) = b_revision b"
  "b_nextWatcherID (add_watcher b) = Suc (b_nextWatcherID b)"
  by (simp_all add: add_watcher_def)

lemma watch_watchers_ok: "watchers_ok b \<Longrightarrow> watchers_ok (add_watcher b)"
  unfolding watchers_ok_def by (auto simp: less_Suc_eq) (force+)

lemma watch_queue: "w < b_nextWatcherID b \<Longrightarrow> queue_of w (add_watcher b) = queue_of w b"
  by (simp add: queue_of_def map_add_def split: option.splits)

lemma stream_watch: "stream_ok r w (b, got) \<Longrightarrow> stream_ok r w (add_watcher b, got)"
  by (auto simp: stream_ok_def watch_watchers_ok watch_queue)

lemma cancel_queue: "watchers_ok b \<Longrightarrow> queue_of w (cancel_watcher i b) = queue_of w b"
proof -
  assume b: "watchers_ok b"
  have f: "map_of (filter (\<lambda>x. Q (fst x)) xs) w = (if Q w then map_of xs w else None)" for Q and xs :: "(nat \<times> Notify list) list"
    by (induction xs) auto
  show ?thesis using watchers_okD(2) [OF b, of w]
    by (auto simp: queue_of_def map_add_def cancel_watcher_def case_prod_unfold f [of "\<lambda>j. j \<noteq> i"] f [of "\<lambda>j. j = i"]
        split: option.splits)
qed

lemma stream_cancel:
  assumes "stream_ok r w (b, got)"
  shows "stream_ok r w (cancel_watcher i b, got)"
proof -
  have "watchers_ok b" using assms by (simp add: stream_ok_def)
  then have "queue_of w (cancel_watcher i b) = queue_of w b" by (rule cancel_queue)
  moreover have "b_nextWatcherID (cancel_watcher i b) = b_nextWatcherID b" "b_revision (cancel_watcher i b) = b_revision b"
      "fst ` set (b_watchers (cancel_watcher i b)) \<subseteq> fst ` set (b_watchers b)"
    by (auto simp: cancel_watcher_def)
  ultimately show ?thesis using assms by (intro stream_same [OF assms]) simp_all
qed

lemma map_of_pop:
  "map_of (map (\<lambda>(j, q). (j, if j = i then tl q else q)) xs) w = map_option (\<lambda>q. if w = i then tl q else q) (map_of xs w)"
  by (induction xs) auto

lemma keys_pop: "fst ` set (map (\<lambda>(j, q). (j, if j = i then tl q else q)) xs) = fst ` set xs"
  by (simp add: image_image case_prod_unfold)

lemma recv_queue:
  assumes "watchers_ok b" "recv_watcher i b = (b', x)"
  shows "queue_of w b = (if i = w then (case x of None \<Rightarrow> [] | Some n \<Rightarrow> [n]) else []) @ queue_of w b'"
  using assms watchers_okD(2) [OF assms(1), of w]
  by (auto simp: recv_watcher_def Let_def queue_of_def map_add_def map_of_pop split: option.splits if_splits)

lemma recv_keys_live: "recv_watcher i b = (b', x) \<Longrightarrow> fst ` set (b_watchers b') = fst ` set (b_watchers b)"
  unfolding recv_watcher_def Let_def
  by (cases "map_of (b_watchers b) i"; cases "map_of (b_closedWatchers b) i")
    (auto simp: image_image case_prod_unfold simp del: map_of_eq_None_iff, (force simp: image_iff)+)

lemma recv_revision: "recv_watcher i b = (b', x) \<Longrightarrow> b_revision b' = b_revision b"
  using recv_keys(3) [of i b] by simp

lemma stream_recv:
  assumes "stream_ok r w (b, got)" "recv_watcher i b = (b', x)"
  shows "stream_ok r w (b', if i = w then got @ (case x of None \<Rightarrow> [] | Some n \<Rightarrow> [n]) else got)"
proof -
  have "watchers_ok b" using assms(1) by (simp add: stream_ok_def)
  from recv_queue [OF this assms(2), of w]
  have "(if i = w then got @ (case x of None \<Rightarrow> [] | Some n \<Rightarrow> [n]) else got) @ queue_of w b' = got @ queue_of w b"
    by (cases "i = w") simp_all
  moreover have "keys_of b' = keys_of b" "b_nextWatcherID b' = b_nextWatcherID b" "b_revision b' = b_revision b"
    using recv_keys [of i b] assms(2) by simp_all
  ultimately show ?thesis using recv_keys_live [OF assms(2)] by (intro stream_same [OF assms(1)]) simp_all
qed

lemma revision_grows: "unat (b_revision (fst (bus_step w st op))) \<le> Suc (unat (b_revision (fst st)))"
proof -
  have inc: "unat (x + 1) \<le> Suc (unat x)" for x :: u64
    by (simp add: unat_word_ariths)
  show ?thesis
    by (cases st; cases op)
      (use inc in \<open>auto simp: recordConnectionLocked_def Let_def cancel_watcher_def dest: recv_revision split: prod.splits\<close>)
qed

lemma stream_step:
  assumes "stream_ok r w st" "Suc (unat (b_revision (fst st))) < 2 ^ 64"
  shows "stream_ok r w (bus_step w st op)"
proof (cases st)
  case (Pair b got)
  with assms show ?thesis
    by (cases op) (auto simp: stream_emit stream_addLog stream_record stream_watch stream_cancel
        dest: stream_recv split: prod.splits)
qed

lemma stream_run:
  "stream_ok r w st \<Longrightarrow> unat (b_revision (fst st)) + length ops < 2 ^ 64 \<Longrightarrow> stream_ok r w (foldl (bus_step w) st ops)"
proof (induction ops arbitrary: st)
  case (Cons op ops)
  then show ?case using stream_step [OF Cons.prems(1)] revision_grows [of w st op] by simp
qed simp

text \<open>C12: the live stream of a watcher has no gap and no repetition. Take any client that registers with a
  bus at revision \<open>r\<close>; let events be emitted, connections recorded, other clients come, go and read, in any
  order. What the client has been handed is exactly the events of revisions \<open>r + 1\<close> up to some \<open>k\<close>, in order;
  if it is still registered, what is left in its channel completes the stream up to the current
  revision. A client too slow to keep up is cut off, never skipped ahead.\<close>

theorem watcher_stream_gap_free:
  assumes "watchers_ok b" "unat (b_revision b) + length ops < 2 ^ 64"
  shows "let w = b_nextWatcherID b; r = unat (b_revision b); (b', got) = foldl (bus_step w) (add_watcher b, []) ops
    in (\<exists>k \<le> unat (b_revision b'). map (\<lambda>x. unat (nt_Revision x)) got = [Suc r ..< Suc k])
       \<and> (if w \<in> fst ` set (b_watchers b')
          then map (\<lambda>x. unat (nt_Revision x)) (got @ queue_of w b') = [Suc r ..< Suc (unat (b_revision b'))] else True)"
proof -
  let ?w = "b_nextWatcherID b" and ?r = "unat (b_revision b)"
  have "queue_of ?w (add_watcher b) = []"
    using assms(1) by (auto simp: queue_of_def map_add_def watchers_ok_def split: option.splits dest!: map_of_SomeD) force+
  then have "stream_ok ?r ?w (add_watcher b, [])"
    using watch_watchers_ok [OF assms(1)] by (auto simp: stream_ok_def)
  then have "stream_ok ?r ?w (foldl (bus_step ?w) (add_watcher b, []) ops)"
    using assms(2) by (rule_tac stream_run) simp_all
  moreover obtain b' got where run: "foldl (bus_step ?w) (add_watcher b, []) ops = (b', got)" by fastforce
  ultimately obtain k where k: "?r \<le> k" "k \<le> unat (b_revision b')" "revs (got @ queue_of ?w b') = [Suc ?r ..< Suc k]"
      "?w \<in> fst ` set (b_watchers b') \<longrightarrow> k = unat (b_revision b')"
    by (auto simp: stream_ok_def)
  have "revs got = take (length got) (revs (got @ queue_of ?w b'))" by simp
  then have "revs got = [Suc ?r ..< min (Suc ?r + length got) (Suc k)]"
    unfolding k(3) by (cases "Suc ?r + length got \<le> Suc k") (simp_all add: take_upt min_def del: upt_Suc)
  moreover have "min (Suc ?r + length got) (Suc k) = Suc (min (?r + length got) k)" by simp
  ultimately have "revs got = [Suc ?r ..< Suc (min (?r + length got) k)]" by (simp only:)
  with k(2) have "\<exists>k \<le> unat (b_revision b'). revs got = [Suc ?r ..< Suc k]"
    by (intro exI [of _ "min (?r + length got) k"]) simp
  with k(3,4) run show ?thesis by (auto simp: revs_def comp_def Let_def simp del: upt_Suc)
qed

theorem watcher_stream_gap_free_witness:
  "let (b', got) = foldl (bus_step 0) (add_watcher (new_bus [] []), []) [BEmit 0 zero_notify, BRecv 0, BEmit 0 zero_notify]
   in map (\<lambda>x. unat (nt_Revision x)) (got @ queue_of 0 b') = [1, 2]"
  using watcher_stream_gap_free [of "new_bus [] []" "[BEmit 0 zero_notify, BRecv 0, BEmit 0 zero_notify]"]
  by (simp add: watchers_ok_def new_bus_def add_watcher_def emitLocked_def recv_watcher_def queue_of_def Let_def)

end
