(* ===== verification/Netip.thy ===== *)
theory Netip
  imports Prelude
begin

text \<open>
  Go's \<open>net/netip\<close> addresses and prefixes, as far as the program uses them: \<open>ParseAddr\<close>,
  \<open>ParsePrefix\<close>, \<open>String\<close>, \<open>Unmap\<close>, \<open>Masked\<close>, and \<open>net.IPMask.Size\<close>. Only whether a parse
  succeeds and with which value matters to the callers, so parsing returns an option. The zero
  \<open>netip.Addr\<close> and \<open>netip.Prefix\<close> are \<open>None\<close> where a caller can hold them.
\<close>

datatype addr = V4 "32 word" | V6 "128 word" string   \<comment> \<open>IPv6 address and zone\<close>

section \<open>Parsing\<close>

text \<open>One dotted-decimal field: no leading zero, at most 255.\<close>

definition parse_octet :: "string \<Rightarrow> nat option" where
  "parse_octet s = (case parse_nat s of
      None \<Rightarrow> None
    | Some n \<Rightarrow> if (1 < length s \<and> hd s = CHR ''0'') \<or> 255 < n then None else Some n)"

definition parse_ipv4_fields :: "string \<Rightarrow> nat list option" where
  "parse_ipv4_fields s =
     (let fs = map parse_octet (Split (CHR ''.'') s)
      in if length fs = 4 \<and> None \<notin> set fs then Some (map the fs) else None)"

definition of_octets :: "nat list \<Rightarrow> 32 word" where
  "of_octets bs = word_of_nat (foldl (\<lambda>a b. 256 * a + b) 0 bs)"

definition octets :: "32 word \<Rightarrow> nat list" where
  "octets a = [unat a div 2 ^ 24, unat a div 2 ^ 16 mod 256, unat a div 2 ^ 8 mod 256, unat a mod 256]"

definition is_hex :: "char \<Rightarrow> bool" where
  "is_hex c \<longleftrightarrow> (let n = (of_char c :: nat) in (48 \<le> n \<and> n \<le> 57) \<or> (97 \<le> n \<and> n \<le> 102) \<or> (65 \<le> n \<and> n \<le> 70))"

definition hex_digit_val :: "char \<Rightarrow> nat" where
  "hex_digit_val c = (let n = (of_char c :: nat) in if n \<le> 57 then n - 48 else if n \<le> 70 then n - 55 else n - 87)"

definition hex_val :: "string \<Rightarrow> nat" where
  "hex_val s = foldl (\<lambda>a c. 16 * a + hex_digit_val c) 0 s"

text \<open>The field loop of \<open>parseIPv6\<close>: the first argument counts the 16-bit fields still to fill.
  It returns the unread rest, the fields read and the position of the ellipsis.\<close>

fun ipv6_loop :: "nat \<Rightarrow> string \<Rightarrow> nat list \<Rightarrow> nat option \<Rightarrow> (string \<times> nat list \<times> nat option) option" where
  "ipv6_loop 0 s acc el = Some (s, acc, el)"
| "ipv6_loop (Suc n) s acc el =
    (let ds = takeWhile is_hex s; s1 = dropWhile is_hex s
     in if ds = [] \<or> 4 < length ds then None
        else if s1 \<noteq> [] \<and> hd s1 = CHR ''.'' then
          (if el = None \<and> length acc \<noteq> 6 then None
           else if 8 < length acc + 2 then None
           else (case parse_ipv4_fields s of
                   Some [a, b, c, d] \<Rightarrow> Some ([], acc @ [256 * a + b, 256 * c + d], el)
                 | _ \<Rightarrow> None))
        else
          (let acc1 = acc @ [hex_val ds]
           in case s1 of
                [] \<Rightarrow> Some ([], acc1, el)
              | [c] \<Rightarrow> None
              | c # c2 # s2 \<Rightarrow>
                  if c \<noteq> CHR '':'' then None
                  else if c2 = CHR '':'' then
                    (if el \<noteq> None then None
                     else if s2 = [] then Some ([], acc1, Some (length acc1))
                     else ipv6_loop n s2 acc1 (Some (length acc1)))
                  else ipv6_loop n (c2 # s2) acc1 el))"

definition of_groups :: "nat list \<Rightarrow> 128 word" where
  "of_groups gs = word_of_nat (foldl (\<lambda>a g. 65536 * a + g) 0 gs)"

definition groups :: "128 word \<Rightarrow> nat list" where
  "groups a = map (\<lambda>i. unat a div 65536 ^ (7 - i) mod 65536) [0..<8]"

definition parse_ipv6 :: "string \<Rightarrow> addr option" where
  "parse_ipv6 s =
     (let (s0, zone) = (if CHR ''%'' \<in> set s
                        then (takeWhile (\<lambda>c. c \<noteq> CHR ''%'') s, Some (tl (dropWhile (\<lambda>c. c \<noteq> CHR ''%'') s)))
                        else (s, None));
          z = (case zone of None \<Rightarrow> [] | Some z \<Rightarrow> z);
          s1 = (if prefix ''::'' s0 then drop 2 s0 else s0);
          el = (if prefix ''::'' s0 then Some 0 else None)
      in if zone = Some [] then None
         else if prefix ''::'' s0 \<and> s1 = [] then Some (V6 0 z)
         else (case ipv6_loop 8 s1 [] el of
                 None \<Rightarrow> None
               | Some (rest, gs, e) \<Rightarrow>
                   if rest \<noteq> [] then None
                   else if length gs < 8 then
                     (case e of None \<Rightarrow> None
                      | Some k \<Rightarrow> Some (V6 (of_groups (take k gs @ replicate (8 - length gs) 0 @ drop k gs)) z))
                   else if e \<noteq> None then None
                   else Some (V6 (of_groups gs) z)))"

text \<open>\<open>netip.ParseAddr\<close>: the first of \<open>.\<close>, \<open>:\<close> and \<open>%\<close> decides.\<close>

definition ParseAddr :: "string \<Rightarrow> addr option" where
  "ParseAddr s =
     (case dropWhile (\<lambda>c. c \<notin> {CHR ''.'', CHR '':'', CHR ''%''}) s of
        [] \<Rightarrow> None
      | c # _ \<Rightarrow> if c = CHR ''.'' then map_option (V4 \<circ> of_octets) (parse_ipv4_fields s)
                 else if c = CHR '':'' then parse_ipv6 s
                 else None)"

section \<open>Operations on addresses\<close>

definition is4in6 :: "128 word \<Rightarrow> bool" where
  "is4in6 a \<longleftrightarrow> drop_bit 32 a = 0xFFFF"

fun Unmap :: "addr \<Rightarrow> addr" where
  "Unmap (V4 a) = V4 a"
| "Unmap (V6 a z) = (if is4in6 a then V4 (ucast a) else V6 a z)"

fun Is4 :: "addr \<Rightarrow> bool" where
  "Is4 (V4 a) = True"
| "Is4 (V6 a z) = False"

fun BitLen :: "addr \<Rightarrow> nat" where
  "BitLen (V4 a) = 32"
| "BitLen (V6 a z) = 128"

fun withoutZone :: "addr \<Rightarrow> addr" where
  "withoutZone (V4 a) = V4 a"
| "withoutZone (V6 a z) = V6 a []"

fun IsUnspecified :: "addr \<Rightarrow> bool" where
  "IsUnspecified (V4 a) = (a = 0)"
| "IsUnspecified (V6 a z) = (a = 0 \<and> z = [])"

fun IsLoopback :: "addr \<Rightarrow> bool" where
  "IsLoopback (V4 a) = (drop_bit 24 a = 127)"
| "IsLoopback (V6 a z) = (if is4in6 a then drop_bit 24 (ucast a :: 32 word) = 127 else a = 1)"

fun IsMulticast :: "addr \<Rightarrow> bool" where
  "IsMulticast (V4 a) = (drop_bit 28 a = 14)"
| "IsMulticast (V6 a z) = (if is4in6 a then drop_bit 28 (ucast a :: 32 word) = 14 else drop_bit 120 a = 255)"

section \<open>Printing\<close>

definition hex_lower :: "nat \<Rightarrow> char" where
  "hex_lower d = (if d < 10 then char_of (48 + d) else char_of (87 + d))"

fun itohex :: "nat \<Rightarrow> string" where
  "itohex n = (if n < 16 then [hex_lower n] else itohex (n div 16) @ [hex_lower (n mod 16)])"

definition ipv4_string :: "32 word \<Rightarrow> string" where
  "ipv4_string a = Join (map itoa (octets a)) ''.''"

text \<open>The longest run of zero fields, at least two long, the first of equals.\<close>

definition zero_run :: "nat list \<Rightarrow> nat \<Rightarrow> nat" where
  "zero_run gs i = length (takeWhile (\<lambda>g. g = 0) (drop i gs))"

definition best_run :: "nat list \<Rightarrow> nat \<times> nat" where
  "best_run gs = foldl (\<lambda>(st, len) i. if 2 \<le> zero_run gs i \<and> len < zero_run gs i then (i, zero_run gs i) else (st, len))
     (length gs, 0) [0..<length gs]"

definition ipv6_string :: "128 word \<Rightarrow> string" where
  "ipv6_string a =
     (let gs = groups a; (st, len) = best_run gs
      in if len = 0 then Join (map itohex gs) '':''
         else Join (map itohex (take st gs)) '':'' @ ''::'' @ Join (map itohex (drop (st + len) gs)) '':'')"

fun addr_string :: "addr \<Rightarrow> string" where
  "addr_string (V4 a) = ipv4_string a"
| "addr_string (V6 a z) =
     (if is4in6 a then ''::ffff:'' @ ipv4_string (ucast a) else ipv6_string a)
     @ (if z = [] then [] else ''%'' @ z)"

section \<open>Prefixes\<close>

type_synonym prefix = "addr \<times> nat"

text \<open>\<open>netip.ParsePrefix\<close>\<close>

definition ParsePrefix :: "string \<Rightarrow> prefix option" where
  "ParsePrefix s =
     (if CHR ''/'' \<notin> set s then None
      else let bitsStr = rev (takeWhile (\<lambda>c. c \<noteq> CHR ''/'') (rev s));
               ipStr = rev (tl (dropWhile (\<lambda>c. c \<noteq> CHR ''/'') (rev s)))
           in case ParseAddr ipStr of
                None \<Rightarrow> None
              | Some ip \<Rightarrow>
                  (if withoutZone ip \<noteq> ip then None
                   else if 1 < length bitsStr \<and> \<not> (is_digit (hd bitsStr) \<and> hd bitsStr \<noteq> CHR ''0'') then None
                   else (case Atoi bitsStr of
                           None \<Rightarrow> None
                         | Some bits \<Rightarrow> if bits < 0 \<or> int (BitLen ip) < bits then None else Some (ip, nat bits))))"

definition prefix_string :: "prefix \<Rightarrow> string" where
  "prefix_string p = addr_string (fst p) @ ''/'' @ itoa (snd p)"

text \<open>\<open>Prefix.Masked\<close>: the bits after the prefix length are cleared.\<close>

fun Masked :: "prefix \<Rightarrow> prefix" where
  "Masked (V4 a, b) = (V4 (push_bit (32 - b) (drop_bit (32 - b) a)), b)"
| "Masked (V6 a z, b) = (V6 (push_bit (128 - b) (drop_bit (128 - b) a)) [], b)"

text \<open>\<open>netip.PrefixFrom\<close> for a length that fits the address.\<close>

definition PrefixFrom :: "addr \<Rightarrow> nat \<Rightarrow> prefix" where
  "PrefixFrom ip bits = (withoutZone ip, bits)"

text \<open>\<open>net.IPMask.Size\<close> of a four-byte mask: the number of leading ones when the rest is zero.\<close>

definition mask_ones :: "32 word \<Rightarrow> nat option" where
  "mask_ones m = find (\<lambda>n. m = push_bit (32 - n) (mask n)) [0..<33]"

section \<open>Lemmas\<close>

lemma of_octets_octets: "of_octets (octets a) = a"
proof -
  let ?n = "unat a"
  have eq: "256 * (256 * (256 * (?n div 2 ^ 24) + ?n div 2 ^ 16 mod 256) + ?n div 2 ^ 8 mod 256) + ?n mod 256 = ?n"
  proof -
    have "256 * (?n div 2 ^ 24) + ?n div 2 ^ 16 mod 256 = ?n div 2 ^ 16"
      using mult_div_mod_eq [of 256 "?n div 2 ^ 16"] by (simp add: div_mult2_eq [symmetric])
    moreover have "256 * (?n div 2 ^ 16) + ?n div 2 ^ 8 mod 256 = ?n div 2 ^ 8"
      using mult_div_mod_eq [of 256 "?n div 2 ^ 8"] by (simp add: div_mult2_eq [symmetric])
    ultimately show ?thesis
      using mult_div_mod_eq [of 256 ?n] by simp
  qed
  then show ?thesis
    by (simp add: of_octets_def octets_def)
qed

lemma octets_bound: "n \<in> set (octets a) \<Longrightarrow> n \<le> 255"
proof -
  have "unat a < 2 ^ 32"
    using unsigned_less [of a, where ?'a = nat] by simp
  then have "unat a div 2 ^ 24 < 2 ^ 8" by (simp add: less_mult_imp_div_less)
  then show "n \<in> set (octets a) \<Longrightarrow> n \<le> 255"
    by (auto simp: octets_def)
qed

lemma parse_octet_itoa: "n \<le> 255 \<Longrightarrow> parse_octet (itoa n) = Some n"
proof -
  have "length (itoa 0) = 1" by (simp add: itoa_small)
  then have "1 < length (itoa n) \<Longrightarrow> hd (itoa n) \<noteq> CHR ''0''"
    using itoa_first_not_zero [of n] by (cases "n = 0") auto
  then show "n \<le> 255 \<Longrightarrow> parse_octet (itoa n) = Some n"
    by (auto simp: parse_octet_def)
qed

lemma dot_not_in_itoa [simp]: "CHR ''.'' \<notin> set (itoa n)" "CHR '':'' \<notin> set (itoa n)"
  "CHR ''/'' \<notin> set (itoa n)" "CHR ''%'' \<notin> set (itoa n)"
  by (auto intro!: not_in_itoa simp: is_digit_def)

lemma parse_ipv4_string: "parse_ipv4_fields (ipv4_string a) = Some (octets a)"
proof -
  obtain p q r s where o: "octets a = [p, q, r, s]" by (simp add: octets_def)
  have le: "p \<le> 255" "q \<le> 255" "r \<le> 255" "s \<le> 255"
    using octets_bound [of _ a] by (auto simp: o)
  have "Split (CHR ''.'') (ipv4_string a) = map itoa (octets a)"
    by (simp add: ipv4_string_def o Split_append_sep Split_no_sep)
  then show ?thesis
    by (simp add: parse_ipv4_fields_def o parse_octet_itoa le)
qed

lemma ipv4_string_dot: "\<exists>xs. dropWhile (\<lambda>c. c \<notin> {CHR ''.'', CHR '':'', CHR ''%''}) (ipv4_string a) = CHR ''.'' # xs"
proof -
  obtain p q r s where o: "octets a = [p, q, r, s]" by (simp add: octets_def)
  have "dropWhile (\<lambda>c. c \<notin> {CHR ''.'', CHR '':'', CHR ''%''}) (itoa p @ CHR ''.'' # xs) = CHR ''.'' # xs" for xs
    by (subst dropWhile_append2) (use not_in_itoa [of _ p] in \<open>auto simp: is_digit_def\<close>)
  then show ?thesis by (auto simp: ipv4_string_def o)
qed

theorem ParseAddr_ipv4_string: "ParseAddr (ipv4_string a) = Some (V4 a)"
  using ipv4_string_dot [of a] by (auto simp: ParseAddr_def parse_ipv4_string of_octets_octets)

lemma ipv4_string_chars: "c \<in> set (ipv4_string a) \<Longrightarrow> is_digit c \<or> c = CHR ''.''"
proof -
  obtain p q r s where o: "octets a = [p, q, r, s]" by (simp add: octets_def)
  show "c \<in> set (ipv4_string a) \<Longrightarrow> is_digit c \<or> c = CHR ''.''"
    using itoa_digits by (auto simp: ipv4_string_def o list_all_iff)
qed

lemma Atoi_itoa: "n < 2 ^ 63 \<Longrightarrow> Atoi (itoa n) = Some (int n)"
proof -
  assume n: "n < 2 ^ 63"
  obtain c cs where i: "itoa n = c # cs" by (cases "itoa n") auto
  have "is_digit c" using itoa_digits [of n] by (simp add: i)
  then have "c \<noteq> CHR ''-''" "c \<noteq> CHR ''+''" by (auto simp: is_digit_def)
  moreover have "int n < 2 ^ 63" using n by simp
  ultimately show ?thesis
    using parse_nat_itoa [of n] by (simp add: Atoi_def i)
qed

lemma ParsePrefix_ipv4:
  assumes "b \<le> 32"
  shows "ParsePrefix (prefix_string (V4 a, b)) = Some (V4 a, b)"
proof -
  have tw: "takeWhile (\<lambda>c. c \<noteq> CHR ''/'') (rev (itoa b) @ CHR ''/'' # rev (ipv4_string a)) = rev (itoa b)"
    by (subst takeWhile_append2) auto
  have dw: "dropWhile (\<lambda>c. c \<noteq> CHR ''/'') (rev (itoa b) @ CHR ''/'' # rev (ipv4_string a)) = CHR ''/'' # rev (ipv4_string a)"
    by (subst dropWhile_append2) auto
  have hd: "is_digit (hd (itoa b))"
    using itoa_digits [of b] by (cases "itoa b") auto
  have lz: "1 < length (itoa b) \<Longrightarrow> hd (itoa b) \<noteq> CHR ''0''"
    using itoa_first_not_zero [of b] by (cases "b = 0") (auto simp: itoa_small)
  have "Atoi (itoa b) = Some (int b)"
    using assms by (intro Atoi_itoa) simp
  then show ?thesis
    using assms hd lz by (auto simp: ParsePrefix_def prefix_string_def tw dw ParseAddr_ipv4_string Let_def)
qed

lemma Masked_idem [simp]: "Masked (Masked p) = Masked p"
  by (cases p rule: Masked.cases)
    (auto intro!: bit_eqI simp: bit_simps)

text \<open>Evaluation of closed IPv4 texts by the simplifier.\<close>

lemmas ipv4_eval = ParseAddr_def ParsePrefix_def of_octets_def parse_ipv4_fields_def parse_octet_def parse_nat_def
  is_digit_def digit_val_def Atoi_def Let_def

lemmas ipv4_print_eval = prefix_string_def ipv4_string_def octets_def itoa.simps

lemmas mask_eval = mask_ones_def upt_rec mask_eq_exp_minus_1

end
