(* ===== verification/Router.thy ===== *)
theory Router
  imports Types Netip
begin

text \<open>
  Route planning. \<open>internal/osnet/types.go\<close>: parsing of route and address lists and the set
  difference the platform managers synchronise with; \<open>internal/router/planner.go\<close>: the merge of
  server and local route lists that both the daemon's report (\<open>Plan\<close>) and the installed routes
  (\<open>MergeRouteLists\<close>) come from.
\<close>

section \<open>internal/osnet/types.go\<close>

text \<open>\<open>net.ParseIP(s).To4()\<close>\<close>

definition ParseIP_To4 :: "string \<Rightarrow> 32 word option" where
  "ParseIP_To4 s = (case ParseAddr s of
      None \<Rightarrow> None
    | Some ip \<Rightarrow> if withoutZone ip \<noteq> ip then None else (case Unmap ip of V4 a \<Rightarrow> Some a | V6 _ _ \<Rightarrow> None))"

text \<open>\<open>func PrefixFromIPMask\<close>: the address keeps its host bits.\<close>

definition PrefixFromIPMask :: "string \<Rightarrow> string \<Rightarrow> Netip.prefix option" where
  "PrefixFromIPMask ip m =
     (case ParseAddr (TrimSpace ip) of
        None \<Rightarrow> None
      | Some a \<Rightarrow> (case ParseIP_To4 (TrimSpace m) of
            None \<Rightarrow> None
          | Some pm \<Rightarrow> (case mask_ones pm of None \<Rightarrow> None | Some ones \<Rightarrow> Some (PrefixFrom (Unmap a) ones))))"

text \<open>\<open>func ParsePrefix\<close>\<close>

definition osnet_ParsePrefix :: "string \<Rightarrow> Netip.prefix option" where
  "osnet_ParsePrefix raw0 =
     (let raw = TrimSpace raw0
      in if raw = [] then None
         else if CHR ''/'' \<in> set raw then
           (let parts = Split (CHR ''/'') raw
            in if length parts \<noteq> 2 then None
               else if CHR ''.'' \<in> set (parts ! 1) then PrefixFromIPMask (parts ! 0) (parts ! 1)
               else map_option Masked (Netip.ParsePrefix raw))
         else (case ParseAddr raw of None \<Rightarrow> None
               | Some a \<Rightarrow> Some (PrefixFrom (Unmap a) (BitLen (Unmap a)))))"

text \<open>\<open>func ParsePrefixes\<close>, \<open>func ParseAddrs\<close>: blanks are skipped, the first bad value fails the list.\<close>

fun ParsePrefixes :: "string list \<Rightarrow> Netip.prefix list option" where
  "ParsePrefixes [] = Some []"
| "ParsePrefixes (v # vs) =
     (if TrimSpace v = [] then ParsePrefixes vs
      else (case osnet_ParsePrefix (TrimSpace v) of
              None \<Rightarrow> None
            | Some p \<Rightarrow> map_option ((#) p) (ParsePrefixes vs)))"

fun ParseAddrs :: "string list \<Rightarrow> addr list option" where
  "ParseAddrs [] = Some []"
| "ParseAddrs (v # vs) =
     (if TrimSpace v = [] then ParseAddrs vs
      else (case ParseAddr (TrimSpace v) of
              None \<Rightarrow> None
            | Some a \<Rightarrow> map_option ((#) (Unmap a)) (ParseAddrs vs)))"

definition PrefixStrings :: "Netip.prefix list \<Rightarrow> string list" where
  "PrefixStrings ps = map (prefix_string \<circ> Masked) ps"

definition AddrStrings :: "addr list \<Rightarrow> string list" where
  "AddrStrings as = map (addr_string \<circ> Unmap) as"

text \<open>\<open>func DiffPrefixes\<close>: the maps of owned prefixes are the lists of their keys.\<close>

fun diff_add :: "Netip.prefix list \<Rightarrow> Netip.prefix list \<Rightarrow> Netip.prefix list \<Rightarrow> Netip.prefix list
    \<Rightarrow> Netip.prefix list \<times> Netip.prefix list" where
  "diff_add old [] add state = (add, state)"
| "diff_add old (p # ps) add state =
     (let q = Masked p
      in if q \<in> set state then diff_add old ps add state
         else diff_add old ps (if q \<in> set old then add else add @ [q]) (state @ [q]))"

definition DiffPrefixes :: "Netip.prefix list \<Rightarrow> Netip.prefix list
    \<Rightarrow> Netip.prefix list \<times> Netip.prefix list \<times> Netip.prefix list" where
  "DiffPrefixes old nxt =
     (let (add, state) = diff_add old nxt [] []
      in (add, filter (\<lambda>p. p \<notin> set state) old, state))"

text \<open>\<open>func withoutPrefixes\<close>\<close>

definition withoutPrefixes :: "Netip.prefix list \<Rightarrow> Netip.prefix list \<Rightarrow> Netip.prefix list" where
  "withoutPrefixes ps removed =
     (if ps = [] \<or> removed = [] then ps
      else filter (\<lambda>p. Masked p \<notin> set (map Masked removed)) ps)"

section \<open>internal/router/planner.go\<close>

record mergedRoute =
  mr_destination :: string
  mr_action :: string
  mr_metric :: int
  mr_source :: string

record RouteLists =
  rl_Include :: "string list"
  rl_Exclude :: "string list"

text \<open>\<open>func normalizeDestination\<close>\<close>

definition normalizeDestination :: "string \<Rightarrow> string" where
  "normalizeDestination raw0 =
     (let raw = TrimSpace raw0
      in if raw = [] then [] else (case osnet_ParsePrefix raw of Some p \<Rightarrow> prefix_string p | None \<Rightarrow> raw))"

text \<open>The closure \<open>appendRoutes\<close> of \<open>mergeRoutes\<close>, with the two variables it captures as state.\<close>

type_synonym merge_state = "mergedRoute list \<times> (string \<rightharpoonup> nat)"

fun appendRoutes :: "string list \<Rightarrow> string \<Rightarrow> string \<Rightarrow> int \<Rightarrow> merge_state \<Rightarrow> merge_state" where
  "appendRoutes [] action source metric st = st"
| "appendRoutes (raw # vs) action source metric (routes, byDestination) =
     (let destination = normalizeDestination raw;
          entry = \<lparr>mr_destination = destination, mr_action = action, mr_metric = metric, mr_source = source\<rparr>
      in if destination = [] then appendRoutes vs action source metric (routes, byDestination)
         else (case byDestination destination of
             Some index \<Rightarrow> appendRoutes vs action source metric (routes[index := entry], byDestination)
           | None \<Rightarrow> appendRoutes vs action source metric
                       (routes @ [entry], byDestination(destination \<mapsto> length routes))))"

definition mergeRoutes :: "string list \<Rightarrow> string list \<Rightarrow> string list \<Rightarrow> string list \<Rightarrow> mergedRoute list" where
  "mergeRoutes serverInclude serverExclude localInclude localExclude =
     fst (appendRoutes localExclude ''exclude'' ''local'' 3
         (appendRoutes localInclude ''include'' ''local'' 4
         (appendRoutes serverExclude ''exclude'' ''server'' 5
         (appendRoutes serverInclude ''include'' ''server'' 6 ([], Map.empty)))))"

text \<open>\<open>DefaultPlanner.Plan\<close>\<close>

definition Plan :: "string list \<Rightarrow> string list \<Rightarrow> Profile \<Rightarrow> RouteSpec list" where
  "Plan serverInclude serverExclude profile =
     (let si = (if prof_AcceptServerRoutes profile then serverInclude else []);
          se = (if prof_AcceptServerRoutes profile then serverExclude else [])
      in map (\<lambda>r. \<lparr>rs_Destination = mr_destination r, rs_Action = mr_action r, rs_Metric = mr_metric r,
                  rs_Source = mr_source r, rs_Enabled = True\<rparr>)
           (mergeRoutes si se (prof_CustomInclude profile) (prof_CustomExclude profile)))"

text \<open>\<open>func MergeRouteLists\<close>\<close>

definition MergeRouteLists :: "string list \<Rightarrow> string list \<Rightarrow> string list \<Rightarrow> string list \<Rightarrow> RouteLists" where
  "MergeRouteLists serverInclude serverExclude localInclude localExclude =
     (let routes = mergeRoutes serverInclude serverExclude localInclude localExclude
      in \<lparr>rl_Include = map mr_destination (filter (\<lambda>r. mr_action r = ''include'') routes),
          rl_Exclude = map mr_destination (filter (\<lambda>r. mr_action r = ''exclude'') routes)\<rparr>)"

section \<open>What the merge computes\<close>

text \<open>The non-empty normal forms of a list, the destinations it asks for.\<close>

definition destinations :: "string list \<Rightarrow> string set" where
  "destinations vs = {d. d \<noteq> [] \<and> d \<in> normalizeDestination ` set vs}"

text \<open>The index map is exactly the position of each destination.\<close>

definition index_ok :: "merge_state \<Rightarrow> bool" where
  "index_ok st \<longleftrightarrow> (\<forall>d i. snd st d = Some i \<longleftrightarrow> (i < length (fst st) \<and> mr_destination (fst st ! i) = d))"

definition route_for :: "merge_state \<Rightarrow> string \<Rightarrow> mergedRoute option" where
  "route_for st d = map_option ((!) (fst st)) (snd st d)"

lemma index_ok_empty: "index_ok ([], Map.empty)"
  by (simp add: index_ok_def)

lemma index_ok_update:
  assumes "index_ok (rs, m)" "m d = Some i" "mr_destination e = d"
  shows "index_ok (rs[i := e], m)"
  using assms by (auto simp: index_ok_def nth_list_update)

lemma index_ok_snoc:
  assumes "index_ok (rs, m)" "m d = None" "mr_destination e = d"
  shows "index_ok (rs @ [e], m(d \<mapsto> length rs))"
  unfolding index_ok_def
proof (intro allI)
  fix d' i
  have old: "m d' = Some i \<longleftrightarrow> i < length rs \<and> mr_destination (rs ! i) = d'"
    using assms(1) by (simp add: index_ok_def)
  have new: "mr_destination (rs ! i) \<noteq> d" if "i < length rs"
    using assms(1,2) that unfolding index_ok_def by (metis fst_conv option.distinct(1) snd_conv)
  show "snd (rs @ [e], m(d \<mapsto> length rs)) d' = Some i \<longleftrightarrow>
      (i < length (fst (rs @ [e], m(d \<mapsto> length rs))) \<and> mr_destination (fst (rs @ [e], m(d \<mapsto> length rs)) ! i) = d')"
    using old new assms(3) by (cases "i < length rs"; cases "i = length rs") (auto simp: nth_append)
qed

lemma index_ok_less: "index_ok (rs, m) \<Longrightarrow> m d = Some i \<Longrightarrow> i < length rs"
  by (auto simp: index_ok_def)

text \<open>One pass of the loop body.\<close>

lemma appendRoutes_Cons:
  "appendRoutes (raw # vs) a s k (rs, m) =
     (let d = normalizeDestination raw; e = \<lparr>mr_destination = d, mr_action = a, mr_metric = k, mr_source = s\<rparr>
      in appendRoutes vs a s k
           (if d = [] then (rs, m)
            else case m d of Some i \<Rightarrow> (rs[i := e], m) | None \<Rightarrow> (rs @ [e], m(d \<mapsto> length rs))))"
  by (auto simp: Let_def split: option.splits)

lemma appendRoutes_step:
  assumes "index_ok (rs, m)" and "d \<noteq> []" and "mr_destination e = d"
    and "st = (case m d of Some i \<Rightarrow> (rs[i := e], m) | None \<Rightarrow> (rs @ [e], m(d \<mapsto> length rs)))"
  shows "index_ok st" and "route_for st d' = (if d' = d then Some e else route_for (rs, m) d')"
proof -
  show "index_ok st"
    using assms by (cases "m d") (auto intro: index_ok_update index_ok_snoc)
  show "route_for st d' = (if d' = d then Some e else route_for (rs, m) d')"
  proof (cases "m d")
    case None
    with assms(4) index_ok_less [OF assms(1), of d'] show ?thesis
      by (cases "m d'") (auto simp: route_for_def nth_append)
  next
    case (Some i)
    have "i < length rs" "d' \<noteq> d \<Longrightarrow> m d' \<noteq> Some i"
      using assms(1) Some by (auto simp: index_ok_def)
    with assms(4) Some show ?thesis
      by (cases "m d'") (auto simp: route_for_def)
  qed
qed

lemma appendRoutes_ok: "index_ok st \<Longrightarrow> index_ok (appendRoutes vs a s k st)"
proof (induction vs arbitrary: st)
  case (Cons raw vs)
  obtain rs m where "st = (rs, m)" by (cases st)
  with Cons appendRoutes_step(1) [of rs m "normalizeDestination raw", OF _ _ _ refl] show ?case
    by (simp add: appendRoutes_Cons Let_def del: appendRoutes.simps)
qed simp

lemma appendRoutes_route_for:
  "index_ok st \<Longrightarrow> route_for (appendRoutes vs a s k st) d =
     (if d \<in> destinations vs
      then Some \<lparr>mr_destination = d, mr_action = a, mr_metric = k, mr_source = s\<rparr>
      else route_for st d)"
proof (induction vs arbitrary: st)
  case (Cons raw vs)
  obtain rs m where st: "st = (rs, m)" by (cases st)
  have dest: "d \<in> destinations (raw # vs) \<longleftrightarrow> (d = normalizeDestination raw \<and> d \<noteq> []) \<or> d \<in> destinations vs"
    by (auto simp: destinations_def)
  show ?case
  proof (cases "normalizeDestination raw = []")
    case True
    with Cons dest st show ?thesis by (simp add: appendRoutes_Cons Let_def del: appendRoutes.simps)
  next
    case False
    let ?e = "\<lparr>mr_destination = normalizeDestination raw, mr_action = a, mr_metric = k, mr_source = s\<rparr>"
    let ?st = "case m (normalizeDestination raw) of Some i \<Rightarrow> (rs[i := ?e], m)
        | None \<Rightarrow> (rs @ [?e], m(normalizeDestination raw \<mapsto> length rs))"
    have "index_ok ?st" "route_for ?st d = (if d = normalizeDestination raw then Some ?e else route_for st d)"
      using appendRoutes_step(1) [of rs m "normalizeDestination raw" ?e ?st]
        appendRoutes_step(2) [of rs m "normalizeDestination raw" ?e ?st d] Cons.prems False st by auto
    with Cons.IH [of ?st] dest False st show ?thesis
      by (auto simp: appendRoutes_Cons Let_def simp del: appendRoutes.simps)
  qed
qed (simp add: destinations_def)

text \<open>The merge as a table: the last list that names a destination decides it.\<close>

definition decided :: "string list \<Rightarrow> string list \<Rightarrow> string list \<Rightarrow> string list \<Rightarrow> string \<Rightarrow> mergedRoute option" where
  "decided si se li le d =
     (if d \<in> destinations le then Some \<lparr>mr_destination = d, mr_action = ''exclude'', mr_metric = 3, mr_source = ''local''\<rparr>
      else if d \<in> destinations li then Some \<lparr>mr_destination = d, mr_action = ''include'', mr_metric = 4, mr_source = ''local''\<rparr>
      else if d \<in> destinations se then Some \<lparr>mr_destination = d, mr_action = ''exclude'', mr_metric = 5, mr_source = ''server''\<rparr>
      else if d \<in> destinations si then Some \<lparr>mr_destination = d, mr_action = ''include'', mr_metric = 6, mr_source = ''server''\<rparr>
      else None)"

lemma index_ok_nth: "index_ok (rs, m) \<Longrightarrow> i < length rs \<Longrightarrow> m (mr_destination (rs ! i)) = Some i"
  by (auto simp: index_ok_def)

lemma index_ok_set: "index_ok (rs, m) \<Longrightarrow> r \<in> set rs \<longleftrightarrow> route_for (rs, m) (mr_destination r) = Some r"
  by (auto simp: route_for_def in_set_conv_nth index_ok_nth) (auto simp: index_ok_def)

lemma index_ok_distinct: "index_ok (rs, m) \<Longrightarrow> distinct (map mr_destination rs)"
  by (auto simp: distinct_conv_nth) (metis index_ok_nth option.inject)

lemma mergeRoutes_state:
  obtains m where "index_ok (mergeRoutes si se li le, m)"
    and "\<And>d. route_for (mergeRoutes si se li le, m) d = decided si se li le d"
proof -
  let ?st = "appendRoutes le ''exclude'' ''local'' 3 (appendRoutes li ''include'' ''local'' 4
         (appendRoutes se ''exclude'' ''server'' 5 (appendRoutes si ''include'' ''server'' 6 ([], Map.empty))))"
  have "index_ok (fst ?st, snd ?st)"
    by (simp add: appendRoutes_ok index_ok_empty)
  moreover have "route_for (fst ?st, snd ?st) d = decided si se li le d" for d
    by (auto simp: appendRoutes_route_for appendRoutes_ok index_ok_empty decided_def)
      (simp add: route_for_def)
  ultimately show thesis
    using that [of "snd ?st"] by (simp add: mergeRoutes_def)
qed

lemma mergeRoutes_iff: "r \<in> set (mergeRoutes si se li le) \<longleftrightarrow> decided si se li le (mr_destination r) = Some r"
  by (rule mergeRoutes_state [of si se li le]) (simp add: index_ok_set)

lemma mergeRoutes_distinct: "distinct (map mr_destination (mergeRoutes si se li le))"
  by (rule mergeRoutes_state [of si se li le]) (simp add: index_ok_distinct)

lemma decided_destination: "decided si se li le d = Some r \<Longrightarrow> mr_destination r = d"
  by (auto simp: decided_def split: if_splits)

lemma set_filter_merge:
  "mr_destination ` {r \<in> set (mergeRoutes si se li le). P r} = {d. \<exists>r. decided si se li le d = Some r \<and> P r}"
proof -
  have "d \<in> mr_destination ` {r \<in> set (mergeRoutes si se li le). P r} \<longleftrightarrow>
      (\<exists>r. decided si se li le d = Some r \<and> P r)" for d
    by (auto simp: mergeRoutes_iff image_iff dest: decided_destination)
  then show ?thesis by blast
qed

text \<open>C22: the merge keeps one route per destination, and for every destination the route is the one
  of the last list that names it, in the order server include, server exclude, local include, local
  exclude: local configuration always wins over the server, and exclusion over inclusion.\<close>

theorem mergeRoutes_precedence:
  "distinct (map mr_destination (mergeRoutes si se li le)) \<and>
   (\<forall>r. r \<in> set (mergeRoutes si se li le) \<longleftrightarrow> decided si se li le (mr_destination r) = Some r)"
  by (simp add: mergeRoutes_distinct mergeRoutes_iff)

text \<open>The included and excluded destinations of a merge.\<close>

lemma Include_set: "set (rl_Include (MergeRouteLists si se li le)) =
    (destinations li - destinations le) \<union> (destinations si - destinations se - destinations li - destinations le)"
  by (auto simp: MergeRouteLists_def Let_def set_filter_merge decided_def split: if_splits)

lemma Exclude_set: "set (rl_Exclude (MergeRouteLists si se li le)) =
    destinations le \<union> (destinations se - destinations li)"
  by (auto simp: MergeRouteLists_def Let_def set_filter_merge decided_def split: if_splits)

text \<open>The same for the planner's report.\<close>

definition planned :: "string \<Rightarrow> RouteSpec list \<Rightarrow> string set" where
  "planned action rs = rs_Destination ` {r \<in> set rs. rs_Action r = action}"

lemma planned_Plan:
  "planned a (Plan si se p) = {d. \<exists>r. decided (if prof_AcceptServerRoutes p then si else [])
     (if prof_AcceptServerRoutes p then se else []) (prof_CustomInclude p) (prof_CustomExclude p) d = Some r \<and> mr_action r = a}"
  unfolding set_filter_merge [symmetric] planned_def Plan_def Let_def by force

text \<open>A destination text is stable when normalising it again changes nothing.\<close>

definition stable :: "string \<Rightarrow> bool" where
  "stable raw \<longleftrightarrow> normalizeDestination (normalizeDestination raw) = normalizeDestination raw"

lemma destinations_of_normal: "(\<And>d. d \<in> A \<Longrightarrow> d \<noteq> [] \<and> normalizeDestination d = d) \<Longrightarrow> set vs = A \<Longrightarrow> destinations vs = A"
  by (force simp: destinations_def)

lemma destinations_stable: "d \<in> destinations vs \<Longrightarrow> (\<forall>v \<in> set vs. stable v) \<Longrightarrow> d \<noteq> [] \<and> normalizeDestination d = d"
  by (auto simp: destinations_def stable_def)


text \<open>Evaluated normal forms, for the concrete instances below.\<close>

lemma trim_examples:
  "TrimSpace ''10.0.0.0/8'' = ''10.0.0.0/8''" "TrimSpace ''192.168.1.0/24'' = ''192.168.1.0/24''"
  "TrimSpace ''10.1.2.3/255.255.255.0'' = ''10.1.2.3/255.255.255.0''" "TrimSpace ''10.1.2.0/24'' = ''10.1.2.0/24''"
  "TrimSpace ''10.1.2.3/24'' = ''10.1.2.3/24''" "TrimSpace ''10.1.2.3'' = ''10.1.2.3''"
  "TrimSpace ''255.255.255.0'' = ''255.255.255.0''"
  by (simp_all add: TrimSpace_id space_runes_def)

lemma parse_examples:
  "osnet_ParsePrefix ''10.0.0.0/8'' = Some (V4 0x0A000000, 8)"
  "osnet_ParsePrefix ''192.168.1.0/24'' = Some (V4 0xC0A80100, 24)"
  "osnet_ParsePrefix ''10.1.2.0/24'' = Some (V4 0x0A010200, 24)"
  "osnet_ParsePrefix ''10.1.2.3/24'' = Some (V4 0x0A010200, 24)"
  by (simp_all add: osnet_ParsePrefix_def trim_examples ipv4_eval)

lemma parse_dotted_example: "osnet_ParsePrefix ''10.1.2.3/255.255.255.0'' = Some (V4 0x0A010203, 24)"
proof -
  have "ParseAddr ''10.1.2.3'' = Some (V4 0x0A010203)" "ParseAddr ''255.255.255.0'' = Some (V4 0xFFFFFF00)"
    by (simp_all add: ipv4_eval)
  moreover have "mask_ones 0xFFFFFF00 = Some 24" by (simp add: mask_eval)
  ultimately show ?thesis
    by (simp add: osnet_ParsePrefix_def PrefixFromIPMask_def ParseIP_To4_def PrefixFrom_def trim_examples Let_def)
qed

lemma normal_examples:
  "normalizeDestination ''10.0.0.0/8'' = ''10.0.0.0/8''"
  "normalizeDestination ''192.168.1.0/24'' = ''192.168.1.0/24''"
  "normalizeDestination ''10.1.2.3/255.255.255.0'' = ''10.1.2.3/24''"
  "normalizeDestination ''10.1.2.0/24'' = ''10.1.2.0/24''"
  by (simp_all add: normalizeDestination_def trim_examples parse_examples parse_dotted_example ipv4_print_eval)


section \<open>The set difference of the platform managers\<close>

lemma diff_add_spec:
  assumes "diff_add old ps add state = (add', state')" "distinct add" "set add = set state - set old"
  shows "set state' = set state \<union> Masked ` set ps \<and> distinct add' \<and> set add' = set state' - set old"
  using assms
proof (induction ps arbitrary: add state)
  case (Cons p ps)
  show ?case
  proof (cases "Masked p \<in> set state")
    case True
    with Cons.prems have "diff_add old ps add state = (add', state')" by (simp add: Let_def)
    from Cons.IH [OF this] Cons.prems True show ?thesis by auto
  next
    case False
    let ?add = "if Masked p \<in> set old then add else add @ [Masked p]"
    from False Cons.prems have "diff_add old ps ?add (state @ [Masked p]) = (add', state')" by (simp add: Let_def)
    moreover have "distinct ?add" "set ?add = set (state @ [Masked p]) - set old"
      using Cons.prems False by (cases "Masked p \<in> set old"; force)+
    ultimately have "set state' = set (state @ [Masked p]) \<union> Masked ` set ps \<and> distinct add' \<and> set add' = set state' - set old"
      by (rule Cons.IH)
    then show ?thesis by auto
  qed
qed simp

text \<open>\<open>DiffPrefixes\<close> computes a correct update. The new state is the set of masked prefixes asked for,
  \<open>add\<close> lists without repetition exactly what is missing, \<open>del\<close> exactly what is no longer wanted, and
  applying both to the old set gives the new state.\<close>

theorem DiffPrefixes_correct:
  "case DiffPrefixes old nxt of (add, del, state) \<Rightarrow>
     set state = Masked ` set nxt \<and> distinct add \<and> set add = set state - set old \<and>
     set del = set old - set state \<and> (set old \<union> set add) - set del = set state"
proof -
  obtain add state where d: "diff_add old nxt [] [] = (add, state)" by fastforce
  from diff_add_spec [OF d] have "set state = Masked ` set nxt" "distinct add" "set add = set state - set old"
    by simp_all
  then show ?thesis by (auto simp: DiffPrefixes_def d)
qed

section \<open>Destinations are not always canonical\<close>

text \<open>A server route given with a dotted netmask and host bits set keeps those bits, so a local
  exclusion of the same network does not replace it: the merge returns both an inclusion and an
  exclusion of \<open>10.1.2.0/24\<close>.\<close>

theorem dotted_mask_route_not_overridden:
  "map mr_destination (mergeRoutes [''10.1.2.3/255.255.255.0''] [] [] [''10.1.2.0/24'']) = [''10.1.2.3/24'', ''10.1.2.0/24''] \<and>
   map mr_action (mergeRoutes [''10.1.2.3/255.255.255.0''] [] [] [''10.1.2.0/24'']) = [''include'', ''exclude''] \<and>
   map_option Masked (osnet_ParsePrefix ''10.1.2.3/24'') = osnet_ParsePrefix ''10.1.2.0/24'' \<and>
   osnet_ParsePrefix ''10.1.2.0/24'' \<noteq> None"
  by (simp add: mergeRoutes_def Let_def normal_examples parse_examples)

end
