(* ===== verification/Profileio.thy ===== *)
theory Profileio
  imports Types Netip
begin

text \<open>
  \<open>internal/profileio/profileio.go\<close>: normalisation and validation of profiles.

  \<open>net/url.Parse\<close> is an argument \<open>U\<close> of the definitions: the theorems hold for every parser.
  A parsed URL carries the parts the program reads; \<open>Hostname\<close> and \<open>Port\<close> are computed from the
  host part as the package does. The texts of validation errors that quote the offending value are
  kept up to the quoted value.
\<close>

record url =
  u_Scheme :: string
  u_Opaque :: string
  u_HasUser :: bool
  u_Host :: string
  u_RawQuery :: string
  u_Fragment :: string
  u_ForceQuery :: bool

type_synonym urlparser = "string \<Rightarrow> error + url"

section \<open>net/url and net helpers\<close>

definition validOptionalPort :: "string \<Rightarrow> bool" where
  "validOptionalPort s \<longleftrightarrow> s = [] \<or> (hd s = CHR '':'' \<and> list_all is_digit (tl s))"

text \<open>Split at the last colon.\<close>

definition last_colon :: "string \<Rightarrow> (string \<times> string) option" where
  "last_colon s = (if CHR '':'' \<in> set s
     then Some (rev (tl (dropWhile (\<lambda>c. c \<noteq> CHR '':'') (rev s))), rev (takeWhile (\<lambda>c. c \<noteq> CHR '':'') (rev s)))
     else None)"

definition url_split :: "string \<Rightarrow> string \<times> string" where
  "url_split hostPort =
     (let (host, port) = (case last_colon hostPort of
             None \<Rightarrow> (hostPort, [])
           | Some (h, p) \<Rightarrow> if validOptionalPort (CHR '':'' # p) then (h, p) else (hostPort, []))
      in (if host \<noteq> [] \<and> hd host = CHR ''['' \<and> last host = CHR '']'' then butlast (tl host) else host, port))"

definition Hostname :: "url \<Rightarrow> string" where
  "Hostname u = fst (url_split (u_Host u))"

definition Port :: "url \<Rightarrow> string" where
  "Port u = snd (url_split (u_Host u))"

text \<open>\<open>net.SplitHostPort\<close>\<close>

definition SplitHostPort :: "string \<Rightarrow> (string \<times> string) option" where
  "SplitHostPort hp =
     (case last_colon hp of
        None \<Rightarrow> None
      | Some (h, port) \<Rightarrow>
          if hd hp = CHR ''['' then
            (if CHR '']'' \<notin> set hp then None
             else let host = takeWhile (\<lambda>c. c \<noteq> CHR '']'') (tl hp);
                      after = tl (dropWhile (\<lambda>c. c \<noteq> CHR '']'') hp)
                  in if after = CHR '':'' # port \<and> CHR ''['' \<notin> set (tl hp) \<and> CHR '']'' \<notin> set after
                     then Some (host, port) else None)
          else if CHR '':'' \<in> set h then None
          else if CHR ''['' \<in> set hp \<or> CHR '']'' \<in> set hp then None
          else Some (h, port))"

section \<open>Normalisation\<close>

text \<open>\<open>func normalizeList\<close>: trim, drop blanks and later repetitions.\<close>

fun normalizeList_loop :: "string list \<Rightarrow> string set \<Rightarrow> string list \<Rightarrow> string list" where
  "normalizeList_loop [] seen out = out"
| "normalizeList_loop (v # vs) seen out =
     (let value = TrimSpace v
      in if value = [] \<or> value \<in> seen then normalizeList_loop vs seen out
         else normalizeList_loop vs (insert value seen) (out @ [value]))"

definition normalizeList :: "string list \<Rightarrow> string list" where
  "normalizeList values = normalizeList_loop values {} []"

text \<open>\<open>func NormalizeServerURL\<close>\<close>

definition NormalizeServerURL :: "string \<Rightarrow> string" where
  "NormalizeServerURL v0 =
     (let v = TrimSpace v0
      in if v = [] then [] else if Contains v ''://'' then v else ''https://'' @ v)"

text \<open>\<open>func DefaultProfileName\<close>\<close>

definition DefaultProfileName :: "urlparser \<Rightarrow> string \<Rightarrow> string \<Rightarrow> string" where
  "DefaultProfileName U serverURL username0 =
     (let host0 = (case U serverURL of Inr parsed \<Rightarrow> if u_Host parsed \<noteq> [] then u_Host parsed else serverURL
                   | Inl _ \<Rightarrow> serverURL);
          host = TrimSpace host0;
          username = TrimSpace username0
      in if username \<noteq> [] \<and> host \<noteq> [] then username @ ''@'' @ host
         else if host \<noteq> [] then host
         else if username \<noteq> [] then username
         else ''Profile'')"

text \<open>\<open>func NormalizeProfile\<close>\<close>

definition NormalizeProfile :: "urlparser \<Rightarrow> Profile \<Rightarrow> Profile" where
  "NormalizeProfile U p0 =
     (let p1 = p0\<lparr>prof_Name := TrimSpace (prof_Name p0), prof_Username := TrimSpace (prof_Username p0),
                 prof_Group := TrimSpace (prof_Group p0), prof_ServerURL := NormalizeServerURL (prof_ServerURL p0),
                 prof_CustomInclude := normalizeList (prof_CustomInclude p0),
                 prof_CustomExclude := normalizeList (prof_CustomExclude p0),
                 prof_DNSOverrides := normalizeList (prof_DNSOverrides p0),
                 prof_SOCKS5Listen := TrimSpace (prof_SOCKS5Listen p0)\<rparr>;
          p2 = (if prof_Name p1 = [] then p1\<lparr>prof_Name := DefaultProfileName U (prof_ServerURL p1) (prof_Username p1)\<rparr> else p1);
          p3 = (if prof_AutoReconnect p2 = None then p2\<lparr>prof_AutoReconnect := Some False\<rparr> else p2)
      in if prof_ApplyDNS p3 = None then p3\<lparr>prof_ApplyDNS := Some True\<rparr> else p3)"

section \<open>Validation\<close>

text \<open>\<open>func validateText\<close>\<close>

definition validateText :: "string \<Rightarrow> string \<Rightarrow> bool \<Rightarrow> nat \<Rightarrow> error option" where
  "validateText field value0 required maximum =
     (let value = TrimSpace value0
      in if required \<and> value = [] then Some (Errors (field @ '' is required''))
         else if maximum < length value then Some (Errors (field @ '' exceeds '' @ itoa maximum @ '' bytes''))
         else if \<exists>c \<in> set value. of_char c < (32::nat) \<or> of_char c = (127::nat)
           then Some (Errors (field @ '' contains control characters''))
         else None)"

text \<open>\<open>func validateProfile\<close>, section by section.\<close>

definition validatePort :: "string \<Rightarrow> error option" where
  "validatePort port =
     (if port = [] then None
      else (case Atoi port of
              Some value \<Rightarrow> if value < 1 \<or> 65535 < value then Some (Errors ''invalid server URL port '') else None
            | None \<Rightarrow> Some (Errors ''invalid server URL port '')))"

definition validateServerURL :: "urlparser \<Rightarrow> string \<Rightarrow> error option" where
  "validateServerURL U s =
     (case U s of
        Inl e \<Rightarrow> Some (Wrap ''invalid server URL: '' e [])
      | Inr parsed \<Rightarrow>
          if u_Scheme parsed \<noteq> ''https'' then Some (Errors ''server URL scheme must be https'')
          else if Hostname parsed = [] \<or> u_HasUser parsed \<or> u_RawQuery parsed \<noteq> [] \<or> u_Fragment parsed \<noteq> []
               \<or> u_Opaque parsed \<noteq> [] \<or> u_ForceQuery parsed
            then Some (Errors ''server URL must contain only an HTTPS host, optional port, and path'')
          else (case ParseAddr (Hostname parsed) of
                  Some a \<Rightarrow> if \<not> Is4 (Unmap a) then Some (Errors ''IPv6 literal VPN server URLs are not supported'')
                            else validatePort (Port parsed)
                | None \<Rightarrow> validatePort (Port parsed)))"

fun validateRoutes :: "string list \<Rightarrow> error option" where
  "validateRoutes [] = None"
| "validateRoutes (v # vs) =
     (case Netip.ParsePrefix (TrimSpace v) of
        None \<Rightarrow> Some (Errors ''invalid route '')
      | Some p \<Rightarrow> if \<not> Is4 (fst p) then Some (Errors ''route is not IPv4'') else validateRoutes vs)"

fun validateDNS :: "string list \<Rightarrow> error option" where
  "validateDNS [] = None"
| "validateDNS (v # vs) =
     (case ParseAddr (TrimSpace v) of
        None \<Rightarrow> Some (Errors ''invalid DNS server '')
      | Some a \<Rightarrow> if \<not> Is4 a \<or> IsUnspecified a \<or> IsMulticast a then Some (Errors ''invalid DNS server '')
                  else validateDNS vs)"

definition validateSOCKS5 :: "string \<Rightarrow> error option" where
  "validateSOCKS5 listen =
     (case SplitHostPort (TrimSpace listen) of
        None \<Rightarrow> Some (Errors ''invalid SOCKS5 listen address: '')
      | Some (host, port) \<Rightarrow>
          if host = [] then Some (Errors ''SOCKS5 listen host is required'')
          else if host \<noteq> ''localhost'' \<and> (case ParseAddr host of None \<Rightarrow> True | Some a \<Rightarrow> IsMulticast a)
            then Some (Errors ''invalid SOCKS5 listen host '')
          else (case Atoi port of
              None \<Rightarrow> Some (Errors ''invalid SOCKS5 listen port '')
            | Some value \<Rightarrow>
                if value < 0 \<or> 65535 < value then Some (Errors ''invalid SOCKS5 listen port '')
                else if value = 0 \<and> host \<noteq> ''localhost'' \<and> (case ParseAddr host of None \<Rightarrow> True | Some a \<Rightarrow> \<not> IsLoopback a)
                  then Some (Errors ''SOCKS5 port 0 is only valid on loopback'')
                else None))"

text \<open>Run checks in order; the first error is the result.\<close>

fun first_error :: "error option list \<Rightarrow> error option" where
  "first_error [] = None"
| "first_error (None # es) = first_error es"
| "first_error (Some e # es) = Some e"

definition validateProfile :: "urlparser \<Rightarrow> Profile \<Rightarrow> error option" where
  "validateProfile U p = first_error
     [validateText ''profile name'' (prof_Name p) True 128,
      validateText ''username'' (prof_Username p) True 256,
      validateText ''group'' (prof_Group p) False 256,
      validateServerURL U (prof_ServerURL p),
      if prof_MTU p < 576 \<or> 9000 < prof_MTU p then Some (Errors ''MTU must be between 576 and 9000'') else None,
      if prof_Scope p \<noteq> ProfileScopeUser \<and> prof_Scope p \<noteq> ProfileScopeMachine
        then Some (Errors ''invalid profile scope '') else None,
      if TrimSpace (prof_OwnerID p) = [] then Some (Errors ''profile owner is required'') else None,
      if 512 < length (prof_CustomInclude p @ prof_CustomExclude p)
        then Some (Errors ''profile route list exceeds 512 entries'') else None,
      validateRoutes (prof_CustomInclude p @ prof_CustomExclude p),
      if 16 < length (prof_DNSOverrides p) then Some (Errors ''DNS server list exceeds 16 entries'') else None,
      validateDNS (prof_DNSOverrides p),
      if prof_SOCKS5Enabled p then validateSOCKS5 (prof_SOCKS5Listen p) else None]"

definition ValidateProfile :: "urlparser \<Rightarrow> Profile \<Rightarrow> error option" where
  "ValidateProfile U p = map_option ValidationError (validateProfile U p)"

section \<open>Trimming composed texts\<close>

text \<open>A byte that occurs in no space rune.\<close>

definition solid :: "char \<Rightarrow> bool" where
  "solid c \<longleftrightarrow> (\<forall>r \<in> set space_runes. c \<notin> set r)"

lemma drop_runes_append:
  assumes v: "v \<noteq> []" "drop_runes rs v = v" and c: "\<forall>r \<in> set rs. c \<notin> set r"
  shows "drop_runes rs (v @ c # t) = v @ c # t"
proof (rule drop_runes_fixed, simp only: find_None_iff, safe)
  fix r assume r: "r \<in> set rs" "r \<noteq> []" "prefix r (v @ c # t)"
  have no: "\<not> prefix r v"
    using drop_runes_no_prefix [of rs v] r(1,2) v(2) by (auto simp: find_None_iff)
  from r(3) no obtain w where "r = v @ w" "w \<noteq> []" "prefix w (c # t)"
    by (auto simp: prefix_append)
  then have "c \<in> set r" by (cases w) auto
  with c r(1) show False by blast
qed

lemma trim_left_join: "v \<noteq> [] \<Longrightarrow> trim_left v = v \<Longrightarrow> solid c \<Longrightarrow> trim_left (v @ c # t) = v @ c # t"
  unfolding trim_left_def solid_def by (rule drop_runes_append) auto

lemma trim_right_join:
  assumes "v \<noteq> []" "trim_right v = v" "solid c"
  shows "trim_right (t @ c # v) = t @ c # v"
proof -
  have "drop_runes (map rev space_runes) (rev v) = rev v"
    using assms(2) by (metis rev_swap trim_right_def)
  then have "drop_runes (map rev space_runes) (rev v @ c # rev t) = rev v @ c # rev t"
    using assms by (intro drop_runes_append) (auto simp: solid_def)
  then show ?thesis by (simp add: trim_right_def)
qed

lemma TrimSpace_parts: "TrimSpace v = v \<Longrightarrow> trim_left v = v" "TrimSpace v = v \<Longrightarrow> trim_right v = v"
proof -
  assume t: "TrimSpace v = v"
  have "length (trim_right (trim_left v)) \<le> length (trim_left v)" "length (trim_left v) \<le> length v"
    using trim_right_prefix [of "trim_left v"] drop_runes_suffix [of space_runes v]
    by (auto simp: trim_left_def dest: prefix_length_le suffix_length_le)
  then have "length (trim_left v) = length v" using t by (simp add: TrimSpace_def)
  moreover obtain zs where "v = zs @ trim_left v"
    using drop_runes_suffix [of space_runes v] by (auto simp: trim_left_def suffix_def)
  ultimately show l: "trim_left v = v" by (metis add_cancel_right_left append_Nil length_0_conv length_append)
  with t show "trim_right v = v" by (simp add: TrimSpace_def)
qed

lemma TrimSpace_join:
  assumes "v \<noteq> []" "TrimSpace v = v" "w \<noteq> []" "TrimSpace w = w" "solid c"
  shows "TrimSpace (v @ c # w) = v @ c # w"
proof -
  have "trim_left (v @ c # w) = v @ c # w" by (rule trim_left_join [OF assms(1) TrimSpace_parts(1) [OF assms(2)] assms(5)])
  moreover have "trim_right (v @ c # w) = v @ c # w"
    by (rule trim_right_join [OF assms(3) TrimSpace_parts(2) [OF assms(4)] assms(5)])
  ultimately show ?thesis by (simp only: TrimSpace_def)
qed

lemma solid_at: "solid CHR ''@''" "solid CHR ''/''"
  by (simp_all add: solid_def space_runes_def)

lemma TrimSpace_https: "v \<noteq> [] \<Longrightarrow> TrimSpace v = v \<Longrightarrow> TrimSpace (''https://'' @ v) = ''https://'' @ v"
proof -
  assume v: "v \<noteq> []" "TrimSpace v = v"
  have "TrimSpace ''https:/'' = ''https:/''" by (rule TrimSpace_id) (simp_all add: space_runes_def)
  then have "TrimSpace (''https:/'' @ CHR ''/'' # v) = ''https:/'' @ CHR ''/'' # v"
    using v by (intro TrimSpace_join) (simp_all only: solid_at, simp_all)
  then show ?thesis by simp
qed

section \<open>Normalisation is idempotent\<close>

lemma normalizeList_loop_eq:
  "normalizeList_loop vs seen out = out @ normalizeList_loop vs seen []"
proof (induction vs arbitrary: seen out)
  case (Cons v vs)
  from Cons.IH [of _ "out @ [TrimSpace v]"] Cons.IH [of _ "[TrimSpace v]"] Cons.IH [of seen out] show ?case
    by (simp add: Let_def)
qed simp

lemma normalizeList_loop_spec:
  "distinct (normalizeList_loop vs seen []) \<and> set (normalizeList_loop vs seen []) = (TrimSpace ` set vs) - {[]} - seen"
proof (induction vs arbitrary: seen)
  case (Cons v vs)
  let ?w = "TrimSpace v"
  have "normalizeList_loop (v # vs) seen [] =
      (if ?w = [] \<or> ?w \<in> seen then normalizeList_loop vs seen [] else ?w # normalizeList_loop vs (insert ?w seen) [])"
    using normalizeList_loop_eq [of vs "insert ?w seen" "[?w]"] by (simp add: Let_def)
  with Cons.IH [of seen] Cons.IH [of "insert ?w seen"] show ?case by auto
qed simp

lemma normalizeList_loop_id:
  "distinct vs \<Longrightarrow> (\<forall>v \<in> set vs. v \<noteq> [] \<and> TrimSpace v = v \<and> v \<notin> seen) \<Longrightarrow> normalizeList_loop vs seen [] = vs"
proof (induction vs arbitrary: seen)
  case (Cons v vs)
  have "normalizeList_loop vs (insert v seen) [] = vs" using Cons.prems by (intro Cons.IH) auto
  with Cons.prems normalizeList_loop_eq [of vs "insert v seen" "[v]"] show ?case by (simp add: Let_def)
qed simp

lemma normalizeList_spec: "distinct (normalizeList vs)" "set (normalizeList vs) = (TrimSpace ` set vs) - {[]}"
  using normalizeList_loop_spec [of vs "{}"] by (auto simp: normalizeList_def)

lemma normalizeList_idem [simp]: "normalizeList (normalizeList vs) = normalizeList vs"
  unfolding normalizeList_def [of "normalizeList vs"]
  by (rule normalizeList_loop_id) (auto simp: normalizeList_spec)

lemma Contains_https [simp]: "Contains (''https://'' @ v) ''://''"
  unfolding Contains_def sublist_def by (rule exI [of _ "''https''"]) simp

lemma NormalizeServerURL_trim: "TrimSpace (NormalizeServerURL v) = NormalizeServerURL v"
  using TrimSpace_https [of "TrimSpace v"] by (simp add: NormalizeServerURL_def Let_def)

lemma NormalizeServerURL_idem [simp]: "NormalizeServerURL (NormalizeServerURL v) = NormalizeServerURL v"
proof -
  let ?n = "NormalizeServerURL v"
  have "?n = [] \<or> Contains ?n ''://''"
    using Contains_https [of "TrimSpace v"] by (simp add: NormalizeServerURL_def Let_def)
  then show ?thesis
    by (subst (1) NormalizeServerURL_def) (auto simp: Let_def NormalizeServerURL_trim)
qed

lemma DefaultProfileName_trim:
  "TrimSpace (DefaultProfileName U s n) = DefaultProfileName U s n" "DefaultProfileName U s n \<noteq> []"
proof -
  show "DefaultProfileName U s n \<noteq> []" by (simp add: DefaultProfileName_def Let_def)
  let ?t = "TrimSpace (case U s of Inr parsed \<Rightarrow> if u_Host parsed \<noteq> [] then u_Host parsed else s | Inl _ \<Rightarrow> s)"
  have "TrimSpace (TrimSpace n @ CHR ''@'' # ?t) = TrimSpace n @ CHR ''@'' # ?t" if "TrimSpace n \<noteq> []" "?t \<noteq> []"
    using that by (intro TrimSpace_join) (auto simp: solid_at)
  moreover have "TrimSpace ''Profile'' = ''Profile''" by (simp add: TrimSpace_id space_runes_def)
  ultimately show "TrimSpace (DefaultProfileName U s n) = DefaultProfileName U s n"
    by (simp add: DefaultProfileName_def Let_def)
qed

lemma NormalizeProfile_fields [simp]:
  "prof_ID (NormalizeProfile U p) = prof_ID p" "prof_SecretRef (NormalizeProfile U p) = prof_SecretRef p"
  "prof_Scope (NormalizeProfile U p) = prof_Scope p" "prof_OwnerID (NormalizeProfile U p) = prof_OwnerID p"
  "prof_CreatedAt (NormalizeProfile U p) = prof_CreatedAt p" "prof_UpdatedAt (NormalizeProfile U p) = prof_UpdatedAt p"
  "prof_AcceptServerRoutes (NormalizeProfile U p) = prof_AcceptServerRoutes p"
  "prof_MTU (NormalizeProfile U p) = prof_MTU p" "prof_SOCKS5Enabled (NormalizeProfile U p) = prof_SOCKS5Enabled p"
  by (simp_all add: NormalizeProfile_def Let_def)

lemma NormalizeProfile_normal:
  "TrimSpace (prof_Name (NormalizeProfile U p)) = prof_Name (NormalizeProfile U p)"
  "prof_Name (NormalizeProfile U p) \<noteq> []"
  "NormalizeServerURL (prof_ServerURL (NormalizeProfile U p)) = prof_ServerURL (NormalizeProfile U p)"
  "TrimSpace (prof_Username (NormalizeProfile U p)) = prof_Username (NormalizeProfile U p)"
  "TrimSpace (prof_Group (NormalizeProfile U p)) = prof_Group (NormalizeProfile U p)"
  "TrimSpace (prof_SOCKS5Listen (NormalizeProfile U p)) = prof_SOCKS5Listen (NormalizeProfile U p)"
  "normalizeList (prof_CustomInclude (NormalizeProfile U p)) = prof_CustomInclude (NormalizeProfile U p)"
  "normalizeList (prof_CustomExclude (NormalizeProfile U p)) = prof_CustomExclude (NormalizeProfile U p)"
  "normalizeList (prof_DNSOverrides (NormalizeProfile U p)) = prof_DNSOverrides (NormalizeProfile U p)"
  by (simp_all add: NormalizeProfile_def Let_def DefaultProfileName_trim)

lemma NormalizeProfile_AutoReconnect:
  "prof_AutoReconnect (NormalizeProfile U p) = Some (BoolValue (prof_AutoReconnect p) False)"
  by (cases "prof_AutoReconnect p") (simp_all add: NormalizeProfile_def Let_def BoolValue_def)

lemma NormalizeProfile_ApplyDNS:
  "prof_ApplyDNS (NormalizeProfile U p) = Some (BoolValue (prof_ApplyDNS p) True)"
  by (cases "prof_ApplyDNS p") (simp_all add: NormalizeProfile_def Let_def BoolValue_def)

lemma NormalizeProfile_alt:
  "NormalizeProfile U p = p\<lparr>prof_Name := (if TrimSpace (prof_Name p) = []
       then DefaultProfileName U (NormalizeServerURL (prof_ServerURL p)) (TrimSpace (prof_Username p)) else TrimSpace (prof_Name p)),
     prof_ServerURL := NormalizeServerURL (prof_ServerURL p), prof_Username := TrimSpace (prof_Username p),
     prof_Group := TrimSpace (prof_Group p), prof_AutoReconnect := Some (BoolValue (prof_AutoReconnect p) False),
     prof_ApplyDNS := Some (BoolValue (prof_ApplyDNS p) True), prof_CustomInclude := normalizeList (prof_CustomInclude p),
     prof_CustomExclude := normalizeList (prof_CustomExclude p), prof_DNSOverrides := normalizeList (prof_DNSOverrides p),
     prof_SOCKS5Listen := TrimSpace (prof_SOCKS5Listen p)\<rparr>"
  by (rule Profile.equality, simp_all only: NormalizeProfile_fields NormalizeProfile_AutoReconnect
      NormalizeProfile_ApplyDNS Profile.simps Profile.update_convs, simp_all add: NormalizeProfile_def Let_def)

text \<open>Normalising a profile twice is normalising it once, whatever the URL parser does: a profile that was
  stored normalised is loaded back unchanged.\<close>

theorem NormalizeProfile_idem: "NormalizeProfile U (NormalizeProfile U p) = NormalizeProfile U p"
  by (subst (1) NormalizeProfile_def)
    (simp add: Let_def NormalizeProfile_normal NormalizeProfile_AutoReconnect NormalizeProfile_ApplyDNS)

end
