(* ===== verification/Service.thy ===== *)
theory Service
  imports Store Bus Router Profileio
begin

text \<open>
  The state of \<open>appd.Service\<close> (\<open>internal/appd/daemon.go\<close>) and its persistence: \<open>load\<close>, \<open>persist\<close>, the
  profile transactions \<open>commitProfileLocked\<close> and \<open>recoverIntentLocked\<close>, and the parts of
  \<open>CreateProfile\<close>, \<open>updateProfile\<close> and \<open>DeleteProfile\<close> that run under the service lock.

  The fields of the Go struct are grouped: what \<open>persist\<close> writes (\<open>pstate\<close>), the connection
  (\<open>conn\<close>), the reconnect timer (\<open>recon\<close>), the network repair (\<open>netrepair\<close>), the event bus, the
  traffic sampler, the health table. The world around the service is explicit: the state file and the faults
  its saves will meet, the secrets and the outcomes of secret calls, the random source, the answers of
  the VPN backend and of the SOCKS5 listener, the clock. A script that has run out answers with success,
  where the call has a result to give with an error.

  A definition of one critical section runs without interruption, as the code under \<open>s.mu\<close> does.
\<close>

section \<open>State\<close>

record pstate =
  s_profiles :: "Profile list"
  s_currentID :: string
  s_selectedProfiles :: "(string \<times> string) list"
  s_controlMode :: string
  s_machineProfileID :: string
  s_intent :: "Intent option"

record conn =
  s_connectedID :: string
  s_attemptID :: string
  s_attemptCancel :: bool                        \<comment> \<open>a cancel function is set; it cancels \<open>attemptID\<close>\<close>
  s_canceled :: "string list"                    \<comment> \<open>attempts whose context was canceled through it\<close>
  s_disconnectSeq :: u64
  s_manualDisconnectSeq :: u64
  s_manualProfileID :: string
  s_activeConnectionID :: string
  s_activeConnectionStarted :: time
  s_activeOwnerID :: string
  s_operations :: "(string \<times> Operation) list"
  s_closed :: bool
  s_fatalErr :: "error option"
  s_fatalCh :: "error list"                      \<comment> \<open>what \<open>fatalOnce\<close> has sent\<close>
  s_proxyServer :: "(nat \<times> string) option"      \<comment> \<open>identity and address of the listener\<close>

text \<open>A pending \<open>time.AfterFunc\<close>: the arguments its closure captured and when it is due.\<close>

record timer =
  tm_ProfileID :: string
  tm_ManualSeq :: u64
  tm_Attempt :: int
  tm_ReconnectID :: u64
  tm_Due :: time

record recon =
  s_reconnectTimer :: "timer option"
  s_reconnectProfileID :: string
  s_reconnectAttempt :: int
  s_reconnectSeq :: u64
  s_reconnectID :: u64
  s_reconnectNextAt :: time
  s_reconnectLifecycleID :: string

record netrepair =
  s_networkReconnectActive :: bool
  s_networkReconnectID :: u64
  s_networkReconnectConnID :: string
  s_networkReconnectProfile :: string
  s_lastNetworkChange :: "NetworkChangeInfo option"

datatype secret_outcome = SecOK | SecFail error | SecFailAfter error

record world =
  w_path :: string
  w_disk :: state_file
  w_saves :: "fault list"
  w_secrets :: secrets
  w_secretCalls :: "secret_outcome list"
  w_rand :: "(error + string) list"
  w_trace :: "(state_file \<times> secrets) list"      \<comment> \<open>the durable states the world has gone through; nothing reads it\<close>

record backend =
  be_Connect :: "(error + SessionInfo option) list"
  be_Disconnect :: "error option list"
  be_Close :: "error option list"
  be_TunnelDialer :: "(error + bool) list"       \<comment> \<open>a dialer, or a nil one\<close>
  be_SessionInfo :: "SessionInfo option"
  be_Traffic :: "TrafficStats option"
  be_Listen :: "(error + string) list"           \<comment> \<open>\<open>socks5.Listen\<close>: the address it got\<close>
  be_ListenClose :: "error option list"
  be_nextServer :: nat

record service =
  svc_p :: pstate
  svc_conn :: conn
  svc_recon :: recon
  svc_net :: netrepair
  svc_bus :: bus
  svc_status :: Status
  svc_traffic :: traffic_state
  svc_health :: "(string \<times> ComponentStatus) list"
  svc_world :: world
  svc_backend :: backend
  svc_clock :: time

section \<open>The world\<close>

definition durable :: "world \<Rightarrow> state_file \<times> secrets" where
  "durable w = (w_disk w, w_secrets w)"

definition world_save :: "Data \<Rightarrow> world \<Rightarrow> world \<times> error option" where
  "world_save d w =
     (let f = (case w_saves w of [] \<Rightarrow> None | x # xs \<Rightarrow> x);
          (disk, r) = Save f (w_disk w) d
      in (w\<lparr>w_disk := disk, w_saves := tl (w_saves w), w_trace := w_trace w @ [(disk, w_secrets w)]\<rparr>, r))"

definition secret_call :: "world \<Rightarrow> secret_outcome \<times> world" where
  "secret_call w = (case w_secretCalls w of [] \<Rightarrow> (SecOK, w) | x # xs \<Rightarrow> (x, w\<lparr>w_secretCalls := xs\<rparr>))"

definition world_get :: "string \<Rightarrow> world \<Rightarrow> world \<times> (error + string)" where
  "world_get ref w0 = (case secret_call w0 of
      (SecOK, w) \<Rightarrow> (w, case map_of (w_secrets w) ref of None \<Rightarrow> Inl (not_found ref) | Some v \<Rightarrow> Inr v)
    | (SecFail e, w) \<Rightarrow> (w, Inl e)
    | (SecFailAfter e, w) \<Rightarrow> (w, Inl e))"

definition set_secrets :: "secrets \<Rightarrow> world \<Rightarrow> world" where
  "set_secrets sec w = w\<lparr>w_secrets := sec, w_trace := w_trace w @ [(w_disk w, sec)]\<rparr>"

definition world_put :: "string \<Rightarrow> string \<Rightarrow> world \<Rightarrow> world \<times> error option" where
  "world_put ref v w0 = (case secret_call w0 of
      (SecOK, w) \<Rightarrow> (set_secrets (AList.update ref v (w_secrets w)) w, None)
    | (SecFail e, w) \<Rightarrow> (w, Some e)
    | (SecFailAfter e, w) \<Rightarrow> (set_secrets (AList.update ref v (w_secrets w)) w, Some e))"

definition world_delete :: "string \<Rightarrow> world \<Rightarrow> world \<times> error option" where
  "world_delete ref w0 = (case secret_call w0 of
      (SecOK, w) \<Rightarrow> (set_secrets (AList.delete ref (w_secrets w)) w, None)
    | (SecFail e, w) \<Rightarrow> (w, Some e)
    | (SecFailAfter e, w) \<Rightarrow> (set_secrets (AList.delete ref (w_secrets w)) w, Some e))"

definition world_newID :: "world \<Rightarrow> world \<times> (error + string)" where
  "world_newID w = (case w_rand w of [] \<Rightarrow> (w, Inl (Errors ''EOF'')) | x # xs \<Rightarrow> (w\<lparr>w_rand := xs\<rparr>, x))"

section \<open>Small helpers of the service\<close>

definition emit :: "Notify \<Rightarrow> service \<Rightarrow> service" where
  "emit n s = s\<lparr>svc_bus := emitLocked (svc_clock s) n (svc_bus s)\<rparr>"

definition log_add :: "string \<Rightarrow> string \<Rightarrow> service \<Rightarrow> service" where
  "log_add level message s = s\<lparr>svc_bus := addLog (svc_clock s) level message (svc_bus s)\<rparr>"

definition record_connection :: "ConnectionEvent \<Rightarrow> service \<Rightarrow> service" where
  "record_connection e s = s\<lparr>svc_bus := recordConnectionLocked (svc_clock s) e (svc_bus s)\<rparr>"

definition healthy :: "string \<Rightarrow> service \<Rightarrow> service" where
  "healthy name s = s\<lparr>svc_health := AList.update name \<lparr>cs_Name = name, cs_Ready = True, cs_Message = []\<rparr> (svc_health s)\<rparr>"

definition unhealthy :: "string \<Rightarrow> string \<Rightarrow> service \<Rightarrow> service" where
  "unhealthy name message s = s\<lparr>svc_health := AList.update name
     \<lparr>cs_Name = name, cs_Ready = False, cs_Message = sanitizeDiagnostic message\<rparr> (svc_health s)\<rparr>"

text \<open>\<open>s.health[name]\<close>: the zero value of a component that has no entry.\<close>

definition health_of :: "string \<Rightarrow> service \<Rightarrow> ComponentStatus" where
  "health_of name s = (case map_of (svc_health s) name of Some c \<Rightarrow> c
     | None \<Rightarrow> \<lparr>cs_Name = [], cs_Ready = False, cs_Message = []\<rparr>)"

definition status_event :: "service \<Rightarrow> Notify" where
  "status_event s = zero_notify\<lparr>nt_Event := ''status'', nt_Status := Some (svc_status s)\<rparr>"

definition profiles_event :: "service \<Rightarrow> Notify" where
  "profiles_event s = zero_notify\<lparr>nt_Event := ''profiles'', nt_Profiles := s_profiles (svc_p s)\<rparr>"

definition traffic_event :: "service \<Rightarrow> Notify" where
  "traffic_event s = zero_notify\<lparr>nt_Event := ''traffic'', nt_Traffic := Some (tf_traffic (svc_traffic s))\<rparr>"

text \<open>\<open>func (s *Service) findProfileLocked\<close>\<close>

definition findProfileLocked :: "string \<Rightarrow> service \<Rightarrow> error + Profile" where
  "findProfileLocked pid s = (case find (\<lambda>p. prof_ID p = pid) (s_profiles (svc_p s)) of
      Some p \<Rightarrow> Inr p | None \<Rightarrow> Inl (Errors (''profile not found: '' @ pid)))"

definition profile_index :: "string \<Rightarrow> service \<Rightarrow> nat option" where
  "profile_index pid s = find_index_of (\<lambda>p. prof_ID p = pid) (s_profiles (svc_p s))"

section \<open>persist and load\<close>

definition state_data :: "pstate \<Rightarrow> Data" where
  "state_data p = \<lparr>d_SchemaVersion = CurrentSchemaVersion, d_Profiles = s_profiles p,
     d_CurrentProfileID = s_currentID p, d_SelectedProfiles = s_selectedProfiles p,
     d_ControlMode = s_controlMode p, d_MachineProfileID = s_machineProfileID p, d_Intent = s_intent p\<rparr>"

text \<open>\<open>func (s *Service) persist\<close>\<close>

definition persist :: "service \<Rightarrow> service \<times> error option" where
  "persist s =
     (let (w, r) = world_save (state_data (svc_p s)) (svc_world s); s1 = s\<lparr>svc_world := w\<rparr>
      in case r of Some e \<Rightarrow> (unhealthy ''store'' (err_msg e) s1, Some e) | None \<Rightarrow> (healthy ''store'' s1, None))"

text \<open>\<open>load\<close>: the loop over the profiles.\<close>

fun load_profiles :: "urlparser \<Rightarrow> Profile list \<Rightarrow> error + Profile list" where
  "load_profiles U [] = Inr []"
| "load_profiles U (p # ps) =
     (if prof_SecretRef p = [] then Inl (Errors (''profile '' @ quote (prof_ID p) @ '' has no secret reference''))
      else let q = NormalizeProfile U p
           in case ValidateProfile U q of
                Some e \<Rightarrow> Inl (Wrap (''invalid profile '' @ quote (prof_ID q) @ '': '') e [])
              | None \<Rightarrow> (case load_profiles U ps of Inl e \<Rightarrow> Inl e | Inr qs \<Rightarrow> Inr (q # qs)))"

text \<open>\<open>load\<close>: the loop over the selected profiles.\<close>

fun check_selected :: "Profile list \<Rightarrow> (string \<times> string) list \<Rightarrow> error option" where
  "check_selected ps [] = None"
| "check_selected ps ((owner, pid) # rest) =
     (if TrimSpace owner = [] then Some (Errors ''state selected_profiles contains an empty owner'')
      else case find (\<lambda>p. prof_ID p = pid) ps of
        None \<Rightarrow> Some (Errors (''selected profile '' @ quote pid @ '' for owner '' @ quote owner @ '' does not exist''))
      | Some p \<Rightarrow> if prof_Scope p \<noteq> ProfileScopeUser \<or> prof_OwnerID p \<noteq> owner
                  then Some (Errors (''selected profile '' @ quote pid @ '' is not owned by '' @ quote owner))
                  else check_selected ps rest)"

text \<open>\<open>load\<close>: every check between reading the file and recovering the intent.\<close>

definition check_data :: "urlparser \<Rightarrow> Data \<Rightarrow> error + pstate" where
  "check_data U d =
     (if d_SchemaVersion d \<noteq> CurrentSchemaVersion
      then Inl (Errors (''unsupported state schema version '' @ fmt_int (d_SchemaVersion d)
             @ ''; FlexConnect 1.3.0 requires schema version '' @ fmt_int CurrentSchemaVersion
             @ '' and does not migrate older state''))
      else if d_ControlMode d = [] then Inl (Errors ''state control_mode is required'')
      else if d_ControlMode d \<noteq> ''user'' \<and> d_ControlMode d \<noteq> ''machine''
      then Inl (Errors (''invalid state control_mode '' @ quote (d_ControlMode d)))
      else case load_profiles U (d_Profiles d) of
        Inl e \<Rightarrow> Inl e
      | Inr ps \<Rightarrow>
          if d_CurrentProfileID d \<noteq> [] \<and> find (\<lambda>p. prof_ID p = d_CurrentProfileID d) ps = None
          then Inl (Errors (''state current_profile_id '' @ quote (d_CurrentProfileID d) @ '' does not reference a profile''))
          else case check_selected ps (d_SelectedProfiles d) of
            Some e \<Rightarrow> Inl e
          | None \<Rightarrow>
              if d_ControlMode d = ''machine''
                 \<and> (case find (\<lambda>p. prof_ID p = d_MachineProfileID d) ps of
                      None \<Rightarrow> True | Some p \<Rightarrow> prof_Scope p \<noteq> ProfileScopeMachine)
              then Inl (Errors ''machine mode requires a valid machine_profile_id'')
              else if d_ControlMode d \<noteq> ''machine'' \<and> d_MachineProfileID d \<noteq> []
              then Inl (Errors ''machine_profile_id must be empty in user mode'')
              else Inr \<lparr>s_profiles = ps, s_currentID = d_CurrentProfileID d, s_selectedProfiles = d_SelectedProfiles d,
                        s_controlMode = d_ControlMode d, s_machineProfileID = d_MachineProfileID d,
                        s_intent = d_Intent d\<rparr>)"

definition set_intent :: "Intent option \<Rightarrow> service \<Rightarrow> service" where
  "set_intent i s = s\<lparr>svc_p := (svc_p s)\<lparr>s_intent := i\<rparr>\<rparr>"

definition set_profiles :: "Profile list \<Rightarrow> service \<Rightarrow> service" where
  "set_profiles ps s = s\<lparr>svc_p := (svc_p s)\<lparr>s_profiles := ps\<rparr>\<rparr>"

definition set_currentID :: "string \<Rightarrow> service \<Rightarrow> service" where
  "set_currentID pid s = s\<lparr>svc_p := (svc_p s)\<lparr>s_currentID := pid\<rparr>\<rparr>"

text \<open>\<open>secrets.Get\<close>, \<open>Put\<close>, \<open>Delete\<close> and \<open>newID\<close> as the service calls them.\<close>

definition secrets_get :: "string \<Rightarrow> service \<Rightarrow> service \<times> (error + string)" where
  "secrets_get ref s = (let (w, r) = world_get ref (svc_world s) in (s\<lparr>svc_world := w\<rparr>, r))"

definition secrets_put :: "string \<Rightarrow> string \<Rightarrow> service \<Rightarrow> service \<times> error option" where
  "secrets_put ref v s = (let (w, r) = world_put ref v (svc_world s) in (s\<lparr>svc_world := w\<rparr>, r))"

definition secrets_delete :: "string \<Rightarrow> service \<Rightarrow> service \<times> error option" where
  "secrets_delete ref s = (let (w, r) = world_delete ref (svc_world s) in (s\<lparr>svc_world := w\<rparr>, r))"

definition newID :: "service \<Rightarrow> service \<times> (error + string)" where
  "newID s = (let (w, r) = world_newID (svc_world s) in (s\<lparr>svc_world := w\<rparr>, r))"

text \<open>The end of a transaction: \<open>completedIntent := s.intent; s.intent = nil; persist\<close>, put back on failure.\<close>

definition clear_intent :: "string \<Rightarrow> service \<Rightarrow> service \<times> error option" where
  "clear_intent prefix_text s =
     (let completedIntent = s_intent (svc_p s)
      in case persist (set_intent None s) of
           (s1, Some e) \<Rightarrow> (set_intent completedIntent s1, Some (if prefix_text = [] then e else Wrap prefix_text e []))
         | (s1, None) \<Rightarrow> (s1, None))"

text \<open>Deletion of an old secret with its health bookkeeping.\<close>

definition drop_secret :: "string \<Rightarrow> string \<Rightarrow> service \<Rightarrow> service \<times> error option" where
  "drop_secret prefix_text ref s =
     (case secrets_delete ref s of
        (s1, Some e) \<Rightarrow> (unhealthy ''secret'' (err_msg e) s1, Some (Wrap prefix_text e []))
      | (s1, None) \<Rightarrow> (healthy ''secret'' s1, None))"

definition put_profile :: "nat option \<Rightarrow> Profile \<Rightarrow> Profile list \<Rightarrow> Profile list" where
  "put_profile index p ps = (case index of None \<Rightarrow> ps @ [p] | Some i \<Rightarrow> ps[i := p])"

text \<open>\<open>func (s *Service) commitProfileLocked\<close>; a nil profile is not a case of its callers. The second
  component of the result is the profile as the call leaves it. First the intent, and what follows once
  the secret reference is chosen.\<close>

definition commit_intent :: "Profile \<Rightarrow> string \<Rightarrow> Intent" where
  "commit_intent profile old = \<lparr>in_Version = 1, in_Kind = ''upsert'', in_ProfileID = prof_ID profile,
     in_NewProfile = Some profile, in_OldSecretRef = old, in_NewSecretRef = prof_SecretRef profile\<rparr>"

text \<open>The last three steps of a commit.\<close>

definition commit_finish :: "nat option \<Rightarrow> Profile \<Rightarrow> string \<Rightarrow> service \<Rightarrow> service \<times> Profile \<times> error option" where
  "commit_finish index profile oldSecretRef s3 =
     (case persist (set_profiles (put_profile index profile (s_profiles (svc_p s3))) s3) of
        (s4, Some e) \<Rightarrow> (s4, profile, Some (Wrap ''commit profile state: '' e []))
      | (s4, None) \<Rightarrow>
          (case (if oldSecretRef \<noteq> [] \<and> oldSecretRef \<noteq> prof_SecretRef profile
                 then drop_secret ''delete previous profile secret: '' oldSecretRef s4 else (s4, None)) of
             (s5, Some e) \<Rightarrow> (s5, profile, Some e)
           | (s5, None) \<Rightarrow>
               (let (s6, r) = clear_intent ''clear profile intent: '' s5 in (s6, profile, r))))"

definition commit_steps :: "nat option \<Rightarrow> Profile \<Rightarrow> string \<Rightarrow> string \<Rightarrow> service \<Rightarrow> service \<times> Profile \<times> error option" where
  "commit_steps index profile password oldSecretRef s1 =
     (case persist (set_intent (Some (commit_intent profile oldSecretRef)) s1) of
        (s2, Some e) \<Rightarrow> (set_intent None s2, profile, Some (Wrap ''write profile intent: '' e []))
      | (s2, None) \<Rightarrow>
          (case (if password = [] then (s2, None)
                 else case secrets_put (prof_SecretRef profile) password s2 of
                   (s3, Some e) \<Rightarrow> (unhealthy ''secret'' (err_msg e) s3, Some (Wrap ''write new profile secret: '' e []))
                 | (s3, None) \<Rightarrow> (healthy ''secret'' s3, None)) of
             (s3, Some e) \<Rightarrow> (s3, profile, Some e)
           | (s3, None) \<Rightarrow>
               commit_finish index profile oldSecretRef s3))"

definition commitProfileLocked :: "nat option \<Rightarrow> Profile \<Rightarrow> string \<Rightarrow> string \<Rightarrow> service
    \<Rightarrow> service \<times> Profile \<times> error option" where
  "commitProfileLocked index profile0 password old s0 =
     (if s_intent (svc_p s0) \<noteq> None
      then (s0, profile0, Some (Errors ''another profile transaction is pending recovery''))
      else case (if password = [] then (s0, Inr old)
               else case newID s0 of
                 (s1, Inl e) \<Rightarrow> (s1, Inl (Wrap ''generate secret reference: '' e []))
               | (s1, Inr i) \<Rightarrow> (s1, Inr (''profile/'' @ prof_ID profile0 @ ''/'' @ i))) of
        (s1, Inl e) \<Rightarrow> (s1, profile0, Some e)
      | (s1, Inr new) \<Rightarrow>
          if new = [] then (s1, profile0, Some (Errors ''profile transaction has no secret reference''))
          else commit_steps index (profile0\<lparr>prof_SecretRef := new\<rparr>) password old s1)"

text \<open>\<open>func (s *Service) recoverIntentLocked\<close>\<close>

definition recover_upsert :: "Intent \<Rightarrow> Profile \<Rightarrow> service \<Rightarrow> service \<times> error option" where
  "recover_upsert intent profile s0 =
     (let index = profile_index (in_ProfileID intent) s0
      in case persist (set_profiles (put_profile index profile (s_profiles (svc_p s0))) s0) of
        (s1, Some e) \<Rightarrow> (s1, Some (Wrap ''recover profile state: '' e []))
      | (s1, None) \<Rightarrow>
          if in_OldSecretRef intent \<noteq> [] \<and> in_OldSecretRef intent \<noteq> in_NewSecretRef intent
          then drop_secret ''recover old secret deletion: '' (in_OldSecretRef intent) s1 else (s1, None))"

definition recover_delete :: "Intent \<Rightarrow> service \<Rightarrow> service \<times> error option" where
  "recover_delete intent s0 =
     (let ps = s_profiles (svc_p s0);
          ps' = (case profile_index (in_ProfileID intent) s0 of None \<Rightarrow> ps | Some i \<Rightarrow> remove_at i ps)
      in case persist (set_profiles ps' s0) of
        (s1, Some e) \<Rightarrow> (s1, Some (Wrap ''recover profile deletion: '' e []))
      | (s1, None) \<Rightarrow>
          if in_OldSecretRef intent \<noteq> []
          then drop_secret ''recover deleted profile secret: '' (in_OldSecretRef intent) s1 else (s1, None))"

definition recoverIntentLocked :: "service \<Rightarrow> service \<times> error option" where
  "recoverIntentLocked s0 =
     (case s_intent (svc_p s0) of
        None \<Rightarrow> (s0, None)
      | Some intent \<Rightarrow>
          if in_Version intent \<noteq> 1 then (s0, Some (Errors (''unsupported intent version '' @ fmt_int (in_Version intent))))
          else if in_Kind intent = ''upsert'' then
            (case in_NewProfile intent of
               None \<Rightarrow> (s0, Some (Errors ''invalid upsert intent''))
             | Some profile \<Rightarrow>
                 if in_NewSecretRef intent = [] then (s0, Some (Errors ''invalid upsert intent''))
                 else (case secrets_get (in_NewSecretRef intent) s0 of
                     (s1, Inl e) \<Rightarrow>
                       if errors_is e ErrNotFound then persist (set_intent None s1)
                       else (s1, Some (Wrap ''read new secret: '' e []))
                   | (s1, Inr _) \<Rightarrow>
                       (case recover_upsert intent profile (healthy ''secret'' s1) of
                          (s2, Some e) \<Rightarrow> (s2, Some e)
                        | (s2, None) \<Rightarrow> clear_intent ''clear recovered intent: '' s2)))
          else if in_Kind intent = ''delete'' then
            (case recover_delete intent s0 of
               (s2, Some e) \<Rightarrow> (s2, Some e)
             | (s2, None) \<Rightarrow> clear_intent ''clear recovered intent: '' s2)
          else (s0, Some (Errors (''unsupported intent kind '' @ quote (in_Kind intent)))))"

text \<open>\<open>func (s *Service) load\<close>\<close>

definition load :: "urlparser \<Rightarrow> service \<Rightarrow> service \<times> error option" where
  "load U s0 =
     (case Load (w_path (svc_world s0)) (w_disk (svc_world s0)) of
        Inl e \<Rightarrow> (unhealthy ''store'' (err_msg e) s0, Some e)
      | Inr data \<Rightarrow>
          (let s1 = healthy ''store'' s0
           in case check_data U data of
                Inl e \<Rightarrow> (s1, Some e)
              | Inr p \<Rightarrow>
                  (let s2 = s1\<lparr>svc_p := p, svc_status := (svc_status s1)\<lparr>st_CurrentProfileID := s_currentID p,
                              st_SelectedProfileID := s_currentID p, st_ControlMode := s_controlMode p\<rparr>\<rparr>
                   in case recoverIntentLocked s2 of
                        (s3, Some e) \<Rightarrow> (s3, Some (Wrap ''recover profile transaction: '' e []))
                      | (s3, None) \<Rightarrow> (s3, None))))"

section \<open>Start\<close>

definition components :: "string list" where
  "components = [''store'', ''secret'', ''supervisor'', ''backend'', ''route'', ''dns'', ''proxy'', ''watch'', ''cleanup'']"

definition zero_status :: Status where
  "zero_status = \<lparr>st_State = StateDisconnected, st_CurrentProfileID = [], st_SelectedProfileID = [],
     st_ConnectedProfileID = [], st_ControlMode = [], st_AttemptID = [], st_Operation = None, st_Session = None,
     st_EffectiveRoutes = [], st_LastError = [], st_SOCKS5Enabled = False, st_SOCKS5Listen = [], st_UpdatedAt = None\<rparr>"

definition zero_pstate :: pstate where
  "zero_pstate = \<lparr>s_profiles = [], s_currentID = [], s_selectedProfiles = [], s_controlMode = [],
     s_machineProfileID = [], s_intent = None\<rparr>"

definition zero_conn :: conn where
  "zero_conn = \<lparr>s_connectedID = [], s_attemptID = [], s_attemptCancel = False, s_canceled = [], s_disconnectSeq = 0,
     s_manualDisconnectSeq = 0, s_manualProfileID = [], s_activeConnectionID = [], s_activeConnectionStarted = 0,
     s_activeOwnerID = [], s_operations = [], s_closed = False, s_fatalErr = None, s_fatalCh = [], s_proxyServer = None\<rparr>"

definition zero_recon :: recon where
  "zero_recon = \<lparr>s_reconnectTimer = None, s_reconnectProfileID = [], s_reconnectAttempt = 0, s_reconnectSeq = 0,
     s_reconnectID = 0, s_reconnectNextAt = 0, s_reconnectLifecycleID = []\<rparr>"

definition zero_netrepair :: netrepair where
  "zero_netrepair = \<lparr>s_networkReconnectActive = False, s_networkReconnectID = 0, s_networkReconnectConnID = [],
     s_networkReconnectProfile = [], s_lastNetworkChange = None\<rparr>"

text \<open>\<open>func New\<close>, up to the two goroutines it starts.\<close>

definition fresh_service :: "string \<Rightarrow> string \<Rightarrow> world \<Rightarrow> backend \<Rightarrow> time \<Rightarrow> service" where
  "fresh_service version epoch w be clock =
     \<lparr>svc_p = zero_pstate, svc_conn = zero_conn, svc_recon = zero_recon, svc_net = zero_netrepair,
      svc_bus = new_bus version epoch, svc_status = zero_status\<lparr>st_UpdatedAt := now clock\<rparr>, svc_traffic = new_traffic,
      svc_health = map (\<lambda>c. (c, \<lparr>cs_Name = c, cs_Ready = True, cs_Message = []\<rparr>)) components,
      svc_world = w, svc_backend = be, svc_clock = clock\<rparr>"

definition New :: "urlparser \<Rightarrow> string \<Rightarrow> world \<Rightarrow> backend \<Rightarrow> time \<Rightarrow> error + service" where
  "New U version w be clock =
     (case world_newID w of
        (w1, Inl e) \<Rightarrow> Inl (Wrap ''generate daemon epoch: '' e [])
      | (w1, Inr epoch) \<Rightarrow>
          (case load U (fresh_service version epoch w1 be clock) of
             (s, Some e) \<Rightarrow> Inl e
           | (s, None) \<Rightarrow> Inr s))"

section \<open>Profile operations under the lock\<close>

definition now_s :: "service \<Rightarrow> stamp" where
  "now_s s = now (svc_clock s)"

text \<open>\<open>newProfile\<close>: \<open>types.NewProfile\<close>\<close>

definition newProfile :: "string \<Rightarrow> service \<Rightarrow> service \<times> (error + Profile)" where
  "newProfile name s = (case newID s of
      (s1, Inl e) \<Rightarrow> (s1, Inl e)
    | (s1, Inr i) \<Rightarrow> (s1, Inr (NewProfile i name (svc_clock s1 - svc_clock s1 mod 1000000000))))"

text \<open>\<open>CreateProfile\<close> after its checks: the commit, the first current profile, the event.\<close>

definition create_tail :: "Profile \<Rightarrow> string \<Rightarrow> service \<Rightarrow> service \<times> (error + Profile)" where
  "create_tail x0 password s1 =
     (case commitProfileLocked None x0 password [] s1 of
        (s2, profile6, Some e) \<Rightarrow> (s2, Inl e)
      | (s2, profile6, None) \<Rightarrow>
          (let s3 = (if s_currentID (svc_p s2) = []
                     then (set_currentID (prof_ID profile6) s2)\<lparr>svc_status := (svc_status s2)\<lparr>st_CurrentProfileID := prof_ID profile6\<rparr>\<rparr>
                     else s2)
           in case persist s3 of
                (s4, Some e) \<Rightarrow> (s4, Inl e)
              | (s4, None) \<Rightarrow>
                  (let s5 = log_add ''info'' (''appd: profile created id='' @ prof_ID profile6 @ '' name='' @ quote (prof_Name profile6)) s4
                   in (emit (profiles_event s5) s5, Inr profile6))))"

text \<open>\<open>func (s *Service) CreateProfile\<close>\<close>

definition CreateProfile :: "urlparser \<Rightarrow> Profile \<Rightarrow> string \<Rightarrow> service \<Rightarrow> service \<times> (error + Profile)" where
  "CreateProfile U profile0 password s0 =
     (case (if prof_ID profile0 = [] then newProfile (prof_Name profile0) s0 else (s0, Inr profile0)) of
        (s1, Inl e) \<Rightarrow> (s1, Inl (Wrap ''generate profile ID: '' e []))
      | (s1, Inr profile1) \<Rightarrow>
          (let profile2 = NormalizeProfile U profile1
           in case ValidateProfile U profile2 of
                Some e \<Rightarrow> (s1, Inl e)
              | None \<Rightarrow>
                  if \<exists>p \<in> set (s_profiles (svc_p s1)). prof_ID p = prof_ID profile2
                  then (s1, Inl (Errors (''profile ID already exists: '' @ prof_ID profile2)))
                  else
                  let profile3 = profile2\<lparr>prof_UpdatedAt := now_s s1\<rparr>;
                      profile4 = (if prof_CreatedAt profile3 = None then profile3\<lparr>prof_CreatedAt := prof_UpdatedAt profile3\<rparr> else profile3);
                      profile5 = (if prof_SecretRef profile4 = [] then profile4\<lparr>prof_SecretRef := ''profile/'' @ prof_ID profile4\<rparr> else profile4)
                  in if password = [] then (s1, Inl (Errors ''profile password is required''))
                     else create_tail profile5 password s1))"

text \<open>\<open>updateProfile\<close>: the requested fields.\<close>

definition apply_update :: "ProfileUpdateRequest \<Rightarrow> Profile \<Rightarrow> Profile" where
  "apply_update req p =
     p\<lparr>prof_Name := (case ur_Name req of None \<Rightarrow> prof_Name p | Some x \<Rightarrow> x),
           prof_ServerURL := (case ur_ServerURL req of None \<Rightarrow> prof_ServerURL p | Some x \<Rightarrow> x),
           prof_Username := (case ur_Username req of None \<Rightarrow> prof_Username p | Some x \<Rightarrow> x),
           prof_Group := (case ur_Group req of None \<Rightarrow> prof_Group p | Some x \<Rightarrow> x),
           prof_AcceptServerRoutes := (case ur_AcceptServerRoutes req of None \<Rightarrow> prof_AcceptServerRoutes p | Some x \<Rightarrow> x),
           prof_AutoReconnect := (case ur_AutoReconnect req of None \<Rightarrow> prof_AutoReconnect p | Some x \<Rightarrow> Some x),
           prof_ApplyDNS := (case ur_ApplyDNS req of None \<Rightarrow> prof_ApplyDNS p | Some x \<Rightarrow> Some x),
           prof_CustomInclude := (case ur_CustomInclude req of None \<Rightarrow> prof_CustomInclude p | Some x \<Rightarrow> x),
           prof_CustomExclude := (case ur_CustomExclude req of None \<Rightarrow> prof_CustomExclude p | Some x \<Rightarrow> x),
           prof_DNSOverrides := (case ur_DNSOverrides req of None \<Rightarrow> prof_DNSOverrides p | Some x \<Rightarrow> x),
           prof_SOCKS5Enabled := (case ur_SOCKS5Enabled req of None \<Rightarrow> prof_SOCKS5Enabled p | Some x \<Rightarrow> x),
           prof_SOCKS5Listen := (case ur_SOCKS5Listen req of None \<Rightarrow> prof_SOCKS5Listen p | Some x \<Rightarrow> x),
           prof_MTU := (case ur_MTU req of None \<Rightarrow> prof_MTU p | Some x \<Rightarrow> x)\<rparr>"

text \<open>\<open>func needsReconnectForProfileUpdate\<close>\<close>

definition needsReconnectForProfileUpdate :: "Profile \<Rightarrow> Profile \<Rightarrow> bool" where
  "needsReconnectForProfileUpdate before after \<longleftrightarrow>
     prof_ServerURL before \<noteq> prof_ServerURL after \<or> prof_Username before \<noteq> prof_Username after
     \<or> prof_Group before \<noteq> prof_Group after \<or> prof_AcceptServerRoutes before \<noteq> prof_AcceptServerRoutes after
     \<or> BoolValue (prof_AutoReconnect before) False \<noteq> BoolValue (prof_AutoReconnect after) False
     \<or> BoolValue (prof_ApplyDNS before) True \<noteq> BoolValue (prof_ApplyDNS after) True
     \<or> prof_MTU before \<noteq> prof_MTU after \<or> prof_CustomInclude before \<noteq> prof_CustomInclude after
     \<or> prof_CustomExclude before \<noteq> prof_CustomExclude after \<or> prof_DNSOverrides before \<noteq> prof_DNSOverrides after"

text \<open>Recompute the reported routes of the connected profile.\<close>

definition replan :: "Profile \<Rightarrow> service \<Rightarrow> service" where
  "replan profile s =
     (if s_connectedID (svc_conn s) = prof_ID profile
      then (case st_Session (svc_status s) of
              None \<Rightarrow> s
            | Some session \<Rightarrow>
                (let s1 = s\<lparr>svc_status := (svc_status s)\<lparr>st_EffectiveRoutes := Plan (si_SplitInclude session) (si_SplitExclude session) profile,
                             st_UpdatedAt := now_s s\<rparr>\<rparr>
                 in emit (status_event s1) s1))
      else s)"

text \<open>\<open>func (s *Service) updateProfile\<close>, up to releasing the lock.\<close>

definition updateProfile_locked :: "urlparser \<Rightarrow> string \<Rightarrow> ProfileUpdateRequest \<Rightarrow> service
    \<Rightarrow> service \<times> (error + Profile \<times> bool)" where
  "updateProfile_locked U pid req s0 =
     (case profile_index pid s0 of
        None \<Rightarrow> (s0, Inl (Errors (''profile not found: '' @ pid)))
      | Some index \<Rightarrow>
          (let before = s_profiles (svc_p s0) ! index;
               profile1 = NormalizeProfile U (apply_update req before)
           in case ValidateProfile U profile1 of
                Some e \<Rightarrow> (s0, Inl e)
              | None \<Rightarrow>
                  (let profile2 = profile1\<lparr>prof_UpdatedAt := now_s s0\<rparr>;
                       password = (case ur_Password req of None \<Rightarrow> [] | Some x \<Rightarrow> x)
                   in if ur_Password req = Some [] then (s0, Inl (Errors ''profile password cannot be empty''))
                      else case commitProfileLocked (Some index) profile2 password (prof_SecretRef before) s0 of
                        (s1, profile3, Some e) \<Rightarrow> (s1, Inl e)
                      | (s1, profile3, None) \<Rightarrow>
                          (let shouldReconnect = (s_connectedID (svc_conn s1) = pid \<and> needsReconnectForProfileUpdate before profile3);
                               s2 = replan profile3 s1;
                               s3 = log_add ''info'' (''appd: profile updated id='' @ prof_ID profile3 @ '' name='' @ quote (prof_Name profile3)) s2;
                               s4 = emit (zero_notify\<lparr>nt_Event := ''profile'', nt_Profile := Some profile3\<rparr>) s3;
                               s5 = emit (profiles_event s4) s4
                           in (s5, Inr (profile3, shouldReconnect))))))"

text \<open>\<open>func (s *Service) DeleteProfile\<close>, the second critical section up to the events; the caller has
  stopped the reconnect timer.\<close>

definition forget_profile :: "string \<Rightarrow> nat \<Rightarrow> service \<Rightarrow> service" where
  "forget_profile pid index s =
     (let p = svc_p s; ps = remove_at index (s_profiles p);
          p1 = p\<lparr>s_profiles := ps, s_selectedProfiles := filter (\<lambda>(owner, selected). selected \<noteq> pid) (s_selectedProfiles p)\<rparr>
      in if s_currentID p = pid
         then (let cur = (if length ps = 1 then prof_ID (ps ! 0) else [])
               in s\<lparr>svc_p := p1\<lparr>s_currentID := cur\<rparr>,
                    svc_status := (svc_status s)\<lparr>st_CurrentProfileID := cur, st_SelectedProfileID := cur\<rparr>\<rparr>)
         else s\<lparr>svc_p := p1\<rparr>)"

definition deleteProfile_locked :: "string \<Rightarrow> nat \<Rightarrow> service \<Rightarrow> service \<times> error option" where
  "deleteProfile_locked pid index s0 =
     (let oldSecretRef = prof_SecretRef (s_profiles (svc_p s0) ! index);
          intent = \<lparr>in_Version = 1, in_Kind = ''delete'', in_ProfileID = pid, in_NewProfile = None,
                    in_OldSecretRef = oldSecretRef, in_NewSecretRef = []\<rparr>
      in case persist (set_intent (Some intent) s0) of
           (s1, Some e) \<Rightarrow> (set_intent None s1, Some e)
         | (s1, None) \<Rightarrow>
             (case persist (forget_profile pid index s1) of
                (s2, Some e) \<Rightarrow> (s2, Some e)
              | (s2, None) \<Rightarrow>
                  (case drop_secret (''delete secret for profile '' @ pid @ '': '') oldSecretRef s2 of
                     (s3, Some e) \<Rightarrow> (s3, Some e)
                   | (s3, None) \<Rightarrow> clear_intent [] s3)))"

end
