(* ===== verification/Supervisor.thy ===== *)
theory Supervisor
  imports Service
begin

text \<open>
  The connection supervisor of \<open>internal/appd/daemon.go\<close>: connecting, disconnecting, cleanup failures,
  the SOCKS5 proxy that follows the tunnel, the scheduled reconnects, backend events and the repair after a network
  change.

  A Go function that releases the service lock around a call to the outside is modelled twice: each of
  its critical sections is a definition of its own, and the function is their composition with the outside
  calls between them. The step relation of \<open>Interleaving\<close> runs the critical sections in any order.

  The error of the caller's context when the backend has answered is an argument \<open>ctx\<close>
  (\<open>None\<close>: still live).
\<close>

section \<open>The outside\<close>

definition backend_connect :: "service \<Rightarrow> service \<times> (error + SessionInfo option)" where
  "backend_connect s = (case be_Connect (svc_backend s) of
      [] \<Rightarrow> (s, Inl (Errors ''backend gave no answer''))
    | x # xs \<Rightarrow> (s\<lparr>svc_backend := (svc_backend s)\<lparr>be_Connect := xs\<rparr>\<rparr>, x))"

definition backend_disconnect :: "service \<Rightarrow> service \<times> error option" where
  "backend_disconnect s = (case be_Disconnect (svc_backend s) of
      [] \<Rightarrow> (s, None) | x # xs \<Rightarrow> (s\<lparr>svc_backend := (svc_backend s)\<lparr>be_Disconnect := xs\<rparr>\<rparr>, x))"

definition backend_close :: "service \<Rightarrow> service \<times> error option" where
  "backend_close s = (case be_Close (svc_backend s) of
      [] \<Rightarrow> (s, None) | x # xs \<Rightarrow> (s\<lparr>svc_backend := (svc_backend s)\<lparr>be_Close := xs\<rparr>\<rparr>, x))"

definition backend_dialer :: "service \<Rightarrow> service \<times> (error + bool)" where
  "backend_dialer s = (case be_TunnelDialer (svc_backend s) of
      [] \<Rightarrow> (s, Inl (Errors ''backend gave no answer''))
    | x # xs \<Rightarrow> (s\<lparr>svc_backend := (svc_backend s)\<lparr>be_TunnelDialer := xs\<rparr>\<rparr>, x))"

definition socks_listen :: "service \<Rightarrow> service \<times> (error + nat \<times> string)" where
  "socks_listen s = (case be_Listen (svc_backend s) of
      [] \<Rightarrow> (s, Inl (Errors ''listener gave no answer''))
    | x # xs \<Rightarrow> (s\<lparr>svc_backend := (svc_backend s)\<lparr>be_Listen := xs, be_nextServer := be_nextServer (svc_backend s) + 1\<rparr>\<rparr>,
        case x of Inl e \<Rightarrow> Inl e | Inr a \<Rightarrow> Inr (be_nextServer (svc_backend s), a)))"

definition socks_close :: "service \<Rightarrow> service \<times> error option" where
  "socks_close s = (case be_ListenClose (svc_backend s) of
      [] \<Rightarrow> (s, None) | x # xs \<Rightarrow> (s\<lparr>svc_backend := (svc_backend s)\<lparr>be_ListenClose := xs\<rparr>\<rparr>, x))"

section \<open>Small sections\<close>

definition set_state :: "State \<Rightarrow> service \<Rightarrow> service" where
  "set_state st s = svc_status_update (\<lambda>x. x\<lparr>st_State := st\<rparr>) s"

definition set_lastError :: "string \<Rightarrow> service \<Rightarrow> service" where
  "set_lastError e s = svc_status_update (\<lambda>x. x\<lparr>st_LastError := e\<rparr>) s"

definition touch :: "service \<Rightarrow> service" where
  "touch s = svc_status_update (\<lambda>x. x\<lparr>st_UpdatedAt := now_s s\<rparr>) s"

definition emit_status :: "string \<Rightarrow> string \<Rightarrow> service \<Rightarrow> service" where
  "emit_status err message s = emit ((status_event s)\<lparr>nt_Error := err, nt_Message := message\<rparr>) s"

definition emit_traffic :: "service \<Rightarrow> service" where
  "emit_traffic s = emit (traffic_event s) s"

definition clear_traffic :: "service \<Rightarrow> service" where
  "clear_traffic s = s\<lparr>svc_traffic := fst (clearTrafficLocked (svc_traffic s))\<rparr>"

definition sample_traffic :: "service \<Rightarrow> service \<times> bool" where
  "sample_traffic s =
     (let (tf, changed) = sampleTrafficLocked (st_State (svc_status s)) (be_Traffic (svc_backend s)) (svc_clock s) (svc_traffic s)
      in (s\<lparr>svc_traffic := tf\<rparr>, changed))"

text \<open>\<open>func (s *Service) sampleTrafficAt\<close>, at the current time\<close>

definition sampleTrafficAt :: "service \<Rightarrow> service" where
  "sampleTrafficAt s0 = (let (s, changed) = sample_traffic s0 in if changed then emit_traffic s else s)"

text \<open>\<open>func (s *Service) refreshConnectedStatusLocked\<close>, \<open>Status\<close>\<close>

definition refreshConnectedStatusLocked :: "service \<Rightarrow> service" where
  "refreshConnectedStatusLocked s = (case be_SessionInfo (svc_backend s) of
      None \<Rightarrow> s | Some x \<Rightarrow> svc_status_update (\<lambda>st. st\<lparr>st_Session := Some x\<rparr>) s)"

definition Service_Status :: "service \<Rightarrow> service \<times> Status" where
  "Service_Status s0 = (let s = refreshConnectedStatusLocked s0 in (s, svc_status s))"

text \<open>\<open>healthSnapshotLocked\<close>, \<open>reconnectSnapshotLocked\<close>\<close>

definition healthSnapshotLocked :: "service \<Rightarrow> ComponentStatus list" where
  "healthSnapshotLocked s = map (\<lambda>c. health_of c s) components"

definition reconnectSnapshotLocked :: "service \<Rightarrow> ReconnectSnapshot" where
  "reconnectSnapshotLocked s = (let r = svc_recon s in
     if s_reconnectTimer r = None then zero_reconnect
     else \<lparr>rsn_Active = True, rsn_ProfileID = s_reconnectProfileID r, rsn_Attempt = s_reconnectAttempt r,
           rsn_NextRetryAt = Some (s_reconnectNextAt r), rsn_LifecycleID = s_reconnectLifecycleID r\<rparr>)"

definition errNoCurrentProfile :: error where
  "errNoCurrentProfile = Errors ''no current profile selected''"

definition errConnectInProgress :: error where
  "errConnectInProgress = Errors ''connection already in progress''"

definition CurrentProfile :: "service \<Rightarrow> error + Profile" where
  "CurrentProfile s = (if s_currentID (svc_p s) = [] then Inl errNoCurrentProfile else findProfileLocked (s_currentID (svc_p s)) s)"

text \<open>\<open>func (s *Service) loadProfileSecret\<close>\<close>

definition loadProfileSecret :: "Profile \<Rightarrow> service \<Rightarrow> service \<times> (error + string)" where
  "loadProfileSecret profile s =
     (if prof_SecretRef profile = [] then (s, Inl (Errors (''profile '' @ prof_ID profile @ '' has no secret reference'')))
      else case secrets_get (prof_SecretRef profile) s of
        (s1, Inl e) \<Rightarrow> (s1, Inl (Wrap (''load secret for profile '' @ prof_ID profile @ '': '') e []))
      | (s1, Inr password) \<Rightarrow>
          if password = [] then (s1, Inl (Errors (''secret for profile '' @ prof_ID profile @ '' is empty'')))
          else (s1, Inr password))"

text \<open>\<open>func validateProfileForConnect\<close>\<close>

definition validateProfileForConnect :: "urlparser \<Rightarrow> Profile \<Rightarrow> error option" where
  "validateProfileForConnect U profile = (case ValidateProfile U profile of
      Some e \<Rightarrow> Some e
    | None \<Rightarrow> if prof_Username profile = [] then Some (Errors ''profile username is required'') else None)"

section \<open>Reconnect timer and network repair bookkeeping\<close>

text \<open>\<open>func (s *Service) stopReconnectLocked\<close>\<close>

definition stopReconnectLocked :: "service \<Rightarrow> service" where
  "stopReconnectLocked s = svc_recon_update (\<lambda>r. \<lparr>s_reconnectTimer = None, s_reconnectProfileID = [], s_reconnectAttempt = 0,
     s_reconnectSeq = 0, s_reconnectID = s_reconnectID r + 1, s_reconnectNextAt = 0, s_reconnectLifecycleID = []\<rparr>) s"

text \<open>\<open>func (s *Service) cancelNetworkReconnectLocked\<close>\<close>

definition cancelNetworkReconnectLocked :: "service \<Rightarrow> service" where
  "cancelNetworkReconnectLocked s = svc_net_update (\<lambda>n. n\<lparr>s_networkReconnectActive := False,
     s_networkReconnectID := s_networkReconnectID n + 1, s_networkReconnectConnID := [], s_networkReconnectProfile := []\<rparr>) s"

definition autoReconnectMinDelay :: nat where "autoReconnectMinDelay = 2000000000"
definition autoReconnectMaxDelay :: nat where "autoReconnectMaxDelay = 60000000000"
definition autoReconnectMaxTries :: int where "autoReconnectMaxTries = 3"

text \<open>\<open>func reconnectDelay\<close>: the loop doubles \<open>attempt - 1\<close> times and leaves early at the maximum.\<close>

fun delay_loop :: "nat \<Rightarrow> nat \<Rightarrow> nat" where
  "delay_loop 0 delay = (if autoReconnectMaxDelay < delay then autoReconnectMaxDelay else delay)"
| "delay_loop (Suc n) delay =
     (if autoReconnectMaxDelay \<le> delay * 2 then autoReconnectMaxDelay else delay_loop n (delay * 2))"

definition reconnectDelay :: "int \<Rightarrow> nat" where
  "reconnectDelay attempt = delay_loop (nat ((if attempt < 1 then 1 else attempt) - 1)) autoReconnectMinDelay"

text \<open>\<open>profileAutoReconnect\<close>, \<open>autoReconnectEnabledLocked\<close>\<close>

definition profileAutoReconnect :: "string \<Rightarrow> service \<Rightarrow> Profile option" where
  "profileAutoReconnect pid s = (if pid = [] then None else find (\<lambda>p. prof_ID p = pid) (s_profiles (svc_p s)))"

definition autoReconnectEnabledLocked :: "Profile \<Rightarrow> service \<Rightarrow> bool" where
  "autoReconnectEnabledLocked profile s \<longleftrightarrow>
     (s_controlMode (svc_p s) = ''machine'' \<and> s_machineProfileID (svc_p s) = prof_ID profile)
     \<or> BoolValue (prof_AutoReconnect profile) False"

definition reconnect_wanted :: "string \<Rightarrow> u64 \<Rightarrow> service \<Rightarrow> bool" where
  "reconnect_wanted pid manualSeq s \<longleftrightarrow> (case profileAutoReconnect pid s of
      None \<Rightarrow> False
    | Some profile \<Rightarrow> s_currentID (svc_p s) = pid \<and> s_connectedID (svc_conn s) = []
        \<and> s_disconnectSeq (svc_conn s) = manualSeq \<and> autoReconnectEnabledLocked profile s)"

text \<open>\<open>%s\<close> of a duration of whole seconds below an hour, which is what the delays are.\<close>

definition fmt_duration :: "nat \<Rightarrow> string" where
  "fmt_duration d = (let sec = d div 1000000000 in
     if sec < 60 then itoa sec @ ''s'' else itoa (sec div 60) @ ''m'' @ itoa (sec mod 60) @ ''s'')"

text \<open>\<open>func (s *Service) startReconnectLocked\<close>\<close>

definition startReconnectLocked :: "string \<Rightarrow> u64 \<Rightarrow> int \<Rightarrow> service \<Rightarrow> service" where
  "startReconnectLocked pid manualSeq attempt0 s0 =
     (if \<not> reconnect_wanted pid manualSeq s0 then s0
      else let attempt = (if attempt0 < 1 then 1 else attempt0); delay = reconnectDelay attempt;
               rid = s_reconnectID (svc_recon s0) + 1;
               due = svc_clock s0 + delay;
               lifecycle = (if s_reconnectLifecycleID (svc_recon s0) = []
                  then ''reconnect-'' @ fmt_u64 (b_connectionSeq (svc_bus s0) + 1) else s_reconnectLifecycleID (svc_recon s0));
               s1 = svc_recon_update (\<lambda>r. \<lparr>s_reconnectTimer = Some \<lparr>tm_ProfileID = pid, tm_ManualSeq = manualSeq,
                        tm_Attempt = attempt, tm_ReconnectID = rid, tm_Due = due\<rparr>,
                      s_reconnectProfileID = pid, s_reconnectAttempt = attempt, s_reconnectSeq = manualSeq,
                      s_reconnectID = rid, s_reconnectNextAt = due, s_reconnectLifecycleID = lifecycle\<rparr>) s0;
               s2 = record_connection (zero_event\<lparr>ce_ConnectionID := lifecycle, ce_ProfileID := pid,
                      ce_Kind := ''reconnect_scheduled'', ce_Attempt := attempt, ce_NextRetryAt := Some due\<rparr>) s1
           in log_add ''info'' (''appd: auto reconnect scheduled id='' @ quote pid @ '' attempt='' @ fmt_int attempt
                @ '' delay='' @ fmt_duration delay) s2)"

text \<open>\<open>func reconnectFailureCode\<close>, \<open>func (s *Service) retryReconnectLocked\<close>\<close>

definition reconnectFailureCode :: "error \<Rightarrow> string" where
  "reconnectFailureCode err = (if IsRetryable err then ''retry_limit_reached'' else ''non_retryable_error'')"

definition release_owner :: "service \<Rightarrow> service" where
  "release_owner s = (if s_controlMode (svc_p s) = ''user'' then svc_conn_update (\<lambda>c. c\<lparr>s_activeOwnerID := []\<rparr>) s else s)"

definition retryReconnectLocked :: "string \<Rightarrow> u64 \<Rightarrow> int \<Rightarrow> error \<Rightarrow> service \<Rightarrow> service" where
  "retryReconnectLocked pid manualSeq attempt err s0 =
     (if IsRetryable err \<and> attempt < autoReconnectMaxTries then startReconnectLocked pid manualSeq (attempt + 1) s0
      else let errorMessage = sanitizeDiagnostic (err_msg err);
               lifecycleID = s_reconnectLifecycleID (svc_recon s0);
               s1 = touch (set_lastError errorMessage (set_state StateError s0));
               s2 = record_connection (zero_event\<lparr>ce_ConnectionID := lifecycleID, ce_ProfileID := pid,
                      ce_Kind := ''reconnect_exhausted'', ce_ReasonCode := reconnectFailureCode err,
                      ce_Error := errorMessage, ce_Attempt := attempt\<rparr>) s1;
               s3 = log_add ''error'' (''appd: auto reconnect exhausted id='' @ quote pid @ '' attempts='' @ fmt_int attempt
                      @ '' err='' @ quote errorMessage) s2;
               s4 = stopReconnectLocked (release_owner s3)
           in emit_status errorMessage (''Automatic reconnect stopped after '' @ fmt_int attempt @ '' failed attempts: '' @ errorMessage) s4)"

section \<open>The SOCKS5 proxy\<close>

text \<open>\<open>func (s *Service) recordProxyError\<close>\<close>

definition recordProxyError :: "error \<Rightarrow> service \<Rightarrow> service" where
  "recordProxyError err s0 =
     (let s1 = touch (set_lastError (err_msg err) (unhealthy ''proxy'' (err_msg err) s0));
          s2 = log_add ''error'' (''appd: socks5 proxy unavailable err='' @ quote (err_msg err)) s1
      in emit_status (err_msg err) [] s2)"

text \<open>\<open>func (s *Service) stopProxy\<close>: the first section answers the listener to close, or that there is
  nothing to do.\<close>

definition set_proxy :: "(nat \<times> string) option \<Rightarrow> bool \<Rightarrow> string \<Rightarrow> service \<Rightarrow> service" where
  "set_proxy server enabled addr s = s\<lparr>svc_conn := (svc_conn s)\<lparr>s_proxyServer := server\<rparr>,
     svc_status := (svc_status s)\<lparr>st_SOCKS5Enabled := enabled, st_SOCKS5Listen := addr\<rparr>\<rparr>"

definition stopProxy_begin :: "service \<Rightarrow> service \<times> (nat \<times> string) option option" where
  "stopProxy_begin s0 =
     (let server = s_proxyServer (svc_conn s0); st = svc_status s0
      in if server = None \<and> \<not> st_SOCKS5Enabled st \<and> st_SOCKS5Listen st = [] then (s0, None)
         else let s1 = touch (set_proxy None False [] s0);
                  s2 = (if st_SOCKS5Enabled st
                        then let s = log_add ''info'' (''appd: socks5 proxy stopped addr='' @ st_SOCKS5Listen st) s1
                             in emit_status [] ''SOCKS5 proxy stopped'' s
                        else s1)
              in (s2, Some server))"

definition stopProxy_end :: "service \<Rightarrow> service" where
  "stopProxy_end s = healthy ''proxy'' s"

definition stopProxy :: "service \<Rightarrow> service \<times> error option" where
  "stopProxy s0 = (case stopProxy_begin s0 of
      (s1, None) \<Rightarrow> (s1, None)
    | (s1, Some server) \<Rightarrow>
        (case (if server = None then (s1, None) else socks_close s1) of
           (s2, Some e) \<Rightarrow> (s2, Some e)
         | (s2, None) \<Rightarrow> (stopProxy_end s2, None)))"

text \<open>\<open>func (s *Service) startProxy\<close>; the goroutine it starts is \<open>monitorProxy\<close>.\<close>

definition startProxy_begin :: "string \<Rightarrow> service \<Rightarrow> service \<times> (nat \<times> string) option option" where
  "startProxy_begin listenAddr s0 =
     (if s_proxyServer (svc_conn s0) \<noteq> None \<and> st_SOCKS5Enabled (svc_status s0) \<and> st_SOCKS5Listen (svc_status s0) = listenAddr
      then (s0, None)
      else (set_proxy None False [] s0, Some (s_proxyServer (svc_conn s0))))"

definition startProxy_failed :: "error \<Rightarrow> service \<Rightarrow> service" where
  "startProxy_failed err s0 =
     (let s1 = log_add ''error'' (''appd: start socks5 proxy failed err='' @ quote (err_msg err)) (unhealthy ''proxy'' (err_msg err) s0)
      in emit_status (err_msg err) [] (touch (set_lastError (err_msg err) s1)))"

definition startProxy_end :: "nat \<times> string \<Rightarrow> service \<Rightarrow> service" where
  "startProxy_end server s0 =
     (let s1 = touch (set_proxy (Some server) True (snd server) (healthy ''proxy'' s0))
      in emit_status [] ''SOCKS5 proxy started'' (log_add ''info'' (''appd: socks5 proxy started addr='' @ snd server) s1))"

definition startProxy :: "string \<Rightarrow> bool \<Rightarrow> service \<Rightarrow> service \<times> error option" where
  "startProxy listenAddr0 dialer s0 =
     (if \<not> dialer then (s0, Some (Errors ''SOCKS5 requires a VPN tunnel dialer''))
      else let listenAddr = (if listenAddr0 = [] then ''127.0.0.1:1080'' else listenAddr0)
           in case startProxy_begin listenAddr s0 of
                (s1, None) \<Rightarrow> (s1, None)
              | (s1, Some oldProxy) \<Rightarrow>
                  (case (if oldProxy = None then (s1, None) else socks_close s1) of
                     (s2, Some e) \<Rightarrow> (s2, Some (Wrap ''replace SOCKS5 listener: '' e []))
                   | (s2, None) \<Rightarrow>
                       (case socks_listen s2 of
                          (s3, Inl e) \<Rightarrow> (startProxy_failed e s3, Some e)
                        | (s3, Inr server) \<Rightarrow> (startProxy_end server s3, None))))"

text \<open>\<open>func (s *Service) applyProxyProfile\<close>\<close>

definition applyProxyProfile :: "Profile \<Rightarrow> service \<Rightarrow> service \<times> error option" where
  "applyProxyProfile profile s0 =
     (if \<not> (s_connectedID (svc_conn s0) = prof_ID profile \<and> st_State (svc_status s0) = StateConnected) then stopProxy s0
      else if \<not> prof_SOCKS5Enabled profile then stopProxy s0
      else case backend_dialer s0 of
        (s1, Inl e) \<Rightarrow> (recordProxyError (Wrap ''SOCKS5 VPN dialer unavailable: '' e []) (fst (stopProxy s1)), Some e)
      | (s1, Inr dialer) \<Rightarrow> startProxy (prof_SOCKS5Listen profile) dialer s1)"

section \<open>Disconnect, cleanup failure, close\<close>

text \<open>\<open>func (s *Service) failCleanup\<close>\<close>

definition failCleanup :: "error \<Rightarrow> service \<Rightarrow> service" where
  "failCleanup err s0 =
     (let message = sanitizeDiagnostic (err_msg err);
          s1 = unhealthy ''cleanup'' (err_msg err) (svc_conn_update (\<lambda>c. c\<lparr>s_fatalErr := Some err\<rparr>) s0);
          s2 = touch (set_state StateError (set_lastError message s1));
          s3 = emit (zero_notify\<lparr>nt_Event := ''cleanup_failed'', nt_Status := Some (svc_status s2), nt_Error := message\<rparr>) s2
      in svc_conn_update (\<lambda>c. c\<lparr>s_fatalCh := (if s_fatalCh c = [] then [err] else s_fatalCh c)\<rparr>) s3)"

text \<open>The stored cancel function of the current attempt.\<close>

definition cancel_attempt :: "service \<Rightarrow> service" where
  "cancel_attempt s = (if s_attemptCancel (svc_conn s)
     then svc_conn_update (\<lambda>c. c\<lparr>s_canceled := s_attemptID c # s_canceled c\<rparr>) s else s)"

definition clear_attempt :: "service \<Rightarrow> service" where
  "clear_attempt s = s\<lparr>svc_conn := (svc_conn s)\<lparr>s_attemptID := [], s_attemptCancel := False\<rparr>,
     svc_status := (svc_status s)\<lparr>st_AttemptID := []\<rparr>\<rparr>"

definition clear_connection :: "service \<Rightarrow> service" where
  "clear_connection s = s\<lparr>svc_conn := (svc_conn s)\<lparr>s_connectedID := []\<rparr>,
     svc_status := (svc_status s)\<lparr>st_ConnectedProfileID := [], st_Session := None, st_EffectiveRoutes := []\<rparr>\<rparr>"

text \<open>\<open>func (s *Service) disconnect\<close>\<close>

definition disconnect_begin :: "bool \<Rightarrow> service \<Rightarrow> service \<times> bool" where
  "disconnect_begin manual s0 =
     (let active = (s_connectedID (svc_conn s0) \<noteq> [] \<or> s_attemptCancel (svc_conn s0)
             \<or> st_State (svc_status s0) = StateConnecting \<or> st_State (svc_status s0) = StateReconnecting);
          s1 = (if manual then cancelNetworkReconnectLocked (stopReconnectLocked s0) else s0);
          s2 = (if manual \<and> s_connectedID (svc_conn s1) \<noteq> []
                then svc_conn_update (\<lambda>c. c\<lparr>s_disconnectSeq := s_disconnectSeq c + 1,
                       s_manualDisconnectSeq := s_disconnectSeq c + 1, s_manualProfileID := s_connectedID c\<rparr>) s1
                else s1)
      in (cancel_attempt s2, active))"

definition disconnect_end :: "service \<Rightarrow> service" where
  "disconnect_end s0 =
     (let s1 = set_lastError [] (set_state StateDisconnected (clear_connection (clear_attempt s0)));
          s2 = touch (clear_traffic (release_owner s1));
          s3 = log_add ''info'' (''appd: profile disconnected id='' @ st_CurrentProfileID (svc_status s2)) s2
      in emit_traffic (emit_status [] ''Disconnected.'' s3))"

definition disconnect :: "bool \<Rightarrow> service \<Rightarrow> service \<times> error option" where
  "disconnect manual s0 =
     (case disconnect_begin manual s0 of (s1, active) \<Rightarrow>
        case stopProxy s1 of
          (s2, Some e) \<Rightarrow> (failCleanup (Wrap ''SOCKS5 cleanup failed: '' e []) s2, Some e)
        | (s2, None) \<Rightarrow>
            if \<not> active then (s2, None)
            else case backend_disconnect s2 of
              (s3, Some e) \<Rightarrow> (failCleanup (Wrap ''disconnect cleanup failed: '' e []) s3, Some e)
            | (s3, None) \<Rightarrow> (disconnect_end s3, None))"

definition Disconnect :: "service \<Rightarrow> service \<times> error option" where
  "Disconnect s = disconnect True s"

text \<open>\<open>func (s *Service) Close\<close>\<close>

definition Close_begin :: "service \<Rightarrow> service" where
  "Close_begin s = cancel_attempt (cancelNetworkReconnectLocked (stopReconnectLocked
     (svc_conn_update (\<lambda>c. c\<lparr>s_closed := True\<rparr>) s)))"

definition join_errors :: "error option \<Rightarrow> error option \<Rightarrow> error option" where
  "join_errors a b = (case (a, b) of (None, y) \<Rightarrow> y | (x, None) \<Rightarrow> x | (Some x, Some y) \<Rightarrow> Some (JoinE x y))"

definition close_watchers :: "bus \<Rightarrow> bus" where
  "close_watchers b = b\<lparr>b_watchers := [], b_closedWatchers := b_closedWatchers b @ b_watchers b\<rparr>"

definition Close_end :: "error option \<Rightarrow> service \<Rightarrow> service" where
  "Close_end closeErr s0 =
     (let s1 = touch (set_state StateDisconnected (clear_connection (clear_attempt s0)));
          s2 = (case closeErr of Some e \<Rightarrow> unhealthy ''cleanup'' (err_msg e) s1 | None \<Rightarrow> healthy ''cleanup'' s1)
      in s2\<lparr>svc_bus := close_watchers (svc_bus s2)\<rparr>)"

definition Close :: "service \<Rightarrow> service \<times> error option" where
  "Close s0 =
     (if s_closed (svc_conn s0) then (s0, None)
      else case stopProxy (Close_begin s0) of (s1, e1) \<Rightarrow>
        case backend_close s1 of (s2, e2) \<Rightarrow>
          let closeErr = join_errors (map_option (\<lambda>e. Wrap ''close SOCKS5 proxy: '' e []) e1)
                           (map_option (\<lambda>e. Wrap ''close VPN backend: '' e []) e2)
          in (Close_end closeErr s2, closeErr))"

section \<open>Connect\<close>

text \<open>\<open>func (s *Service) connectAllowedFromStateLocked\<close>\<close>

definition connectAllowedFromStateLocked :: "string \<Rightarrow> bool \<Rightarrow> service \<Rightarrow> bool" where
  "connectAllowedFromStateLocked pid allowReconnectState s \<longleftrightarrow>
     allowReconnectState \<and> st_State (svc_status s) = StateReconnecting \<and> st_CurrentProfileID (svc_status s) = pid"

text \<open>A section of \<open>connectPreparedProfile\<close> returns from the function or goes on.\<close>

datatype 'a gate = Return "error option" | Proceed 'a

definition connect_gate :: "Profile \<Rightarrow> bool \<Rightarrow> service \<Rightarrow> unit gate" where
  "connect_gate profile allowReconnectState s =
     (let st = svc_status s; busy = (st_State st = StateConnecting \<or> st_State st = StateReconnecting);
          allowed = connectAllowedFromStateLocked (prof_ID profile) allowReconnectState s
      in if busy \<and> \<not> allowed \<and> st_CurrentProfileID st = prof_ID profile then Return None
         else if busy \<and> \<not> allowed then Return (Some errConnectInProgress)
         else if st_State st = StateConnected \<and> s_connectedID (svc_conn s) = prof_ID profile then Return None
         else Proceed ())"

text \<open>The second section: the gate again, the two identifiers, the attempt becomes current.\<close>

definition start_attempt :: "Profile \<Rightarrow> bool \<Rightarrow> string \<Rightarrow> service \<Rightarrow> service" where
  "start_attempt profile allowReconnectState aid s0 =
     (let s1 = set_state (if allowReconnectState then StateReconnecting else StateConnecting) (set_currentID (prof_ID profile) s0);
          s2 = s1\<lparr>svc_conn := (svc_conn s1)\<lparr>s_attemptID := aid, s_attemptCancel := True\<rparr>,
                  svc_status := (svc_status s1)\<lparr>st_CurrentProfileID := prof_ID profile, st_ConnectedProfileID := [],
                     st_AttemptID := aid, st_LastError := []\<rparr>\<rparr>;
          s3 = log_add ''info'' (''appd: connecting id='' @ prof_ID profile) (touch (clear_traffic s2))
      in emit_status [] (''Connecting to profile '' @ prof_ID profile) s3)"

definition connect_begin :: "Profile \<Rightarrow> bool \<Rightarrow> service \<Rightarrow> service \<times> (string \<times> string) gate" where
  "connect_begin profile allowReconnectState s0 =
     (case connect_gate profile allowReconnectState s0 of
        Return r \<Rightarrow> (s0, Return r)
      | Proceed _ \<Rightarrow>
          (case newID s0 of
             (s1, Inl e) \<Rightarrow> (s1, Return (Some (Wrap ''generate connection attempt ID: '' e [])))
           | (s1, Inr aid) \<Rightarrow>
               (case newID s1 of
                  (s2, Inl e) \<Rightarrow> (s2, Return (Some (Wrap ''generate connection ID: '' e [])))
                | (s2, Inr cid) \<Rightarrow> (start_attempt profile allowReconnectState aid s2, Proceed (aid, cid)))))"

text \<open>\<open>attemptCtx.Err()\<close>: \<open>ctx\<close> is the error of the caller's context when it ended before the attempt was
  canceled through its own cancel function.\<close>

definition attempt_err :: "error option \<Rightarrow> string \<Rightarrow> service \<Rightarrow> error option" where
  "attempt_err ctx aid s = (case ctx of Some e \<Rightarrow> Some e
     | None \<Rightarrow> if aid \<in> set (s_canceled (svc_conn s)) then Some Canceled else None)"

text \<open>The section after \<open>backend.Connect\<close> failed.\<close>

definition connect_failed :: "Profile \<Rightarrow> string \<Rightarrow> error option \<Rightarrow> error \<Rightarrow> service \<Rightarrow> service \<times> error" where
  "connect_failed profile aid ctx err s0 =
     (if s_attemptID (svc_conn s0) \<noteq> aid then (s0, Canceled)
      else let canceled = (errors_is err Canceled \<or> (case attempt_err ctx aid s0 of Some e \<Rightarrow> errors_is e Canceled | None \<Rightarrow> False));
               s1 = clear_attempt s0;
               s2 = (if canceled then set_lastError [] (set_state StateDisconnected s1)
                     else set_lastError (sanitizeDiagnostic (err_msg err)) (set_state StateError s1));
               s3 = log_add ''error'' (''appd: connect failed id='' @ prof_ID profile @ '' err='' @ quote (err_msg err)) (touch s2);
               s4 = record_connection (zero_event\<lparr>ce_ProfileID := prof_ID profile, ce_Kind := ''connect_failed'',
                      ce_ReasonCode := ''connect_error'', ce_Error := err_msg err\<rparr>) s3
           in (emit_status (err_msg err) (''Failed to connect profile '' @ prof_ID profile @ '': '' @ err_msg err) s4, err))"

text \<open>What runs between the backend's answer and the commit: the session must exist and the proxy must follow
  the profile.\<close>

definition connect_components :: "Profile \<Rightarrow> SessionInfo option \<Rightarrow> service \<Rightarrow> service \<times> error option" where
  "connect_components profile session s0 =
     (if session = None then (s0, Some (Errors ''VPN backend returned an empty session''))
      else if prof_SOCKS5Enabled profile
      then (case backend_dialer s0 of
              (s1, Inl e) \<Rightarrow> (s1, Some e)
            | (s1, Inr dialer) \<Rightarrow> startProxy (prof_SOCKS5Listen profile) dialer s1)
      else stopProxy s0)"

text \<open>The section after a required component failed.\<close>

definition connect_rollback :: "Profile \<Rightarrow> string \<Rightarrow> error \<Rightarrow> error option \<Rightarrow> service \<Rightarrow> service" where
  "connect_rollback profile aid err cleanupErr s0 =
     (if s_attemptID (svc_conn s0) \<noteq> aid then s0
      else let message = (case cleanupErr of None \<Rightarrow> sanitizeDiagnostic (err_msg err)
                 | Some c \<Rightarrow> sanitizeDiagnostic (err_msg err @ ''; cleanup failed: '' @ err_msg c));
               s1 = touch (set_lastError message (set_state StateError (clear_attempt s0)));
               s2 = record_connection (zero_event\<lparr>ce_ProfileID := prof_ID profile, ce_Kind := ''connect_failed'',
                      ce_ReasonCode := ''required_component_failed'', ce_Error := message\<rparr>) s1
           in emit_status message ''Connection setup failed.'' s2)"

text \<open>The committing section.\<close>

definition connect_commit :: "Profile \<Rightarrow> string \<Rightarrow> bool \<Rightarrow> error option \<Rightarrow> SessionInfo \<Rightarrow> service \<Rightarrow> service \<times> error option" where
  "connect_commit profile aid allowReconnectState ctx session s0 =
     (if s_attemptID (svc_conn s0) \<noteq> aid \<or> attempt_err ctx aid s0 \<noteq> None then (s0, Some Canceled)
      else let s1 = set_state StateConnected (clear_attempt s0);
               cid = (if si_ConnectionID session = [] then ''connection-'' @ fmt_u64 (b_connectionSeq (svc_bus s1) + 1)
                      else si_ConnectionID session);
               s2 = s1\<lparr>svc_conn := (svc_conn s1)\<lparr>s_connectedID := prof_ID profile, s_activeConnectionID := cid,
                           s_activeConnectionStarted := svc_clock s1\<rparr>,
                       svc_status := (svc_status s1)\<lparr>st_ConnectedProfileID := prof_ID profile, st_Session := Some session,
                           st_EffectiveRoutes := Plan (si_SplitInclude session) (si_SplitExclude session) profile\<rparr>\<rparr>;
               s3 = fst (sample_traffic (touch s2));
               s4 = log_add ''info'' (''appd: connected profile='' @ prof_ID profile) s3;
               s5 = record_connection (zero_event\<lparr>ce_ConnectionID := cid, ce_ProfileID := prof_ID profile,
                      ce_Kind := (if allowReconnectState then ''reconnected'' else ''connected''),
                      ce_Attempt := s_reconnectAttempt (svc_recon s4)\<rparr>) s4
           in (emit_traffic (emit_status [] (''Connected to profile '' @ prof_ID profile) s5), None))"

text \<open>\<open>connectPreparedProfile\<close> from the backend's answer on.\<close>

definition connect_finish :: "Profile \<Rightarrow> string \<Rightarrow> bool \<Rightarrow> error option \<Rightarrow> error + SessionInfo option \<Rightarrow> service
    \<Rightarrow> service \<times> error option" where
  "connect_finish profile aid allowReconnectState ctx answer s0 =
     (case answer of
        Inl e \<Rightarrow> (let (s1, r) = connect_failed profile aid ctx e s0 in (s1, Some r))
      | Inr session \<Rightarrow>
          (case connect_components profile session s0 of
             (s1, Some e) \<Rightarrow>
               (let (s2, cleanupErr) = backend_disconnect s1; s3 = connect_rollback profile aid e cleanupErr s2
                in case cleanupErr of
                     None \<Rightarrow> (s3, Some e)
                   | Some c \<Rightarrow> (failCleanup (Wrap ''connection rollback cleanup failed: '' c []) s3,
                        Some (Wrap ''connection setup failed: '' e (''; cleanup failed: '' @ err_msg c))))
           | (s1, None) \<Rightarrow> connect_commit profile aid allowReconnectState ctx (the session) s1))"

text \<open>\<open>func (s *Service) connectPreparedProfile\<close>\<close>

definition connect_tail :: "error option \<Rightarrow> Profile \<Rightarrow> bool \<Rightarrow> service \<Rightarrow> service \<times> error option" where
  "connect_tail ctx profile allowReconnectState s0 =
     (case connect_begin profile allowReconnectState s0 of
        (s1, Return r) \<Rightarrow> (s1, r)
      | (s1, Proceed (aid, cid)) \<Rightarrow>
          (case backend_connect s1 of (s2, answer) \<Rightarrow> connect_finish profile aid allowReconnectState ctx answer s2))"

definition connectPreparedProfile :: "urlparser \<Rightarrow> error option \<Rightarrow> Profile \<Rightarrow> string \<Rightarrow> bool \<Rightarrow> service
    \<Rightarrow> service \<times> error option" where
  "connectPreparedProfile U ctx profile password allowReconnectState s0 =
     (case validateProfileForConnect U profile of
        Some e \<Rightarrow> (s0, Some e)
      | None \<Rightarrow>
          (case (if prof_SecretRef profile \<noteq> [] \<and> password = [] then loadProfileSecret profile s0 else (s0, Inr password)) of
             (s1, Inl e) \<Rightarrow> (s1, Some e)
           | (s1, Inr _) \<Rightarrow>
               (case connect_gate profile allowReconnectState s1 of
                  Return r \<Rightarrow> (s1, r)
                | Proceed _ \<Rightarrow>
                    if s_connectedID (svc_conn s1) \<noteq> [] \<and> s_connectedID (svc_conn s1) \<noteq> prof_ID profile
                    then (case disconnect False s1 of
                            (s2, Some e) \<Rightarrow> (s2, Some e)
                          | (s2, None) \<Rightarrow> connect_tail ctx profile allowReconnectState s2)
                    else connect_tail ctx profile allowReconnectState s1)))"

text \<open>\<open>func (s *Service) Connect\<close>, \<open>ConnectCurrent\<close>, \<open>reconnectProfile\<close>\<close>

definition Connect :: "urlparser \<Rightarrow> error option \<Rightarrow> string \<Rightarrow> service \<Rightarrow> service \<times> error option" where
  "Connect U ctx pid s0 =
     (let s1 = cancelNetworkReconnectLocked (stopReconnectLocked s0)
      in case findProfileLocked pid s1 of
           Inl e \<Rightarrow> (s1, Some e)
         | Inr profile \<Rightarrow>
             (case loadProfileSecret profile s1 of
                (s2, Inl e) \<Rightarrow> (s2, Some e)
              | (s2, Inr password) \<Rightarrow> connectPreparedProfile U ctx profile password False s2))"

definition ConnectCurrent :: "urlparser \<Rightarrow> error option \<Rightarrow> service \<Rightarrow> service \<times> error option" where
  "ConnectCurrent U ctx s =
     (if s_currentID (svc_p s) = [] then (s, Some errNoCurrentProfile) else Connect U ctx (s_currentID (svc_p s)) s)"

definition reconnectProfile :: "urlparser \<Rightarrow> error option \<Rightarrow> string \<Rightarrow> string \<Rightarrow> service \<Rightarrow> service \<times> error option" where
  "reconnectProfile U ctx pid reason s0 =
     (case disconnect False (log_add ''info'' (''appd: reconnect reason='' @ quote reason) s0) of
        (s1, Some e) \<Rightarrow> (s1, Some e)
      | (s1, None) \<Rightarrow> Connect U ctx pid s1)"

end
