(* ===== verification/Reconnect.thy ===== *)
theory Reconnect
  imports Supervisor
begin

text \<open>
  Recovery of a lost connection (\<open>internal/appd/daemon.go\<close>): the backend event loop, the scheduled reconnects, the
  repair after a change of the underlying network, the failure of the SOCKS5 listener; and the profile operations
  that act on the running connection (\<open>SwitchProfile\<close>, \<open>UpdateRoutes\<close>, \<open>updateProfile\<close>,
  \<open>DeleteProfile\<close>).
\<close>

section \<open>Backend events\<close>

text \<open>\<open>func retryableDisconnectEvent\<close>\<close>

definition retryable_codes :: "string list" where
  "retryable_codes = [''tls_read_error'', ''tls_read_timeout'', ''tls_write_error'', ''tls_write_timeout'',
     ''tls_deadline_error'', ''underlay_snapshot_failed'']"

definition retryableDisconnectEvent :: "Event \<Rightarrow> bool" where
  "retryableDisconnectEvent event = (case ev_Err event of
      Some e \<Rightarrow> IsRetryable e
    | None \<Rightarrow> (case ev_Close event of None \<Rightarrow> False | Some c \<Rightarrow> di_Code c \<in> set retryable_codes))"

text \<open>\<open>func networkSnapshotInfo\<close>, \<open>func networkChangeFromBackend\<close>\<close>

definition networkSnapshotInfo :: "NetworkSnapshot \<Rightarrow> UnderlayInfo option" where
  "networkSnapshotInfo n =
     (if ns_InterfaceName n = [] \<and> ns_LocalIPv4 n = [] \<and> ns_Gateway n = [] then None
      else Some \<lparr>ui_InterfaceName = ns_InterfaceName n, ui_InterfaceIndex = ns_InterfaceIndex n, ui_LocalIPv4 = ns_LocalIPv4 n,
             ui_Gateway = ns_Gateway n, ui_GatewayInterface = ns_GatewayInterface n, ui_RouteMetric = ns_RouteMetric n,
             ui_Generation = ns_Generation n\<rparr>)"

definition networkChangeFromBackend :: "NetworkChange \<Rightarrow> service \<Rightarrow> NetworkChangeInfo" where
  "networkChangeFromBackend change s =
     \<lparr>nci_Before = networkSnapshotInfo (nc_Before change), nci_After = networkSnapshotInfo (nc_After change),
      nci_Reasons = nc_Reasons change, nci_RebindRequired = nc_RebindRequired change,
      nci_Error = sanitizeDiagnostic (nc_Error change), nci_Time = now_s s\<rparr>"

text \<open>What the event loop does once it has released the lock: nothing, start \<open>runNetworkReconnect\<close> in a
  goroutine, or take the lock again for \<open>startReconnectLocked\<close>.\<close>

datatype followup = Idle | Repair u64 string | Schedule string u64

definition stale_event :: "Event \<Rightarrow> service \<Rightarrow> bool" where
  "stale_event event s \<longleftrightarrow> ev_ConnectionID event \<noteq> [] \<and> s_activeConnectionID (svc_conn s) \<noteq> []
     \<and> ev_ConnectionID event \<noteq> s_activeConnectionID (svc_conn s)"

text \<open>The case \<open>health\<close>\<close>

definition health_event :: "Event \<Rightarrow> service \<Rightarrow> service" where
  "health_event event s0 =
     (let component = (if ev_Component event = [] then ''backend'' else ev_Component event)
      in case ev_Err event of
           None \<Rightarrow> emit (zero_notify\<lparr>nt_Event := ''health'', nt_Message := component @ '' recovered''\<rparr>) (healthy component s0)
         | Some e \<Rightarrow>
             (let message = sanitizeDiagnostic (err_msg e);
                  s1 = log_add ''error'' (''appd: component unhealthy component='' @ component @ '' err='' @ quote message)
                         (unhealthy component (err_msg e) s0)
              in emit (zero_notify\<lparr>nt_Event := ''health'', nt_Error := message, nt_Message := component @ '' is unhealthy''\<rparr>) s1))"

text \<open>The case \<open>network_change\<close>\<close>

definition network_event :: "Event \<Rightarrow> service \<Rightarrow> service \<times> followup" where
  "network_event event s0 =
     (if stale_event event s0 then (s0, Idle)
      else case ev_Network event of
        None \<Rightarrow> (s0, Idle)
      | Some net \<Rightarrow>
          if s_connectedID (svc_conn s0) = [] then (s0, Idle)
          else if s_networkReconnectActive (svc_net s0) then (s0, Idle)
          else let repairID = s_networkReconnectID (svc_net s0) + 1;
                   pid = s_connectedID (svc_conn s0);
                   change = networkChangeFromBackend net s0;
                   s1 = s0\<lparr>svc_net := \<lparr>s_networkReconnectActive = True, s_networkReconnectID = repairID,
                          s_networkReconnectConnID = ev_ConnectionID event, s_networkReconnectProfile = pid,
                          s_lastNetworkChange = Some change\<rparr>\<rparr>;
                   s2 = touch (set_lastError [] (set_state StateReconnecting s1));
                   s3 = record_connection (zero_event\<lparr>ce_ConnectionID := ev_ConnectionID event, ce_ProfileID := pid,
                          ce_Kind := ''network_change'', ce_ReasonCode := ''underlay_changed'', ce_Transport := ''network'',
                          ce_Error := nci_Error change\<rparr>) s2;
                   s4 = log_add ''info'' (''appd: underlay changed profile='' @ pid @ '' reasons='' @ Join (nci_Reasons change) '','') s3;
                   s5 = emit (zero_notify\<lparr>nt_Event := ''network'', nt_Network := Some change, nt_Status := Some (svc_status s4),
                          nt_Message := ''Network path changed; reconnecting.''\<rparr>) s4
               in (s5, Repair repairID (ev_ConnectionID event)))"

text \<open>The case \<open>disconnected\<close>: its local variables, computed before the state changes\<close>

record loss =
  lo_ProfileID :: string
  lo_Manual :: bool
  lo_Intentional :: bool
  lo_Repair :: bool
  lo_Schedule :: bool

definition classify_loss :: "Event \<Rightarrow> service \<Rightarrow> loss" where
  "classify_loss event s =
     (let c = svc_conn s; n = svc_net s;
          pid = (if s_connectedID c = [] \<and> s_manualProfileID c \<noteq> [] then s_manualProfileID c else s_connectedID c);
          repair = (s_networkReconnectActive n \<and> ev_ConnectionID event = s_networkReconnectConnID n);
          manual = (pid \<noteq> [] \<and> pid = s_manualProfileID c \<and> s_manualDisconnectSeq c = s_disconnectSeq c);
          localRequested = (case ev_Close event of None \<Rightarrow> False | Some d \<Rightarrow> di_Code d = ''local_requested'');
          intentional = (manual \<or> localRequested);
          schedule = (\<not> intentional \<and> \<not> repair \<and> s_currentID (svc_p s) = pid
             \<and> (case profileAutoReconnect pid s of None \<Rightarrow> False | Some p \<Rightarrow> autoReconnectEnabledLocked p s)
             \<and> s_reconnectTimer (svc_recon s) = None \<and> retryableDisconnectEvent event)
      in \<lparr>lo_ProfileID = pid, lo_Manual = manual, lo_Intentional = intentional, lo_Repair = repair, lo_Schedule = schedule\<rparr>)"

text \<open>Reason, transport and error text of the history entry\<close>

definition loss_reason :: "Event \<Rightarrow> loss \<Rightarrow> string \<times> string \<times> string" where
  "loss_reason event lo =
     (let (reason, transport, err) = (case ev_Close event of
             None \<Rightarrow> (''unknown_close'', [], []) | Some d \<Rightarrow> (di_Code d, di_Transport d, di_Error d));
          (reason, err) = (case ev_Err event of
             Some e \<Rightarrow> if err = [] then (''backend_error'', err_msg e) else (reason, err) | None \<Rightarrow> (reason, err))
      in if lo_Repair lo then (''underlay_changed'', ''network'', [])
         else if lo_Intentional lo then (''local_requested'', ''local'', [])
         else (reason, transport, err))"

definition loss_record :: "Event \<Rightarrow> loss \<Rightarrow> service \<Rightarrow> ConnectionEvent" where
  "loss_record event lo s =
     (let (reason, transport, err) = loss_reason event lo; started = s_activeConnectionStarted (svc_conn s)
      in zero_event\<lparr>ce_ConnectionID := s_activeConnectionID (svc_conn s), ce_ProfileID := lo_ProfileID lo,
           ce_Kind := (if lo_Repair lo then ''network_reconnect'' else if lo_Intentional lo then ''disconnected'' else ''connection_lost''),
           ce_ReasonCode := reason, ce_Transport := transport, ce_Error := err, ce_SessionEnded := Some (svc_clock s),
           ce_TransportFaults := (case ev_Close event of None \<Rightarrow> [] | Some d \<Rightarrow> di_TransportFaults d),
           ce_SessionStarted := (if started = 0 then None else Some started),
           ce_DurationMS := (if started = 0 then 0 else int ((svc_clock s - started) div 1000000))\<rparr>)"

definition drop_connection :: "Event \<Rightarrow> loss \<Rightarrow> service \<Rightarrow> service" where
  "drop_connection event lo s0 =
     (let s1 = (if lo_Manual lo then svc_conn_update (\<lambda>c. c\<lparr>s_manualProfileID := [], s_manualDisconnectSeq := 0\<rparr>) s0 else s0);
          s2 = set_state (if lo_Repair lo then StateReconnecting else StateDisconnected) (clear_connection s1);
          s3 = clear_traffic (svc_status_update (\<lambda>x. x\<lparr>st_SOCKS5Enabled := False, st_SOCKS5Listen := []\<rparr>) s2);
          s4 = log_add ''info'' (''appd: backend event=disconnected intentional='' @ fmt_bool (lo_Intentional lo)
                 @ '' network_repair='' @ fmt_bool (lo_Repair lo)) s3;
          s5 = record_connection (loss_record event lo s4) s4
      in svc_conn_update (\<lambda>c. c\<lparr>s_activeConnectionID := [], s_activeConnectionStarted := 0\<rparr>) s5)"

text \<open>After the switch: the error of the event, the message, the status and traffic events\<close>

definition event_tail :: "Event \<Rightarrow> string \<Rightarrow> bool \<Rightarrow> service \<Rightarrow> service" where
  "event_tail event message0 lost s0 =
     (let (s1, message1) = (case ev_Err event of
             None \<Rightarrow> (s0, message0)
           | Some e \<Rightarrow> (log_add ''error'' (''appd: backend error err='' @ quote (err_msg e))
                          (set_lastError (err_msg e) (set_state StateError s0)), ''Backend error: '' @ err_msg e));
          (s2, message2) = (case ev_Close event of
             None \<Rightarrow> (s1, message1)
           | Some d \<Rightarrow>
               if \<not> lost then (s1, message1)
               else if di_Error d \<noteq> []
               then (if ev_Err event = None
                     then (set_lastError (sanitizeDiagnostic (di_Error d)) (set_state StateError s1),
                           ''VPN connection lost: '' @ sanitizeDiagnostic (di_Error d))
                     else (s1, message1))
               else if di_Code d \<noteq> [] then (s1, ''VPN connection lost ('' @ di_Code d @ '').'')
               else (s1, message1));
          s3 = touch s2
      in emit_status (st_LastError (svc_status s3)) message2 s3)"

definition lost_event :: "Event \<Rightarrow> service \<Rightarrow> service \<times> followup" where
  "lost_event event s0 =
     (if stale_event event s0 then (s0, Idle)
      else let lo = classify_loss event s0;
               s1 = drop_connection event lo s0;
               message = (if lo_Repair lo then ''Network path changed; reconnecting.'' else ''Backend disconnected.'');
               s2 = emit_traffic (event_tail event message (\<not> lo_Intentional lo \<and> \<not> lo_Repair lo) s1);
               s3 = (if \<not> lo_Schedule lo \<and> \<not> lo_Repair lo then release_owner s2 else s2)
           in (s3, if lo_Schedule lo then Schedule (lo_ProfileID lo) (s_disconnectSeq (svc_conn s0)) else Idle))"

text \<open>\<open>func (s *Service) consumeBackendEvents\<close>: the section of one event\<close>

definition event_section :: "Event \<Rightarrow> service \<Rightarrow> service \<times> followup" where
  "event_section event s =
     (if ev_Type event = ''connected''
      then (emit_traffic (event_tail event ''Backend connection established.'' False
              (log_add ''info'' ''appd: backend transport established'' s)), Idle)
      else if ev_Type event = ''health'' then (health_event event s, Idle)
      else if ev_Type event = ''network_change'' then network_event event s
      else if ev_Type event = ''disconnected'' then lost_event event s
      else (event_tail event [] False s, Idle))"

text \<open>One turn of the loop; a repair runs in a goroutine of its own and is answered to the caller.\<close>

definition handle_event :: "Event \<Rightarrow> service \<Rightarrow> service \<times> (u64 \<times> string) option" where
  "handle_event event s0 = (case event_section event s0 of
      (s1, Idle) \<Rightarrow> (s1, None)
    | (s1, Repair repairID cid) \<Rightarrow> (s1, Some (repairID, cid))
    | (s1, Schedule pid manualSeq) \<Rightarrow> (startReconnectLocked pid manualSeq 1 s1, None))"

section \<open>Repair after a network change\<close>

text \<open>\<open>func (s *Service) runNetworkReconnect\<close>: its three sections and their composition\<close>

definition repair_begin :: "u64 \<Rightarrow> string \<Rightarrow> service \<Rightarrow> (string \<times> (error + Profile)) option" where
  "repair_begin repairID cid s =
     (let n = svc_net s
      in if \<not> s_networkReconnectActive n \<or> s_networkReconnectID n \<noteq> repairID \<or> s_networkReconnectConnID n \<noteq> cid then None
         else Some (s_networkReconnectProfile n, findProfileLocked (s_networkReconnectProfile n) s))"

definition repair_still_active :: "u64 \<Rightarrow> string \<Rightarrow> service \<Rightarrow> bool" where
  "repair_still_active repairID pid s \<longleftrightarrow> s_networkReconnectActive (svc_net s) \<and> s_networkReconnectID (svc_net s) = repairID
     \<and> s_currentID (svc_p s) = pid"

definition repair_auto :: "error + Profile \<Rightarrow> service \<Rightarrow> bool" where
  "repair_auto found s = (case found of
      Inr profile \<Rightarrow> autoReconnectEnabledLocked profile s
    | Inl _ \<Rightarrow> s_controlMode (svc_p s) = ''machine'' \<and> s_machineProfileID (svc_p s) = [])"   \<comment> \<open>on the zero profile\<close>

definition repair_end :: "u64 \<Rightarrow> string \<Rightarrow> string \<Rightarrow> error + Profile \<Rightarrow> error option \<Rightarrow> service \<Rightarrow> service" where
  "repair_end repairID cid pid found err s0 =
     (if s_networkReconnectID (svc_net s0) \<noteq> repairID then s0
      else let s1 = svc_net_update (\<lambda>n. n\<lparr>s_networkReconnectActive := False, s_networkReconnectConnID := [],
                      s_networkReconnectProfile := []\<rparr>) s0
           in case err of
                None \<Rightarrow> log_add ''info'' (''appd: network reconnect succeeded profile='' @ pid)
                  (record_connection (zero_event\<lparr>ce_ConnectionID := s_activeConnectionID (svc_conn s1), ce_ProfileID := pid,
                     ce_Kind := ''network_reconnected'', ce_ReasonCode := ''underlay_changed'', ce_Transport := ''network''\<rparr>) s1)
              | Some e \<Rightarrow>
                  (let message = sanitizeDiagnostic (err_msg e);
                       s2 = touch (set_lastError message (set_state StateError s1));
                       s3 = record_connection (zero_event\<lparr>ce_ConnectionID := cid, ce_ProfileID := pid,
                              ce_Kind := ''network_reconnect_failed'', ce_ReasonCode := ''reconnect_failed'',
                              ce_Transport := ''network'', ce_Error := message\<rparr>) s2;
                       s4 = log_add ''error'' (''appd: network reconnect failed profile='' @ pid @ '' err='' @ quote (err_msg e)) s3;
                       s5 = emit_status message (''Network reconnect failed: '' @ message) s4
                   in if repair_auto found s5 then startReconnectLocked pid (s_disconnectSeq (svc_conn s5)) 1 s5
                      else release_owner s5))"

definition runNetworkReconnect :: "urlparser \<Rightarrow> error option \<Rightarrow> u64 \<Rightarrow> string \<Rightarrow> service \<Rightarrow> service" where
  "runNetworkReconnect U ctx repairID cid s0 =
     (case repair_begin repairID cid s0 of
        None \<Rightarrow> s0
      | Some (pid, Inl e) \<Rightarrow> repair_end repairID cid pid (Inl e) (Some e) s0
      | Some (pid, Inr profile) \<Rightarrow>
          (case disconnect False s0 of
             (s1, Some e) \<Rightarrow> repair_end repairID cid pid (Inr profile) (Some e) s1
           | (s1, None) \<Rightarrow>
               if \<not> repair_still_active repairID pid s1 then s1
               else case loadProfileSecret profile s1 of
                 (s2, Inl e) \<Rightarrow> repair_end repairID cid pid (Inr profile) (Some e) s2
               | (s2, Inr password) \<Rightarrow>
                   (case connectPreparedProfile U ctx profile password True s2 of
                      (s3, r) \<Rightarrow> repair_end repairID cid pid (Inr profile) r s3)))"

section \<open>Scheduled reconnects\<close>

text \<open>\<open>func (s *Service) runScheduledReconnect\<close>: the arguments are those the timer captured.\<close>

definition scheduled_begin :: "timer \<Rightarrow> service \<Rightarrow> service \<times> Profile option" where
  "scheduled_begin t s0 =
     (let r = svc_recon s0; pid = tm_ProfileID t
      in if s_reconnectID r \<noteq> tm_ReconnectID t \<or> s_reconnectProfileID r \<noteq> pid \<or> s_reconnectSeq r \<noteq> tm_ManualSeq t then (s0, None)
         else let s1 = svc_recon_update (\<lambda>r. r\<lparr>s_reconnectTimer := None, s_reconnectNextAt := 0\<rparr>) s0
              in if \<not> reconnect_wanted pid (tm_ManualSeq t) s1 then (stopReconnectLocked s1, None)
                 else let s2 = touch (set_lastError [] (set_state StateReconnecting s1));
                          s3 = log_add ''info'' (''appd: auto reconnect attempt='' @ fmt_int (tm_Attempt t) @ '' id='' @ quote pid) s2;
                          s4 = emit_status [] (''Reconnecting profile '' @ pid) s3;
                          s5 = record_connection (zero_event\<lparr>ce_ConnectionID := s_reconnectLifecycleID (svc_recon s4),
                                 ce_ProfileID := pid, ce_Kind := ''reconnect_attempt'', ce_Attempt := tm_Attempt t\<rparr>) s4
                      in (s5, profileAutoReconnect pid s1))"

definition scheduled_failed :: "timer \<Rightarrow> string \<Rightarrow> error \<Rightarrow> service \<Rightarrow> service" where
  "scheduled_failed t reason err s0 =
     (let pid = tm_ProfileID t;
          s1 = log_add ''error'' (''appd: auto reconnect failed id='' @ quote pid @ '' err='' @ quote (err_msg err)) s0;
          s2 = record_connection (zero_event\<lparr>ce_ConnectionID := s_reconnectLifecycleID (svc_recon s1), ce_ProfileID := pid,
                 ce_Kind := ''reconnect_failed'', ce_ReasonCode := reason, ce_Error := err_msg err, ce_Attempt := tm_Attempt t\<rparr>) s1
      in retryReconnectLocked pid (tm_ManualSeq t) (tm_Attempt t) err s2)"

definition runScheduledReconnect :: "urlparser \<Rightarrow> error option \<Rightarrow> timer \<Rightarrow> service \<Rightarrow> service" where
  "runScheduledReconnect U ctx t s0 =
     (case scheduled_begin t s0 of
        (s1, None) \<Rightarrow> s1
      | (s1, Some profile) \<Rightarrow>
          (case disconnect False (log_add ''info'' (''appd: reconnect reason='' @ quote (''auto reconnect attempt ''
                  @ fmt_int (tm_Attempt t) @ '' for profile '' @ tm_ProfileID t)) s1) of
             (s2, Some e) \<Rightarrow> scheduled_failed t ''disconnect_failed'' e s2
           | (s2, None) \<Rightarrow>
               (case loadProfileSecret profile s2 of
                  (s3, Inl e) \<Rightarrow> scheduled_failed t ''connect_failed'' e s3
                | (s3, Inr password) \<Rightarrow>
                    (case connectPreparedProfile U ctx profile password True s3 of
                       (s4, Some e) \<Rightarrow> scheduled_failed t ''connect_failed'' e s4
                     | (s4, None) \<Rightarrow> stopReconnectLocked s4))))"

section \<open>The proxy failing\<close>

text \<open>\<open>func (s *Service) monitorProxy\<close>, once the listener has reported \<open>err\<close>\<close>

definition monitorProxy :: "nat \<times> string \<Rightarrow> string \<Rightarrow> error \<Rightarrow> service \<Rightarrow> service" where
  "monitorProxy server pid err s0 =
     (if \<not> (s_proxyServer (svc_conn s0) = Some server \<and> s_currentID (svc_p s0) = pid \<and> pid \<noteq> []
            \<and> (s_connectedID (svc_conn s0) = pid \<or> s_attemptCancel (svc_conn s0))) then s0
      else case disconnect False (recordProxyError err s0) of
        (s1, None) \<Rightarrow> s1
      | (s1, Some e) \<Rightarrow> recordProxyError (Wrap ''SOCKS5 failure cleanup: '' e []) s1)"

section \<open>Profile operations on a running connection\<close>

text \<open>\<open>func (s *Service) SwitchProfile\<close>\<close>

definition SwitchProfile :: "string \<Rightarrow> service \<Rightarrow> service \<times> error option" where
  "SwitchProfile pid s0 = (case findProfileLocked pid s0 of
      Inl e \<Rightarrow> (s0, Some e)
    | Inr _ \<Rightarrow>
        (let s1 = (if s_currentID (svc_p s0) \<noteq> pid then stopReconnectLocked s0 else s0);
             s2 = svc_status_update (\<lambda>x. x\<lparr>st_CurrentProfileID := pid\<rparr>) (set_currentID pid s1)
         in case persist s2 of
              (s3, Some e) \<Rightarrow> (s3, Some e)
            | (s3, None) \<Rightarrow>
                (emit_status [] [] (log_add ''info'' (''appd: switched current profile id='' @ pid) s3), None)))"

text \<open>\<open>func (s *Service) UpdateRoutes\<close>\<close>

definition apply_routes :: "RouteUpdateRequest \<Rightarrow> stamp \<Rightarrow> Profile \<Rightarrow> Profile" where
  "apply_routes req t p =
     p\<lparr>prof_AcceptServerRoutes := (case ru_AcceptServerRoutes req of None \<Rightarrow> prof_AcceptServerRoutes p | Some x \<Rightarrow> x),
       prof_CustomInclude := (case ru_CustomInclude req of None \<Rightarrow> prof_CustomInclude p | Some x \<Rightarrow> x),
       prof_CustomExclude := (case ru_CustomExclude req of None \<Rightarrow> prof_CustomExclude p | Some x \<Rightarrow> x),
       prof_UpdatedAt := t\<rparr>"

definition len_opt :: "'a list option \<Rightarrow> string" where
  "len_opt xs = itoa (case xs of None \<Rightarrow> 0 | Some ys \<Rightarrow> length ys)"

definition UpdateRoutes_locked :: "string \<Rightarrow> RouteUpdateRequest \<Rightarrow> service \<Rightarrow> service \<times> (error + Profile \<times> bool)" where
  "UpdateRoutes_locked pid req s0 = (case profile_index pid s0 of
      None \<Rightarrow> (s0, Inl (Errors (''profile not found: '' @ pid)))
    | Some index \<Rightarrow>
        (let profile = apply_routes req (now_s s0) (s_profiles (svc_p s0) ! index)
         in case persist (set_profiles ((s_profiles (svc_p s0))[index := profile]) s0) of
              (s1, Some e) \<Rightarrow> (s1, Inl e)
            | (s1, None) \<Rightarrow>
                (let shouldReconnect = (s_connectedID (svc_conn s1) = pid);
                     s2 = replan profile s1;
                     s3 = log_add ''info'' (''appd: routes updated profile='' @ pid @ '' include_count='' @ len_opt (ru_CustomInclude req)
                            @ '' exclude_count='' @ len_opt (ru_CustomExclude req)) s2
                 in (emit (zero_notify\<lparr>nt_Event := ''profile'', nt_Profile := Some profile\<rparr>) s3, Inr (profile, shouldReconnect)))))"

definition UpdateRoutes :: "urlparser \<Rightarrow> error option \<Rightarrow> string \<Rightarrow> RouteUpdateRequest \<Rightarrow> service
    \<Rightarrow> service \<times> Profile option \<times> error option" where
  "UpdateRoutes U ctx pid req s0 = (case UpdateRoutes_locked pid req s0 of
      (s1, Inl e) \<Rightarrow> (s1, None, Some e)
    | (s1, Inr (profile, shouldReconnect)) \<Rightarrow>
        if \<not> shouldReconnect then (s1, Some profile, None)
        else case reconnectProfile U ctx pid (''reapplying route changes for profile '' @ pid) s1 of
          (s2, r) \<Rightarrow> (s2, Some profile, r))"

text \<open>\<open>func (s *Service) updateProfile\<close>: the runtime part after the lock is released\<close>

definition updateProfile :: "urlparser \<Rightarrow> error option \<Rightarrow> string \<Rightarrow> ProfileUpdateRequest \<Rightarrow> bool \<Rightarrow> service
    \<Rightarrow> service \<times> (Profile \<times> bool) option \<times> error option" where
  "updateProfile U ctx pid req applyRuntime s0 = (case updateProfile_locked U pid req s0 of
      (s1, Inl e) \<Rightarrow> (s1, None, Some e)
    | (s1, Inr (profile, shouldReconnect)) \<Rightarrow>
        if \<not> applyRuntime then (s1, Some (profile, shouldReconnect), None)
        else case applyProxyProfile profile s1 of
          (s2, Some e) \<Rightarrow> (s2, Some (profile, shouldReconnect), Some e)
        | (s2, None) \<Rightarrow>
            if \<not> shouldReconnect then (s2, Some (profile, shouldReconnect), None)
            else case reconnectProfile U ctx pid (''reapplying updated profile '' @ pid) s2 of
              (s3, r) \<Rightarrow> (s3, Some (profile, shouldReconnect), r))"

text \<open>\<open>func (s *Service) DeleteProfile\<close>\<close>

definition profile_active :: "string \<Rightarrow> service \<Rightarrow> bool" where
  "profile_active pid s \<longleftrightarrow> s_connectedID (svc_conn s) = pid
     \<or> (st_CurrentProfileID (svc_status s) = pid \<and> s_attemptCancel (svc_conn s))"

definition DeleteProfile_end :: "string \<Rightarrow> bool \<Rightarrow> service \<Rightarrow> service \<times> error option" where
  "DeleteProfile_end pid wasActive s0 = (case profile_index pid s0 of
      None \<Rightarrow> (s0, Some (Errors (''profile not found: '' @ pid)))
    | Some index \<Rightarrow>
        (let s1 = (if s_reconnectProfileID (svc_recon s0) = pid then stopReconnectLocked s0 else s0)
         in case deleteProfile_locked pid index s1 of
              (s2, Some e) \<Rightarrow> (s2, Some e)
            | (s2, None) \<Rightarrow>
                (let s3 = log_add ''info'' (''appd: profile deleted id='' @ pid) s2;
                     s4 = (if wasActive then emit_traffic (emit_status [] [] s3) else s3)
                 in (emit (profiles_event s4) s4, None))))"

definition DeleteProfile :: "string \<Rightarrow> service \<Rightarrow> service \<times> error option" where
  "DeleteProfile pid s0 = (case profile_index pid s0 of
      None \<Rightarrow> (s0, Some (Errors (''profile not found: '' @ pid)))
    | Some _ \<Rightarrow>
        if profile_active pid s0
        then (case disconnect False s0 of
                (s1, Some e) \<Rightarrow> (s1, Some (Wrap ''disconnect active profile before delete: '' e []))
              | (s1, None) \<Rightarrow> DeleteProfile_end pid True s1)
        else DeleteProfile_end pid False s0)"

end
