(* ===== verification/Access.thy ===== *)
theory Access
  imports Reconnect
begin

text \<open>
  What a local client may see and do (\<open>internal/appd/v2.go\<close>): authorization of reads and writes, the
  per-actor views of profiles, status, traffic, logs and events, the commands on behalf of an actor,
  asynchronous operations, the control mode, readiness.

  A function that returns a value and an error returns \<open>error + 'a\<close>; where the Go code returns both,
  the result is a pair.
\<close>

section \<open>Actors and authorization\<close>

record Actor =
  ac_ID :: string
  ac_System :: bool
  ac_Admin :: bool

definition SystemActor :: Actor where
  "SystemActor = \<lparr>ac_ID = ''system'', ac_System = True, ac_Admin = True\<rparr>"

text \<open>\<open>func coded\<close>\<close>

definition coded :: "string \<Rightarrow> string \<Rightarrow> error option \<Rightarrow> error" where
  "coded code message cause = CodedError code message False cause"

definition write_components :: "string list" where
  "write_components = [''store'', ''secret'', ''supervisor'', ''cleanup'']"

text \<open>The checks of the daemon's condition that \<open>authorize\<close> and \<open>authorizeAdministrativeWrite\<close> share:
  closing, failed cleanup, a pending transaction, a component that is not ready.\<close>

definition write_blocked :: "service \<Rightarrow> error option" where
  "write_blocked s =
     (if s_closed (svc_conn s) then Some (coded ''service_closing'' ''daemon is shutting down'' None)
      else if s_fatalErr (svc_conn s) \<noteq> None
      then Some (coded ''cleanup_failed'' ''network cleanup failed; daemon restart recovery is required'' (s_fatalErr (svc_conn s)))
      else if s_intent (svc_p s) \<noteq> None
      then Some (coded ''profile_transaction_pending'' ''a profile transaction requires daemon restart recovery'' None)
      else case find (\<lambda>c. \<not> cs_Ready (health_of c s)) write_components of
        Some c \<Rightarrow> Some (coded ''component_unavailable'' (c @ '' is not ready; daemon restart recovery is required'') None)
      | None \<Rightarrow> None)"

text \<open>\<open>func (s *Service) authorize\<close>\<close>

definition authorize :: "Actor \<Rightarrow> bool \<Rightarrow> service \<Rightarrow> error option" where
  "authorize actor write s =
     (if ac_ID actor = [] then Some (coded ''identity_unavailable'' ''local client identity is unavailable'' None)
      else if ac_System actor then None
      else case (if write then write_blocked s else None) of
        Some e \<Rightarrow> Some e
      | None \<Rightarrow>
          if write \<and> s_controlMode (svc_p s) = ''machine'' \<and> \<not> ac_Admin actor
          then Some (coded ''machine_mode_locked'' ''machine mode can only be changed by an elevated administrator'' None)
          else if write \<and> \<not> (s_controlMode (svc_p s) = ''machine'' \<and> ac_Admin actor)
             \<and> s_activeOwnerID (svc_conn s) \<noteq> [] \<and> s_activeOwnerID (svc_conn s) \<noteq> ac_ID actor
          then Some (coded ''daemon_in_use'' ''FlexConnect is already in use by another local user'' None)
          else None)"

text \<open>\<open>func (s *Service) authorizeAdministrativeWrite\<close>\<close>

definition authorizeAdministrativeWrite :: "Actor \<Rightarrow> service \<Rightarrow> error option" where
  "authorizeAdministrativeWrite actor s =
     (if \<not> ac_System actor \<and> \<not> ac_Admin actor
      then Some (coded ''admin_required'' ''operation requires an elevated administrator'' None)
      else write_blocked s)"

text \<open>\<open>func actorCanAccessProfile\<close>, \<open>func actorCanMutateProfile\<close>, \<open>func publicProfile\<close>\<close>

definition actorCanAccessProfile :: "Actor \<Rightarrow> Profile \<Rightarrow> bool" where
  "actorCanAccessProfile actor profile \<longleftrightarrow> ac_System actor \<or> ac_Admin actor
     \<or> (prof_Scope profile = ProfileScopeUser \<and> prof_OwnerID profile = ac_ID actor)"

definition actorCanMutateProfile :: "Actor \<Rightarrow> Profile \<Rightarrow> bool" where
  "actorCanMutateProfile actor profile \<longleftrightarrow>
     (if ac_System actor then True
      else if prof_Scope profile = ProfileScopeMachine then ac_Admin actor
      else prof_Scope profile = ProfileScopeUser \<and> prof_OwnerID profile = ac_ID actor)"

definition publicProfile :: "Profile \<Rightarrow> Profile" where
  "publicProfile profile = profile\<lparr>prof_SecretRef := [], prof_OwnerID := []\<rparr>"

definition visible_profiles :: "Actor \<Rightarrow> Profile list \<Rightarrow> Profile list" where
  "visible_profiles actor ps = map publicProfile (filter (actorCanAccessProfile actor) ps)"

section \<open>Views\<close>

definition ListProfilesFor :: "Actor \<Rightarrow> service \<Rightarrow> error + Profile list" where
  "ListProfilesFor actor s = (case authorize actor False s of
      Some e \<Rightarrow> Inl e | None \<Rightarrow> Inr (visible_profiles actor (s_profiles (svc_p s))))"

text \<open>\<open>func (s *Service) statusForActorLocked\<close>\<close>

definition privileged :: "Actor \<Rightarrow> bool" where
  "privileged actor \<longleftrightarrow> ac_System actor \<or> ac_Admin actor"

definition selected_for :: "Actor \<Rightarrow> service \<Rightarrow> string" where
  "selected_for actor s =
     (if s_controlMode (svc_p s) = ''machine'' then s_machineProfileID (svc_p s)
      else if privileged actor then s_currentID (svc_p s)
      else case map_of (s_selectedProfiles (svc_p s)) (ac_ID actor) of Some x \<Rightarrow> x | None \<Rightarrow> [])"

definition profile_visible :: "Actor \<Rightarrow> string \<Rightarrow> service \<Rightarrow> bool" where
  "profile_visible actor pid s = (case findProfileLocked pid s of
      Inl e \<Rightarrow> False | Inr profile \<Rightarrow> actorCanAccessProfile actor profile)"

definition statusForActorLocked :: "Actor \<Rightarrow> service \<Rightarrow> Status" where
  "statusForActorLocked actor s =
     (let st1 = (svc_status s)\<lparr>st_SelectedProfileID := selected_for actor s\<rparr>
      in if privileged actor then st1
         else let st2 = (case st_Operation st1 of
                    Some operation \<Rightarrow> if op_OwnerID operation \<noteq> ac_ID actor then st1\<lparr>st_Operation := None\<rparr> else st1
                  | None \<Rightarrow> st1)
              in if profile_visible actor (st_ConnectedProfileID st2) s then st2
                 else st2\<lparr>st_ConnectedProfileID := [], st_Session := None, st_EffectiveRoutes := [], st_SOCKS5Listen := []\<rparr>)"

definition StatusFor :: "Actor \<Rightarrow> service \<Rightarrow> error + Status" where
  "StatusFor actor s = (case authorize actor False s of Some e \<Rightarrow> Inl e | None \<Rightarrow> Inr (statusForActorLocked actor s))"

definition TrafficFor :: "Actor \<Rightarrow> service \<Rightarrow> error + TrafficSnapshot" where
  "TrafficFor actor s = (case StatusFor actor s of
      Inl e \<Rightarrow> Inl e
    | Inr status \<Rightarrow>
        if st_ConnectedProfileID status = [] \<and> \<not> privileged actor then Inr zero_traffic
        else Inr (tf_traffic (svc_traffic s)))"

definition LogsFor :: "Actor \<Rightarrow> service \<Rightarrow> error + LogEntry list" where
  "LogsFor actor s = (case authorize actor False s of
      Some e \<Rightarrow> Inl e
    | None \<Rightarrow> if \<not> privileged actor then Inr [] else Inr (logbuf_Snapshot (b_logs (svc_bus s))))"

definition ProfileIsActive :: "string \<Rightarrow> service \<Rightarrow> bool" where
  "ProfileIsActive pid s \<longleftrightarrow> profile_active pid s"

definition ConnectionActive :: "service \<Rightarrow> bool" where
  "ConnectionActive s \<longleftrightarrow> s_connectedID (svc_conn s) \<noteq> [] \<or> s_attemptCancel (svc_conn s)"

text \<open>\<open>func (s *Service) notifyForActorLocked\<close>\<close>

definition notifyForActorLocked :: "Actor \<Rightarrow> service \<Rightarrow> Notify \<Rightarrow> Notify" where
  "notifyForActorLocked actor s event =
     (let n1 = event\<lparr>nt_Status := map_option (\<lambda>_. statusForActorLocked actor s) (nt_Status event),
                nt_Profile := (case nt_Profile event of None \<Rightarrow> None
                   | Some p \<Rightarrow> if actorCanAccessProfile actor p then Some (publicProfile p) else None),
                nt_Profiles := visible_profiles actor (nt_Profiles event)\<rparr>
      in if privileged actor then n1
         else n1\<lparr>nt_Logs := [], nt_Connection := (case nt_Connection n1 of None \<Rightarrow> None
                   | Some c \<Rightarrow> if profile_visible actor (ce_ProfileID c) s then Some c else None)\<rparr>)"

text \<open>\<open>func (s *Service) WatchSince\<close>: the number of the live channel and what the forwarding goroutine sends
  before the live events; \<open>None\<close> is the closed channel of an actor without identity.\<close>

definition watch_snapshot :: "Actor \<Rightarrow> service \<Rightarrow> Notify" where
  "watch_snapshot actor s = zero_notify\<lparr>nt_Epoch := b_epoch (svc_bus s), nt_Revision := b_revision (svc_bus s),
     nt_Event := ''snapshot'', nt_Status := Some (statusForActorLocked actor s),
     nt_Profiles := visible_profiles actor (s_profiles (svc_p s)), nt_Time := now_s s\<rparr>"

definition WatchSince :: "Actor \<Rightarrow> string \<Rightarrow> u64 \<Rightarrow> service \<Rightarrow> service \<times> (nat \<times> Notify list) option" where
  "WatchSince actor epoch since s = (case authorize actor False s of
      Some e \<Rightarrow> (s, None)
    | None \<Rightarrow>
        (let (needSnapshot, replay) = watch_replay epoch since (svc_bus s)
         in (s\<lparr>svc_bus := add_watcher (svc_bus s)\<rparr>,
             Some (b_nextWatcherID (svc_bus s),
               if needSnapshot then [watch_snapshot actor s] else map (notifyForActorLocked actor s) replay))))"

text \<open>One turn of the loop over the live channel\<close>

definition watch_forward :: "Actor \<Rightarrow> nat \<Rightarrow> service \<Rightarrow> service \<times> Notify option" where
  "watch_forward actor w s =
     (let (b, n) = recv_watcher w (svc_bus s); s1 = s\<lparr>svc_bus := b\<rparr>
      in (s1, map_option (notifyForActorLocked actor s1) n))"

definition watch_cancel :: "nat \<Rightarrow> service \<Rightarrow> service" where
  "watch_cancel w s = s\<lparr>svc_bus := cancel_watcher w (svc_bus s)\<rparr>"

text \<open>\<open>func (s *Service) Ready\<close>\<close>

definition ready_component :: "service \<Rightarrow> string \<Rightarrow> ComponentStatus" where
  "ready_component s name =
     (if name = ''supervisor'' \<and> s_closed (svc_conn s)
      then (health_of name s)\<lparr>cs_Ready := False, cs_Message := ''daemon is shutting down''\<rparr> else health_of name s)"

definition Ready :: "service \<Rightarrow> ReadyStatus" where
  "Ready s =
     (let cs = map (ready_component s) components;
          pending = (if s_intent (svc_p s) \<noteq> None
             then [\<lparr>cs_Name = ''profile-transaction'', cs_Ready = False, cs_Message = ''restart recovery required''\<rparr>] else []);
          broken = (s_controlMode (svc_p s) = ''machine'' \<and> st_State (svc_status s) = StateError);
          machine = (if broken
             then [\<lparr>cs_Name = ''machine-connection'', cs_Ready = False, cs_Message = sanitizeDiagnostic (st_LastError (svc_status s))\<rparr>]
             else [])
      in \<lparr>rdy_Ready = (\<not> s_closed (svc_conn s) \<and> s_intent (svc_p s) = None \<and> list_all cs_Ready cs \<and> \<not> broken),
          rdy_Components = cs @ pending @ machine\<rparr>)"

section \<open>Commands\<close>

text \<open>\<open>func (s *Service) profileForActor\<close>\<close>

definition profileForActor :: "Actor \<Rightarrow> string \<Rightarrow> service \<Rightarrow> error + Profile" where
  "profileForActor actor pid s = (case findProfileLocked pid s of
      Inl e \<Rightarrow> Inl (coded ''profile_not_found'' ''profile not found'' (Some e))
    | Inr profile \<Rightarrow>
        if \<not> actorCanMutateProfile actor profile then Inl (coded ''profile_not_found'' ''profile not found'' None)
        else Inr profile)"

text \<open>\<open>func (s *Service) releaseIdleOwner\<close>\<close>

definition releaseIdleOwner :: "Actor \<Rightarrow> service \<Rightarrow> service" where
  "releaseIdleOwner actor s =
     (if ac_System actor then s
      else if s_controlMode (svc_p s) = ''user'' \<and> s_activeOwnerID (svc_conn s) = ac_ID actor
              \<and> s_connectedID (svc_conn s) = [] \<and> \<not> s_attemptCancel (svc_conn s)
      then svc_conn_update (\<lambda>c. c\<lparr>s_activeOwnerID := []\<rparr>) s
      else s)"

text \<open>\<open>func (s *Service) ConnectFor\<close>: the section that selects the profile\<close>

definition select_profile :: "Actor \<Rightarrow> Profile \<Rightarrow> service \<Rightarrow> service" where
  "select_profile actor profile s0 =
     (let s1 = (if \<not> ac_System actor \<and> s_controlMode (svc_p s0) = ''user''
                then svc_conn_update (\<lambda>c. c\<lparr>s_activeOwnerID := ac_ID actor\<rparr>) s0 else s0);
          s2 = (if prof_Scope profile = ProfileScopeUser \<and> prof_OwnerID profile = ac_ID actor
                then svc_p_update (\<lambda>p. p\<lparr>s_selectedProfiles := AList.update (ac_ID actor) (prof_ID profile) (s_selectedProfiles p)\<rparr>) s1
                else s1)
      in svc_status_update (\<lambda>x. x\<lparr>st_SelectedProfileID := prof_ID profile\<rparr>) (set_currentID (prof_ID profile) s2))"

definition ConnectFor_refused :: "Actor \<Rightarrow> Profile \<Rightarrow> service \<Rightarrow> error option" where
  "ConnectFor_refused actor profile s =
     (if \<not> ac_System actor \<and> s_activeOwnerID (svc_conn s) \<noteq> [] \<and> s_activeOwnerID (svc_conn s) \<noteq> ac_ID actor
      then Some (coded ''daemon_in_use'' ''FlexConnect is already in use by another local user'' None)
      else if prof_Scope profile = ProfileScopeMachine
              \<and> (s_controlMode (svc_p s) \<noteq> ''machine'' \<or> s_machineProfileID (svc_p s) \<noteq> prof_ID profile)
      then Some (coded ''machine_mode_required'' ''machine profiles can only connect through machine mode'' None)
      else None)"

definition ConnectFor :: "urlparser \<Rightarrow> error option \<Rightarrow> Actor \<Rightarrow> string \<Rightarrow> service \<Rightarrow> service \<times> error option" where
  "ConnectFor U ctx actor pid s0 = (case authorize actor True s0 of
      Some e \<Rightarrow> (s0, Some e)
    | None \<Rightarrow>
        (case profileForActor actor pid s0 of
           Inl e \<Rightarrow> (s0, Some e)
         | Inr profile \<Rightarrow>
             (case ConnectFor_refused actor profile s0 of
                Some e \<Rightarrow> (s0, Some e)
              | None \<Rightarrow>
                  (case persist (select_profile actor profile s0) of
                     (s1, Some e) \<Rightarrow> (releaseIdleOwner actor s1, Some e)
                   | (s1, None) \<Rightarrow>
                       (case Connect U ctx (prof_ID profile) s1 of
                          (s2, Some e) \<Rightarrow> (releaseIdleOwner actor s2, Some e)
                        | (s2, None) \<Rightarrow> (s2, None))))))"

definition DisconnectFor :: "Actor \<Rightarrow> service \<Rightarrow> service \<times> error option" where
  "DisconnectFor actor s = (case authorize actor True s of Some e \<Rightarrow> (s, Some e) | None \<Rightarrow> Disconnect s)"

text \<open>\<open>func (s *Service) CreateProfileFor\<close>\<close>

definition requested_profile :: "urlparser \<Rightarrow> Actor \<Rightarrow> ProfileScope \<Rightarrow> ProfileCreateRequest \<Rightarrow> Profile \<Rightarrow> Profile" where
  "requested_profile U actor scope req base = NormalizeProfile U
     (base\<lparr>prof_ServerURL := cr_ServerURL req, prof_Username := cr_Username req, prof_Group := cr_Group req,
        prof_Scope := scope, prof_OwnerID := (if scope = ProfileScopeMachine then ''system'' else ac_ID actor),
        prof_AcceptServerRoutes := (case cr_AcceptServerRoutes req of None \<Rightarrow> prof_AcceptServerRoutes base | Some x \<Rightarrow> x),
        prof_AutoReconnect := (case cr_AutoReconnect req of None \<Rightarrow> Some False | Some x \<Rightarrow> Some x),
        prof_ApplyDNS := (case cr_ApplyDNS req of None \<Rightarrow> Some True | Some x \<Rightarrow> Some x),
        prof_CustomInclude := cr_CustomInclude req, prof_CustomExclude := cr_CustomExclude req,
        prof_DNSOverrides := cr_DNSOverrides req, prof_SOCKS5Enabled := cr_SOCKS5Enabled req,
        prof_SOCKS5Listen := (if cr_SOCKS5Listen req = [] then ''127.0.0.1:1080'' else cr_SOCKS5Listen req),
        prof_MTU := (if cr_MTU req = 0 then prof_MTU base else cr_MTU req)\<rparr>)"

definition adopt_created :: "Actor \<Rightarrow> Profile \<Rightarrow> service \<Rightarrow> service \<times> error option" where
  "adopt_created actor created s0 =
     (let s1 = (if prof_Scope created = ProfileScopeUser
                then svc_p_update (\<lambda>p. p\<lparr>s_selectedProfiles := AList.update (ac_ID actor) (prof_ID created) (s_selectedProfiles p)\<rparr>) s0
                else s0)
      in persist (if privileged actor then set_currentID (prof_ID created) s1 else s1))"

definition CreateProfileFor :: "urlparser \<Rightarrow> Actor \<Rightarrow> ProfileCreateRequest \<Rightarrow> service \<Rightarrow> service \<times> (error + Profile)" where
  "CreateProfileFor U actor req s0 = (case authorize actor True s0 of
      Some e \<Rightarrow> (s0, Inl e)
    | None \<Rightarrow>
        if cr_Password req = [] then (s0, Inl (coded ''invalid_profile_secret'' ''profile password is required'' None))
        else let scope = (case cr_Scope req of None \<Rightarrow> ProfileScopeUser | Some x \<Rightarrow> x)
             in if scope = ProfileScopeMachine \<and> \<not> privileged actor
                then (s0, Inl (coded ''admin_required'' ''machine profiles require an elevated administrator'' None))
                else case newProfile (cr_Name req) s0 of
                  (s1, Inl e) \<Rightarrow> (s1, Inl (coded ''random_source_failed'' ''generate profile ID failed'' (Some e)))
                | (s1, Inr base) \<Rightarrow>
                    (case CreateProfile U (requested_profile U actor scope req base) (cr_Password req) s1 of
                       (s2, Inl e) \<Rightarrow> (s2, Inl e)
                     | (s2, Inr created) \<Rightarrow>
                         (case adopt_created actor created s2 of
                            (s3, Some e) \<Rightarrow> (s3, Inl e)
                          | (s3, None) \<Rightarrow> (s3, Inr (publicProfile created)))))"

text \<open>\<open>func (s *Service) UpdateProfileFor\<close>, \<open>DeleteProfileFor\<close>\<close>

definition invalid_secret :: error where
  "invalid_secret = coded ''invalid_profile_secret'' ''profile password cannot be empty'' None"

definition UpdateProfileFor :: "urlparser \<Rightarrow> error option \<Rightarrow> Actor \<Rightarrow> string \<Rightarrow> ProfileUpdateRequest \<Rightarrow> service
    \<Rightarrow> service \<times> Profile option \<times> error option" where
  "UpdateProfileFor U ctx actor pid req s0 = (case authorize actor True s0 of
      Some e \<Rightarrow> (s0, None, Some e)
    | None \<Rightarrow>
        (case profileForActor actor pid s0 of
           Inl e \<Rightarrow> (s0, None, Some e)
         | Inr _ \<Rightarrow>
             if ur_Password req = Some [] then (s0, None, Some invalid_secret)
             else case updateProfile U ctx pid req False s0 of
               (s1, result, err) \<Rightarrow> (s1, map_option (\<lambda>(profile, _). publicProfile profile) result, err)))"

definition DeleteProfileFor :: "Actor \<Rightarrow> string \<Rightarrow> service \<Rightarrow> service \<times> error option" where
  "DeleteProfileFor actor pid s = (case authorize actor True s of
      Some e \<Rightarrow> (s, Some e)
    | None \<Rightarrow>
        (case profileForActor actor pid s of
           Inl e \<Rightarrow> (s, Some e)
         | Inr _ \<Rightarrow>
             if s_controlMode (svc_p s) = ''machine'' \<and> s_machineProfileID (svc_p s) = pid
             then (s, Some (coded ''machine_mode_locked'' ''exit machine mode before deleting its profile'' None))
             else DeleteProfile pid s))"

section \<open>Operations\<close>

text \<open>\<open>func (s *Service) newOperation\<close>\<close>

definition newOperation :: "Actor \<Rightarrow> string \<Rightarrow> string \<Rightarrow> service \<Rightarrow> service \<times> (error + Operation)" where
  "newOperation actor kind pid s0 = (case newID s0 of
      (s1, Inl e) \<Rightarrow> (s1, Inl (coded ''random_source_failed'' ''generate operation ID failed'' (Some e)))
    | (s1, Inr i) \<Rightarrow>
        (case newID s1 of
           (s2, Inl e) \<Rightarrow> (s2, Inl (coded ''random_source_failed'' ''generate attempt ID failed'' (Some e)))
         | (s2, Inr aid) \<Rightarrow> (s2, Inr \<lparr>op_ID = i, op_Kind = kind, op_ProfileID = pid, op_AttemptID = aid,
              op_State = OperationRunning, op_ErrorCode = [], op_Error = [], op_StartedAt = now_s s2, op_EndedAt = None,
              op_OwnerID = ac_ID actor\<rparr>)))"

text \<open>\<open>func errorCode\<close>\<close>

definition errorCode :: "error \<Rightarrow> string" where
  "errorCode err = (case as_coded err of
      Some (code, _, _) \<Rightarrow> code
    | None \<Rightarrow> if errors_is err Canceled then ''operation_canceled''
              else if errors_is err DeadlineExceeded then ''operation_timeout'' else ''operation_failed'')"

definition operation_event :: "Operation \<Rightarrow> Notify" where
  "operation_event operation = zero_notify\<lparr>nt_Event := ''operation'', nt_Operation := Some operation\<rparr>"

text \<open>\<open>func (s *Service) registerAndRunOperation\<close>: the section that registers, and the last section of its goroutine\<close>

definition registerOperation :: "Operation \<Rightarrow> service \<Rightarrow> service \<times> error option" where
  "registerOperation operation s =
     (if s_closed (svc_conn s) then (s, Some (coded ''service_closing'' ''daemon is shutting down'' None))
      else (emit (operation_event operation)
              (svc_status_update (\<lambda>x. x\<lparr>st_Operation := Some operation\<rparr>)
                (svc_conn_update (\<lambda>c. c\<lparr>s_operations := AList.update (op_ID operation) operation (s_operations c)\<rparr>) s)), None))"

definition terminal_operation :: "Operation \<Rightarrow> error option \<Rightarrow> service \<Rightarrow> Operation" where
  "terminal_operation operation err s = (case err of
      None \<Rightarrow> operation\<lparr>op_EndedAt := now_s s, op_State := OperationSucceeded\<rparr>
    | Some e \<Rightarrow> operation\<lparr>op_EndedAt := now_s s, op_State := OperationFailed,
        op_Error := sanitizeDiagnostic (err_msg e), op_ErrorCode := errorCode e\<rparr>)"

definition finishOperation :: "Operation \<Rightarrow> error option \<Rightarrow> service \<Rightarrow> service" where
  "finishOperation operation err s0 =
     (let terminal = terminal_operation operation err s0;
          s1 = emit ((operation_event terminal)\<lparr>nt_Error := op_Error terminal\<rparr>) s0;
          s2 = svc_conn_update (\<lambda>c. c\<lparr>s_operations := AList.delete (op_ID operation) (s_operations c)\<rparr>) s1
      in case st_Operation (svc_status s2) of
           Some current \<Rightarrow> if op_ID current = op_ID operation then svc_status_update (\<lambda>x. x\<lparr>st_Operation := None\<rparr>) s2 else s2
         | None \<Rightarrow> s2)"

text \<open>\<open>func (s *Service) StartOperation\<close>, up to starting the goroutine; then the goroutine runs \<open>run\<close> and
  \<open>finishOperation\<close>\<close>

definition StartOperation :: "Actor \<Rightarrow> string \<Rightarrow> string \<Rightarrow> service \<Rightarrow> service \<times> (error + Operation)" where
  "StartOperation actor kind pid s0 =
     (case (if kind = ''control-mode'' then authorizeAdministrativeWrite actor s0 else authorize actor True s0) of
        Some e \<Rightarrow> (s0, Inl e)
      | None \<Rightarrow>
          (case newOperation actor kind pid s0 of
             (s1, Inl e) \<Rightarrow> (s1, Inl e)
           | (s1, Inr operation) \<Rightarrow>
               (case registerOperation operation s1 of
                  (s2, Some e) \<Rightarrow> (s2, Inl e)
                | (s2, None) \<Rightarrow> (s2, Inr operation))))"

definition run_operation :: "Operation \<Rightarrow> (service \<Rightarrow> service \<times> error option) \<Rightarrow> service \<Rightarrow> service" where
  "run_operation operation run s0 = (let (s1, err) = run s0 in finishOperation operation err s1)"

text \<open>\<open>func (s *Service) OperationFor\<close>\<close>

definition operation_not_found :: error where
  "operation_not_found = coded ''operation_not_found'' ''operation not found'' None"

definition OperationFor :: "Actor \<Rightarrow> string \<Rightarrow> service \<Rightarrow> error + Operation" where
  "OperationFor actor i s = (case authorize actor False s of
      Some e \<Rightarrow> Inl e
    | None \<Rightarrow>
        (case map_of (s_operations (svc_conn s)) i of
           None \<Rightarrow> Inl operation_not_found
         | Some operation \<Rightarrow>
             if \<not> privileged actor \<and> op_OwnerID operation \<noteq> ac_ID actor then Inl operation_not_found else Inr operation))"

text \<open>\<open>func (s *Service) UpdateActiveProfileFor\<close>, up to starting the goroutine that runs \<open>reconnectProfile\<close>\<close>

definition UpdateActiveProfileFor :: "urlparser \<Rightarrow> error option \<Rightarrow> Actor \<Rightarrow> string \<Rightarrow> ProfileUpdateRequest \<Rightarrow> service
    \<Rightarrow> service \<times> (error + Operation)" where
  "UpdateActiveProfileFor U ctx actor pid req s0 = (case authorize actor True s0 of
      Some e \<Rightarrow> (s0, Inl e)
    | None \<Rightarrow>
        (case profileForActor actor pid s0 of
           Inl e \<Rightarrow> (s0, Inl e)
         | Inr _ \<Rightarrow>
             if ur_Password req = Some [] then (s0, Inl invalid_secret)
             else case newOperation actor ''profile-update'' pid s0 of
               (s1, Inl e) \<Rightarrow> (s1, Inl e)
             | (s1, Inr operation) \<Rightarrow>
                 (case updateProfile U ctx pid req False s1 of
                    (s2, _, Some e) \<Rightarrow> (s2, Inl e)
                  | (s2, _, None) \<Rightarrow>
                      (case registerOperation operation s2 of
                         (s3, Some e) \<Rightarrow> (s3, Inl e)
                       | (s3, None) \<Rightarrow> (s3, Inr operation)))))"

section \<open>Control mode\<close>

text \<open>\<open>func (s *Service) SetControlMode\<close>\<close>

definition set_mode :: "string \<Rightarrow> string \<Rightarrow> service \<Rightarrow> service" where
  "set_mode mode pid s =
     (if mode = ''user''
      then s\<lparr>svc_p := (svc_p s)\<lparr>s_controlMode := mode, s_machineProfileID := []\<rparr>,
             svc_conn := (svc_conn s)\<lparr>s_activeOwnerID := []\<rparr>, svc_status := (svc_status s)\<lparr>st_ControlMode := mode\<rparr>\<rparr>
      else s\<lparr>svc_p := (svc_p s)\<lparr>s_controlMode := mode, s_machineProfileID := pid, s_currentID := pid\<rparr>,
             svc_conn := (svc_conn s)\<lparr>s_activeOwnerID := ''system''\<rparr>,
             svc_status := (svc_status s)\<lparr>st_ControlMode := mode, st_CurrentProfileID := pid, st_SelectedProfileID := pid\<rparr>\<rparr>)"

definition SetControlMode :: "urlparser \<Rightarrow> error option \<Rightarrow> Actor \<Rightarrow> ControlModeRequest \<Rightarrow> service \<Rightarrow> service \<times> error option" where
  "SetControlMode U ctx actor req s0 =
     (if \<not> privileged actor
      then (s0, Some (coded ''admin_required'' ''control mode changes require an elevated administrator'' None))
      else let mode = ToLower (TrimSpace (cm_Mode req))
           in if mode \<noteq> ''user'' \<and> mode \<noteq> ''machine''
              then (s0, Some (coded ''invalid_control_mode'' ''control mode must be user or machine'' None))
              else if mode = ''user''
              then (case disconnect False s0 of
                      (s1, Some e) \<Rightarrow> (s1, Some (Wrap ''disconnect machine connection: '' e []))
                    | (s1, None) \<Rightarrow> persist (set_mode mode (cm_ProfileID req) s1))
              else (case profileForActor actor (cm_ProfileID req) s0 of
                      Inl e \<Rightarrow> (s0, Some e)
                    | Inr profile \<Rightarrow>
                        if prof_Scope profile \<noteq> ProfileScopeMachine
                        then (s0, Some (coded ''invalid_profile_scope'' ''machine mode requires a machine profile'' None))
                        else case (if ConnectionActive s0 then disconnect False s0 else (s0, None)) of
                          (s1, Some e) \<Rightarrow> (s1, Some (Wrap ''disconnect user connection before machine mode: '' e []))
                        | (s1, None) \<Rightarrow>
                            (case persist (set_mode mode (cm_ProfileID req) s1) of
                               (s2, Some e) \<Rightarrow> (s2, Some e)
                             | (s2, None) \<Rightarrow>
                                 (case Connect U ctx (prof_ID profile) s2 of
                                    (s3, Some e) \<Rightarrow>
                                      (if IsRetryable e then startReconnectLocked (prof_ID profile) (s_disconnectSeq (svc_conn s3)) 1 s3
                                       else s3, Some e)
                                  | (s3, None) \<Rightarrow> (s3, None)))))"

end
