(* ===== verification/Txn.thy ===== *)
theory Txn
  imports Service
begin

text \<open>
  Profile transactions survive crashes. \<open>commitProfileLocked\<close> and \<open>DeleteProfile\<close> write an intent, do
  their work on the secrets and the state file in several durable steps, and clear the intent;
  \<open>recoverIntentLocked\<close> finishes or drops what it finds at the next start. The world keeps every durable
  state it goes through, so that a crash at any point is a restart from some state of that trace.

  An abstract specification (\<open>spec_recover\<close>) says what recovery does to the persistent state and the
  map of secrets; the code's recovery refines it.
\<close>

section \<open>What the primitive steps do to the durable state\<close>

definition doc :: "pstate \<Rightarrow> state_file" where
  "doc p = StateDoc (json_storedData (toStoredData (state_data p)))"

definition secret_map :: "service \<Rightarrow> string \<rightharpoonup> string" where
  "secret_map s = map_of (w_secrets (svc_world s))"

lemma Load_doc [simp]: "Load path (doc p) = Inr (state_data p)"
  by (simp add: doc_def)

lemma state_data_inject: "state_data p = state_data q \<Longrightarrow> p = q"
  by (cases p; cases q) (auto simp: state_data_def)

lemma health_fields [simp]:
  "svc_p (healthy n s) = svc_p s" "svc_world (healthy n s) = svc_world s"
  "svc_p (unhealthy n m s) = svc_p s" "svc_world (unhealthy n m s) = svc_world s"
  "svc_conn (healthy n s) = svc_conn s" "svc_conn (unhealthy n m s) = svc_conn s"
  "svc_clock (healthy n s) = svc_clock s" "svc_clock (unhealthy n m s) = svc_clock s"
  by (simp_all add: healthy_def unhealthy_def)

lemma set_fields [simp]:
  "svc_p (set_intent i s) = (svc_p s)\<lparr>s_intent := i\<rparr>" "svc_world (set_intent i s) = svc_world s"
  "svc_p (set_profiles ps s) = (svc_p s)\<lparr>s_profiles := ps\<rparr>" "svc_world (set_profiles ps s) = svc_world s"
  "svc_p (set_currentID c s) = (svc_p s)\<lparr>s_currentID := c\<rparr>" "svc_world (set_currentID c s) = svc_world s"
  "svc_p (emit n s) = svc_p s" "svc_world (emit n s) = svc_world s"
  "svc_p (log_add l m s) = svc_p s" "svc_world (log_add l m s) = svc_world s"
  by (simp_all add: set_intent_def set_profiles_def set_currentID_def emit_def log_add_def)

lemma world_save_spec:
  assumes "world_save d w = (w', r)"
  obtains disk where "w' = w\<lparr>w_disk := disk, w_saves := tl (w_saves w), w_trace := w_trace w @ [(disk, w_secrets w)]\<rparr>"
    "disk = w_disk w \<and> r \<noteq> None \<or> disk = StateDoc (json_storedData (toStoredData d))"
proof -
  let ?f = "case w_saves w of [] \<Rightarrow> None | x # xs \<Rightarrow> x"
  have w': "w' = w\<lparr>w_disk := fst (Save ?f (w_disk w) d), w_saves := tl (w_saves w),
      w_trace := w_trace w @ [(fst (Save ?f (w_disk w) d), w_secrets w)]\<rparr>" and r: "r = snd (Save ?f (w_disk w) d)"
    using assms by (auto simp: world_save_def Let_def split: prod.splits)
  with Save_cases [of ?f "w_disk w" d] show ?thesis by (intro that [OF w']) auto
qed

text \<open>A save keeps the secrets, the persistent state in memory and the random source, and extends the
  trace by the old or the new file.\<close>

lemma persist_spec:
  assumes "persist s = (s', r)"
  obtains disk where "svc_p s' = svc_p s" "w_disk (svc_world s') = disk" "w_path (svc_world s') = w_path (svc_world s)"
    "w_secrets (svc_world s') = w_secrets (svc_world s)" "w_rand (svc_world s') = w_rand (svc_world s)"
    "w_trace (svc_world s') = w_trace (svc_world s) @ [(disk, w_secrets (svc_world s))]"
    "disk = w_disk (svc_world s) \<and> r \<noteq> None \<or> disk = doc (svc_p s)"
proof -
  obtain w r' where w: "world_save (state_data (svc_p s)) (svc_world s) = (w, r')" by fastforce
  with assms have s': "svc_p s' = svc_p s" "svc_world s' = w" "r = r'"
    by (auto simp: persist_def Let_def split: option.splits)
  obtain disk where "w = (svc_world s)\<lparr>w_disk := disk, w_saves := tl (w_saves (svc_world s)),
      w_trace := w_trace (svc_world s) @ [(disk, w_secrets (svc_world s))]\<rparr>"
    "disk = w_disk (svc_world s) \<and> r' \<noteq> None \<or> disk = doc (svc_p s)"
    unfolding doc_def by (rule world_save_spec [OF w])
  then show ?thesis by (intro that [of disk]) (simp_all add: s')
qed

lemma persist_ok:
  "w_saves (svc_world s) = [] \<Longrightarrow> persist s = (healthy ''store'' (s\<lparr>svc_world := (svc_world s)\<lparr>w_disk := doc (svc_p s), w_saves := [],
     w_trace := w_trace (svc_world s) @ [(doc (svc_p s), w_secrets (svc_world s))]\<rparr>\<rparr>), None)"
  by (simp add: persist_def world_save_def Let_def doc_def)

definition secret_effect :: "service \<Rightarrow> service \<Rightarrow> (string \<rightharpoonup> string) \<Rightarrow> error option \<Rightarrow> bool" where
  "secret_effect s s' m r \<longleftrightarrow> svc_p s' = svc_p s \<and> w_disk (svc_world s') = w_disk (svc_world s)
     \<and> w_path (svc_world s') = w_path (svc_world s) \<and> w_rand (svc_world s') = w_rand (svc_world s)
     \<and> set (w_trace (svc_world s')) \<subseteq> set (w_trace (svc_world s)) \<union> {(w_disk (svc_world s), w_secrets (svc_world s'))}
     \<and> (secret_map s' = m \<or> r \<noteq> None \<and> secret_map s' = secret_map s)"

lemma secret_call_fields:
  "secret_call w = (x, w') \<Longrightarrow> w_disk w' = w_disk w \<and> w_path w' = w_path w \<and> w_rand w' = w_rand w
     \<and> w_trace w' = w_trace w \<and> w_secrets w' = w_secrets w \<and> w_saves w' = w_saves w"
  by (auto simp: secret_call_def split: list.splits)

lemma secrets_put_effect: "secrets_put ref v s = (s', r) \<Longrightarrow> secret_effect s s' ((secret_map s)(ref \<mapsto> v)) r"
  by (auto simp: secrets_put_def world_put_def secret_effect_def secret_map_def set_secrets_def update_conv'
      dest!: secret_call_fields split: prod.splits secret_outcome.splits)

lemma secrets_delete_effect: "secrets_delete ref s = (s', r) \<Longrightarrow> secret_effect s s' ((secret_map s)(ref := None)) r"
  by (auto simp: secrets_delete_def world_delete_def secret_effect_def secret_map_def set_secrets_def delete_conv'
      dest!: secret_call_fields split: prod.splits secret_outcome.splits)

lemma drop_secret_effect: "drop_secret t ref s = (s', r) \<Longrightarrow> secret_effect s s' ((secret_map s)(ref := None)) r"
proof -
  assume d: "drop_secret t ref s = (s', r)"
  obtain s1 r1 where s1: "secrets_delete ref s = (s1, r1)" by fastforce
  from secrets_delete_effect [OF s1] d s1 show ?thesis
    by (auto simp: drop_secret_def secret_effect_def secret_map_def split: option.splits)
qed

section \<open>Recovery, abstractly\<close>

definition recovered_profiles :: "Intent \<Rightarrow> Profile list \<Rightarrow> Profile list" where
  "recovered_profiles i ps =
     (let index = find_index_of (\<lambda>p. prof_ID p = in_ProfileID i) ps
      in case in_NewProfile i of
           Some p \<Rightarrow> put_profile index p ps
         | None \<Rightarrow> (case index of None \<Rightarrow> ps | Some k \<Rightarrow> remove_at k ps))"

text \<open>The intent read as a specification: an upsert whose secret was written is carried out, one whose
  secret is missing is dropped; a deletion is carried out; anything else is refused.\<close>

definition spec_recover :: "pstate \<Rightarrow> (string \<rightharpoonup> string) \<Rightarrow> (pstate \<times> (string \<rightharpoonup> string)) option" where
  "spec_recover p m =
     (case s_intent p of
        None \<Rightarrow> Some (p, m)
      | Some i \<Rightarrow>
          if in_Version i \<noteq> 1 then None
          else if in_Kind i = ''upsert'' then
            (if in_NewProfile i = None \<or> in_NewSecretRef i = [] then None
             else if m (in_NewSecretRef i) = None then Some (p\<lparr>s_intent := None\<rparr>, m)
             else Some (p\<lparr>s_profiles := recovered_profiles i (s_profiles p), s_intent := None\<rparr>,
                        if in_OldSecretRef i \<noteq> [] \<and> in_OldSecretRef i \<noteq> in_NewSecretRef i
                        then m(in_OldSecretRef i := None) else m))
          else if in_Kind i = ''delete'' then
            Some (p\<lparr>s_profiles := recovered_profiles (i\<lparr>in_NewProfile := None\<rparr>) (s_profiles p), s_intent := None\<rparr>,
                  if in_OldSecretRef i \<noteq> [] then m(in_OldSecretRef i := None) else m)
          else None)"

definition faultless :: "service \<Rightarrow> bool" where
  "faultless s \<longleftrightarrow> w_saves (svc_world s) = [] \<and> w_secretCalls (svc_world s) = []"

text \<open>A step that keeps the world faultless, with what it leaves durable.\<close>

definition settles :: "service \<Rightarrow> service \<Rightarrow> pstate \<Rightarrow> (string \<rightharpoonup> string) \<Rightarrow> bool" where
  "settles s s' p m \<longleftrightarrow> faultless s' \<and> svc_p s' = p \<and> secret_map s' = m
     \<and> w_path (svc_world s') = w_path (svc_world s) \<and> w_disk (svc_world s') = doc p"

lemma persist_settles:
  "faultless s \<Longrightarrow> \<exists>s'. persist s = (s', None) \<and> settles s s' (svc_p s) (secret_map s)"
  by (auto simp: persist_ok faultless_def settles_def secret_map_def)

lemma settles_persist:
  "faultless s \<Longrightarrow> persist s = (s', r) \<Longrightarrow> r = None \<and> settles s s' (svc_p s) (secret_map s)"
  using persist_settles [of s] by auto

lemma settles_drop:
  "faultless s \<Longrightarrow> w_disk (svc_world s) = doc (svc_p s) \<Longrightarrow> drop_secret t ref s = (s', r) \<Longrightarrow>
    r = None \<and> settles s s' (svc_p s) ((secret_map s)(ref := None))"
  by (auto simp: drop_secret_def secrets_delete_def world_delete_def secret_call_def faultless_def settles_def
      secret_map_def set_secrets_def delete_conv')

lemma settles_clear:
  assumes "faultless s" "clear_intent t s = (s', r)"
  shows "r = None \<and> settles s s' ((svc_p s)\<lparr>s_intent := None\<rparr>) (secret_map s)"
proof -
  have "faultless (set_intent None s)" using assms(1) by (simp add: faultless_def)
  from persist_settles [OF this] assms(2) show ?thesis
    by (auto simp: clear_intent_def settles_def secret_map_def)
qed

lemma recover_upsert_settles:
  assumes "faultless s" "in_NewProfile i = Some p" "recover_upsert i p s = (s', r)"
  shows "r = None \<and> settles s s' ((svc_p s)\<lparr>s_profiles := recovered_profiles i (s_profiles (svc_p s))\<rparr>)
    (if in_OldSecretRef i \<noteq> [] \<and> in_OldSecretRef i \<noteq> in_NewSecretRef i then (secret_map s)(in_OldSecretRef i := None)
     else secret_map s)"
proof -
  let ?s = "set_profiles (recovered_profiles i (s_profiles (svc_p s))) s"
  have "faultless ?s" using assms(1) by (simp add: faultless_def)
  then obtain s1 where s1: "persist ?s = (s1, None)" "settles ?s s1 (svc_p ?s) (secret_map ?s)"
    using persist_settles by blast
  have "recover_upsert i p s = (if in_OldSecretRef i \<noteq> [] \<and> in_OldSecretRef i \<noteq> in_NewSecretRef i
      then drop_secret ''recover old secret deletion: '' (in_OldSecretRef i) s1 else (s1, None))"
    using s1(1) assms(2) by (simp add: recover_upsert_def profile_index_def recovered_profiles_def Let_def)
  with assms(3) s1(2) show ?thesis
    using settles_drop [of s1] by (auto simp: settles_def secret_map_def split: if_splits)
qed

lemma recover_delete_settles:
  assumes "faultless s" "recover_delete i s = (s', r)"
  shows "r = None \<and> settles s s' ((svc_p s)\<lparr>s_profiles := recovered_profiles (i\<lparr>in_NewProfile := None\<rparr>) (s_profiles (svc_p s))\<rparr>)
    (if in_OldSecretRef i \<noteq> [] then (secret_map s)(in_OldSecretRef i := None) else secret_map s)"
proof -
  let ?s = "set_profiles (recovered_profiles (i\<lparr>in_NewProfile := None\<rparr>) (s_profiles (svc_p s))) s"
  have "faultless ?s" using assms(1) by (simp add: faultless_def)
  then obtain s1 where s1: "persist ?s = (s1, None)" "settles ?s s1 (svc_p ?s) (secret_map ?s)"
    using persist_settles by blast
  have "recover_delete i s = (if in_OldSecretRef i \<noteq> []
      then drop_secret ''recover deleted profile secret: '' (in_OldSecretRef i) s1 else (s1, None))"
    using s1(1) by (simp add: recover_delete_def profile_index_def recovered_profiles_def Let_def)
  with assms(2) s1(2) show ?thesis
    using settles_drop [of s1] by (auto simp: settles_def secret_map_def split: if_splits)
qed

lemma secrets_get_faultless:
  "faultless s \<Longrightarrow> secrets_get ref s = (s, case secret_map s ref of None \<Rightarrow> Inl (not_found ref) | Some v \<Rightarrow> Inr v)"
  by (simp add: secrets_get_def world_get_def secret_call_def faultless_def secret_map_def)

text \<open>The code's recovery refines the specification.\<close>

lemma recoverIntentLocked_refines:
  assumes f: "faultless s" and i: "s_intent (svc_p s) = Some i"
  shows "case spec_recover (svc_p s) (secret_map s) of
      None \<Rightarrow> \<exists>e. recoverIntentLocked s = (s, Some e)
    | Some (p', m') \<Rightarrow> \<exists>s'. recoverIntentLocked s = (s', None) \<and> settles s s' p' m'"
proof -
  consider (bad) "in_Version i \<noteq> 1 \<or> in_Kind i \<notin> {''upsert'', ''delete''}
        \<or> in_Kind i = ''upsert'' \<and> (in_NewProfile i = None \<or> in_NewSecretRef i = [])"
    | (dropped) p where "in_Version i = 1" "in_Kind i = ''upsert''" "in_NewProfile i = Some p" "in_NewSecretRef i \<noteq> []"
        "secret_map s (in_NewSecretRef i) = None"
    | (upsert) p v where "in_Version i = 1" "in_Kind i = ''upsert''" "in_NewProfile i = Some p" "in_NewSecretRef i \<noteq> []"
        "secret_map s (in_NewSecretRef i) = Some v"
    | (delete) "in_Version i = 1" "in_Kind i = ''delete''"
    by fastforce
  then show ?thesis
  proof cases
    case bad
    with i show ?thesis by (auto simp: spec_recover_def recoverIntentLocked_def split: option.splits)
  next
    case dropped
    have "faultless (set_intent None s)" using f by (simp add: faultless_def)
    from persist_settles [OF this] dropped i f show ?thesis
      by (auto simp: spec_recover_def recoverIntentLocked_def secrets_get_faultless not_found_def settles_def secret_map_def)
  next
    case upsert
    let ?s = "healthy ''secret'' s"
    have f1: "faultless ?s" using f by (simp add: faultless_def)
    obtain s1 r1 where s1: "recover_upsert i p ?s = (s1, r1)" by fastforce
    note 1 = recover_upsert_settles [OF f1 upsert(3) s1]
    obtain s2 r2 where s2: "clear_intent ''clear recovered intent: '' s1 = (s2, r2)" by fastforce
    have "faultless s1" using 1 by (simp add: settles_def)
    note 2 = settles_clear [OF this s2]
    from upsert i f s1 s2 1 2 show ?thesis
      by (auto simp: spec_recover_def recoverIntentLocked_def secrets_get_faultless settles_def secret_map_def)
  next
    case delete
    obtain s1 r1 where s1: "recover_delete i s = (s1, r1)" by fastforce
    note 1 = recover_delete_settles [OF f s1]
    obtain s2 r2 where s2: "clear_intent ''clear recovered intent: '' s1 = (s2, r2)" by fastforce
    have "faultless s1" using 1 by (simp add: settles_def)
    note 2 = settles_clear [OF this s2]
    from delete i s1 s2 1 2 show ?thesis
      by (auto simp: spec_recover_def recoverIntentLocked_def settles_def secret_map_def)
  qed
qed

section \<open>The trail of a transaction\<close>

text \<open>A durable state seen through what a restart reads: the decoded file and the map of secrets.\<close>

type_synonym durable_view = "pstate \<times> (string \<rightharpoonup> string)"

definition in_view :: "string \<Rightarrow> state_file \<times> secrets \<Rightarrow> durable_view \<Rightarrow> bool" where
  "in_view path ds v \<longleftrightarrow> Load path (fst ds) = Inr (state_data (fst v)) \<and> map_of (snd ds) = snd v"

definition cur :: "service \<Rightarrow> durable_view \<Rightarrow> bool" where
  "cur s v \<longleftrightarrow> in_view (w_path (svc_world s)) (durable (svc_world s)) v"

definition trail :: "service \<Rightarrow> service \<Rightarrow> durable_view set \<Rightarrow> bool" where
  "trail s s' A \<longleftrightarrow> w_path (svc_world s') = w_path (svc_world s)
     \<and> (\<forall>ds \<in> set (w_trace (svc_world s')). ds \<in> set (w_trace (svc_world s)) \<or> (\<exists>v \<in> A. in_view (w_path (svc_world s)) ds v))"

lemma trail_refl: "svc_world s' = svc_world s \<Longrightarrow> trail s s' A"
  by (simp add: trail_def)

lemma trail_trans: "trail s s' A \<Longrightarrow> trail s' s'' B \<Longrightarrow> trail s s'' (A \<union> B)"
  by (fastforce simp: trail_def)

lemma trail_mono: "trail s s' A \<Longrightarrow> A \<subseteq> B \<Longrightarrow> trail s s' B"
  by (fastforce simp: trail_def)

lemma trail_world: "svc_world t' = svc_world s' \<Longrightarrow> svc_world t = svc_world s \<Longrightarrow> trail t t' A = trail s s' A"
  by (simp add: trail_def)

lemma trail_start: "trail t u A \<Longrightarrow> svc_world t = svc_world s \<Longrightarrow> A \<subseteq> B \<Longrightarrow> trail s u B"
  by (fastforce simp: trail_def)

lemma cur_world: "svc_world t = svc_world s \<Longrightarrow> cur t v = cur s v"
  by (simp add: cur_def)

lemma cur_secrets: "cur s (p, m) \<Longrightarrow> secret_map s = m"
  by (simp add: cur_def in_view_def secret_map_def durable_def)

lemma persist_trail:
  assumes "cur s (p, m)" "persist s = (s', r)"
  shows "trail s s' {(p, m), (svc_p s, m)}" "svc_p s' = svc_p s" "w_rand (svc_world s') = w_rand (svc_world s)"
    "r = None \<Longrightarrow> cur s' (svc_p s, m)"
  by (rule persist_spec [OF assms(2)],
      use assms(1) in \<open>auto simp: trail_def cur_def in_view_def durable_def\<close>)+

lemma secret_trail:
  assumes "cur s (p, m)" "secret_effect s s' m' r"
  shows "trail s s' {(p, m), (p, m')}" "svc_p s' = svc_p s" "r = None \<Longrightarrow> cur s' (p, m')"
  using assms by (auto simp: secret_effect_def trail_def cur_def in_view_def durable_def secret_map_def)

text \<open>The durable states a commit goes through: the old state; with the intent; with the new secret;
  with the profile; without the old secret; done.\<close>

definition commit_secrets :: "(string \<rightharpoonup> string) \<Rightarrow> string \<Rightarrow> string \<Rightarrow> (string \<rightharpoonup> string)" where
  "commit_secrets m password new = (if password = [] then m else m(new \<mapsto> password))"

definition commit_final :: "(string \<rightharpoonup> string) \<Rightarrow> string \<Rightarrow> string \<Rightarrow> string \<Rightarrow> (string \<rightharpoonup> string)" where
  "commit_final m password old new =
     (if old \<noteq> [] \<and> old \<noteq> new then (commit_secrets m password new)(old := None) else commit_secrets m password new)"

definition commit_views :: "pstate \<Rightarrow> (string \<rightharpoonup> string) \<Rightarrow> nat option \<Rightarrow> Profile \<Rightarrow> string \<Rightarrow> string \<Rightarrow> durable_view set" where
  "commit_views p m index profile password old =
     (let new = prof_SecretRef profile; i = commit_intent profile old;
          q = p\<lparr>s_profiles := put_profile index profile (s_profiles p)\<rparr>;
          m1 = commit_secrets m password new; m2 = commit_final m password old new
      in {(p, m), (p\<lparr>s_intent := Some i\<rparr>, m), (p\<lparr>s_intent := Some i\<rparr>, m1), (q\<lparr>s_intent := Some i\<rparr>, m1),
          (q\<lparr>s_intent := Some i\<rparr>, m2), (q, m2)})"

lemma put_step_trail:
  assumes "cur s (p, m)"
    "(if password = [] then (s, None)
      else case secrets_put ref password s of
        (s3, Some e) \<Rightarrow> (unhealthy ''secret'' (err_msg e) s3, Some (Wrap ''write new profile secret: '' e []))
      | (s3, None) \<Rightarrow> (healthy ''secret'' s3, None)) = (s', r)"
  shows "trail s s' {(p, m), (p, commit_secrets m password ref)}" "svc_p s' = svc_p s"
    "r = None \<Longrightarrow> cur s' (p, commit_secrets m password ref)"
proof -
  obtain s3 r3 where put: "secrets_put ref password s = (s3, r3)" by fastforce
  note e = secret_trail [OF assms(1) secrets_put_effect [OF put]]
  have "password \<noteq> [] \<Longrightarrow> svc_world s' = svc_world s3 \<and> svc_p s' = svc_p s3 \<and> (r = None \<longleftrightarrow> r3 = None)"
    using assms(2) put by (auto split: option.splits)
  with e assms show "trail s s' {(p, m), (p, commit_secrets m password ref)}" "svc_p s' = svc_p s"
    "r = None \<Longrightarrow> cur s' (p, commit_secrets m password ref)"
    using trail_world [of s' s3 s s] cur_world [of s' s3]
    by (auto simp: commit_secrets_def cur_secrets [OF assms(1)] trail_refl split: if_splits)
qed

lemma drop_step_trail:
  assumes "cur s (p, m)" "(if c then drop_secret t ref s else (s, None)) = (s', r)"
  shows "trail s s' {(p, m), (p, if c then m(ref := None) else m)}" "svc_p s' = svc_p s"
    "r = None \<Longrightarrow> cur s' (p, if c then m(ref := None) else m)"
proof (atomize (full), cases c)
  case True
  then have "drop_secret t ref s = (s', r)" using assms(2) by simp
  note e = secret_trail [OF assms(1) drop_secret_effect [OF this, unfolded cur_secrets [OF assms(1)]]]
  show "trail s s' {(p, m), (p, if c then m(ref := None) else m)} \<and> svc_p s' = svc_p s
      \<and> (r = None \<longrightarrow> cur s' (p, if c then m(ref := None) else m))"
    using e True by simp
next
  case False
  with assms show "trail s s' {(p, m), (p, if c then m(ref := None) else m)} \<and> svc_p s' = svc_p s
      \<and> (r = None \<longrightarrow> cur s' (p, if c then m(ref := None) else m))"
    by (simp add: trail_refl)
qed

lemma clear_step_trail:
  assumes "cur s (p, m)" "clear_intent t s = (s', r)"
  shows "trail s s' {(p, m), ((svc_p s)\<lparr>s_intent := None\<rparr>, m)}"
    "r = None \<Longrightarrow> svc_p s' = (svc_p s)\<lparr>s_intent := None\<rparr> \<and> cur s' ((svc_p s)\<lparr>s_intent := None\<rparr>, m)"
proof -
  obtain s1 r1 where p: "persist (set_intent None s) = (s1, r1)" by fastforce
  have "cur (set_intent None s) (p, m)" using assms(1) by (simp add: cur_def)
  note e = persist_trail [OF this p]
  have w: "svc_world s' = svc_world s1" "r = None \<longleftrightarrow> r1 = None" "r = None \<Longrightarrow> svc_p s' = svc_p s1"
    using assms(2) p by (auto simp: clear_intent_def split: option.splits)
  show "trail s s' {(p, m), ((svc_p s)\<lparr>s_intent := None\<rparr>, m)}"
    using e(1) trail_world [OF w(1), of s "set_intent None s"] by simp
  show "r = None \<Longrightarrow> svc_p s' = (svc_p s)\<lparr>s_intent := None\<rparr> \<and> cur s' ((svc_p s)\<lparr>s_intent := None\<rparr>, m)"
    using e(2,4) w cur_world [OF w(1)] by simp
qed

lemma intent_shadow [simp]: "s_intent p = None \<Longrightarrow> p\<lparr>s_intent := None\<rparr> = p"
  by (cases p) simp

lemma intent_profiles_swap [simp]:
  "p\<lparr>s_intent := i, s_profiles := ps\<rparr> = p\<lparr>s_profiles := ps, s_intent := i\<rparr>"
  by (cases p) simp

lemma commit_finish_trail:
  assumes c: "cur s (svc_p s, m)" and run: "commit_finish index profile old s = (s', profile', r)"
    and p: "svc_p s = p"
  shows "trail s s' {(p, m), (p\<lparr>s_profiles := put_profile index profile (s_profiles p)\<rparr>, m),
      (p\<lparr>s_profiles := put_profile index profile (s_profiles p)\<rparr>, if old \<noteq> [] \<and> old \<noteq> prof_SecretRef profile then m(old := None) else m),
      (p\<lparr>s_profiles := put_profile index profile (s_profiles p), s_intent := None\<rparr>, if old \<noteq> [] \<and> old \<noteq> prof_SecretRef profile then m(old := None) else m)}"
    (is "trail s s' ?V") "profile' = profile"
    "r = None \<Longrightarrow> svc_p s' = p\<lparr>s_profiles := put_profile index profile (s_profiles p), s_intent := None\<rparr>
       \<and> cur s' (svc_p s', if old \<noteq> [] \<and> old \<noteq> prof_SecretRef profile then m(old := None) else m)"
proof -
  let ?c = "old \<noteq> [] \<and> old \<noteq> prof_SecretRef profile"
  let ?q = "p\<lparr>s_profiles := put_profile index profile (s_profiles p)\<rparr>" and ?m2 = "if ?c then m(old := None) else m"
  let ?s = "set_profiles (put_profile index profile (s_profiles (svc_p s))) s"
  have base: "cur ?s (p, m)" using c p by (simp add: cur_def)
  obtain s4 r4 where s4: "persist ?s = (s4, r4)" by fastforce
  note e4 = persist_trail [OF base s4]
  have t4: "trail s s4 ?V" by (rule trail_start [OF e4(1)]) (simp_all add: p)
  obtain s5 r5 where s5: "(if ?c then drop_secret ''delete previous profile secret: '' old s4 else (s4, None)) = (s5, r5)"
    by fastforce
  obtain s6 r6 where s6: "clear_intent ''clear profile intent: '' s5 = (s6, r6)" by fastforce
  have eq: "(s', profile', r) = (case r4 of Some e \<Rightarrow> (s4, profile, Some (Wrap ''commit profile state: '' e []))
      | None \<Rightarrow> (case r5 of Some e \<Rightarrow> (s5, profile, Some e) | None \<Rightarrow> (s6, profile, r6)))"
    using run s4 s5 s6 by (auto simp: commit_finish_def split: option.splits)
  have 5: "trail s s5 ?V" "svc_p s5 = ?q" "r5 = None \<Longrightarrow> cur s5 (?q, ?m2)" if "r4 = None"
  proof -
    have "cur s4 (?q, m)" "svc_p s4 = ?q" using e4(2,4) that p by simp_all
    note e5 = drop_step_trail [OF this(1) s5] and q = this(2)
    show "svc_p s5 = ?q" "r5 = None \<Longrightarrow> cur s5 (?q, ?m2)" using e5(2,3) q by simp_all
    have "trail s4 s5 ?V" using e5(1) by (rule trail_mono) auto
    then show "trail s s5 ?V" using trail_trans [OF t4, of s5 ?V] by simp
  qed
  have 6: "trail s s6 ?V" "r6 = None \<Longrightarrow> svc_p s6 = ?q\<lparr>s_intent := None\<rparr> \<and> cur s6 (svc_p s6, ?m2)" if "r4 = None" "r5 = None"
  proof -
    note e6 = clear_step_trail [OF 5(3) [OF that] s6]
    show "r6 = None \<Longrightarrow> svc_p s6 = ?q\<lparr>s_intent := None\<rparr> \<and> cur s6 (svc_p s6, ?m2)" using e6(2) 5(2) [OF that(1)] by simp
    have "trail s5 s6 ?V" by (rule trail_mono [OF e6(1)]) (simp add: 5(2) [OF that(1)])
    then show "trail s s6 ?V" using trail_trans [OF 5(1) [OF that(1)], of s6 ?V] by simp
  qed
  show "trail s s' ?V" "profile' = profile"
    "r = None \<Longrightarrow> svc_p s' = p\<lparr>s_profiles := put_profile index profile (s_profiles p), s_intent := None\<rparr> \<and> cur s' (svc_p s', ?m2)"
  proof (atomize (full), cases r4)
    case (Some e)
    with eq t4 show "trail s s' ?V \<and> profile' = profile \<and> (r = None \<longrightarrow>
        svc_p s' = p\<lparr>s_profiles := put_profile index profile (s_profiles p), s_intent := None\<rparr> \<and> cur s' (svc_p s', ?m2))"
      by simp
  next
    case None
    with eq 5(1) [OF None] 6 [OF None] show "trail s s' ?V \<and> profile' = profile \<and> (r = None \<longrightarrow>
        svc_p s' = p\<lparr>s_profiles := put_profile index profile (s_profiles p), s_intent := None\<rparr> \<and> cur s' (svc_p s', ?m2))"
      by (cases r5) (auto split del: if_split)
  qed
qed

lemma commit_steps_trail:
  assumes c: "cur s (svc_p s, m)" and i: "s_intent (svc_p s) = None"
    and run: "commit_steps index profile password old s = (s', profile', r)"
  shows "trail s s' (commit_views (svc_p s) m index profile password old)" "profile' = profile"
    "r = None \<Longrightarrow> svc_p s' = (svc_p s)\<lparr>s_profiles := put_profile index profile (s_profiles (svc_p s))\<rparr>
       \<and> cur s' (svc_p s', commit_final m password old (prof_SecretRef profile))"
proof -
  let ?p = "svc_p s" and ?i = "commit_intent profile old" and ?new = "prof_SecretRef profile"
  let ?q = "?p\<lparr>s_profiles := put_profile index profile (s_profiles ?p)\<rparr>"
  let ?m1 = "commit_secrets m password ?new" and ?m2 = "commit_final m password old ?new"
  let ?V = "commit_views ?p m index profile password old"
  let ?c = "old \<noteq> [] \<and> old \<noteq> ?new"
  have m2: "(if ?c then ?m1(old := None) else ?m1) = ?m2" by (simp add: commit_final_def)
  have V: "(?p, m) \<in> ?V" "(?p\<lparr>s_intent := Some ?i\<rparr>, m) \<in> ?V" "(?p\<lparr>s_intent := Some ?i\<rparr>, ?m1) \<in> ?V"
      "(?q\<lparr>s_intent := Some ?i\<rparr>, ?m1) \<in> ?V" "(?q\<lparr>s_intent := Some ?i\<rparr>, ?m2) \<in> ?V" "(?q, ?m2) \<in> ?V"
    by (simp_all add: commit_views_def Let_def)
  have base: "cur (set_intent (Some ?i) s) (?p, m)" using c by (simp add: cur_def)
  obtain s2 r2 where s2: "persist (set_intent (Some ?i) s) = (s2, r2)" by fastforce
  note e2 = persist_trail [OF base s2]
  have t2: "trail s s2 ?V"
    by (rule trail_start [OF e2(1)]) (use V in simp_all)
  show "trail s s' ?V" "profile' = profile" "r = None \<Longrightarrow> svc_p s' = ?q \<and> cur s' (svc_p s', ?m2)"
  proof (atomize (full), cases r2)
    case (Some e)
    then have "svc_world s' = svc_world s2" "profile' = profile" "r \<noteq> None"
      using run s2 by (auto simp: commit_steps_def)
    then show "trail s s' ?V \<and> profile' = profile \<and> (r = None \<longrightarrow> svc_p s' = ?q \<and> cur s' (svc_p s', ?m2))"
      using t2 trail_world [of s' s2 s s] by auto
  next
    case None
    have c2: "cur s2 (?p\<lparr>s_intent := Some ?i\<rparr>, m)" using e2(4) None by simp
    obtain s3 r3 where s3: "(if password = [] then (s2, None)
        else case secrets_put ?new password s2 of
          (s3, Some e) \<Rightarrow> (unhealthy ''secret'' (err_msg e) s3, Some (Wrap ''write new profile secret: '' e []))
        | (s3, None) \<Rightarrow> (healthy ''secret'' s3, None)) = (s3, r3)" by fastforce
    note e3 = put_step_trail [OF c2 s3]
    have t3: "trail s s3 ?V" using trail_trans [OF t2 trail_mono [OF e3(1)], of ?V] V by simp
    have rest: "commit_steps index profile password old s = (case r3 of Some e \<Rightarrow> (s3, profile, Some e)
        | None \<Rightarrow> commit_finish index profile old s3)"
      using s2 None s3 by (simp add: commit_steps_def)
    show "trail s s' ?V \<and> profile' = profile \<and> (r = None \<longrightarrow> svc_p s' = ?q \<and> cur s' (svc_p s', ?m2))"
    proof (cases r3)
      case (Some e)
      with rest run t3 show ?thesis by auto
    next
      case None
      have f: "commit_finish index profile old s3 = (s', profile', r)" using rest run None by simp
      have "cur s3 (?p\<lparr>s_intent := Some ?i\<rparr>, ?m1)" "svc_p s3 = ?p\<lparr>s_intent := Some ?i\<rparr>"
        using e3(2,3) e2(2) None by simp_all
      then have c3: "cur s3 (svc_p s3, ?m1)" and p3: "svc_p s3 = ?p\<lparr>s_intent := Some ?i\<rparr>" by simp_all
      note e = commit_finish_trail [OF c3 f p3, unfolded m2]
      have "trail s3 s' ?V" by (rule trail_mono [OF e(1)]) (use V i in simp)
      then have "trail s s' ?V" using trail_trans [OF t3, of s' ?V] by simp
      with e(2,3) i show ?thesis by auto
    qed
  qed
qed

section \<open>Consistent states\<close>

text \<open>A persistent state and its secrets fit together: the state would be accepted as it stands by the
  checks of \<open>load\<close>, no transaction is open, profiles are told apart by their IDs and by their secret
  references, and every reference has its secret.\<close>

definition fits :: "urlparser \<Rightarrow> pstate \<Rightarrow> (string \<rightharpoonup> string) \<Rightarrow> bool" where
  "fits U p m \<longleftrightarrow> check_data U (state_data p) = Inr p \<and> s_intent p = None
     \<and> distinct (map prof_ID (s_profiles p)) \<and> distinct (map prof_SecretRef (s_profiles p))
     \<and> (\<forall>q \<in> set (s_profiles p). prof_SecretRef q \<in> dom m)"

definition consistent :: "urlparser \<Rightarrow> service \<Rightarrow> bool" where
  "consistent U s \<longleftrightarrow> fits U (svc_p s) (secret_map s) \<and> cur s (svc_p s, secret_map s)"

text \<open>Restarting a daemon from a durable state.\<close>

definition restart_world :: "string \<Rightarrow> state_file \<times> secrets \<Rightarrow> world" where
  "restart_world path ds = \<lparr>w_path = path, w_disk = fst ds, w_saves = [], w_secrets = snd ds, w_secretCalls = [],
     w_rand = [], w_trace = []\<rparr>"

definition restart :: "urlparser \<Rightarrow> string \<Rightarrow> state_file \<times> secrets \<Rightarrow> backend \<Rightarrow> service \<times> error option" where
  "restart U path ds be = load U (fresh_service [] [] (restart_world path ds) be 0)"

lemma check_data_intent:
  assumes "check_data U (state_data p) = Inr p"
  shows "check_data U (state_data (p\<lparr>s_intent := i\<rparr>)) = Inr (p\<lparr>s_intent := i\<rparr>)"
proof -
  obtain ps where ps: "load_profiles U (s_profiles p) = Inr ps"
    using assms by (auto simp: check_data_def state_data_def split: if_splits sum.splits)
  moreover have "check_selected ps (s_selectedProfiles p) = None"
    using assms ps by (auto simp: check_data_def state_data_def split: if_splits option.splits)
  ultimately show ?thesis
    using assms by (cases p) (auto simp: check_data_def state_data_def split: if_splits)
qed

text \<open>A restart from a state seen as \<open>(p, m)\<close> ends where the specification of recovery says.\<close>

lemma restart_spec:
  assumes v: "in_view path ds (p, m)" and c: "check_data U (state_data p) = Inr p"
    and r: "spec_recover p m = Some (p', m')"
  shows "\<exists>t. restart U path ds be = (t, None) \<and> svc_p t = p' \<and> cur t (p', m') \<and> w_path (svc_world t) = path"
proof -
  let ?s0 = "healthy ''store'' (fresh_service [] [] (restart_world path ds) be 0)"
  let ?s = "?s0\<lparr>svc_p := p, svc_status := (svc_status ?s0)\<lparr>st_CurrentProfileID := s_currentID p,
      st_SelectedProfileID := s_currentID p, st_ControlMode := s_controlMode p\<rparr>\<rparr>"
  have w: "svc_world ?s = restart_world path ds" by (simp add: fresh_service_def)
  have eq: "restart U path ds be = (case recoverIntentLocked ?s of
      (s3, Some e) \<Rightarrow> (s3, Some (Wrap ''recover profile transaction: '' e [])) | (s3, None) \<Rightarrow> (s3, None))"
    using v c by (simp add: restart_def load_def in_view_def restart_world_def fresh_service_def Let_def)
  have f: "faultless ?s" and m: "secret_map ?s = m"
    using v by (simp_all only: faultless_def secret_map_def w) (simp_all add: restart_world_def in_view_def)
  show ?thesis
  proof (cases "s_intent p")
    case None
    then have "restart U path ds be = (?s, None)" using eq by (simp add: recoverIntentLocked_def)
    moreover have "cur ?s (p, m)" using v by (simp only: cur_def w) (simp add: restart_world_def durable_def)
    moreover have "w_path (svc_world ?s) = path" by (simp only: w) (simp add: restart_world_def)
    ultimately show ?thesis using r None by (simp add: spec_recover_def)
  next
    case (Some i)
    then obtain s' where "recoverIntentLocked ?s = (s', None)" "settles ?s s' p' m'"
      using recoverIntentLocked_refines [OF f, of i] m r by auto
    moreover have "w_path (svc_world ?s) = path" by (simp only: w) (simp add: restart_world_def)
    ultimately show ?thesis using eq by (auto simp: settles_def cur_def in_view_def durable_def secret_map_def)
  qed
qed

section \<open>Changing the profile list of an accepted state\<close>

definition stored_ok :: "urlparser \<Rightarrow> Profile \<Rightarrow> bool" where
  "stored_ok U q \<longleftrightarrow> prof_SecretRef q \<noteq> [] \<and> NormalizeProfile U q = q \<and> ValidateProfile U q = None"

lemma load_profiles_same: "load_profiles U ps = Inr ps \<longleftrightarrow> (\<forall>q \<in> set ps. stored_ok U q)"
  by (induction ps) (auto simp: stored_ok_def Let_def split: option.splits sum.splits)

lemma load_profiles_ids: "load_profiles U ps = Inr qs \<Longrightarrow> map prof_ID qs = map prof_ID ps"
  by (induction ps arbitrary: qs) (auto simp: Let_def split: option.splits sum.splits if_splits)

abbreviation look :: "string \<Rightarrow> Profile list \<Rightarrow> Profile option" where
  "look pid ps \<equiv> find (\<lambda>p. prof_ID p = pid) ps"

lemma check_data_profiles: "check_data U d = Inr q \<Longrightarrow> load_profiles U (d_Profiles d) = Inr (s_profiles q)"
  by (auto simp: check_data_def split: if_splits sum.splits option.splits)

lemma check_data_iff:
  "check_data U (state_data p) = Inr p \<longleftrightarrow>
     (s_controlMode p = ''user'' \<or> s_controlMode p = ''machine'') \<and> (\<forall>q \<in> set (s_profiles p). stored_ok U q)
     \<and> (s_currentID p = [] \<or> look (s_currentID p) (s_profiles p) \<noteq> None)
     \<and> check_selected (s_profiles p) (s_selectedProfiles p) = None
     \<and> (if s_controlMode p = ''machine''
        then (\<exists>q. look (s_machineProfileID p) (s_profiles p) = Some q \<and> prof_Scope q = ProfileScopeMachine)
        else s_machineProfileID p = [])" (is "?L = ?R")
proof
  assume L: ?L
  then have ps: "load_profiles U (s_profiles p) = Inr (s_profiles p)"
    using check_data_profiles [OF L] by (simp add: state_data_def)
  with L show ?R
    by (auto simp: check_data_def state_data_def simp flip: load_profiles_same split: if_splits option.splits)
next
  assume R: ?R
  then have "load_profiles U (s_profiles p) = Inr (s_profiles p)" by (simp add: load_profiles_same)
  with R show ?L
    by (cases p) (auto simp: check_data_def state_data_def CurrentSchemaVersion_def split: option.splits if_splits)
qed

text \<open>A list that knows every profile the other one knows, with the same scope and owner.\<close>

definition knows :: "Profile list \<Rightarrow> Profile list \<Rightarrow> bool" where
  "knows ps' ps \<longleftrightarrow> (\<forall>pid q. look pid ps = Some q \<longrightarrow>
     (\<exists>q'. look pid ps' = Some q' \<and> prof_Scope q' = prof_Scope q \<and> prof_OwnerID q' = prof_OwnerID q))"

lemma check_selected_knows: "check_selected ps sel = None \<Longrightarrow> knows ps' ps \<Longrightarrow> check_selected ps' sel = None"
proof (induction sel)
  case (Cons x sel)
  obtain owner pid where x: "x = (owner, pid)" by fastforce
  with Cons.prems(1) obtain q where q: "look pid ps = Some q" "prof_Scope q = ProfileScopeUser" "prof_OwnerID q = owner"
      "TrimSpace owner \<noteq> []" "check_selected ps sel = None"
    by (auto split: if_splits option.splits)
  then obtain q' where "look pid ps' = Some q'" "prof_Scope q' = ProfileScopeUser" "prof_OwnerID q' = owner"
    using Cons.prems(2) by (fastforce simp: knows_def)
  with q x Cons show ?case by simp
qed simp

lemma check_data_knows:
  assumes "check_data U (state_data p) = Inr p" "\<forall>q \<in> set ps'. stored_ok U q" "knows ps' (s_profiles p)"
  shows "check_data U (state_data (p\<lparr>s_profiles := ps'\<rparr>)) = Inr (p\<lparr>s_profiles := ps'\<rparr>)"
proof -
  have k: "look pid (s_profiles p) \<noteq> None \<Longrightarrow> look pid ps' \<noteq> None" for pid
    using assms(3) by (fastforce simp: knows_def)
  have "check_selected ps' (s_selectedProfiles p) = None"
    using assms(1) check_selected_knows [OF _ assms(3)] by (simp add: check_data_iff)
  moreover have "\<exists>q. look (s_machineProfileID p) ps' = Some q \<and> prof_Scope q = ProfileScopeMachine"
    if mode: "s_controlMode p = ''machine''"
  proof -
    obtain q where "look (s_machineProfileID p) (s_profiles p) = Some q" "prof_Scope q = ProfileScopeMachine"
      using assms(1) mode by (auto simp: check_data_iff)
    with assms(3) show ?thesis unfolding knows_def by metis
  qed
  ultimately show ?thesis using assms(1,2) k [of "s_currentID p"] unfolding check_data_iff by auto
qed

text \<open>The two ways a commit places its profile.\<close>

definition places :: "nat option \<Rightarrow> Profile \<Rightarrow> Profile list \<Rightarrow> bool" where
  "places index x ps \<longleftrightarrow> find_index_of (\<lambda>p. prof_ID p = prof_ID x) ps = index
     \<and> (case index of None \<Rightarrow> True | Some i \<Rightarrow> prof_Scope (ps ! i) = prof_Scope x \<and> prof_OwnerID (ps ! i) = prof_OwnerID x)"

lemma look_update:
  assumes "find_index_of (\<lambda>p. prof_ID p = prof_ID x) ps = Some i"
  shows "look pid (ps[i := x]) = (if pid = prof_ID x then Some x else look pid ps)"
  using assms
proof (induction ps arbitrary: i)
  case (Cons q ps)
  then show ?case by (cases "prof_ID q = prof_ID x") (auto split: nat.splits)
qed simp

lemma look_at: "find_index_of (\<lambda>p. prof_ID p = pid) ps = Some i \<Longrightarrow> look pid ps = Some (ps ! i)"
proof (induction ps arbitrary: i)
  case (Cons q ps)
  then show ?case by (cases "prof_ID q = pid") (auto split: nat.splits)
qed simp

lemma put_profile_knows: "places index x ps \<Longrightarrow> knows (put_profile index x ps) ps"
  by (cases index) (auto simp: places_def knows_def put_profile_def find_append look_update look_at split: option.splits)

lemma put_profile_places: "places index x ps \<Longrightarrow> find_index_of (\<lambda>p. prof_ID p = prof_ID x) (put_profile index x ps) =
    (case index of None \<Rightarrow> Some (length ps) | Some i \<Rightarrow> Some i)"
proof (cases index)
  case None
  assume "places index x ps"
  then have "\<forall>q \<in> set ps. prof_ID q \<noteq> prof_ID x" using None by (simp add: places_def find_index_of_None)
  then have "find_index_of (\<lambda>p. prof_ID p = prof_ID x) (ps @ [x]) = Some (length ps)" by (induction ps) auto
  with None show ?thesis by (simp add: put_profile_def)
next
  case (Some i)
  assume "places index x ps"
  then have "find_index_of (\<lambda>p. prof_ID p = prof_ID x) ps = Some i" using Some by (simp add: places_def)
  then have "find_index_of (\<lambda>p. prof_ID p = prof_ID x) (ps[i := x]) = Some i"
    by (induction ps arbitrary: i) (auto split: if_splits nat.splits)
  with Some show ?thesis by (simp add: put_profile_def)
qed

lemma put_profile_again: "places index x ps \<Longrightarrow>
    put_profile (find_index_of (\<lambda>p. prof_ID p = prof_ID x) (put_profile index x ps)) x (put_profile index x ps) = put_profile index x ps"
  by (subst put_profile_places, assumption) (cases index; simp add: put_profile_def list_update_append)

lemma set_put_profile: "set (put_profile index x ps) \<subseteq> insert x (set ps)"
  by (auto simp: put_profile_def dest: set_update_subset_insert [THEN subsetD] split: option.splits)

section \<open>A commit that crashes anywhere recovers\<close>

text \<open>The situation of a commit: a consistent state, a profile that may be stored, placed where its ID is,
  and a reference that is new when there is a new password.\<close>

definition commit_ready :: "urlparser \<Rightarrow> pstate \<Rightarrow> (string \<rightharpoonup> string) \<Rightarrow> nat option \<Rightarrow> Profile \<Rightarrow> string \<Rightarrow> string \<Rightarrow> bool" where
  "commit_ready U p m index x password old \<longleftrightarrow> fits U p m \<and> stored_ok U x \<and> places index x (s_profiles p)
     \<and> (case index of None \<Rightarrow> old = [] \<and> password \<noteq> [] | Some i \<Rightarrow> old = prof_SecretRef (s_profiles p ! i))
     \<and> (if password = [] then prof_SecretRef x = old else m (prof_SecretRef x) = None)"

definition committed :: "pstate \<Rightarrow> nat option \<Rightarrow> Profile \<Rightarrow> pstate" where
  "committed p index x = p\<lparr>s_profiles := put_profile index x (s_profiles p)\<rparr>"

lemma committed_check:
  assumes "commit_ready U p m index x password old"
  shows "check_data U (state_data (committed p index x)) = Inr (committed p index x)"
proof -
  have "\<forall>q \<in> set (put_profile index x (s_profiles p)). stored_ok U q"
    using assms set_put_profile [of index x "s_profiles p"] by (auto simp: commit_ready_def fits_def check_data_iff)
  with assms show ?thesis
    unfolding committed_def by (intro check_data_knows put_profile_knows) (auto simp: commit_ready_def fits_def)
qed

lemma distinct_map_update:
  "distinct (map f xs) \<Longrightarrow> (\<forall>j < length xs. j \<noteq> i \<longrightarrow> f (xs ! j) \<noteq> f x) \<Longrightarrow> distinct (map f (xs[i := x]))"
  unfolding map_update by (rule distinct_list_update) (auto simp: in_set_conv_nth, metis nth_map)

lemma commit_ready_nth:
  assumes "commit_ready U p m (Some i) x password old"
  shows "i < length (s_profiles p)" "prof_ID (s_profiles p ! i) = prof_ID x"
  using assms find_index_of_Some [of "\<lambda>q. prof_ID q = prof_ID x" "s_profiles p" i]
  by (auto simp: commit_ready_def places_def)

lemma commit_ready_ref:
  assumes "commit_ready U p m index x password old" "j < length (s_profiles p)" "index \<noteq> Some j"
  shows "prof_SecretRef (s_profiles p ! j) \<noteq> prof_SecretRef x" "prof_SecretRef (s_profiles p ! j) \<noteq> old"
proof -
  have d: "distinct (map prof_SecretRef (s_profiles p))" and m: "prof_SecretRef (s_profiles p ! j) \<in> dom m"
      and ok: "stored_ok U (s_profiles p ! j)"
    using assms(1,2) by (auto simp: commit_ready_def fits_def check_data_iff)
  show old: "prof_SecretRef (s_profiles p ! j) \<noteq> old"
  proof (cases index)
    case None
    with assms(1) ok show ?thesis by (auto simp: commit_ready_def stored_ok_def)
  next
    case (Some i)
    with assms d commit_ready_nth(1) [of U p m i] show ?thesis
      by (auto simp: commit_ready_def distinct_conv_nth)
  qed
  show "prof_SecretRef (s_profiles p ! j) \<noteq> prof_SecretRef x"
    using assms(1) old m by (auto simp: commit_ready_def split: if_splits)
qed

lemma in_put_profile:
  assumes "q \<in> set (put_profile index x ps)" "q \<noteq> x"
  obtains j where "j < length ps" "index \<noteq> Some j" "q = ps ! j"
proof (cases index)
  case None
  with assms that show ?thesis by (auto simp: put_profile_def in_set_conv_nth)
next
  case (Some i)
  then obtain k where "k < length ps" "q = ps[i := x] ! k" using assms(1) by (auto simp: put_profile_def in_set_conv_nth)
  with assms(2) Some that [of k] show ?thesis by (cases "k = i") auto
qed

lemma commit_old_ref:
  assumes r: "commit_ready U p m index x password old" and "password = []"
  shows "prof_SecretRef x \<in> dom m"
proof (cases index)
  case None
  with assms show ?thesis by (simp add: commit_ready_def)
next
  case (Some i)
  then have "s_profiles p ! i \<in> set (s_profiles p)" using commit_ready_nth(1) [of U p m i x password old] r by simp
  then show ?thesis using assms Some by (simp add: commit_ready_def fits_def)
qed

lemma committed_fits:
  assumes r: "commit_ready U p m index x password old"
  shows "fits U (committed p index x) (commit_final m password old (prof_SecretRef x))"
proof -
  let ?ps = "s_profiles p" and ?ps' = "put_profile index x (s_profiles p)" and ?m = "commit_final m password old (prof_SecretRef x)"
  have f: "fits U p m" and pl: "places index x ?ps" using r by (simp_all add: commit_ready_def)
  have ref: "\<forall>j < length ?ps. index \<noteq> Some j \<longrightarrow> prof_SecretRef (?ps ! j) \<noteq> prof_SecretRef x"
    using commit_ready_ref [OF r] by blast
  have ids: "\<forall>j < length ?ps. index \<noteq> Some j \<longrightarrow> prof_ID (?ps ! j) \<noteq> prof_ID x"
  proof (cases index)
    case None
    with pl show ?thesis by (auto simp: places_def find_index_of_None)
  next
    case (Some i)
    then have "distinct (map prof_ID ?ps)" "i < length ?ps" "prof_ID (?ps ! i) = prof_ID x"
      using commit_ready_nth [of U p m i] r f by (auto simp: fits_def)
    then have "prof_ID (?ps ! j) = prof_ID x \<Longrightarrow> j < length ?ps \<Longrightarrow> j = i" for j
      using nth_eq_iff_index_eq [of "map prof_ID ?ps" j i] by simp
    with Some show ?thesis by blast
  qed
  have d: "distinct (map prof_ID ?ps')" "distinct (map prof_SecretRef ?ps')"
    using f ref ids by (cases index; auto simp: fits_def put_profile_def in_set_conv_nth intro!: distinct_map_update)+
  note old_ref = commit_old_ref [OF r]
  have "prof_SecretRef q \<in> dom ?m" if q: "q \<in> set ?ps'" for q
  proof (cases "q = x")
    case True
    with old_ref show ?thesis by (auto simp: commit_final_def commit_secrets_def)
  next
    case False
    then obtain j where j: "j < length ?ps" "index \<noteq> Some j" "q = ?ps ! j"
      using q by (elim in_put_profile)
    then have "prof_SecretRef q \<in> dom m" using f by (auto simp: fits_def)
    then show ?thesis using j(3) commit_ready_ref [OF r j(1,2)] by (auto simp: commit_final_def commit_secrets_def)
  qed
  with d committed_check [OF r] f show ?thesis by (auto simp: fits_def committed_def)
qed

lemma committed_intent [simp]: "s_intent (committed p index x) = s_intent p"
  "s_profiles (committed p index x) = put_profile index x (s_profiles p)"
  "s_currentID (committed p index x) = s_currentID p"
  by (simp_all add: committed_def)

lemma spec_recover_upsert:
  assumes "s_intent p = None" "prof_SecretRef x \<noteq> []"
  shows "spec_recover (p\<lparr>s_intent := Some (commit_intent x old)\<rparr>) m =
    (if m (prof_SecretRef x) = None then Some (p, m)
     else Some (p\<lparr>s_profiles := put_profile (find_index_of (\<lambda>q. prof_ID q = prof_ID x) (s_profiles p)) x (s_profiles p)\<rparr>,
                if old \<noteq> [] \<and> old \<noteq> prof_SecretRef x then m(old := None) else m))"
  using assms by (simp add: spec_recover_def commit_intent_def recovered_profiles_def Let_def)

text \<open>Whatever durable state of a commit a restart finds, recovery ends with the old state or the new one.\<close>

lemma commit_view_recovers:
  assumes r: "commit_ready U p m index x password old" and v: "v \<in> commit_views p m index x password old"
  shows "check_data U (state_data (fst v)) = Inr (fst v)
    \<and> spec_recover (fst v) (snd v) \<in> {Some (p, m), Some (committed p index x, commit_final m password old (prof_SecretRef x))}"
proof -
  let ?q = "committed p index x" and ?i = "Some (commit_intent x old)" and ?new = "prof_SecretRef x"
  let ?m1 = "commit_secrets m password ?new" and ?m2 = "commit_final m password old ?new"
  have i: "s_intent p = None" and ne: "?new \<noteq> []" and pl: "places index x (s_profiles p)"
    and cp: "check_data U (state_data p) = Inr p"
    using r by (auto simp: commit_ready_def fits_def stored_ok_def)
  have cq: "check_data U (state_data ?q) = Inr ?q" by (rule committed_check [OF r])
  have m2: "?m2 ?new \<noteq> None" "?m1 ?new \<noteq> None"
    using commit_old_ref [OF r] by (auto simp: commit_final_def commit_secrets_def)
  have ix: "find_index_of (\<lambda>q. prof_ID q = prof_ID x) (s_profiles p) = index" using pl by (simp add: places_def)
  have again: "put_profile (find_index_of (\<lambda>q. prof_ID q = prof_ID x) (s_profiles ?q)) x (s_profiles ?q) = s_profiles ?q"
    using put_profile_again [OF pl] by simp
  have q: "?q\<lparr>s_profiles := put_profile index x (s_profiles p)\<rparr> = ?q" by (simp add: committed_def)
  consider "v = (p, m)" | "v = (p\<lparr>s_intent := ?i\<rparr>, m)" | "v = (p\<lparr>s_intent := ?i\<rparr>, ?m1)" | "v = (?q\<lparr>s_intent := ?i\<rparr>, ?m1)"
    | "v = (?q\<lparr>s_intent := ?i\<rparr>, ?m2)" | "v = (?q, ?m2)"
    using v by (auto simp: commit_views_def committed_def Let_def)
  then show ?thesis
  proof cases
    case 1 then show ?thesis using cp i by (simp add: spec_recover_def)
  next
    case 2
    show ?thesis
    proof (cases "password = []")
      case True
      then have "?new = old" "m ?new \<noteq> None" using r commit_old_ref [OF r] by (auto simp: commit_ready_def)
      moreover have "?m2 = m" using True \<open>?new = old\<close> by (simp add: commit_final_def commit_secrets_def)
      ultimately show ?thesis
        using 2 check_data_intent [OF cp] spec_recover_upsert [OF i ne, of old m] by (simp add: ix committed_def)
    next
      case False
      then have "m ?new = None" using r by (simp add: commit_ready_def)
      then show ?thesis using 2 check_data_intent [OF cp] spec_recover_upsert [OF i ne, of old m] by simp
    qed
  next
    case 3
    then show ?thesis using check_data_intent [OF cp] spec_recover_upsert [OF i ne, of old ?m1] m2(2)
      by (simp add: ix commit_final_def committed_def)
  next
    case 4
    then show ?thesis using check_data_intent [OF cq] spec_recover_upsert [of ?q x old ?m1] i ne m2(2) again q
      by (simp add: commit_final_def)
  next
    case 5
    then show ?thesis using check_data_intent [OF cq] spec_recover_upsert [of ?q x old ?m2] i ne m2(1) again q
      by (auto simp: commit_final_def)
  next
    case 6 then show ?thesis using cq i by (simp add: spec_recover_def)
  qed
qed

section \<open>The profile operations\<close>

lemma newID_fields:
  assumes "newID s = (s', r)"
  shows "svc_p s' = svc_p s" "durable (svc_world s') = durable (svc_world s)" "w_trace (svc_world s') = w_trace (svc_world s)"
    "w_path (svc_world s') = w_path (svc_world s)" "r = Inr i \<Longrightarrow> w_rand (svc_world s) = Inr i # w_rand (svc_world s')"
    "svc_clock s' = svc_clock s"
  using assms by (auto simp: newID_def world_newID_def durable_def split: list.splits)

lemma newID_view:
  assumes "newID s = (s', r)"
  shows "cur s' v = cur s v" "secret_map s' = secret_map s" "trail s s' A" "trail s' u A = trail s u A"
  using newID_fields(2-4) [OF assms] by (simp_all add: cur_def secret_map_def durable_def trail_def)

text \<open>The reference a commit uses: the old one without a new password, else a fresh one.\<close>

definition new_ref :: "string \<Rightarrow> string \<Rightarrow> string \<Rightarrow> service \<Rightarrow> string \<Rightarrow> bool" where
  "new_ref pid password old s new \<longleftrightarrow> (if password = [] then new = old
     else (\<exists>i. w_rand (svc_world s) \<noteq> [] \<and> hd (w_rand (svc_world s)) = Inr i \<and> new = ''profile/'' @ pid @ ''/'' @ i))"

lemma commitProfileLocked_trail:
  assumes c: "consistent U s" and run: "commitProfileLocked index x0 password old s = (s', x, r)"
    and ready: "\<And>new. new_ref (prof_ID x0) password old s new \<Longrightarrow> new \<noteq> [] \<Longrightarrow>
      commit_ready U (svc_p s) (secret_map s) index (x0\<lparr>prof_SecretRef := new\<rparr>) password old"
  shows "r \<noteq> None \<and> trail s s' {} \<or>
    (\<exists>new. new_ref (prof_ID x0) password old s new \<and> x = x0\<lparr>prof_SecretRef := new\<rparr>
      \<and> commit_ready U (svc_p s) (secret_map s) index x password old
      \<and> trail s s' (commit_views (svc_p s) (secret_map s) index x password old)
      \<and> (r = None \<longrightarrow> svc_p s' = committed (svc_p s) index x
           \<and> cur s' (svc_p s', commit_final (secret_map s) password old new)))"
proof -
  let ?ref = "if password = [] then (s, Inr old) else case newID s of
       (s1, Inl e) \<Rightarrow> (s1, Inl (Wrap ''generate secret reference: '' e []))
     | (s1, Inr i) \<Rightarrow> (s1, Inr (''profile/'' @ prof_ID x0 @ ''/'' @ i))"
  obtain s1 ref where ref: "?ref = (s1, ref)" by fastforce
  have i: "s_intent (svc_p s) = None" using c by (simp add: consistent_def fits_def)
  obtain s1' r1 where n: "newID s = (s1', r1)" by fastforce
  have s1: "svc_p s1 = svc_p s" "cur s1 (svc_p s, secret_map s)" "trail s s1 {}" "trail s1 u A = trail s u A" for u A
    using ref c n newID_fields(1) [OF n] newID_view [OF n]
    by (auto simp: consistent_def trail_refl split: if_splits sum.splits)
  have eq: "(s', x, r) = (case ref of Inl e \<Rightarrow> (s1, x0, Some e) | Inr new \<Rightarrow>
      if new = [] then (s1, x0, Some (Errors ''profile transaction has no secret reference''))
      else commit_steps index (x0\<lparr>prof_SecretRef := new\<rparr>) password old s1)"
    using run ref i by (simp add: commitProfileLocked_def)
  show ?thesis
  proof (cases "\<exists>new. ref = Inr new \<and> new \<noteq> []")
    case False
    then have "s' = s1" "r \<noteq> None" using eq by (auto split: sum.splits if_splits)
    with s1(3) show ?thesis by simp
  next
    case True
    then obtain new where new: "ref = Inr new" "new \<noteq> []" by blast
    have isnew: "new_ref (prof_ID x0) password old s new"
      using ref new(1) n newID_fields(5) [OF n] by (fastforce simp: new_ref_def split: if_splits sum.splits)
    let ?x = "x0\<lparr>prof_SecretRef := new\<rparr>"
    have st: "commit_steps index ?x password old s1 = (s', x, r)" using eq new by simp
    note e = commit_steps_trail [OF _ _ st, unfolded s1(1), OF s1(2) i]
    from e(2) isnew ready [OF isnew new(2)] e(1,3) show ?thesis
      by (intro disjI2 exI [of _ new]) (auto simp: s1(4) committed_def)
  qed
qed

text \<open>What a crash during a commit leaves: a restart succeeds, consistently, with the old state or the new one.\<close>

definition recovers :: "urlparser \<Rightarrow> service \<Rightarrow> nat option \<Rightarrow> Profile \<Rightarrow> string \<Rightarrow> string \<Rightarrow> service \<Rightarrow> bool" where
  "recovers U s index x password old t \<longleftrightarrow> consistent U t \<and>
     (svc_p t = svc_p s \<and> secret_map t = secret_map s
      \<or> svc_p t = committed (svc_p s) index x \<and> secret_map t = commit_final (secret_map s) password old (prof_SecretRef x))"

lemma commit_view_restart:
  assumes "commit_ready U (svc_p s) (secret_map s) index x password old"
    "in_view path ds v" "v \<in> commit_views (svc_p s) (secret_map s) index x password old"
  shows "\<exists>t. restart U path ds be = (t, None) \<and> recovers U s index x password old t"
proof -
  let ?q = "committed (svc_p s) index x" and ?m = "commit_final (secret_map s) password old (prof_SecretRef x)"
  note rec = commit_view_recovers [OF assms(1,3)]
  obtain p' m' where r: "spec_recover (fst v) (snd v) = Some (p', m')"
    and pm: "(p', m') = (svc_p s, secret_map s) \<or> (p', m') = (?q, ?m)"
    using rec by auto
  have "fits U p' m'" using pm assms(1) committed_fits [OF assms(1)] by (auto simp: commit_ready_def)
  moreover obtain t where "restart U path ds be = (t, None)" "svc_p t = p'" "cur t (p', m')"
    using restart_spec [of path ds "fst v" "snd v" U p' m' be] assms(2) rec r by auto
  ultimately show ?thesis using pm cur_secrets [of t p' m'] by (auto simp: recovers_def consistent_def)
qed

lemma consistent_view: "consistent U s \<Longrightarrow> ds = durable (svc_world s) \<Longrightarrow> in_view (w_path (svc_world s)) ds (svc_p s, secret_map s)"
  by (simp add: consistent_def cur_def)

lemma trail_restart:
  assumes "consistent U s" "commit_ready U (svc_p s) (secret_map s) index x password old"
    "trail s s' (commit_views (svc_p s) (secret_map s) index x password old)"
    "w_trace (svc_world s) = [durable (svc_world s)]" "ds \<in> set (w_trace (svc_world s'))"
  shows "\<exists>t. restart U (w_path (svc_world s)) ds be = (t, None) \<and> recovers U s index x password old t"
proof -
  have "(svc_p s, secret_map s) \<in> commit_views (svc_p s) (secret_map s) index x password old"
    by (simp add: commit_views_def Let_def)
  then obtain v where "in_view (w_path (svc_world s)) ds v" "v \<in> commit_views (svc_p s) (secret_map s) index x password old"
    using assms(3-5) consistent_view [OF assms(1)] by (auto simp: trail_def)
  then show ?thesis using commit_view_restart [OF assms(2)] by blast
qed

lemma untouched_restart:
  assumes "consistent U s" "trail s s' {}" "w_trace (svc_world s) = [durable (svc_world s)]" "ds \<in> set (w_trace (svc_world s'))"
  shows "\<exists>t. restart U (w_path (svc_world s)) ds be = (t, None) \<and> consistent U t \<and> svc_p t = svc_p s \<and> secret_map t = secret_map s"
proof -
  have f: "fits U (svc_p s) (secret_map s)" and v: "in_view (w_path (svc_world s)) ds (svc_p s, secret_map s)"
    using assms consistent_view [OF assms(1), of ds] by (auto simp: consistent_def trail_def)
  have "spec_recover (svc_p s) (secret_map s) = Some (svc_p s, secret_map s)"
    using f by (simp add: fits_def spec_recover_def)
  then obtain t where t: "restart U (w_path (svc_world s)) ds be = (t, None)" "svc_p t = svc_p s" "cur t (svc_p s, secret_map s)"
    using restart_spec [OF v] f unfolding fits_def by blast
  then show ?thesis using f cur_secrets [OF t(3)] unfolding consistent_def by simp
qed

section \<open>Profiles that may be stored\<close>

lemma NormalizeProfile_stamps [simp]:
  "NormalizeProfile U (p\<lparr>prof_UpdatedAt := a\<rparr>) = (NormalizeProfile U p)\<lparr>prof_UpdatedAt := a\<rparr>"
  "NormalizeProfile U (p\<lparr>prof_CreatedAt := a\<rparr>) = (NormalizeProfile U p)\<lparr>prof_CreatedAt := a\<rparr>"
  "NormalizeProfile U (p\<lparr>prof_SecretRef := ref\<rparr>) = (NormalizeProfile U p)\<lparr>prof_SecretRef := ref\<rparr>"
  unfolding NormalizeProfile_alt by (cases p, simp)+

lemma ValidateProfile_stamps [simp]:
  "ValidateProfile U (p\<lparr>prof_UpdatedAt := a\<rparr>) = ValidateProfile U p"
  "ValidateProfile U (p\<lparr>prof_CreatedAt := a\<rparr>) = ValidateProfile U p"
  "ValidateProfile U (p\<lparr>prof_SecretRef := ref\<rparr>) = ValidateProfile U p"
  by (simp_all add: ValidateProfile_def validateProfile_def)

lemma NormalizeProfile_twice: "NormalizeProfile U (NormalizeProfile U p) = NormalizeProfile U p"
  by (subst (1) NormalizeProfile_alt)
    (simp add: NormalizeProfile_normal NormalizeProfile_AutoReconnect NormalizeProfile_ApplyDNS)

lemma apply_update_fields [simp]:
  "prof_ID (apply_update req p) = prof_ID p" "prof_Scope (apply_update req p) = prof_Scope p"
  "prof_OwnerID (apply_update req p) = prof_OwnerID p" "prof_SecretRef (apply_update req p) = prof_SecretRef p"
  by (simp_all add: apply_update_def)

text \<open>The profile an update stores, but for its secret reference.\<close>

definition updated_profile :: "urlparser \<Rightarrow> ProfileUpdateRequest \<Rightarrow> Profile \<Rightarrow> stamp \<Rightarrow> Profile" where
  "updated_profile U req before stamp = (NormalizeProfile U (apply_update req before))\<lparr>prof_UpdatedAt := stamp\<rparr>"

definition request_password :: "ProfileUpdateRequest \<Rightarrow> string" where
  "request_password req = (case ur_Password req of None \<Rightarrow> [] | Some x \<Rightarrow> x)"

lemma update_ready:
  assumes c: "consistent U s" and i: "profile_index pid s = Some index"
    and ok: "ValidateProfile U (NormalizeProfile U (apply_update req (s_profiles (svc_p s) ! index))) = None"
    and new: "new_ref pid password (prof_SecretRef (s_profiles (svc_p s) ! index)) s new" "new \<noteq> []"
    and fresh: "password \<noteq> [] \<Longrightarrow> secret_map s new = None"
  shows "commit_ready U (svc_p s) (secret_map s) (Some index)
    ((updated_profile U req (s_profiles (svc_p s) ! index) stamp)\<lparr>prof_SecretRef := new\<rparr>) password
    (prof_SecretRef (s_profiles (svc_p s) ! index))"
proof -
  let ?b = "s_profiles (svc_p s) ! index"
  have "prof_ID ?b = pid" using find_index_of_Some [of _ _ index] i by (auto simp: profile_index_def)
  with assms show ?thesis
    by (auto simp: commit_ready_def consistent_def stored_ok_def places_def updated_profile_def NormalizeProfile_twice
        profile_index_def new_ref_def)
qed

section \<open>updateProfile\<close>

definition fresh_ref :: "string \<Rightarrow> service \<Rightarrow> bool" where
  "fresh_ref pid s \<longleftrightarrow> (case w_rand (svc_world s) of Inr i # _ \<Rightarrow> secret_map s (''profile/'' @ pid @ ''/'' @ i) = None | _ \<Rightarrow> True)"

lemma fresh_refD: "fresh_ref pid s \<Longrightarrow> new_ref pid password old s new \<Longrightarrow> password \<noteq> [] \<Longrightarrow> secret_map s new = None"
  by (auto simp: fresh_ref_def new_ref_def neq_Nil_conv)

lemma replan_fields [simp]: "svc_world (replan x s) = svc_world s" "svc_p (replan x s) = svc_p s"
  by (auto simp: replan_def Let_def split: option.splits)

text \<open>An update either stops before it touches anything durable, or it is the commit of the updated profile.\<close>

lemma updateProfile_locked_cases:
  assumes c: "consistent U s" and run: "updateProfile_locked U pid req s = (s', r)" and fresh: "fresh_ref pid s"
  shows "trail s s' {} \<and> (\<exists>e. r = Inl e) \<or>
    (\<exists>i x. profile_index pid s = Some i
      \<and> (\<exists>new. x = (updated_profile U req (s_profiles (svc_p s) ! i) (now_s s))\<lparr>prof_SecretRef := new\<rparr>)
      \<and> commit_ready U (svc_p s) (secret_map s) (Some i) x (request_password req) (prof_SecretRef (s_profiles (svc_p s) ! i))
      \<and> trail s s' (commit_views (svc_p s) (secret_map s) (Some i) x (request_password req) (prof_SecretRef (s_profiles (svc_p s) ! i)))
      \<and> (case r of Inl e \<Rightarrow> True | Inr (y, b) \<Rightarrow> y = x \<and> svc_p s' = committed (svc_p s) (Some i) x
           \<and> cur s' (svc_p s', commit_final (secret_map s) (request_password req) (prof_SecretRef (s_profiles (svc_p s) ! i)) (prof_SecretRef x))))"
    (is "?A \<or> ?B")
proof (cases "profile_index pid s")
  case None
  with run show ?thesis by (auto simp: updateProfile_locked_def trail_refl)
next
  case (Some i)
  let ?b = "s_profiles (svc_p s) ! i" and ?pw = "request_password req"
  let ?x0 = "updated_profile U req ?b (now_s s)"
  have id: "prof_ID ?b = pid" using find_index_of_Some [of _ _ i] Some by (auto simp: profile_index_def)
  show ?thesis
  proof (cases "ValidateProfile U (NormalizeProfile U (apply_update req ?b)) = None \<and> ur_Password req \<noteq> Some []")
    case False
    with run Some have "s' = s \<and> (\<exists>e. r = Inl e)"
      by (auto simp: updateProfile_locked_def Let_def split: option.splits)
    then show ?thesis by (simp add: trail_refl)
  next
    case True
    obtain s1 y r1 where cm: "commitProfileLocked (Some i) ?x0 ?pw (prof_SecretRef ?b) s = (s1, y, r1)"
      by (metis prod_cases3)
    have s': "svc_world s' = svc_world s1" "svc_p s' = svc_p s1"
        "case r1 of None \<Rightarrow> \<exists>b. r = Inr (y, b) | Some e \<Rightarrow> r = Inl e"
      using run Some True cm
      by (auto simp: updateProfile_locked_def updated_profile_def request_password_def Let_def split: option.splits)
    have x0: "prof_ID ?x0 = pid" using id by (simp add: updated_profile_def)
    have "commit_ready U (svc_p s) (secret_map s) (Some i) (?x0\<lparr>prof_SecretRef := new\<rparr>) ?pw (prof_SecretRef ?b)"
      if "new_ref (prof_ID ?x0) ?pw (prof_SecretRef ?b) s new" "new \<noteq> []" for new
      using update_ready [OF c Some _ _ that(2)] True that(1) x0 fresh_refD [OF fresh] by auto
    note ready = this
    consider (stop) "r1 \<noteq> None" "trail s s1 {}"
      | (go) new where "y = ?x0\<lparr>prof_SecretRef := new\<rparr>" "commit_ready U (svc_p s) (secret_map s) (Some i) y ?pw (prof_SecretRef ?b)"
        "trail s s1 (commit_views (svc_p s) (secret_map s) (Some i) y ?pw (prof_SecretRef ?b))"
        "r1 = None \<longrightarrow> svc_p s1 = committed (svc_p s) (Some i) y \<and> cur s1 (svc_p s1, commit_final (secret_map s) ?pw (prof_SecretRef ?b) new)"
      using commitProfileLocked_trail [OF c cm, OF ready] by metis
    then show ?thesis
    proof cases
      case stop
      then show ?thesis using s' trail_world [of s' s1 s s] by auto
    next
      case a: go
      have "case r of Inl e \<Rightarrow> True | Inr (z, b) \<Rightarrow> z = y \<and> svc_p s' = committed (svc_p s) (Some i) y
           \<and> cur s' (svc_p s', commit_final (secret_map s) ?pw (prof_SecretRef ?b) (prof_SecretRef y))"
        using a(1,4) s' cur_world [OF s'(1)] by (auto split: option.splits)
      with a(1-3) Some s' trail_world [of s' s1 s s] have ?B by (intro exI [of _ i] exI [of _ y]) auto
      then show ?thesis by blast
    qed
  qed
qed

section \<open>A concrete service\<close>

text \<open>One stored profile, a state file whose next save is renamed into place but reported as failed, and
  a parser that accepts every URL as the same host.\<close>

definition sample_url :: urlparser where
  "sample_url s = Inr \<lparr>u_Scheme = ''https'', u_Opaque = [], u_HasUser = False, u_Host = ''vpn.example'', u_RawQuery = [],
     u_Fragment = [], u_ForceQuery = False\<rparr>"

definition sample_profile :: "string \<Rightarrow> Profile" where
  "sample_profile pid = (NewProfile pid ''office'' 0)\<lparr>prof_ServerURL := ''https://vpn.example'', prof_Username := ''ann'',
     prof_Scope := ProfileScopeUser, prof_OwnerID := ''uid:1'', prof_SecretRef := ''profile/i/k''\<rparr>"

definition sample_backend :: backend where
  "sample_backend = \<lparr>be_Connect = [], be_Disconnect = [], be_Close = [], be_TunnelDialer = [], be_SessionInfo = None,
     be_Traffic = None, be_Listen = [], be_ListenClose = [], be_nextServer = 0\<rparr>"

definition sample_pstate :: pstate where
  "sample_pstate = zero_pstate\<lparr>s_profiles := [sample_profile ''i''], s_controlMode := ''user''\<rparr>"

definition sample_secrets :: secrets where
  "sample_secrets = [(''profile/i/k'', ''old'')]"

definition sample_service :: service where
  "sample_service = (fresh_service [] [] \<lparr>w_path = [], w_disk = doc sample_pstate, w_saves = [Some (StSyncDir, Errors ''disk'')],
      w_secrets = sample_secrets, w_secretCalls = [], w_rand = [Inr ''n''], w_trace = [(doc sample_pstate, sample_secrets)]\<rparr>
      sample_backend 0)\<lparr>svc_p := sample_pstate\<rparr>"

definition sample_request :: ProfileUpdateRequest where
  "sample_request = \<lparr>ur_Name = Some ''home'', ur_ServerURL = None, ur_Username = None, ur_Group = None,
     ur_AcceptServerRoutes = None, ur_AutoReconnect = None, ur_ApplyDNS = None, ur_CustomInclude = None, ur_CustomExclude = None,
     ur_DNSOverrides = None, ur_SOCKS5Enabled = None, ur_SOCKS5Listen = None, ur_MTU = None, ur_Password = Some ''new''\<rparr>"

lemmas sample_eval = NormalizeProfile_alt normalizeList_def NormalizeServerURL_def Contains_def sublist_Cons_right
  ValidateProfile_def validateProfile_def validateText_def Let_def sample_profile_def NewProfile_def TrimSpace_word
  validateServerURL_def sample_url_def Hostname_def Port_def url_split_def last_colon_def validatePort_def ipv4_eval

lemma sample_normal: "NormalizeProfile sample_url (sample_profile ''i'') = sample_profile ''i''"
  "NormalizeProfile sample_url (sample_profile ''j'') = sample_profile ''j''"
  by (simp_all add: sample_eval)

lemma sample_valid: "ValidateProfile sample_url (sample_profile ''i'') = None" "ValidateProfile sample_url (sample_profile ''j'') = None"
  "ValidateProfile sample_url (NormalizeProfile sample_url (apply_update sample_request (sample_profile ''i''))) = None"
  by (simp_all add: sample_eval apply_update_def sample_request_def)

lemma sample_fields [simp]: "s_profiles (svc_p sample_service) = [sample_profile ''i'']" "s_intent (svc_p sample_service) = None"
  "w_rand (svc_world sample_service) = [Inr ''n'']" "prof_ID (sample_profile pid) = pid" "svc_conn sample_service = zero_conn"
  "w_saves (svc_world sample_service) = [Some (StSyncDir, Errors ''disk'')]" "w_secrets (svc_world sample_service) = sample_secrets"
  "w_path (svc_world sample_service) = []" "prof_SecretRef (sample_profile pid) = ''profile/i/k''"
  "w_trace (svc_world sample_service) = [durable (svc_world sample_service)]"
  by (simp_all add: sample_service_def sample_pstate_def zero_pstate_def fresh_service_def sample_profile_def NewProfile_def durable_def)

lemma sample_consistent: "consistent sample_url sample_service"
proof -
  have ok: "stored_ok sample_url (sample_profile ''i'')" using sample_normal sample_valid by (simp add: stored_ok_def)
  have "svc_p sample_service = sample_pstate" "w_disk (svc_world sample_service) = doc sample_pstate"
    by (simp_all add: sample_service_def fresh_service_def)
  with ok show ?thesis
    by (simp add: consistent_def fits_def check_data_iff secret_map_def cur_def in_view_def durable_def sample_secrets_def)
      (simp add: sample_pstate_def zero_pstate_def)
qed

lemma sample_fresh: "fresh_ref ''i'' sample_service" "fresh_ref ''j'' sample_service"
  by (simp_all add: fresh_ref_def secret_map_def sample_secrets_def)

lemmas sample_run = newID_def world_newID_def Let_def commitProfileLocked_def commit_steps_def persist_def world_save_def
  Save_def fails_def

text \<open>The state file left by a crash right after an intent was written.\<close>

definition sample_crash :: "Profile \<Rightarrow> string \<Rightarrow> state_file \<times> secrets" where
  "sample_crash x old = (doc ((svc_p sample_service)\<lparr>s_intent := Some (commit_intent x old)\<rparr>), sample_secrets)"

text \<open>C1: updating a profile is atomic under crashes. Take a consistent service, any update request, any faults of
  the state file and of the secret store, and cut the power at any durable point of the update: the
  restarted daemon loads, is consistent, and has either the old profiles with all the old secrets, or
  the profile updated as requested, with its new password under its new reference when the request
  carried one and with its old secret otherwise.\<close>

theorem updateProfile_crash_atomic:
  assumes "consistent U s" "w_trace (svc_world s) = [durable (svc_world s)]" "fresh_ref pid s"
    and "updateProfile_locked U pid req s = (s', r)" "ds \<in> set (w_trace (svc_world s'))"
  shows "\<exists>t. restart U (w_path (svc_world s)) ds be = (t, None) \<and> consistent U t \<and>
    (svc_p t = svc_p s \<and> secret_map t = secret_map s \<or>
     (\<exists>i new. let before = s_profiles (svc_p s) ! i;
                 x = (updated_profile U req before (now_s s))\<lparr>prof_SecretRef := new\<rparr>
        in profile_index pid s = Some i \<and> s_profiles (svc_p t) = (s_profiles (svc_p s))[i := x]
           \<and> secret_map t new = (if request_password req = [] then secret_map s (prof_SecretRef before)
                                  else Some (request_password req))))"
  using updateProfile_locked_cases [OF assms(1,4,3)]
proof (elim disjE exE conjE)
  assume "trail s s' {}"
  then show ?thesis using untouched_restart [OF assms(1) _ assms(2,5)] by blast
next
  fix i x new
  let ?b = "s_profiles (svc_p s) ! i" and ?pw = "request_password req"
  assume a: "profile_index pid s = Some i" "x = (updated_profile U req ?b (now_s s))\<lparr>prof_SecretRef := new\<rparr>"
    "commit_ready U (svc_p s) (secret_map s) (Some i) x ?pw (prof_SecretRef ?b)"
    "trail s s' (commit_views (svc_p s) (secret_map s) (Some i) x ?pw (prof_SecretRef ?b))"
  obtain t where t: "restart U (w_path (svc_world s)) ds be = (t, None)" "recovers U s (Some i) x ?pw (prof_SecretRef ?b) t"
    using trail_restart [OF assms(1) a(3,4) assms(2,5)] by blast
  have "commit_final (secret_map s) ?pw (prof_SecretRef ?b) new = secret_map s" "new = prof_SecretRef ?b" if "?pw = []"
    using that a(2,3) by (simp_all add: commit_final_def commit_secrets_def commit_ready_def)
  moreover have "commit_final (secret_map s) ?pw (prof_SecretRef ?b) new new = Some ?pw" if "?pw \<noteq> []"
    using that by (simp add: commit_final_def commit_secrets_def)
  ultimately show ?thesis using t a(1,2)
    by (intro exI [of _ t]) (auto simp: recovers_def put_profile_def Let_def intro!: exI [of _ i] exI [of _ new])
qed

theorem updateProfile_crash_atomic_witness:
  "\<exists>x t. restart sample_url [] (sample_crash x ''profile/i/k'') sample_backend = (t, None) \<and> consistent sample_url t"
proof -
  let ?x = "(updated_profile sample_url sample_request (sample_profile ''i'') (now_s sample_service))\<lparr>prof_SecretRef := ''profile/i/n''\<rparr>"
  have "sample_crash ?x ''profile/i/k'' \<in> set (w_trace (svc_world (fst (updateProfile_locked sample_url ''i'' sample_request sample_service))))"
    by (simp add: updateProfile_locked_def profile_index_def sample_valid updated_profile_def Let_def)
      (simp add: sample_run sample_request_def sample_crash_def doc_def updated_profile_def)
  with updateProfile_crash_atomic [OF sample_consistent _ sample_fresh(1), of sample_request _ _ _ sample_backend] show ?thesis
    by (metis prod.collapse sample_fields(8,10))
qed

section \<open>CreateProfile\<close>

lemma fits_current:
  assumes "fits U p m" "look c (s_profiles p) \<noteq> None"
  shows "fits U (p\<lparr>s_currentID := c\<rparr>) m"
  using assms unfolding fits_def check_data_iff by simp

lemma fits_restart:
  assumes "in_view path ds (p, m)" "fits U p m"
  shows "\<exists>t. restart U path ds be = (t, None) \<and> consistent U t \<and> svc_p t = p \<and> secret_map t = m"
proof -
  have "spec_recover p m = Some (p, m)" using assms(2) by (simp add: fits_def spec_recover_def)
  then obtain t where t: "restart U path ds be = (t, None)" "svc_p t = p" "cur t (p, m)"
    using restart_spec [OF assms(1)] assms(2) unfolding fits_def by blast
  then show ?thesis using assms(2) cur_secrets [OF t(3)] unfolding consistent_def by simp
qed

lemma NewProfile_invalid: "ValidateProfile U (NormalizeProfile U (NewProfile i name t)) \<noteq> None"
proof -
  have "prof_Username (NormalizeProfile U (NewProfile i name t)) = []"
    by (simp add: NormalizeProfile_alt NewProfile_def)
  then have "validateText ''username'' (prof_Username (NormalizeProfile U (NewProfile i name t))) True 256 \<noteq> None"
    by (simp add: validateText_def Let_def)
  moreover have "first_error (a # b # rest) \<noteq> None" if "b \<noteq> None" for a b rest
    using that by (cases a; cases b) auto
  ultimately show ?thesis unfolding ValidateProfile_def validateProfile_def by simp
qed

lemma newProfile_fields:
  "newProfile name s = (s', r) \<Longrightarrow> trail s s' {} \<and> svc_p s' = svc_p s"
  by (cases "newID s") (auto simp: newProfile_def newID_view(3) newID_fields(1) split: sum.splits)

text \<open>The profile a creation stores, but for its secret reference.\<close>

definition created_profile :: "urlparser \<Rightarrow> Profile \<Rightarrow> stamp \<Rightarrow> Profile" where
  "created_profile U profile stamp = (let p = (NormalizeProfile U profile)\<lparr>prof_UpdatedAt := stamp\<rparr>
     in if prof_CreatedAt p = None then p\<lparr>prof_CreatedAt := stamp\<rparr> else p)"

lemma created_profile_ok:
  "prof_ID (created_profile U p st) = prof_ID p"
  "ValidateProfile U (NormalizeProfile U p) = None \<Longrightarrow> ref \<noteq> [] \<Longrightarrow> stored_ok U ((created_profile U p st)\<lparr>prof_SecretRef := ref\<rparr>)"
  by (simp_all add: created_profile_def Let_def stored_ok_def NormalizeProfile_twice)

definition with_current :: "Profile \<Rightarrow> pstate \<Rightarrow> pstate" where
  "with_current x p = (if s_currentID p = [] then p\<lparr>s_currentID := prof_ID x\<rparr> else p)"

lemma create_tail_trail:
  assumes c: "consistent U s" and run: "create_tail x0 password s = (s', r)" and pw: "password \<noteq> []"
    and ready: "\<And>new. new_ref (prof_ID x0) password [] s new \<Longrightarrow> new \<noteq> [] \<Longrightarrow>
      commit_ready U (svc_p s) (secret_map s) None (x0\<lparr>prof_SecretRef := new\<rparr>) password []"
  shows "trail s s' {} \<and> (\<exists>e. r = Inl e) \<or>
    (\<exists>x new. x = x0\<lparr>prof_SecretRef := new\<rparr> \<and> commit_ready U (svc_p s) (secret_map s) None x password []
      \<and> trail s s' (insert (with_current x (committed (svc_p s) None x), commit_final (secret_map s) password [] new)
            (commit_views (svc_p s) (secret_map s) None x password []))
      \<and> (case r of Inl e \<Rightarrow> True | Inr y \<Rightarrow> y = x \<and> svc_p s' = with_current x (committed (svc_p s) None x)
           \<and> cur s' (svc_p s', commit_final (secret_map s) password [] new)))"
proof -
  obtain s2 y r2 where cm: "commitProfileLocked None x0 password [] s = (s2, y, r2)" by (metis prod_cases3)
  consider (stop) "r2 \<noteq> None" "trail s s2 {}"
    | (go) new where "y = x0\<lparr>prof_SecretRef := new\<rparr>" "commit_ready U (svc_p s) (secret_map s) None y password []"
      "trail s s2 (commit_views (svc_p s) (secret_map s) None y password [])"
      "r2 = None \<longrightarrow> svc_p s2 = committed (svc_p s) None y \<and> cur s2 (svc_p s2, commit_final (secret_map s) password [] new)"
    using commitProfileLocked_trail [OF c cm, OF ready] by metis
  then show ?thesis
  proof cases
    case stop
    then show ?thesis using run cm by (auto simp: create_tail_def)
  next
    case go
    let ?q = "committed (svc_p s) None y" and ?m = "commit_final (secret_map s) password [] new"
    let ?V = "insert (with_current y ?q, ?m) (commit_views (svc_p s) (secret_map s) None y password [])"
    have t2: "trail s s2 ?V" using go(3) by (rule trail_mono) auto
    have "trail s s' ?V \<and> (case r of Inl e \<Rightarrow> True | Inr z \<Rightarrow> z = y \<and> svc_p s' = with_current y ?q \<and> cur s' (svc_p s', ?m))"
    proof (cases r2)
      case (Some e)
      then show ?thesis using run cm t2 by (auto simp: create_tail_def)
    next
      case None
      define s3 where "s3 = (if s_currentID (svc_p s2) = []
          then (set_currentID (prof_ID y) s2)\<lparr>svc_status := (svc_status s2)\<lparr>st_CurrentProfileID := prof_ID y\<rparr>\<rparr> else s2)"
      have s3: "svc_world s3 = svc_world s2" "svc_p s3 = with_current y ?q"
        using go(4) None by (simp_all add: s3_def with_current_def)
      have c3: "cur s3 (?q, ?m)" using go(4) None cur_world [OF s3(1)] by auto
      obtain s4 r4 where s4: "persist s3 = (s4, r4)" by fastforce
      note e4 = persist_trail [OF c3 s4, unfolded s3(2)]
      have "(?q, ?m) \<in> ?V" using go(1) by (simp add: commit_views_def committed_def Let_def)
      then have "trail s2 s4 ?V" using trail_start [OF e4(1) s3(1)] by simp
      then have t4: "trail s s4 ?V" using trail_trans [OF t2, of s4 ?V] by simp
      have w: "svc_world s' = svc_world s4" "svc_p s' = svc_p s4" "case r4 of None \<Rightarrow> r = Inr y | Some e \<Rightarrow> r = Inl e"
        using run cm None s4 by (auto simp: create_tail_def s3_def Let_def split: option.splits)
      show ?thesis using t4 w e4(2,4) trail_world [of s' s4 s s] cur_world [OF w(1)] by (auto split: option.splits)
    qed
    with go(1,2) show ?thesis by blast
  qed
qed

lemma CreateProfile_cases:
  assumes c: "consistent U s" and run: "CreateProfile U profile password s = (s', r)" and fresh: "fresh_ref (prof_ID profile) s"
  shows "trail s s' {} \<and> (\<exists>e. r = Inl e) \<or>
    (\<exists>x new. x = (created_profile U profile (now_s s))\<lparr>prof_SecretRef := new\<rparr>
      \<and> commit_ready U (svc_p s) (secret_map s) None x password []
      \<and> trail s s' (insert (with_current x (committed (svc_p s) None x), commit_final (secret_map s) password [] new)
            (commit_views (svc_p s) (secret_map s) None x password []))
      \<and> (case r of Inl e \<Rightarrow> True | Inr y \<Rightarrow> y = x \<and> svc_p s' = with_current x (committed (svc_p s) None x)
           \<and> cur s' (svc_p s', commit_final (secret_map s) password [] new)))"
proof (cases "prof_ID profile = []")
  case True
  obtain s1 r1 where n: "newProfile (prof_Name profile) s = (s1, r1)" by fastforce
  have "s' = s1 \<and> (\<exists>e. r = Inl e)"
  proof (cases r1)
    case (Inl e)
    with run True n show ?thesis by (auto simp: CreateProfile_def)
  next
    case (Inr q)
    then obtain i t where "q = NewProfile i (prof_Name profile) t"
      using n by (auto simp: newProfile_def split: prod.splits sum.splits)
    then have "ValidateProfile U (NormalizeProfile U q) \<noteq> None" using NewProfile_invalid by simp
    with run True n Inr show ?thesis by (auto simp: CreateProfile_def Let_def)
  qed
  with newProfile_fields [OF n] show ?thesis by auto
next
  case False
  show ?thesis
  proof (cases "ValidateProfile U (NormalizeProfile U profile) = None \<and> password \<noteq> []
      \<and> \<not> (\<exists>p \<in> set (s_profiles (svc_p s)). prof_ID p = prof_ID profile)")
    case no: False
    then have "s' = s \<and> (\<exists>e. r = Inl e)"
      using run False by (cases "ValidateProfile U (NormalizeProfile U profile)") (auto simp: CreateProfile_def Let_def split: if_splits)
    then show ?thesis by (simp add: trail_refl)
  next
    case yes: True
    let ?c = "created_profile U profile (now_s s)"
    define x0 where "x0 = (if prof_SecretRef ?c = [] then ?c\<lparr>prof_SecretRef := ''profile/'' @ prof_ID ?c\<rparr> else ?c)"
    have x0: "prof_ID x0 = prof_ID profile" "x0\<lparr>prof_SecretRef := new\<rparr> = ?c\<lparr>prof_SecretRef := new\<rparr>" for new
      by (simp_all add: x0_def created_profile_ok(1))
    have "CreateProfile U profile password s = create_tail x0 password s"
      using False yes by (simp add: CreateProfile_def x0_def created_profile_def Let_def)
    then have tail: "create_tail x0 password s = (s', r)" using run by simp
    have pl: "places None (?c\<lparr>prof_SecretRef := new\<rparr>) (s_profiles (svc_p s))" for new
      using yes by (auto simp: places_def find_index_of_None created_profile_ok(1))
    have "commit_ready U (svc_p s) (secret_map s) None (x0\<lparr>prof_SecretRef := new\<rparr>) password []"
      if "new_ref (prof_ID x0) password [] s new" "new \<noteq> []" for new
      using c yes that fresh_refD [OF fresh] x0 pl created_profile_ok(2) [of U profile new]
      by (auto simp: commit_ready_def consistent_def)
    note ready = this
    from create_tail_trail [OF c tail _ ready] yes show ?thesis unfolding x0(2) by blast
  qed
qed

text \<open>C4: creating a profile is atomic under crashes: cut the power at any durable point of \<open>CreateProfile\<close>, with
  whatever faults; the restarted daemon loads, is consistent, and has either the old profiles and
  secrets, or one more profile, the requested one, whose password is stored under its reference.\<close>

theorem CreateProfile_crash_atomic:
  assumes "consistent U s" "w_trace (svc_world s) = [durable (svc_world s)]" "fresh_ref (prof_ID profile) s"
    and "CreateProfile U profile password s = (s', r)" "ds \<in> set (w_trace (svc_world s'))"
  shows "\<exists>t. restart U (w_path (svc_world s)) ds be = (t, None) \<and> consistent U t \<and>
    (svc_p t = svc_p s \<and> secret_map t = secret_map s \<or>
     (\<exists>new. let x = (created_profile U profile (now_s s))\<lparr>prof_SecretRef := new\<rparr>
        in s_profiles (svc_p t) = s_profiles (svc_p s) @ [x] \<and> secret_map t new = Some password))"
  using CreateProfile_cases [OF assms(1,4,3)]
proof (elim disjE exE conjE)
  assume "trail s s' {}"
  then show ?thesis using untouched_restart [OF assms(1) _ assms(2,5)] by blast
next
  fix x new
  let ?c = "created_profile U profile (now_s s)"
  let ?q = "with_current x (committed (svc_p s) None x)" and ?m = "commit_final (secret_map s) password [] new"
  let ?V = "commit_views (svc_p s) (secret_map s) None x password []"
  assume x: "x = ?c\<lparr>prof_SecretRef := new\<rparr>" and ready: "commit_ready U (svc_p s) (secret_map s) None x password []"
    and tr: "trail s s' (insert (?q, ?m) ?V)"
  have pw: "password \<noteq> []" and fit: "fits U (committed (svc_p s) None x) ?m"
    using ready committed_fits [OF ready] x by (simp_all add: commit_ready_def)
  have new: "?m new = Some password" using pw by (simp add: commit_final_def commit_secrets_def)
  have "look (prof_ID x) (s_profiles (svc_p s) @ [x]) \<noteq> None" by (simp add: find_append split: option.splits)
  then have fq: "fits U ?q ?m" using fit fits_current [OF fit] by (simp add: with_current_def put_profile_def)
  consider (last) "in_view (w_path (svc_world s)) ds (?q, ?m)"
    | (view) v where "in_view (w_path (svc_world s)) ds v" "v \<in> ?V"
  proof -
    have "(svc_p s, secret_map s) \<in> ?V" by (simp add: commit_views_def Let_def)
    then show thesis using that assms(2,5) tr consistent_view [OF assms(1), of ds] by (auto simp: trail_def)
  qed
  then show ?thesis
  proof cases
    case last
    then obtain t where "restart U (w_path (svc_world s)) ds be = (t, None)" "consistent U t" "svc_p t = ?q" "secret_map t = ?m"
      using fits_restart [OF _ fq] by blast
    then show ?thesis using x new
      by (intro exI [of _ t]) (auto simp: with_current_def put_profile_def Let_def intro!: exI [of _ new])
  next
    case view
    obtain t where "restart U (w_path (svc_world s)) ds be = (t, None)" "recovers U s None x password [] t"
      using commit_view_restart [OF ready view] by blast
    then show ?thesis using x new
      by (intro exI [of _ t]) (auto simp: recovers_def put_profile_def Let_def intro!: exI [of _ new])
  qed
qed

theorem CreateProfile_crash_atomic_witness:
  "\<exists>x t. restart sample_url [] (sample_crash x []) sample_backend = (t, None) \<and> consistent sample_url t"
proof -
  let ?x = "(created_profile sample_url (sample_profile ''j'') (now_s sample_service))\<lparr>prof_SecretRef := ''profile/j/n''\<rparr>"
  have "sample_crash ?x [] \<in> set (w_trace (svc_world (fst (CreateProfile sample_url (sample_profile ''j'') ''new'' sample_service))))"
    by (simp add: CreateProfile_def sample_valid sample_normal created_profile_def create_tail_def Let_def)
      (simp add: sample_run sample_crash_def doc_def)
  with CreateProfile_crash_atomic [OF sample_consistent _ _, of "sample_profile ''j''" "''new''" _ _ _ sample_backend] sample_fresh(2)
  show ?thesis by (metis prod.collapse sample_fields(4,8,10))
qed

end
