(* ===== verification/Delete.thy ===== *)
theory Delete
  imports Txn
begin

text \<open>
  Deleting a profile (\<open>DeleteProfile\<close>, the second critical section) under crashes. A deletion of a profile that
  is neither current, nor selected, nor the machine profile is atomic. A deletion of the current profile is
  not: recovery removes the profile and leaves the reference to it, and the daemon does not start again.
\<close>

definition delete_intent :: "string \<Rightarrow> string \<Rightarrow> Intent" where
  "delete_intent pid old = \<lparr>in_Version = 1, in_Kind = ''delete'', in_ProfileID = pid, in_NewProfile = None,
     in_OldSecretRef = old, in_NewSecretRef = []\<rparr>"

definition removed :: "pstate \<Rightarrow> nat \<Rightarrow> pstate" where
  "removed p i = p\<lparr>s_profiles := remove_at i (s_profiles p)\<rparr>"

definition old_ref :: "pstate \<Rightarrow> nat \<Rightarrow> string" where
  "old_ref p i = prof_SecretRef (s_profiles p ! i)"

text \<open>No other part of the state refers to the profile.\<close>

definition unreferenced :: "string \<Rightarrow> pstate \<Rightarrow> bool" where
  "unreferenced pid p \<longleftrightarrow> s_currentID p \<noteq> pid \<and> pid \<notin> snd ` set (s_selectedProfiles p)
     \<and> (s_controlMode p = ''machine'' \<longrightarrow> s_machineProfileID p \<noteq> pid)"

definition delete_views :: "pstate \<Rightarrow> (string \<rightharpoonup> string) \<Rightarrow> string \<Rightarrow> nat \<Rightarrow> durable_view set" where
  "delete_views p m pid i =
     (let d = Some (delete_intent pid (old_ref p i)); q = removed p i; m2 = m(old_ref p i := None)
      in {(p, m), (p\<lparr>s_intent := d\<rparr>, m), (q\<lparr>s_intent := d\<rparr>, m), (q\<lparr>s_intent := d\<rparr>, m2), (q, m2)})"

lemma index_at: "find_index_of (\<lambda>p. prof_ID p = pid) ps = Some i \<Longrightarrow> i < length ps \<and> prof_ID (ps ! i) = pid"
  using find_index_of_Some [of "\<lambda>p. prof_ID p = pid" ps i] by simp

lemma remove_at_notin:
  assumes "distinct (map f xs)" "i < length xs"
  shows "f (xs ! i) \<notin> f ` set (remove_at i xs)"
proof -
  have "xs = take i xs @ xs ! i # drop (Suc i) xs" using assms(2) by (simp add: id_take_nth_drop)
  then have "map f xs = map f (take i xs) @ f (xs ! i) # map f (drop (Suc i) xs)" by (metis map_append list.map(2))
  with assms(1) show ?thesis by (auto simp: remove_at_def)
qed

lemma distinct_remove_at: "distinct (map f xs) \<Longrightarrow> distinct (map f (remove_at i xs))"
  using set_take_disj_set_drop_if_distinct [of "map f xs" i "Suc i"]
  by (simp add: remove_at_def take_map drop_map distinct_take distinct_drop flip: set_map take_map drop_map)

lemma look_None: "look pid ps = None \<longleftrightarrow> pid \<notin> prof_ID ` set ps"
  by (auto simp: find_None_iff)

lemma look_remove:
  assumes "find_index_of (\<lambda>p. prof_ID p = pid) ps = Some i" "pid' \<noteq> pid"
  shows "look pid' (remove_at i ps) = look pid' ps"
  using assms(1)
proof (induction ps arbitrary: i)
  case (Cons q ps)
  then show ?case using assms(2)
    by (cases "prof_ID q = pid") (auto simp: remove_at_def split: nat.splits)
qed simp

lemma check_selected_remove:
  assumes "\<forall>pid' \<in> snd ` set sel. look pid' ps' = look pid' ps" "check_selected ps sel = None"
  shows "check_selected ps' sel = None"
  using assms
proof (induction sel)
  case (Cons x sel)
  then show ?case by (cases x) (auto split: if_splits option.splits)
qed simp

lemma removed_fits:
  assumes f: "fits U p m" and i: "find_index_of (\<lambda>q. prof_ID q = pid) (s_profiles p) = Some i" and u: "unreferenced pid p"
  shows "fits U (removed p i) (m(old_ref p i := None))"
proof -
  let ?ps = "s_profiles p" and ?ps' = "remove_at i (s_profiles p)"
  have at: "i < length ?ps" "prof_ID (?ps ! i) = pid" using index_at [OF i] by auto
  have c: "check_data U (state_data p) = Inr p" and d: "distinct (map prof_ID ?ps)" "distinct (map prof_SecretRef ?ps)"
    using f by (simp_all add: fits_def)
  note look = look_remove [OF i]
  have "check_selected ?ps' (s_selectedProfiles p) = None"
  proof (rule check_selected_remove [of _ _ ?ps])
    show "check_selected ?ps (s_selectedProfiles p) = None" using c by (simp add: check_data_iff)
    show "\<forall>pid' \<in> snd ` set (s_selectedProfiles p). look pid' ?ps' = look pid' ?ps"
      using u look by (metis unreferenced_def)
  qed
  then have "check_data U (state_data (removed p i)) = Inr (removed p i)"
    using c u look [of "s_currentID p"] look [of "s_machineProfileID p"] set_remove_at [of i ?ps]
    unfolding check_data_iff removed_def unreferenced_def by auto
  moreover have "prof_SecretRef q \<noteq> old_ref p i" if "q \<in> set ?ps'" for q
    using remove_at_notin [OF d(2) at(1)] that by (auto simp: old_ref_def image_iff)
  ultimately show ?thesis
    using f set_remove_at [of i ?ps] by (auto simp: fits_def removed_def distinct_remove_at)
qed

lemma spec_recover_delete:
  assumes "s_intent p = None"
  shows "spec_recover (p\<lparr>s_intent := Some (delete_intent pid old)\<rparr>) m =
    Some (case find_index_of (\<lambda>q. prof_ID q = pid) (s_profiles p) of None \<Rightarrow> p | Some i \<Rightarrow> removed p i,
          if old \<noteq> [] then m(old := None) else m)"
  using assms by (simp add: spec_recover_def delete_intent_def recovered_profiles_def removed_def Let_def split: option.splits)

text \<open>Every durable state of a deletion recovers to the state before or after it.\<close>

lemma delete_view_recovers:
  assumes f: "fits U p m" and i: "find_index_of (\<lambda>q. prof_ID q = pid) (s_profiles p) = Some i" and u: "unreferenced pid p"
    and v: "v \<in> delete_views p m pid i"
  shows "check_data U (state_data (fst v)) = Inr (fst v)
    \<and> spec_recover (fst v) (snd v) \<in> {Some (p, m), Some (removed p i, m(old_ref p i := None))}"
proof -
  let ?q = "removed p i" and ?m2 = "m(old_ref p i := None)" and ?d = "delete_intent pid (old_ref p i)"
  note fq = removed_fits [OF f i u]
  have c: "check_data U (state_data p) = Inr p" "check_data U (state_data ?q) = Inr ?q" "s_intent p = None" "s_intent ?q = None"
    using f fq by (auto simp: fits_def removed_def)
  have at: "i < length (s_profiles p)" "prof_ID (s_profiles p ! i) = pid" using index_at [OF i] by auto
  have ne: "old_ref p i \<noteq> []" using c(1) at by (auto simp: check_data_iff stored_ok_def old_ref_def)
  have "pid \<notin> prof_ID ` set (s_profiles ?q)"
    using remove_at_notin [of prof_ID "s_profiles p" i] f at by (simp add: fits_def removed_def)
  then have gone: "find_index_of (\<lambda>q. prof_ID q = pid) (s_profiles ?q) = None" by (auto simp: find_index_of_None)
  show ?thesis
    using v c check_data_intent [OF c(1), of "Some ?d"] check_data_intent [OF c(2), of "Some ?d"]
      spec_recover_delete [OF c(3)] spec_recover_delete [OF c(4)] i gone ne
    by (auto simp: delete_views_def Let_def spec_recover_def [of p] spec_recover_def [of ?q])
qed

lemma forget_unreferenced:
  "unreferenced pid (svc_p s) \<Longrightarrow> svc_p (forget_profile pid i s) = removed (svc_p s) i"
  "svc_world (forget_profile pid i s) = svc_world s"
proof -
  show "svc_world (forget_profile pid i s) = svc_world s" by (simp add: forget_profile_def Let_def)
  assume u: "unreferenced pid (svc_p s)"
  then have "filter (\<lambda>(owner, selected). selected \<noteq> pid) (s_selectedProfiles (svc_p s)) = s_selectedProfiles (svc_p s)"
    by (intro filter_True) (auto simp: unreferenced_def image_iff)
  with u show "svc_p (forget_profile pid i s) = removed (svc_p s) i"
    by (simp add: forget_profile_def removed_def unreferenced_def Let_def)
qed

lemma unreferenced_intent [simp]: "unreferenced pid (p\<lparr>s_intent := d\<rparr>) = unreferenced pid p"
  "removed (p\<lparr>s_intent := d\<rparr>) i = (removed p i)\<lparr>s_intent := d\<rparr>"
  by (simp_all add: unreferenced_def removed_def)

lemma deleteProfile_trail:
  assumes c: "cur s (svc_p s, m)" and n: "s_intent (svc_p s) = None" and u: "unreferenced pid (svc_p s)"
    and run: "deleteProfile_locked pid i s = (s', r)"
  shows "trail s s' (delete_views (svc_p s) m pid i)"
    "r = None \<Longrightarrow> svc_p s' = removed (svc_p s) i \<and> cur s' (removed (svc_p s) i, m(old_ref (svc_p s) i := None))"
proof -
  let ?p = "svc_p s" and ?V = "delete_views (svc_p s) m pid i" and ?old = "old_ref (svc_p s) i"
  let ?d = "Some (delete_intent pid ?old)" and ?q = "removed (svc_p s) i" and ?m2 = "m(?old := None)"
  have V: "(?p, m) \<in> ?V" "(?p\<lparr>s_intent := ?d\<rparr>, m) \<in> ?V" "(?q\<lparr>s_intent := ?d\<rparr>, m) \<in> ?V"
      "(?q\<lparr>s_intent := ?d\<rparr>, ?m2) \<in> ?V" "(?q, ?m2) \<in> ?V"
    by (simp_all add: delete_views_def Let_def)
  have qn: "?q\<lparr>s_intent := None\<rparr> = ?q" using n by (simp add: removed_def)
  obtain s1 r1 where s1: "persist (set_intent ?d s) = (s1, r1)" by fastforce
  obtain s2 r2 where s2: "persist (forget_profile pid i s1) = (s2, r2)" by fastforce
  obtain s3 r3 where s3: "drop_secret (''delete secret for profile '' @ pid @ '': '') ?old s2 = (s3, r3)" by fastforce
  obtain s4 r4 where s4: "clear_intent [] s3 = (s4, r4)" by fastforce
  have eq: "(s', r) = (case r1 of Some e \<Rightarrow> (set_intent None s1, Some e) | None \<Rightarrow>
      (case r2 of Some e \<Rightarrow> (s2, Some e) | None \<Rightarrow> (case r3 of Some e \<Rightarrow> (s3, Some e) | None \<Rightarrow> (s4, r4))))"
    using run s1 s2 s3 s4
    by (auto simp: deleteProfile_locked_def Let_def delete_intent_def old_ref_def split: option.splits)
  have b: "cur (set_intent ?d s) (?p, m)" using c by (simp add: cur_def)
  note e1 = persist_trail [OF b s1]
  have t1: "trail s s1 ?V" by (rule trail_start [OF e1(1)]) (use V in simp_all)
  have 2: "trail s s2 ?V" "svc_p s2 = ?q\<lparr>s_intent := ?d\<rparr>" "r2 = None \<Longrightarrow> cur s2 (?q\<lparr>s_intent := ?d\<rparr>, m)" if "r1 = None"
  proof -
    have p1: "svc_p s1 = ?p\<lparr>s_intent := ?d\<rparr>" "cur s1 (?p\<lparr>s_intent := ?d\<rparr>, m)" using e1(2,4) that by simp_all
    have fp: "svc_p (forget_profile pid i s1) = ?q\<lparr>s_intent := ?d\<rparr>" using forget_unreferenced(1) [of pid s1 i] u p1 by simp
    have "cur (forget_profile pid i s1) (?p\<lparr>s_intent := ?d\<rparr>, m)" using p1(2) forget_unreferenced(2) by (simp add: cur_def)
    note e2 = persist_trail [OF this s2, unfolded fp]
    show "svc_p s2 = ?q\<lparr>s_intent := ?d\<rparr>" "r2 = None \<Longrightarrow> cur s2 (?q\<lparr>s_intent := ?d\<rparr>, m)" using e2(2,4) by simp_all
    have "trail s1 s2 ?V" by (rule trail_start [OF e2(1) forget_unreferenced(2)]) (use V in simp)
    then show "trail s s2 ?V" using trail_trans [OF t1, of s2 ?V] by simp
  qed
  have 3: "trail s s3 ?V" "svc_p s3 = ?q\<lparr>s_intent := ?d\<rparr>" "r3 = None \<Longrightarrow> cur s3 (?q\<lparr>s_intent := ?d\<rparr>, ?m2)" if "r1 = None" "r2 = None"
  proof -
    note c2 = 2(3) [OF that]
    note e3 = secret_trail [OF c2 drop_secret_effect [OF s3, unfolded cur_secrets [OF c2]]]
    show "svc_p s3 = ?q\<lparr>s_intent := ?d\<rparr>" "r3 = None \<Longrightarrow> cur s3 (?q\<lparr>s_intent := ?d\<rparr>, ?m2)" using e3(2,3) 2(2) [OF that(1)] by simp_all
    have "trail s2 s3 ?V" by (rule trail_mono [OF e3(1)]) (use V in simp)
    then show "trail s s3 ?V" using trail_trans [OF 2(1) [OF that(1)], of s3 ?V] by simp
  qed
  have 4: "trail s s4 ?V" "r4 = None \<Longrightarrow> svc_p s4 = ?q \<and> cur s4 (?q, ?m2)" if "r1 = None" "r2 = None" "r3 = None"
  proof -
    note e4 = clear_step_trail [OF 3(3) [OF that] s4, unfolded 3(2) [OF that(1,2)]]
    show "r4 = None \<Longrightarrow> svc_p s4 = ?q \<and> cur s4 (?q, ?m2)" using e4(2) qn by simp
    have "trail s3 s4 ?V" by (rule trail_mono [OF e4(1)]) (use V qn in simp)
    then show "trail s s4 ?V" using trail_trans [OF 3(1) [OF that(1,2)], of s4 ?V] by simp
  qed
  have w: "trail s (set_intent None s1) ?V" using t1 trail_world [of "set_intent None s1" s1 s s] by simp
  show "trail s s' ?V" "r = None \<Longrightarrow> svc_p s' = ?q \<and> cur s' (?q, ?m2)"
    using eq w 2(1) 3(1) 4 by (cases r1; cases r2; cases r3; simp)+
qed

text \<open>C8: deleting a profile that nothing else refers to is atomic under crashes: cut the power at any durable
  point of the deletion, with whatever faults; the restarted daemon loads, is consistent, and either still
  has the profile and its secret, or has neither. Every other profile keeps its secret.\<close>

theorem DeleteProfile_crash_atomic:
  assumes "consistent U s" "w_trace (svc_world s) = [durable (svc_world s)]" "profile_index pid s = Some i"
    and "unreferenced pid (svc_p s)" "deleteProfile_locked pid i s = (s', r)" "ds \<in> set (w_trace (svc_world s'))"
  shows "\<exists>t. restart U (w_path (svc_world s)) ds be = (t, None) \<and> consistent U t \<and>
    (svc_p t = svc_p s \<and> secret_map t = secret_map s \<or>
     svc_p t = removed (svc_p s) i \<and> secret_map t = (secret_map s)(old_ref (svc_p s) i := None))"
proof -
  let ?p = "svc_p s" and ?m = "secret_map s" and ?path = "w_path (svc_world s)"
  have f: "fits U ?p ?m" and c: "cur s (?p, ?m)" using assms(1) by (simp_all add: consistent_def)
  have ix: "find_index_of (\<lambda>q. prof_ID q = pid) (s_profiles ?p) = Some i" using assms(3) by (simp add: profile_index_def)
  have "trail s s' (delete_views ?p ?m pid i)"
    using deleteProfile_trail(1) [OF c _ assms(4,5)] f by (simp add: fits_def)
  moreover have "(?p, ?m) \<in> delete_views ?p ?m pid i" by (simp add: delete_views_def Let_def)
  ultimately obtain v where v: "in_view ?path ds v" "v \<in> delete_views ?p ?m pid i"
    using assms(2,6) consistent_view [OF assms(1), of ds] by (auto simp: trail_def)
  note rec = delete_view_recovers [OF f ix assms(4) v(2)]
  then obtain p' m' where r: "spec_recover (fst v) (snd v) = Some (p', m')"
    and pm: "(p', m') = (?p, ?m) \<or> (p', m') = (removed ?p i, ?m(old_ref ?p i := None))" by auto
  have "fits U p' m'" using pm f removed_fits [OF f ix assms(4)] by auto
  moreover obtain t where t: "restart U ?path ds be = (t, None)" "svc_p t = p'" "cur t (p', m')"
    using restart_spec [of ?path ds "fst v" "snd v" U p' m' be] v(1) rec r by auto
  ultimately show ?thesis using pm cur_secrets [OF t(3)] by (auto simp: consistent_def)
qed

theorem DeleteProfile_crash_atomic_witness:
  "\<exists>t. restart sample_url [] (doc ((svc_p sample_service)\<lparr>s_intent := Some (delete_intent ''i'' ''profile/i/k'')\<rparr>), sample_secrets)
      sample_backend = (t, None) \<and> consistent sample_url t"
proof -
  let ?ds = "(doc ((svc_p sample_service)\<lparr>s_intent := Some (delete_intent ''i'' ''profile/i/k'')\<rparr>), sample_secrets)"
  have u: "unreferenced ''i'' (svc_p sample_service)"
    by (simp add: unreferenced_def sample_service_def sample_pstate_def zero_pstate_def)
  have "?ds \<in> set (w_trace (svc_world (fst (deleteProfile_locked ''i'' 0 sample_service))))"
    by (simp add: deleteProfile_locked_def sample_run delete_intent_def doc_def)
  moreover have "profile_index ''i'' sample_service = Some 0" by (simp add: profile_index_def)
  ultimately show ?thesis
    using DeleteProfile_crash_atomic [OF sample_consistent sample_fields(10) _ u surjective_pairing, of 0 ?ds sample_backend]
    unfolding sample_fields(8) by blast
qed

lemma persist_grows: "persist s = (s', r) \<Longrightarrow> set (w_trace (svc_world s)) \<subseteq> set (w_trace (svc_world s'))"
  by (erule persist_spec) auto

lemma drop_secret_grows: "drop_secret t ref s = (s', r) \<Longrightarrow> set (w_trace (svc_world s)) \<subseteq> set (w_trace (svc_world s'))"
  by (auto simp: drop_secret_def secrets_delete_def world_delete_def set_secrets_def
      dest!: secret_call_fields split: prod.splits secret_outcome.splits option.splits)

lemma clear_intent_grows: "clear_intent t s = (s', r) \<Longrightarrow> set (w_trace (svc_world s)) \<subseteq> set (w_trace (svc_world s'))"
  using persist_grows [of "set_intent None s"]
  by (auto simp: clear_intent_def Let_def split: prod.splits option.splits)

lemma deleteProfile_intent_durable:
  assumes "w_saves (svc_world s) = []"
  shows "(doc ((svc_p s)\<lparr>s_intent := Some (delete_intent pid (old_ref (svc_p s) i))\<rparr>), w_secrets (svc_world s))
    \<in> set (w_trace (svc_world (fst (deleteProfile_locked pid i s))))"
proof -
  let ?i = "Some (delete_intent pid (old_ref (svc_p s) i))"
  obtain s1 where s1: "persist (set_intent ?i s) = (s1, None)"
      "(doc ((svc_p s)\<lparr>s_intent := ?i\<rparr>), w_secrets (svc_world s)) \<in> set (w_trace (svc_world s1))"
    using persist_ok [of "set_intent ?i s"] assms by auto
  obtain s2 r2 where s2: "persist (forget_profile pid i s1) = (s2, r2)" by fastforce
  obtain s3 r3 where s3: "drop_secret (''delete secret for profile '' @ pid @ '': '') (old_ref (svc_p s) i) s2 = (s3, r3)" by fastforce
  obtain s4 r4 where s4: "clear_intent [] s3 = (s4, r4)" by fastforce
  have "fst (deleteProfile_locked pid i s) \<in> {s2, s3, s4}"
    using s1(1) s2 s3 s4
    by (auto simp: deleteProfile_locked_def Let_def delete_intent_def old_ref_def split: option.splits)
  then show ?thesis
    using s1(2) persist_grows [OF s2] drop_secret_grows [OF s3] clear_intent_grows [OF s4] forget_unreferenced(2) [of pid i s1]
    by auto
qed

text \<open>C30: deleting the current profile is not crash safe. When the power is cut right after the deletion's intent
  was written, the next start recovers (it removes the profile and its secret) but writes back a state
  whose \<open>current_profile_id\<close> names the profile that is gone: every later start is refused.\<close>

theorem DeleteProfile_crash_leaves_dangling_current:
  assumes "consistent U s" "profile_index pid s = Some i" "s_currentID (svc_p s) = pid" "pid \<noteq> []"
    and "w_saves (svc_world s) = []"
  shows "\<exists>ds \<in> set (w_trace (svc_world (fst (deleteProfile_locked pid i s)))).
    \<exists>t. restart U (w_path (svc_world s)) ds be = (t, None)
      \<and> (\<exists>t' e. restart U (w_path (svc_world s)) (durable (svc_world t)) be = (t', Some e))"
proof -
  let ?p = "svc_p s" and ?m = "secret_map s" and ?path = "w_path (svc_world s)"
  let ?d = "Some (delete_intent pid (old_ref (svc_p s) i))"
  let ?ds = "(doc (?p\<lparr>s_intent := ?d\<rparr>), w_secrets (svc_world s))"
  have f: "fits U ?p ?m" and ix: "find_index_of (\<lambda>q. prof_ID q = pid) (s_profiles ?p) = Some i"
    using assms(1,2) by (simp_all add: consistent_def profile_index_def)
  have c: "check_data U (state_data ?p) = Inr ?p" "s_intent ?p = None" using f by (simp_all add: fits_def)
  have v: "in_view ?path ?ds (?p\<lparr>s_intent := ?d\<rparr>, ?m)" by (simp add: in_view_def secret_map_def)
  obtain m' where r: "spec_recover (?p\<lparr>s_intent := ?d\<rparr>) ?m = Some (removed ?p i, m')"
    using spec_recover_delete [OF c(2), of pid] ix by simp
  obtain t where t: "restart U ?path ?ds be = (t, None)" "cur t (removed ?p i, m')" and wp: "w_path (svc_world t) = ?path"
    using restart_spec [OF v check_data_intent [OF c(1)] r] by blast
  have "pid \<notin> prof_ID ` set (remove_at i (s_profiles ?p))"
    using remove_at_notin [of prof_ID "s_profiles ?p" i] f index_at [OF ix] by (simp add: fits_def)
  moreover have "prof_ID ` set ps = prof_ID ` set qs" if "load_profiles U ps = Inr qs" for ps qs
    using arg_cong [OF load_profiles_ids [OF that], of set] by simp
  ultimately have bad: "\<exists>e. check_data U (state_data (removed ?p i)) = Inl e"
    using assms(3,4) by (force simp: check_data_def state_data_def removed_def look_None split: sum.splits)
  have "\<exists>t' e. restart U ?path (durable (svc_world t)) be = (t', Some e)"
    using t(2) bad wp by (auto simp: restart_def load_def cur_def in_view_def restart_world_def fresh_service_def Let_def)
  with deleteProfile_intent_durable [OF assms(5), of pid i] t(1) show ?thesis by blast
qed

text \<open>The sample service with its profile current and a healthy disk.\<close>

definition sample_current :: service where
  "sample_current = sample_service\<lparr>svc_p := sample_pstate\<lparr>s_currentID := ''i''\<rparr>,
     svc_world := (svc_world sample_service)\<lparr>w_disk := doc (sample_pstate\<lparr>s_currentID := ''i''\<rparr>), w_saves := []\<rparr>\<rparr>"

lemma sample_current_consistent: "consistent sample_url sample_current"
proof -
  have p: "svc_p sample_service = sample_pstate" by (simp add: sample_service_def)
  have "fits sample_url sample_pstate (secret_map sample_service)"
    using sample_consistent p by (simp add: consistent_def)
  then have "fits sample_url (sample_pstate\<lparr>s_currentID := ''i''\<rparr>) (secret_map sample_service)"
    by (rule fits_current) (simp add: sample_pstate_def)
  then show ?thesis by (simp add: consistent_def sample_current_def cur_def in_view_def durable_def secret_map_def)
qed

theorem DeleteProfile_crash_leaves_dangling_current_witness:
  "\<exists>ds t t' e. restart sample_url [] ds sample_backend = (t, None)
     \<and> restart sample_url [] (durable (svc_world t)) sample_backend = (t', Some e)"
proof -
  have "profile_index ''i'' sample_current = Some 0" "s_currentID (svc_p sample_current) = ''i''"
      "w_saves (svc_world sample_current) = []" "w_path (svc_world sample_current) = []"
    by (simp_all add: sample_current_def profile_index_def sample_pstate_def)
  with DeleteProfile_crash_leaves_dangling_current [OF sample_current_consistent, of "''i''" 0 sample_backend]
  show ?thesis by (simp only:) blast
qed

end
