(* ===== verification/Sections.thy ===== *)
theory Sections
  imports Access Delete
begin

text \<open>
  The critical sections of the service as steps of a transition system, in any order.

  Between two sections of one Go function the lock is free, so sections of other goroutines run there: the event loop,
  the traffic ticker, a timer, a client that reads, cancels or disconnects. A step is one critical section, or a move of
  the outside (the clock, the backend). The arguments of a section are what its function computed before, which
  nothing here restricts, except where the code hands out a token: a timer fires with what \<open>startReconnectLocked\<close>
  captured, possibly after it was stopped; an attempt finishes with the identifier and the profile it began with. Every
  schedule of the daemon is a run of this system, so an invariant of the system holds in the daemon.
\<close>

section \<open>The system\<close>

datatype (plugins only: code) sect =
    ConnectHead | ConnectBegin Profile bool
  | ConnectFailed Profile string bool "error option" error
  | ConnectRollback Profile string bool error "error option"
  | ConnectCommit Profile string bool "error option" SessionInfo
  | DisconnectBegin bool | DisconnectEnd | FailCleanup error
  | CloseBegin | CloseEnd "error option"
  | StopProxyBegin | StopProxyEnd | StartProxyBegin string | StartProxyFailed error | StartProxyEnd "nat \<times> string" | ProxyError error
  | BackendEvent Event | StartReconnect string u64 | StopReconnect
  | ScheduledBegin timer | ScheduledFailed timer string error
  | RepairEnd u64 string string "error + Profile" "error option"
  | SampleTraffic | ReadStatus | ReadSecret string | LogLine string string | DrawID
  | DoCreate Profile string | DoUpdate string ProfileUpdateRequest | DoRoutes string RouteUpdateRequest
  | DoDelete string bool | DoSwitch string
  | SelectProfile Actor Profile | ReleaseIdle Actor | AdoptCreated Actor Profile | SetMode string string
  | RegisterOp Operation | FinishOp Operation "error option"
  | Watch Actor string u64 | Forward Actor nat | CancelWatch nat
  | Clock time | Outside backend

fun exec :: "urlparser \<Rightarrow> sect \<Rightarrow> service \<Rightarrow> service" where
  "exec U ConnectHead s = cancelNetworkReconnectLocked (stopReconnectLocked s)"
| "exec U (ConnectBegin profile allow) s = fst (connect_begin profile allow s)"
| "exec U (ConnectFailed profile aid allow ctx e) s = fst (connect_failed profile aid ctx e s)"
| "exec U (ConnectRollback profile aid allow e c) s = connect_rollback profile aid e c s"
| "exec U (ConnectCommit profile aid allow ctx session) s = fst (connect_commit profile aid allow ctx session s)"
| "exec U (DisconnectBegin manual) s = fst (disconnect_begin manual s)"
| "exec U DisconnectEnd s = disconnect_end s"
| "exec U (FailCleanup e) s = failCleanup e s"
| "exec U CloseBegin s = Close_begin s"
| "exec U (CloseEnd e) s = Close_end e s"
| "exec U StopProxyBegin s = fst (stopProxy_begin s)"
| "exec U StopProxyEnd s = stopProxy_end s"
| "exec U (StartProxyBegin addr) s = fst (startProxy_begin addr s)"
| "exec U (StartProxyFailed e) s = startProxy_failed e s"
| "exec U (StartProxyEnd server) s = startProxy_end server s"
| "exec U (ProxyError e) s = recordProxyError e s"
| "exec U (BackendEvent event) s = fst (event_section event s)"
| "exec U (StartReconnect pid manualSeq) s = startReconnectLocked pid manualSeq 1 s"
| "exec U StopReconnect s = stopReconnectLocked s"
| "exec U (ScheduledBegin t) s = fst (scheduled_begin t s)"
| "exec U (ScheduledFailed t reason e) s = scheduled_failed t reason e s"
| "exec U (RepairEnd repairID cid pid found e) s = repair_end repairID cid pid found e s"
| "exec U SampleTraffic s = sampleTrafficAt s"
| "exec U ReadStatus s = fst (Service_Status s)"
| "exec U (ReadSecret ref) s = fst (secrets_get ref s)"
| "exec U (LogLine level message) s = log_add level message s"
| "exec U DrawID s = fst (newID s)"
| "exec U (DoCreate profile password) s = fst (CreateProfile U profile password s)"
| "exec U (DoUpdate pid req) s = fst (updateProfile_locked U pid req s)"
| "exec U (DoRoutes pid req) s = fst (UpdateRoutes_locked pid req s)"
| "exec U (DoDelete pid wasActive) s = fst (DeleteProfile_end pid wasActive s)"
| "exec U (DoSwitch pid) s = fst (SwitchProfile pid s)"
| "exec U (SelectProfile actor profile) s = fst (persist (select_profile actor profile s))"
| "exec U (ReleaseIdle actor) s = releaseIdleOwner actor s"
| "exec U (AdoptCreated actor created) s = fst (adopt_created actor created s)"
| "exec U (SetMode mode pid) s = fst (persist (set_mode mode pid s))"
| "exec U (RegisterOp operation) s = fst (registerOperation operation s)"
| "exec U (FinishOp operation e) s = finishOperation operation e s"
| "exec U (Watch actor epoch since) s = fst (WatchSince actor epoch since s)"
| "exec U (Forward actor w) s = fst (watch_forward actor w s)"
| "exec U (CancelWatch w) s = watch_cancel w s"
| "exec U (Clock t) s = s\<lparr>svc_clock := t\<rparr>"
| "exec U (Outside be) s = s\<lparr>svc_backend := be\<rparr>"

text \<open>The tokens in use: the timers that were ever armed, the attempts that were ever begun.\<close>

record sys =
  sy_svc :: service
  sy_timers :: "timer set"
  sy_attempts :: "(string \<times> Profile \<times> bool) set"

fun enabled :: "sect \<Rightarrow> sys \<Rightarrow> bool" where
  "enabled (ConnectFailed profile aid allow ctx e) y \<longleftrightarrow> (aid, profile, allow) \<in> sy_attempts y"
| "enabled (ConnectRollback profile aid allow e c) y \<longleftrightarrow> (aid, profile, allow) \<in> sy_attempts y"
| "enabled (ConnectCommit profile aid allow ctx session) y \<longleftrightarrow> (aid, profile, allow) \<in> sy_attempts y"
| "enabled (ScheduledBegin t) y \<longleftrightarrow> t \<in> sy_timers y"
| "enabled (ScheduledFailed t reason e) y \<longleftrightarrow> t \<in> sy_timers y"
| "enabled _ y \<longleftrightarrow> True"

fun begun :: "sect \<Rightarrow> service \<Rightarrow> (string \<times> Profile \<times> bool) set" where
  "begun (ConnectBegin profile allow) s = (case snd (connect_begin profile allow s) of
      Return r \<Rightarrow> {} | Proceed (aid, cid) \<Rightarrow> {(aid, profile, allow)})"
| "begun _ s = {}"

definition after_step :: "urlparser \<Rightarrow> sect \<Rightarrow> sys \<Rightarrow> sys" where
  "after_step U c y = (let s = exec U c (sy_svc y)
     in \<lparr>sy_svc = s, sy_timers = sy_timers y \<union> set_option (s_reconnectTimer (svc_recon s)),
         sy_attempts = sy_attempts y \<union> begun c (sy_svc y)\<rparr>)"

inductive steps :: "urlparser \<Rightarrow> sys \<Rightarrow> sect list \<Rightarrow> sys \<Rightarrow> bool" for U where
  steps_Nil [intro!]: "steps U y [] y"
| steps_snoc: "steps U y cs y' \<Longrightarrow> enabled c y' \<Longrightarrow> steps U y (cs @ [c]) (after_step U c y')"

definition sys_of :: "service \<Rightarrow> sys" where
  "sys_of s = \<lparr>sy_svc = s, sy_timers = set_option (s_reconnectTimer (svc_recon s)), sy_attempts = {}\<rparr>"

text \<open>An invariant of the sections that satisfy \<open>P\<close>: kept by each of them that is enabled.\<close>

locale section_invariant =
  fixes U :: urlparser and P :: "sect \<Rightarrow> bool" and I :: "sys \<Rightarrow> bool"
  assumes kept: "I y \<Longrightarrow> P c \<Longrightarrow> enabled c y \<Longrightarrow> I (after_step U c y)"
begin

lemma kept_steps: "steps U y cs y' \<Longrightarrow> list_all P cs \<Longrightarrow> I y \<Longrightarrow> I y'"
  by (induction rule: steps.induct) (auto intro: kept)

end

lemma steps_one: "enabled c y \<Longrightarrow> steps U y [c] (after_step U c y)"
  using steps_snoc [OF steps_Nil] by fastforce

lemma steps_trans: "steps U y' ds y'' \<Longrightarrow> steps U y cs y' \<Longrightarrow> steps U y (cs @ ds) y''"
  by (induction rule: steps.induct) (auto simp flip: append_assoc intro: steps_snoc)

lemma steps_tokens: "steps U y cs y' \<Longrightarrow> sy_timers y \<subseteq> sy_timers y' \<and> sy_attempts y \<subseteq> sy_attempts y'"
  by (induction rule: steps.induct) (auto simp: after_step_def Let_def)

section \<open>What the helpers leave alone\<close>

lemma emit_frame [simp]:
  "svc_conn (emit n s) = svc_conn s" "svc_recon (emit n s) = svc_recon s" "svc_net (emit n s) = svc_net s"
  "svc_status (emit n s) = svc_status s" "svc_backend (emit n s) = svc_backend s" "svc_clock (emit n s) = svc_clock s"
  "svc_health (emit n s) = svc_health s"
  by (simp_all add: emit_def)

lemma log_frame [simp]:
  "svc_p (log_add l m s) = svc_p s" "svc_world (log_add l m s) = svc_world s"
  "svc_conn (log_add l m s) = svc_conn s" "svc_recon (log_add l m s) = svc_recon s" "svc_net (log_add l m s) = svc_net s"
  "svc_status (log_add l m s) = svc_status s" "svc_backend (log_add l m s) = svc_backend s" "svc_clock (log_add l m s) = svc_clock s"
  "svc_health (log_add l m s) = svc_health s"
  by (simp_all add: log_add_def)

lemma record_frame [simp]:
  "svc_p (record_connection e s) = svc_p s" "svc_world (record_connection e s) = svc_world s"
  "svc_conn (record_connection e s) = svc_conn s" "svc_recon (record_connection e s) = svc_recon s"
  "svc_net (record_connection e s) = svc_net s" "svc_status (record_connection e s) = svc_status s"
  "svc_backend (record_connection e s) = svc_backend s" "svc_clock (record_connection e s) = svc_clock s"
  "svc_health (record_connection e s) = svc_health s"
  by (simp_all add: record_connection_def)

lemma health_frame [simp]:
  "svc_conn (healthy c s) = svc_conn s" "svc_recon (healthy c s) = svc_recon s" "svc_net (healthy c s) = svc_net s"
  "svc_status (healthy c s) = svc_status s" "svc_bus (healthy c s) = svc_bus s" "svc_clock (healthy c s) = svc_clock s"
  "svc_conn (unhealthy c m s) = svc_conn s" "svc_recon (unhealthy c m s) = svc_recon s" "svc_net (unhealthy c m s) = svc_net s"
  "svc_status (unhealthy c m s) = svc_status s" "svc_bus (unhealthy c m s) = svc_bus s" "svc_clock (unhealthy c m s) = svc_clock s"
  by (simp_all add: healthy_def unhealthy_def)

lemma emit_bounded [svc_inv]: "bus_bounded (svc_bus s) \<Longrightarrow> bus_bounded (svc_bus (emit n s))"
  by (simp add: emit_def emitLocked_bounded)

lemma log_bounded [svc_inv]: "bus_bounded (svc_bus s) \<Longrightarrow> bus_bounded (svc_bus (log_add l m s))"
  by (simp add: log_add_def addLog_bounded)

lemma record_bounded [svc_inv]: "bus_bounded (svc_bus s) \<Longrightarrow> bus_bounded (svc_bus (record_connection e s))"
  by (simp add: record_connection_def recordConnectionLocked_bounded)

end
