(* ===== verification/Invariants.thy ===== *)
theory Invariants
  imports Sections
begin

text \<open>
  Invariants of the service under every schedule of its critical sections.
\<close>

section \<open>Sections that do not touch the connection\<close>

text \<open>The profile and client operations keep the connection, the timer and the connection fields of the status,
  and use the bus within its bounds.\<close>

definition same_status :: "Status \<Rightarrow> Status \<Rightarrow> bool" where
  "same_status st st' \<longleftrightarrow> st_State st' = st_State st \<and> st_ConnectedProfileID st' = st_ConnectedProfileID st
     \<and> st_AttemptID st' = st_AttemptID st \<and> st_Session st' = st_Session st
     \<and> st_SOCKS5Enabled st' = st_SOCKS5Enabled st \<and> st_SOCKS5Listen st' = st_SOCKS5Listen st
     \<and> (st_Session st = None \<longrightarrow> st_EffectiveRoutes st' = st_EffectiveRoutes st)"

definition same_conn :: "conn \<Rightarrow> conn \<Rightarrow> bool" where
  "same_conn c c' \<longleftrightarrow> s_connectedID c' = s_connectedID c \<and> s_attemptID c' = s_attemptID c
     \<and> s_attemptCancel c' = s_attemptCancel c \<and> s_proxyServer c' = s_proxyServer c \<and> s_closed c' = s_closed c"

definition quiet :: "service \<Rightarrow> service \<Rightarrow> bool" where
  "quiet s s' \<longleftrightarrow> same_conn (svc_conn s) (svc_conn s') \<and> same_status (svc_status s) (svc_status s')
     \<and> (svc_recon s' = svc_recon s \<or> s_reconnectTimer (svc_recon s') = None)
     \<and> (bus_bounded (svc_bus s) \<longrightarrow> bus_bounded (svc_bus s'))"

lemma quiet_refl [simp]: "quiet s s"
  by (simp add: quiet_def same_conn_def same_status_def)

lemma same_trans: "same_conn a b \<Longrightarrow> same_conn b c \<Longrightarrow> same_conn a c"
  "same_status x y \<Longrightarrow> same_status y z \<Longrightarrow> same_status x z"
  by (simp_all add: same_conn_def same_status_def)

lemma quiet_trans: "quiet s t \<Longrightarrow> quiet t u \<Longrightarrow> quiet s u"
  unfolding quiet_def by (metis same_trans)

lemma quiet_world: "quiet s t \<Longrightarrow> svc_conn u = svc_conn t \<Longrightarrow> svc_status u = svc_status t \<Longrightarrow> svc_recon u = svc_recon t
    \<Longrightarrow> svc_bus u = svc_bus t \<Longrightarrow> quiet s u"
  by (simp add: quiet_def)

named_theorems quiet_step \<open>a call that leaves the connection alone\<close>

lemma quiet_simps [simp]:
  "quiet s (healthy c t) = quiet s t" "quiet s (unhealthy c m t) = quiet s t" "quiet s (set_intent i t) = quiet s t"
  "quiet s (set_profiles ps t) = quiet s t" "quiet s (set_currentID pid t) = quiet s t"
  by (simp_all add: quiet_def set_intent_def set_profiles_def set_currentID_def)

lemma quiet_emit [quiet_step]: "quiet s t \<Longrightarrow> quiet s (emit n t)"
  and quiet_log [quiet_step]: "quiet s t \<Longrightarrow> quiet s (log_add l m t)"
  by (auto simp: quiet_def intro: emit_bounded log_bounded)

lemma quiet_stop [quiet_step]: "quiet s t \<Longrightarrow> quiet s (stopReconnectLocked t)"
  by (simp add: quiet_def stopReconnectLocked_def)

lemma persist_quiet [quiet_step]: "persist t = (u, r) \<Longrightarrow> quiet s t \<Longrightarrow> quiet s u"
  by (auto simp: persist_def Let_def quiet_def split: prod.splits option.splits)

lemma secrets_quiet [quiet_step]:
  "secrets_get ref t = (u, x) \<Longrightarrow> quiet s t \<Longrightarrow> quiet s u"
  "secrets_put ref v t = (u, r) \<Longrightarrow> quiet s t \<Longrightarrow> quiet s u"
  "secrets_delete ref t = (u, r) \<Longrightarrow> quiet s t \<Longrightarrow> quiet s u"
  "newID t = (u, y) \<Longrightarrow> quiet s t \<Longrightarrow> quiet s u"
  by (auto simp: secrets_get_def secrets_put_def secrets_delete_def newID_def Let_def quiet_def split: prod.splits)

lemma newProfile_quiet [quiet_step]: "newProfile name t = (u, x) \<Longrightarrow> quiet s t \<Longrightarrow> quiet s u"
  by (auto simp: newProfile_def split: prod.splits sum.splits intro: quiet_step)

lemma drop_secret_quiet [quiet_step]: "drop_secret pre ref t = (u, r) \<Longrightarrow> quiet s t \<Longrightarrow> quiet s u"
  by (auto simp: drop_secret_def split: prod.splits option.splits intro: quiet_step)

lemma clear_intent_quiet [quiet_step]: "clear_intent pre t = (u, r) \<Longrightarrow> quiet s t \<Longrightarrow> quiet s u"
  unfolding clear_intent_def Let_def
  by (auto split: prod.splits option.splits dest: persist_quiet [of "set_intent None t" _ _ s])

lemma commit_finish_quiet [quiet_step]: "commit_finish i x old t = (u, y, r) \<Longrightarrow> quiet s t \<Longrightarrow> quiet s u"
  unfolding commit_finish_def Let_def
  by (auto split: prod.splits option.splits if_splits intro: quiet_step dest!: persist_quiet [where s = s] drop_secret_quiet [where s = s]
      clear_intent_quiet [where s = s])

lemma commit_steps_quiet [quiet_step]: "commit_steps i x pw old t = (u, y, r) \<Longrightarrow> quiet s t \<Longrightarrow> quiet s u"
  unfolding commit_steps_def
  by (auto split: prod.splits option.splits if_splits dest!: persist_quiet [where s = s] secrets_quiet(2) [where s = s]
      commit_finish_quiet [where s = s])

lemma commitProfileLocked_quiet [quiet_step]: "commitProfileLocked i x pw old t = (u, y, r) \<Longrightarrow> quiet s t \<Longrightarrow> quiet s u"
  unfolding commitProfileLocked_def Let_def
  by (auto split: prod.splits option.splits if_splits sum.splits dest!: secrets_quiet(4) [where s = s] commit_steps_quiet [where s = s])

lemma replan_quiet [quiet_step]: "quiet s t \<Longrightarrow> quiet s (replan x t)"
  by (rule quiet_trans [of _ t])
    (auto simp: replan_def Let_def same_conn_def same_status_def quiet_def split: option.splits intro: emit_bounded)

lemma status_quiet: "quiet s t \<Longrightarrow> same_status (svc_status t) (f (svc_status t)) \<Longrightarrow> quiet s (svc_status_update f t)"
  by (rule quiet_trans [of _ t]) (auto simp: quiet_def same_conn_def)

lemma conn_quiet: "quiet s t \<Longrightarrow> same_conn (svc_conn t) (f (svc_conn t)) \<Longrightarrow> quiet s (svc_conn_update f t)"
  by (rule quiet_trans [of _ t]) (auto simp: quiet_def same_status_def)

lemma pstate_quiet [simp]: "quiet s (svc_p_update f t) = quiet s t"
  by (simp add: quiet_def)

lemma create_tail_quiet: "create_tail x pw t = (u, r) \<Longrightarrow> quiet s t \<Longrightarrow> quiet s u"
proof -
  assume "create_tail x pw t = (u, r)" and t: "quiet s t"
  have cur: "quiet s ((set_currentID pid v)\<lparr>svc_status := (svc_status v)\<lparr>st_CurrentProfileID := pid\<rparr>\<rparr>)" if "quiet s v" for v pid
    by (rule quiet_trans [OF that]) (simp add: quiet_def same_conn_def same_status_def set_currentID_def)
  from \<open>create_tail x pw t = (u, r)\<close> show ?thesis
    unfolding create_tail_def Let_def
    by (auto split: prod.splits option.splits if_splits simp: t cur intro!: quiet_emit quiet_log
        dest!: commitProfileLocked_quiet [OF _ t] persist_quiet [where s = s])
qed

lemma CreateProfile_quiet: "quiet s (fst (CreateProfile U x pw s))"
proof -
  obtain t y where t: "(if prof_ID x = [] then newProfile (prof_Name x) s else (s, Inr x)) = (t, y)"
    by (meson surj_pair)
  then have q: "quiet s t"
    by (auto split: if_splits intro: newProfile_quiet)
  then have "quiet s (fst (create_tail z pw t))" for z
    by (metis create_tail_quiet prod.collapse)
  with q show ?thesis
    by (simp add: CreateProfile_def t Let_def split: sum.split option.split)
qed

lemma updateProfile_locked_quiet: "quiet s (fst (updateProfile_locked U pid req s))"
  unfolding updateProfile_locked_def Let_def
  by (auto split: prod.splits option.splits if_splits dest!: commitProfileLocked_quiet [where s = s]
      intro!: quiet_emit quiet_log replan_quiet)

lemma UpdateRoutes_locked_quiet: "quiet s (fst (UpdateRoutes_locked pid req s))"
  unfolding UpdateRoutes_locked_def Let_def
  by (auto split: prod.splits option.splits if_splits dest!: persist_quiet [where s = s]
      intro!: quiet_emit quiet_log replan_quiet)

lemma forget_quiet [simp]: "quiet s (forget_profile pid i t) = quiet s t"
  by (simp add: forget_profile_def Let_def quiet_def same_status_def)

lemma deleteProfile_locked_quiet: "deleteProfile_locked pid i t = (u, r) \<Longrightarrow> quiet s t \<Longrightarrow> quiet s u"
  unfolding deleteProfile_locked_def Let_def
  by (auto split: prod.splits option.splits if_splits dest!: persist_quiet [where s = s] drop_secret_quiet [where s = s]
      clear_intent_quiet [where s = s])

lemma DeleteProfile_end_quiet: "quiet s (fst (DeleteProfile_end pid active s))"
  unfolding DeleteProfile_end_def Let_def emit_traffic_def emit_status_def
  by (auto split: prod.splits option.splits if_splits simp: quiet_stop
      dest!: deleteProfile_locked_quiet [where s = s] intro!: quiet_emit quiet_log)

lemma SwitchProfile_quiet: "quiet s (fst (SwitchProfile pid s))"
  unfolding SwitchProfile_def Let_def emit_status_def
  by (auto split: prod.splits option.splits sum.splits if_splits simp: quiet_stop status_quiet same_status_def
      dest!: persist_quiet [where s = s] intro!: quiet_emit quiet_log)

lemma persist_quiet_fst: "quiet s t \<Longrightarrow> quiet s (fst (persist t))"
  by (cases "persist t") (simp add: persist_quiet)

lemma select_quiet: "quiet s (fst (persist (select_profile actor x s)))"
  by (rule persist_quiet_fst) (auto simp: select_profile_def Let_def same_conn_def same_status_def intro!: status_quiet conn_quiet)

lemma release_quiet: "quiet s (releaseIdleOwner actor s)"
  by (auto simp: releaseIdleOwner_def same_conn_def intro!: conn_quiet)

lemma adopt_quiet: "quiet s (fst (adopt_created actor x s))"
  by (auto simp: adopt_created_def intro!: persist_quiet_fst)

lemma mode_quiet: "quiet s (fst (persist (set_mode mode pid s)))"
  by (rule persist_quiet_fst) (auto simp: set_mode_def quiet_def same_conn_def same_status_def)

lemma register_quiet: "quiet s (fst (registerOperation x s))"
  by (auto simp: registerOperation_def same_conn_def same_status_def intro!: quiet_emit status_quiet conn_quiet)

lemma finish_quiet: "quiet s (finishOperation x r s)"
  by (auto simp: finishOperation_def Let_def same_conn_def same_status_def split: option.splits
      intro!: quiet_emit status_quiet conn_quiet)

lemma sample_quiet: "quiet s (sampleTrafficAt s)"
  by (auto simp: sampleTrafficAt_def sample_traffic_def emit_traffic_def quiet_def same_conn_def same_status_def
      split: prod.splits intro: emit_bounded)

lemma bounded_watch: "bus_bounded b \<Longrightarrow> bus_bounded (add_watcher b)"
  "bus_bounded b \<Longrightarrow> bus_bounded (fst (recv_watcher w b))" "bus_bounded b \<Longrightarrow> bus_bounded (cancel_watcher w b)"
  by (force simp: bus_bounded_def add_watcher_def recv_watcher_def cancel_watcher_def Let_def split: option.splits)+

lemma watch_quiet: "quiet s (fst (WatchSince actor epoch since s))" "quiet s (fst (watch_forward actor w s))"
  "quiet s (watch_cancel w s)"
  by (auto simp: WatchSince_def watch_forward_def watch_cancel_def quiet_def same_conn_def same_status_def Let_def
      split: option.splits prod.splits intro: bounded_watch) (metis bounded_watch(2) fst_conv)

section \<open>The connection\<close>

text \<open>What the coherence of the connection is about.\<close>

record view =
  v_connected :: string
  v_attempt :: string
  v_cancel :: bool
  v_proxy :: "(nat \<times> string) option"
  v_State :: State
  v_ConnectedProfileID :: string
  v_AttemptID :: string
  v_Session :: "SessionInfo option"
  v_EffectiveRoutes :: "RouteSpec list"
  v_SOCKS5Enabled :: bool
  v_SOCKS5Listen :: string

definition view_of :: "service \<Rightarrow> view" where
  "view_of s = \<lparr>v_connected = s_connectedID (svc_conn s), v_attempt = s_attemptID (svc_conn s),
     v_cancel = s_attemptCancel (svc_conn s), v_proxy = s_proxyServer (svc_conn s), v_State = st_State (svc_status s),
     v_ConnectedProfileID = st_ConnectedProfileID (svc_status s), v_AttemptID = st_AttemptID (svc_status s),
     v_Session = st_Session (svc_status s), v_EffectiveRoutes = st_EffectiveRoutes (svc_status s),
     v_SOCKS5Enabled = st_SOCKS5Enabled (svc_status s), v_SOCKS5Listen = st_SOCKS5Listen (svc_status s)\<rparr>"

lemma view_frame [simp]:
  "view_of (emit n s) = view_of s" "view_of (log_add l m s) = view_of s" "view_of (record_connection ce s) = view_of s"
  "view_of (healthy c s) = view_of s" "view_of (unhealthy c m s) = view_of s" "view_of (touch s) = view_of s"
  "view_of (set_lastError e s) = view_of s" "view_of (emit_status e m s) = view_of s" "view_of (emit_traffic s) = view_of s"
  "view_of (clear_traffic s) = view_of s" "view_of (fst (sample_traffic s)) = view_of s" "view_of (release_owner s) = view_of s"
  "view_of (stopReconnectLocked s) = view_of s" "view_of (cancelNetworkReconnectLocked s) = view_of s"
  "view_of (cancel_attempt s) = view_of s" "view_of (set_currentID pid s) = view_of s"
  "view_of (svc_recon_update fr s) = view_of s" "view_of (svc_net_update fn s) = view_of s" "view_of (svc_bus_update fb s) = view_of s"
  by (simp_all add: view_of_def touch_def set_lastError_def emit_status_def emit_traffic_def clear_traffic_def sample_traffic_def
      release_owner_def stopReconnectLocked_def cancelNetworkReconnectLocked_def cancel_attempt_def set_currentID_def case_prod_unfold Let_def)

lemma view_set [simp]:
  "view_of (set_state st s) = (view_of s)\<lparr>v_State := st\<rparr>"
  "view_of (set_proxy server e a s) = (view_of s)\<lparr>v_proxy := server, v_SOCKS5Enabled := e, v_SOCKS5Listen := a\<rparr>"
  "view_of (clear_attempt s) = (view_of s)\<lparr>v_attempt := [], v_cancel := False, v_AttemptID := []\<rparr>"
  "view_of (clear_connection s) = (view_of s)\<lparr>v_connected := [], v_ConnectedProfileID := [], v_Session := None, v_EffectiveRoutes := []\<rparr>"
  by (simp_all add: view_of_def set_state_def set_proxy_def clear_attempt_def clear_connection_def)

text \<open>The coherence of the connection: the status names the current attempt; \<open>Connecting\<close> has an attempt behind it;
  \<open>Connected\<close> has a session, names the connected profile and has no attempt pending; routes are reported only with a
  session; an enabled proxy has its listener, at the reported address.\<close>

definition view_ok :: "view \<Rightarrow> bool" where
  "view_ok v \<longleftrightarrow> v_AttemptID v = v_attempt v \<and> (v_attempt v \<noteq> [] \<longrightarrow> v_cancel v)
     \<and> (v_State v = StateConnecting \<longrightarrow> v_cancel v)
     \<and> (v_State v = StateConnected \<longrightarrow> \<not> v_cancel v \<and> v_ConnectedProfileID v = v_connected v \<and> v_Session v \<noteq> None)
     \<and> (v_ConnectedProfileID v = [] \<or> v_ConnectedProfileID v = v_connected v)
     \<and> (v_Session v = None \<longrightarrow> v_EffectiveRoutes v = [])
     \<and> (v_SOCKS5Enabled v \<longrightarrow> map_option snd (v_proxy v) = Some (v_SOCKS5Listen v))"

definition conn_ok :: "service \<Rightarrow> bool" where
  "conn_ok s \<longleftrightarrow> view_ok (view_of s)"

lemma quiet_view: "quiet s s' \<Longrightarrow> \<exists>rs. view_of s' = (view_of s)\<lparr>v_EffectiveRoutes := rs\<rparr>
    \<and> (v_Session (view_of s) = None \<longrightarrow> rs = v_EffectiveRoutes (view_of s))"
  unfolding quiet_def same_conn_def same_status_def view_of_def by simp

lemma view_ok_routes: "view_ok v \<Longrightarrow> v_Session v = None \<longrightarrow> rs = v_EffectiveRoutes v \<Longrightarrow> view_ok (v\<lparr>v_EffectiveRoutes := rs\<rparr>)"
  unfolding view_ok_def by simp

lemma conn_ok_quiet: "quiet s s' \<Longrightarrow> conn_ok s \<Longrightarrow> conn_ok s'"
  unfolding conn_ok_def by (metis quiet_view view_ok_routes)

lemma view_conn [simp]: "same_conn (svc_conn s) (f (svc_conn s)) \<Longrightarrow> view_of (svc_conn_update f s) = view_of s"
  by (simp add: view_of_def same_conn_def)

text \<open>The views the sections leave.\<close>

lemma start_attempt_view: "view_of (start_attempt x allow aid s) = (view_of s)\<lparr>v_attempt := aid, v_cancel := True,
    v_AttemptID := aid, v_ConnectedProfileID := [], v_State := (if allow then StateReconnecting else StateConnecting)\<rparr>"
  unfolding start_attempt_def Let_def view_frame by (simp add: view_of_def set_state_def set_currentID_def)

lemma newID_keeps_view: "newID s = (s', r) \<Longrightarrow> view_of s' = view_of s"
  by (auto simp: newID_def view_of_def split: prod.splits)

lemma connect_begin_view: "view_of (fst (connect_begin x allow s)) = (case snd (connect_begin x allow s) of
    Return r \<Rightarrow> view_of s
  | Proceed (aid, cid) \<Rightarrow> (view_of s)\<lparr>v_attempt := aid, v_cancel := True, v_AttemptID := aid, v_ConnectedProfileID := [],
      v_State := (if allow then StateReconnecting else StateConnecting)\<rparr>)"
  by (auto simp: connect_begin_def start_attempt_view dest!: newID_keeps_view split: gate.splits prod.splits sum.splits)

lemma connect_failed_view: "\<exists>st \<in> {StateDisconnected, StateError}. view_of (fst (connect_failed x aid ctx e s)) =
    (if s_attemptID (svc_conn s) \<noteq> aid then view_of s
     else (view_of s)\<lparr>v_attempt := [], v_cancel := False, v_AttemptID := [], v_State := st\<rparr>)"
  by (auto simp: connect_failed_def Let_def)

lemma connect_rollback_view: "view_of (connect_rollback x aid e c s) =
    (if s_attemptID (svc_conn s) \<noteq> aid then view_of s
     else (view_of s)\<lparr>v_attempt := [], v_cancel := False, v_AttemptID := [], v_State := StateError\<rparr>)"
  by (simp add: connect_rollback_def Let_def)

lemma connect_commit_view: "view_of (fst (connect_commit x aid allow ctx session s)) =
    (if s_attemptID (svc_conn s) \<noteq> aid \<or> attempt_err ctx aid s \<noteq> None then view_of s
     else (view_of s)\<lparr>v_attempt := [], v_cancel := False, v_AttemptID := [], v_State := StateConnected,
       v_connected := prof_ID x, v_ConnectedProfileID := prof_ID x, v_Session := Some session,
       v_EffectiveRoutes := Plan (si_SplitInclude session) (si_SplitExclude session) x\<rparr>)"
  by (simp add: connect_commit_def Let_def) (simp add: view_of_def set_state_def clear_attempt_def)

lemma disconnect_view [simp]:
  "view_of (fst (disconnect_begin manual s)) = view_of s"
  "view_of (disconnect_end s) = (view_of s)\<lparr>v_attempt := [], v_cancel := False, v_AttemptID := [], v_connected := [],
     v_ConnectedProfileID := [], v_Session := None, v_EffectiveRoutes := [], v_State := StateDisconnected\<rparr>"
  "view_of (failCleanup e s) = (view_of s)\<lparr>v_State := StateError\<rparr>"
  by (simp_all add: disconnect_begin_def disconnect_end_def failCleanup_def same_conn_def Let_def)

lemma Close_view [simp]:
  "view_of (Close_begin s) = view_of s"
  "view_of (Close_end e s) = (view_of s)\<lparr>v_attempt := [], v_cancel := False, v_AttemptID := [], v_connected := [],
     v_ConnectedProfileID := [], v_Session := None, v_EffectiveRoutes := [], v_State := StateDisconnected\<rparr>"
  by (simp add: Close_begin_def)
    (simp add: view_of_def, simp add: Close_end_def Let_def split: option.splits)

lemma proxy_view [simp]:
  "view_of (startProxy_failed e s) = view_of s" "view_of (recordProxyError e s) = view_of s" "view_of (stopProxy_end s) = view_of s"
  "view_of (startProxy_end server s) = (view_of s)\<lparr>v_proxy := Some server, v_SOCKS5Enabled := True, v_SOCKS5Listen := snd server\<rparr>"
  by (simp_all add: startProxy_failed_def recordProxyError_def stopProxy_end_def startProxy_end_def Let_def)

lemma proxy_begin_view:
  "view_of (fst (stopProxy_begin s)) \<in> {view_of s, (view_of s)\<lparr>v_proxy := None, v_SOCKS5Enabled := False, v_SOCKS5Listen := []\<rparr>}"
  "view_of (fst (startProxy_begin addr s)) \<in> {view_of s, (view_of s)\<lparr>v_proxy := None, v_SOCKS5Enabled := False, v_SOCKS5Listen := []\<rparr>}"
  by (simp_all add: stopProxy_begin_def startProxy_begin_def Let_def)

lemma event_tail_view: "view_of (event_tail event m lost s) \<in> {view_of s, (view_of s)\<lparr>v_State := StateError\<rparr>}"
  by (auto simp: event_tail_def Let_def split: option.splits prod.splits if_splits)

lemma drop_connection_view: "view_of (drop_connection event lo s) = (view_of s)\<lparr>v_connected := [], v_ConnectedProfileID := [],
    v_Session := None, v_EffectiveRoutes := [], v_SOCKS5Enabled := False, v_SOCKS5Listen := [],
    v_State := (if lo_Repair lo then StateReconnecting else StateDisconnected)\<rparr>"
proof -
  have st: "view_of (svc_status_update (\<lambda>x. x\<lparr>st_SOCKS5Enabled := False, st_SOCKS5Listen := []\<rparr>) t) =
      (view_of t)\<lparr>v_SOCKS5Enabled := False, v_SOCKS5Listen := []\<rparr>" for t
    by (simp add: view_of_def)
  show ?thesis
    by (simp add: drop_connection_def Let_def st same_conn_def)
qed

text \<open>What an event may do to the connection: nothing, report an error, announce a repair, or drop it.\<close>

definition dropped :: "State \<Rightarrow> view \<Rightarrow> view" where
  "dropped st v = v\<lparr>v_connected := [], v_ConnectedProfileID := [], v_Session := None, v_EffectiveRoutes := [],
     v_SOCKS5Enabled := False, v_SOCKS5Listen := [], v_State := st\<rparr>"

lemma lost_event_view: "\<exists>st \<in> {StateReconnecting, StateDisconnected, StateError}.
    view_of (fst (lost_event event s)) \<in> {view_of s, dropped st (view_of s)}"
  using event_tail_view [of event _ _ "drop_connection event (classify_loss event s) s"]
  by (fastforce simp: lost_event_def Let_def drop_connection_view dropped_def)

lemma event_section_view: "view_of (fst (event_section event s)) \<in> {view_of s, (view_of s)\<lparr>v_State := StateError\<rparr>,
    (view_of s)\<lparr>v_State := StateReconnecting\<rparr>} \<union> (\<lambda>st. dropped st (view_of s)) ` {StateReconnecting, StateDisconnected, StateError}"
proof -
  have tail: "view_of (event_tail event m lost t) \<in> {view_of t, (view_of t)\<lparr>v_State := StateError\<rparr>}" for m lost t
    by (rule event_tail_view)
  have net: "view_of (fst (network_event event s)) \<in> {view_of s, (view_of s)\<lparr>v_State := StateReconnecting\<rparr>}"
    by (auto simp: network_event_def Let_def split: option.splits)
  have health: "view_of (health_event event s) = view_of s"
    by (simp add: health_event_def Let_def split: option.split)
  show ?thesis
    using net lost_event_view [of event s] tail [of _ _ s] tail [of _ _ "log_add l m s" for l m]
    by (simp add: event_section_def health split: if_split) blast
qed

lemma startReconnect_view [simp]: "view_of (startReconnectLocked pid q n s) = view_of s"
  by (simp add: startReconnectLocked_def Let_def)

lemma scheduled_view:
  "view_of (fst (scheduled_begin t s)) \<in> {view_of s, (view_of s)\<lparr>v_State := StateReconnecting\<rparr>}"
  "view_of (scheduled_failed t reason e s) \<in> {view_of s, (view_of s)\<lparr>v_State := StateError\<rparr>}"
  by (simp_all add: scheduled_begin_def scheduled_failed_def retryReconnectLocked_def Let_def)

lemma repair_end_view: "view_of (repair_end rid cid pid found e s) \<in> {view_of s, (view_of s)\<lparr>v_State := StateError\<rparr>}"
  by (auto simp: repair_end_def Let_def split: option.splits)

lemma read_status_view: "view_of (fst (Service_Status s)) \<in> insert (view_of s) (range (\<lambda>x. (view_of s)\<lparr>v_Session := Some x\<rparr>))"
  by (auto simp: Service_Status_def refreshConnectedStatusLocked_def view_of_def split: option.splits)

section \<open>The connection as an abstract machine\<close>

text \<open>What may happen to the connection, whatever the code around it does. \<open>A\<close> are the attempts that have begun.\<close>

inductive conn_begins :: "string \<Rightarrow> bool \<Rightarrow> view \<Rightarrow> view \<Rightarrow> bool" where
  begins: "conn_begins aid allow v (v\<lparr>v_attempt := aid, v_cancel := True, v_AttemptID := aid, v_ConnectedProfileID := [],
      v_State := (if allow then StateReconnecting else StateConnecting)\<rparr>)"

inductive conn_step :: "(string \<times> Profile \<times> bool) set \<Rightarrow> view \<Rightarrow> view \<Rightarrow> bool" for A where
  stay: "conn_step A v v"
| replanned: "v_Session v = None \<longrightarrow> rs = v_EffectiveRoutes v \<Longrightarrow> conn_step A v (v\<lparr>v_EffectiveRoutes := rs\<rparr>)"
| refreshed: "conn_step A v (v\<lparr>v_Session := Some x\<rparr>)"
| failed: "(v_attempt v, x, allow) \<in> A \<Longrightarrow> st \<in> {StateDisconnected, StateError}
    \<Longrightarrow> conn_step A v (v\<lparr>v_attempt := [], v_cancel := False, v_AttemptID := [], v_State := st\<rparr>)"
| committed: "(v_attempt v, x, allow) \<in> A
    \<Longrightarrow> conn_step A v (v\<lparr>v_attempt := [], v_cancel := False, v_AttemptID := [], v_State := StateConnected,
       v_connected := prof_ID x, v_ConnectedProfileID := prof_ID x, v_Session := Some session,
       v_EffectiveRoutes := Plan (si_SplitInclude session) (si_SplitExclude session) x\<rparr>)"
| torn_down: "conn_step A v (v\<lparr>v_attempt := [], v_cancel := False, v_AttemptID := [], v_connected := [],
     v_ConnectedProfileID := [], v_Session := None, v_EffectiveRoutes := [], v_State := StateDisconnected\<rparr>)"
| alerted: "st \<in> {StateError, StateReconnecting} \<Longrightarrow> conn_step A v (v\<lparr>v_State := st\<rparr>)"
| lost: "st \<in> {StateReconnecting, StateDisconnected, StateError} \<Longrightarrow> conn_step A v (dropped st v)"
| proxy_off: "conn_step A v (v\<lparr>v_proxy := None, v_SOCKS5Enabled := False, v_SOCKS5Listen := []\<rparr>)"
| proxy_on: "conn_step A v (v\<lparr>v_proxy := Some server, v_SOCKS5Enabled := True, v_SOCKS5Listen := snd server\<rparr>)"

lemma quiet_step_view: "quiet s s' \<Longrightarrow> conn_step A (view_of s) (view_of s')"
  using quiet_view [of s s'] replanned by metis

lemma outside_quiet: "quiet s (fst (secrets_get ref s))" "quiet s (fst (newID s))" "quiet s (s\<lparr>svc_clock := t\<rparr>)" "quiet s (s\<lparr>svc_backend := be\<rparr>)"
  by (metis quiet_refl secrets_quiet(1) prod.collapse, metis quiet_refl secrets_quiet(4) prod.collapse)
    (simp_all add: quiet_def same_conn_def same_status_def)

lemma view_attempt: "s_attemptID (svc_conn s) = v_attempt (view_of s)"
  by (simp add: view_of_def)

fun is_begin :: "sect \<Rightarrow> bool" where
  "is_begin (ConnectBegin x allow) = True"
| "is_begin _ = False"

text \<open>Every section refines a step of the abstract machine.\<close>

lemma attempts_refine:
  assumes "(aid, x, allow) \<in> A"
  shows "conn_step A (view_of s) (view_of (fst (connect_failed x aid ctx e s)))"
    and "conn_step A (view_of s) (view_of (connect_rollback x aid e' c s))"
    and "conn_step A (view_of s) (view_of (fst (connect_commit x aid allow ctx session s)))"
  using assms connect_failed_view [of x aid ctx e s]
  by (auto simp: connect_rollback_view connect_commit_view view_attempt intro: conn_step.intros)

lemma proxy_refines:
  "conn_step A (view_of s) (view_of (fst (stopProxy_begin s)))" "conn_step A (view_of s) (view_of (fst (startProxy_begin addr s)))"
  "conn_step A (view_of s) (view_of (startProxy_end server s))"
  using proxy_begin_view(1) [of s] proxy_begin_view(2) [of addr s] by (auto intro: stay proxy_off proxy_on)

lemma alert_refines: "view_of s' \<in> {view_of s, (view_of s)\<lparr>v_State := st\<rparr>} \<Longrightarrow> st \<in> {StateError, StateReconnecting}
    \<Longrightarrow> conn_step A (view_of s) (view_of s')"
  by (metis alerted insertE singletonD stay)

lemma event_refines: "conn_step A (view_of s) (view_of (fst (event_section event s)))"
  using event_section_view [of event s] by (auto intro: stay alerted lost)

lemma read_status_refines: "conn_step A (view_of s) (view_of (fst (Service_Status s)))"
  using read_status_view [of s] by (auto intro: stay refreshed)

lemma exec_refines:
  assumes "enabled c y" and "\<not> is_begin c"
  shows "conn_step (sy_attempts y) (view_of (sy_svc y)) (view_of (exec U c (sy_svc y)))"
  using assms
  by (cases c) (simp_all add: attempts_refine proxy_refines event_refines read_status_refines stay torn_down
      alert_refines [OF scheduled_view(1)] alert_refines [OF scheduled_view(2)] alert_refines [OF repair_end_view] alerted
      quiet_step_view CreateProfile_quiet updateProfile_locked_quiet UpdateRoutes_locked_quiet DeleteProfile_end_quiet
      SwitchProfile_quiet select_quiet release_quiet adopt_quiet mode_quiet register_quiet finish_quiet sample_quiet watch_quiet outside_quiet proxy_on)

lemma begin_refines:
  assumes "is_begin c"
  shows "view_of (exec U c s) = view_of s \<and> begun c s = {}
    \<or> (\<exists>aid x allow. begun c s = {(aid, x, allow)} \<and> conn_begins aid allow (view_of s) (view_of (exec U c s)))"
proof -
  obtain x allow where c: "c = ConnectBegin x allow"
    using assms by (cases c) simp_all
  show ?thesis
  proof (cases "snd (connect_begin x allow s)")
    case (Proceed p)
    then have "begun c s = {(fst p, x, allow)}" "conn_begins (fst p) allow (view_of s) (view_of (exec U c s))"
      by (simp_all add: c connect_begin_view case_prod_unfold begins)
    then show ?thesis by blast
  qed (simp add: c connect_begin_view)
qed

lemma no_begin: "\<not> is_begin c \<Longrightarrow> begun c s = {}"
  by (cases c) auto

lemma after_step_fields [simp]:
  "sy_svc (after_step U c y) = exec U c (sy_svc y)" "sy_attempts (after_step U c y) = sy_attempts y \<union> begun c (sy_svc y)"
  "sy_timers (after_step U c y) = sy_timers y \<union> set_option (s_reconnectTimer (svc_recon (exec U c (sy_svc y))))"
  by (simp_all add: after_step_def Let_def)

text \<open>So what the abstract machine keeps, every schedule keeps.\<close>

locale view_invariant =
  fixes J :: "(string \<times> Profile \<times> bool) set \<Rightarrow> view \<Rightarrow> bool"
  assumes step_keeps: "conn_step A v v' \<Longrightarrow> J A v \<Longrightarrow> J A v'"
    and begin_keeps: "conn_begins aid allow v v' \<Longrightarrow> J A v \<Longrightarrow> J (insert (aid, x, allow) A) v'"
begin

lemma step_kept: "J (sy_attempts y) (view_of (sy_svc y)) \<Longrightarrow> enabled c y
    \<Longrightarrow> J (sy_attempts (after_step U c y)) (view_of (sy_svc (after_step U c y)))"
proof (cases "is_begin c")
  case True
  assume "J (sy_attempts y) (view_of (sy_svc y))"
  with begin_refines [OF True, of U "sy_svc y"] show ?thesis
    by (auto intro: begin_keeps)
qed (auto simp: no_begin intro: step_keeps exec_refines)

end

sublocale view_invariant \<subseteq> section_invariant U "\<lambda>_. True" "\<lambda>y. J (sy_attempts y) (view_of (sy_svc y))" for U
  by unfold_locales (rule step_kept)

lemma view_ok_step: "conn_step A v v' \<Longrightarrow> view_ok v \<Longrightarrow> view_ok v'"
  by (induction rule: conn_step.induct) (auto simp: view_ok_def dropped_def)

lemma view_ok_begins: "conn_begins aid allow v v' \<Longrightarrow> view_ok v \<Longrightarrow> view_ok v'"
  by (induction rule: conn_begins.induct) (auto simp: view_ok_def)

interpretation coherent: view_invariant "\<lambda>A. view_ok"
  by unfold_locales (auto intro: view_ok_step view_ok_begins)

text \<open>Connected only to a profile whose attempt has begun.\<close>

definition attempted :: "(string \<times> Profile \<times> bool) set \<Rightarrow> view \<Rightarrow> bool" where
  "attempted A v \<longleftrightarrow> (v_State v = StateConnected \<longrightarrow> (\<exists>aid x allow. (aid, x, allow) \<in> A \<and> prof_ID x = v_connected v))"

interpretation provenance: view_invariant attempted
  by unfold_locales (auto simp: attempted_def dropped_def elim!: conn_step.cases conn_begins.cases split: if_splits, blast+)

text \<open>Without a new attempt nothing becomes connected.\<close>

definition idle_view :: "(string \<times> Profile \<times> bool) set \<Rightarrow> view \<Rightarrow> bool" where
  "idle_view A v \<longleftrightarrow> v_attempt v = [] \<and> v_State v \<noteq> StateConnected \<and> (\<forall>x allow. ([], x, allow) \<notin> A)"

lemma idle_step: "conn_step A v v' \<Longrightarrow> idle_view A v \<Longrightarrow> idle_view A v'"
  by (induction rule: conn_step.induct) (auto simp: idle_view_def dropped_def)

interpretation idle: section_invariant U "\<lambda>c. \<not> is_begin c" "\<lambda>y. idle_view (sy_attempts y) (view_of (sy_svc y))" for U
  by unfold_locales (auto simp: no_begin intro: idle_step exec_refines)

section \<open>Bounds of the bus\<close>

abbreviation bounded :: "service \<Rightarrow> bool" where
  "bounded s \<equiv> bus_bounded (svc_bus s)"

lemma bus_frame [simp]:
  "svc_bus (touch s) = svc_bus s" "svc_bus (set_lastError m s) = svc_bus s" "svc_bus (set_state st s) = svc_bus s"
  "svc_bus (clear_traffic s) = svc_bus s" "svc_bus (fst (sample_traffic s)) = svc_bus s" "svc_bus (release_owner s) = svc_bus s"
  "svc_bus (stopReconnectLocked s) = svc_bus s" "svc_bus (cancelNetworkReconnectLocked s) = svc_bus s"
  "svc_bus (cancel_attempt s) = svc_bus s" "svc_bus (set_currentID pid s) = svc_bus s"
  "svc_bus (set_proxy server e a s) = svc_bus s" "svc_bus (clear_attempt s) = svc_bus s" "svc_bus (clear_connection s) = svc_bus s"
  by (simp_all add: touch_def set_lastError_def set_state_def clear_traffic_def sample_traffic_def release_owner_def
      stopReconnectLocked_def cancelNetworkReconnectLocked_def cancel_attempt_def set_currentID_def set_proxy_def
      clear_attempt_def clear_connection_def case_prod_unfold Let_def)

lemma emits_bounded [svc_inv]: "bounded s \<Longrightarrow> bounded (emit_status e m s)" "bounded s \<Longrightarrow> bounded (emit_traffic s)"
  by (simp_all add: emit_status_def emit_traffic_def emit_bounded)

lemma quiet_bounded: "quiet s s' \<Longrightarrow> bounded s \<Longrightarrow> bounded s'"
  by (simp add: quiet_def)

lemma start_attempt_bounded: "bounded s \<Longrightarrow> bounded (start_attempt x allow aid s)"
  by (simp add: start_attempt_def Let_def svc_inv)

lemma connect_begin_bounded: "bounded s \<Longrightarrow> bounded (fst (connect_begin x allow s))"
  unfolding connect_begin_def
  by (auto split: gate.splits prod.splits sum.splits dest!: secrets_quiet(4) [where s = s] intro: start_attempt_bounded quiet_bounded)

lemma connect_bounded:
  "bounded s \<Longrightarrow> bounded (fst (connect_failed x aid ctx e s))" "bounded s \<Longrightarrow> bounded (connect_rollback x aid e c s)"
  "bounded s \<Longrightarrow> bounded (fst (connect_commit x aid allow ctx session s))"
  by (simp_all add: connect_failed_def connect_rollback_def connect_commit_def Let_def svc_inv)

lemma disconnect_bounded: "bounded s \<Longrightarrow> bounded (fst (disconnect_begin manual s))" "bounded s \<Longrightarrow> bounded (disconnect_end s)"
  "bounded s \<Longrightarrow> bounded (failCleanup e s)"
  by (simp_all add: disconnect_begin_def disconnect_end_def failCleanup_def Let_def svc_inv)

lemma Close_bounded: "bounded s \<Longrightarrow> bounded (Close_begin s)" "bounded s \<Longrightarrow> bounded (Close_end e s)"
  by (simp add: Close_begin_def) (simp add: Close_end_def Let_def bus_bounded_def close_watchers_def split: option.split)

lemma proxy_bounded: "bounded s \<Longrightarrow> bounded (fst (stopProxy_begin s))" "bounded s \<Longrightarrow> bounded (stopProxy_end s)"
  "bounded s \<Longrightarrow> bounded (fst (startProxy_begin addr s))" "bounded s \<Longrightarrow> bounded (startProxy_failed e s)"
  "bounded s \<Longrightarrow> bounded (startProxy_end server s)" "bounded s \<Longrightarrow> bounded (recordProxyError e s)"
  by (simp_all add: stopProxy_begin_def stopProxy_end_def startProxy_begin_def startProxy_failed_def startProxy_end_def
      recordProxyError_def Let_def svc_inv)

lemma event_tail_bounded: "bounded s \<Longrightarrow> bounded (event_tail event m lost s)"
  by (auto simp: event_tail_def Let_def svc_inv split: option.splits prod.splits if_splits)

lemma drop_connection_bounded: "bounded s \<Longrightarrow> bounded (drop_connection event lo s)"
  by (simp add: drop_connection_def Let_def svc_inv)

lemma event_section_bounded: "bounded s \<Longrightarrow> bounded (fst (event_section event s))"
  by (simp add: event_section_def health_event_def lost_event_def network_event_def Let_def event_tail_bounded
      drop_connection_bounded svc_inv split: option.split)

lemma startReconnect_bounded: "bounded s \<Longrightarrow> bounded (startReconnectLocked pid q n s)"
  by (simp add: startReconnectLocked_def Let_def svc_inv)

lemma scheduled_bounded: "bounded s \<Longrightarrow> bounded (fst (scheduled_begin t s))" "bounded s \<Longrightarrow> bounded (scheduled_failed t reason e s)"
  by (simp_all add: scheduled_begin_def scheduled_failed_def retryReconnectLocked_def startReconnect_bounded Let_def svc_inv)

lemma repair_end_bounded: "bounded s \<Longrightarrow> bounded (repair_end rid cid pid found e s)"
  by (simp add: repair_end_def startReconnect_bounded Let_def svc_inv split: option.split)

lemma read_status_bounded: "bounded s \<Longrightarrow> bounded (fst (Service_Status s))"
  by (simp add: Service_Status_def refreshConnectedStatusLocked_def split: option.split)

lemma exec_bounded: "bounded s \<Longrightarrow> bounded (exec U c s)"
  by (cases c) (simp_all add: connect_begin_bounded connect_bounded disconnect_bounded Close_bounded proxy_bounded
      event_section_bounded startReconnect_bounded scheduled_bounded repair_end_bounded read_status_bounded svc_inv
      quiet_bounded [OF CreateProfile_quiet] quiet_bounded [OF updateProfile_locked_quiet] quiet_bounded [OF UpdateRoutes_locked_quiet]
      quiet_bounded [OF DeleteProfile_end_quiet] quiet_bounded [OF SwitchProfile_quiet] quiet_bounded [OF select_quiet]
      quiet_bounded [OF release_quiet] quiet_bounded [OF adopt_quiet] quiet_bounded [OF mode_quiet] quiet_bounded [OF register_quiet]
      quiet_bounded [OF finish_quiet] quiet_bounded [OF sample_quiet] quiet_bounded [OF watch_quiet(1)]
      quiet_bounded [OF watch_quiet(2)] quiet_bounded [OF watch_quiet(3)] quiet_bounded [OF outside_quiet(1)] quiet_bounded [OF outside_quiet(2)])

interpretation bus_bounds: section_invariant U "\<lambda>_. True" "\<lambda>y. bounded (sy_svc y)" for U
  by unfold_locales (simp add: exec_bounded)

section \<open>Reconnect timers\<close>

text \<open>The pending timer carries what the reconnect fields say, and no timer carries an attempt beyond the third.\<close>

definition timer_bound :: "timer \<Rightarrow> bool" where
  "timer_bound t \<longleftrightarrow> 1 \<le> tm_Attempt t \<and> tm_Attempt t \<le> autoReconnectMaxTries"

definition recon_ok :: "recon \<Rightarrow> bool" where
  "recon_ok r = (case s_reconnectTimer r of
      None \<Rightarrow> True
    | Some t \<Rightarrow> timer_bound t \<and> tm_ProfileID t = s_reconnectProfileID r \<and> tm_ManualSeq t = s_reconnectSeq r
        \<and> tm_ReconnectID t = s_reconnectID r \<and> tm_Attempt t = s_reconnectAttempt r \<and> tm_Due t = s_reconnectNextAt r)"

definition timers_ok :: "sys \<Rightarrow> bool" where
  "timers_ok y \<longleftrightarrow> recon_ok (svc_recon (sy_svc y)) \<and> (\<forall>t \<in> sy_timers y. timer_bound t)"

lemma recon_frame [simp]:
  "svc_recon (touch s) = svc_recon s" "svc_recon (set_lastError m s) = svc_recon s" "svc_recon (set_state st s) = svc_recon s"
  "svc_recon (clear_traffic s) = svc_recon s" "svc_recon (fst (sample_traffic s)) = svc_recon s" "svc_recon (release_owner s) = svc_recon s"
  "svc_recon (cancelNetworkReconnectLocked s) = svc_recon s" "svc_recon (cancel_attempt s) = svc_recon s"
  "svc_recon (set_currentID pid s) = svc_recon s" "svc_recon (emit_status e m s) = svc_recon s" "svc_recon (emit_traffic s) = svc_recon s"
  "svc_recon (set_proxy server en a s) = svc_recon s" "svc_recon (clear_attempt s) = svc_recon s" "svc_recon (clear_connection s) = svc_recon s"
  by (simp_all add: touch_def set_lastError_def set_state_def clear_traffic_def sample_traffic_def release_owner_def
      cancelNetworkReconnectLocked_def cancel_attempt_def set_currentID_def set_proxy_def emit_status_def emit_traffic_def
      clear_attempt_def clear_connection_def case_prod_unfold Let_def)

abbreviation rec_ok :: "service \<Rightarrow> bool" where
  "rec_ok s \<equiv> recon_ok (svc_recon s)"

lemma no_timer_rec: "s_reconnectTimer r = None \<Longrightarrow> recon_ok r"
  by (simp add: recon_ok_def)

lemma stop_rec [simp]: "rec_ok (stopReconnectLocked s)"
  by (simp add: stopReconnectLocked_def recon_ok_def)

lemma quiet_rec: "quiet s s' \<Longrightarrow> rec_ok s \<Longrightarrow> rec_ok s'"
  unfolding quiet_def by (metis no_timer_rec)

lemma connect_rec: "svc_recon (start_attempt x allow aid s) = svc_recon s" "svc_recon (fst (connect_failed x aid ctx e s)) = svc_recon s"
  "svc_recon (connect_rollback x aid e c s) = svc_recon s" "svc_recon (fst (connect_commit x aid allow ctx session s)) = svc_recon s"
  by (simp_all add: start_attempt_def connect_failed_def connect_rollback_def connect_commit_def Let_def)

lemma connect_begin_rec: "rec_ok s \<Longrightarrow> rec_ok (fst (connect_begin x allow s))"
  unfolding connect_begin_def
  by (auto split: gate.splits prod.splits sum.splits simp: connect_rec dest!: secrets_quiet(4) [where s = s] intro: quiet_rec)

lemma disconnect_rec: "rec_ok s \<Longrightarrow> rec_ok (fst (disconnect_begin manual s))" "svc_recon (disconnect_end s) = svc_recon s"
  "svc_recon (failCleanup e s) = svc_recon s" "rec_ok (Close_begin s)" "svc_recon (Close_end r s) = svc_recon s"
  by (simp_all add: disconnect_begin_def disconnect_end_def failCleanup_def Close_begin_def Close_end_def Let_def split: option.split)

lemma proxy_rec: "svc_recon (fst (stopProxy_begin s)) = svc_recon s" "svc_recon (stopProxy_end s) = svc_recon s"
  "svc_recon (fst (startProxy_begin addr s)) = svc_recon s" "svc_recon (startProxy_failed e s) = svc_recon s"
  "svc_recon (startProxy_end server s) = svc_recon s" "svc_recon (recordProxyError e s) = svc_recon s"
  by (simp_all add: stopProxy_begin_def stopProxy_end_def startProxy_begin_def startProxy_failed_def startProxy_end_def
      recordProxyError_def Let_def)

lemma event_rec: "svc_recon (fst (event_section event s)) = svc_recon s"
proof -
  have tail: "svc_recon (event_tail event m lost t) = svc_recon t" for m lost t
    by (auto simp: event_tail_def Let_def split: option.splits prod.splits if_splits)
  have drop: "svc_recon (drop_connection event lo t) = svc_recon t" for lo t
    by (simp add: drop_connection_def Let_def)
  show ?thesis
    by (simp add: event_section_def health_event_def lost_event_def network_event_def Let_def tail drop split: option.split)
qed

lemma startReconnect_rec: "rec_ok s \<Longrightarrow> n \<le> autoReconnectMaxTries \<Longrightarrow> rec_ok (startReconnectLocked pid q n s)"
  by (simp add: startReconnectLocked_def Let_def recon_ok_def timer_bound_def autoReconnectMaxTries_def)

lemma retry_rec: "rec_ok s \<Longrightarrow> rec_ok (retryReconnectLocked pid q n e s)"
  by (simp add: retryReconnectLocked_def Let_def startReconnect_rec)

lemma scheduled_rec: "rec_ok s \<Longrightarrow> rec_ok (fst (scheduled_begin t s))"
  "rec_ok s \<Longrightarrow> rec_ok (scheduled_failed t reason e s)"
  by (simp_all add: scheduled_begin_def scheduled_failed_def retry_rec no_timer_rec Let_def)

lemma repair_end_rec: "rec_ok s \<Longrightarrow> rec_ok (repair_end rid cid pid found e s)"
  by (simp add: repair_end_def startReconnect_rec autoReconnectMaxTries_def Let_def split: option.split)

lemma exec_rec: "rec_ok s \<Longrightarrow> rec_ok (exec U c s)"
  by (cases c) (simp_all add: connect_begin_rec connect_rec disconnect_rec proxy_rec event_rec startReconnect_rec scheduled_rec
      repair_end_rec Service_Status_def refreshConnectedStatusLocked_def autoReconnectMaxTries_def
      quiet_rec [OF CreateProfile_quiet] quiet_rec [OF updateProfile_locked_quiet] quiet_rec [OF UpdateRoutes_locked_quiet]
      quiet_rec [OF DeleteProfile_end_quiet] quiet_rec [OF SwitchProfile_quiet] quiet_rec [OF select_quiet]
      quiet_rec [OF release_quiet] quiet_rec [OF adopt_quiet] quiet_rec [OF mode_quiet] quiet_rec [OF register_quiet]
      quiet_rec [OF finish_quiet] quiet_rec [OF sample_quiet] quiet_rec [OF watch_quiet(1)] quiet_rec [OF watch_quiet(2)]
      quiet_rec [OF watch_quiet(3)] quiet_rec [OF outside_quiet(1)] quiet_rec [OF outside_quiet(2)] split: option.split)

interpretation timers: section_invariant U "\<lambda>_. True" timers_ok for U
proof
  fix y c assume "timers_ok y" "enabled c y"
  then have "rec_ok (exec U c (sy_svc y))" "\<forall>t \<in> sy_timers y. timer_bound t"
    by (auto simp: timers_ok_def exec_rec)
  then show "timers_ok (after_step U c y)"
    by (auto simp: timers_ok_def recon_ok_def split: option.splits)
qed

end
