(* ===== verification/Schedules.thy ===== *)
theory Schedules
  imports Invariants
begin

text \<open>
  The operations of the service are runs of its critical sections, and what holds of every schedule of the daemon from
  its start on: the connection is coherent, nothing connects without a new attempt, reconnect timers are bounded, memory is bounded.
\<close>

section \<open>A freshly started daemon\<close>

lemma settled_conn: "persist s = (s', r) \<Longrightarrow> svc_conn s' = svc_conn s \<and> svc_recon s' = svc_recon s \<and> svc_status s' = svc_status s \<and> svc_bus s' = svc_bus s"
  by (auto simp: persist_def Let_def split: prod.splits option.splits)

text \<open>Loading the state leaves the fresh connection alone.\<close>

definition same_runtime :: "service \<Rightarrow> service \<Rightarrow> bool" where
  "same_runtime s s' \<longleftrightarrow> view_of s' = view_of s \<and> svc_recon s' = svc_recon s \<and> svc_bus s' = svc_bus s \<and> svc_conn s' = svc_conn s"

lemma runtime_refl [simp]: "same_runtime s s"
  by (simp add: same_runtime_def)

lemma runtime_sets [simp]:
  "same_runtime s (healthy c t) = same_runtime s t" "same_runtime s (unhealthy c m t) = same_runtime s t"
  "same_runtime s (set_intent i t) = same_runtime s t" "same_runtime s (set_profiles ps t) = same_runtime s t"
  by (simp_all add: same_runtime_def set_intent_def set_profiles_def view_of_def)

lemma persist_runtime: "persist t = (u, r) \<Longrightarrow> same_runtime s t \<Longrightarrow> same_runtime s u"
  using settled_conn [of t u r] by (simp add: same_runtime_def view_of_def)

lemma secrets_runtime:
  "secrets_get ref t = (u, pw) \<Longrightarrow> same_runtime s t \<Longrightarrow> same_runtime s u"
  "secrets_delete ref t = (u, r) \<Longrightarrow> same_runtime s t \<Longrightarrow> same_runtime s u"
  by (auto simp: secrets_get_def secrets_delete_def Let_def same_runtime_def view_of_def split: prod.splits)

lemma drop_secret_runtime: "drop_secret pre ref t = (u, r) \<Longrightarrow> same_runtime s t \<Longrightarrow> same_runtime s u"
  by (auto simp: drop_secret_def split: prod.splits option.splits dest!: secrets_runtime(2) [where s = s])

lemma clear_intent_runtime: "clear_intent pre t = (u, r) \<Longrightarrow> same_runtime s t \<Longrightarrow> same_runtime s u"
  by (auto simp: clear_intent_def Let_def split: prod.splits option.splits dest!: persist_runtime [where s = s])

lemma recover_runtime:
  "recover_upsert i x t = (u, r) \<Longrightarrow> same_runtime s t \<Longrightarrow> same_runtime s u"
  "recover_delete i t = (u, r) \<Longrightarrow> same_runtime s t \<Longrightarrow> same_runtime s u"
  by (auto simp: recover_upsert_def recover_delete_def Let_def split: prod.splits option.splits if_splits
      dest!: persist_runtime [where s = s] drop_secret_runtime [where s = s])

lemma recoverIntent_runtime: "recoverIntentLocked t = (u, r) \<Longrightarrow> same_runtime s t \<Longrightarrow> same_runtime s u"
  by (auto simp: recoverIntentLocked_def Let_def split: prod.splits option.splits if_splits sum.splits
      dest!: secrets_runtime(1) [where s = s] recover_runtime(1) [where s = s] recover_runtime(2) [where s = s]
      clear_intent_runtime [where s = s] persist_runtime [where s = s])

lemma load_runtime: "load U s = (s', None) \<Longrightarrow> same_runtime s s'"
  by (auto simp: load_def Let_def split: sum.splits prod.splits option.splits dest!: recoverIntent_runtime [where s = s])
    (simp add: same_runtime_def view_of_def)

lemma New_started:
  assumes "New U version w be clock = Inr s"
  shows "conn_ok s" "rec_ok s" "bounded s" "s_reconnectTimer (svc_recon s) = None"
    "s_attemptID (svc_conn s) = []" "st_State (svc_status s) = StateDisconnected"
proof -
  obtain w1 epoch where "load U (fresh_service version epoch w1 be clock) = (s, None)"
    using assms by (auto simp: New_def split: prod.splits sum.splits option.splits)
  then have r: "same_runtime (fresh_service version epoch w1 be clock) s"
    by (rule load_runtime)
  then show "rec_ok s" "bounded s" "s_reconnectTimer (svc_recon s) = None" "s_attemptID (svc_conn s) = []"
    by (simp_all add: same_runtime_def fresh_service_def zero_recon_def zero_conn_def no_timer_rec new_bus_bounded)
  from r show "conn_ok s"
    by (simp add: same_runtime_def conn_ok_def) (simp add: view_of_def view_ok_def fresh_service_def zero_conn_def zero_status_def)
  have "v_State (view_of s) = StateDisconnected"
    using r by (simp add: same_runtime_def) (simp add: view_of_def fresh_service_def zero_status_def)
  then show "st_State (svc_status s) = StateDisconnected"
    by (simp add: view_of_def)
qed

section \<open>Operations are runs of sections\<close>

text \<open>\<open>run_to U A T s t\<close>: from every system whose service is \<open>s\<close> and whose tokens include \<open>A\<close> and \<open>T\<close>,
  some schedule leads to the service \<open>t\<close>.\<close>

definition run_to :: "urlparser \<Rightarrow> (string \<times> Profile \<times> bool) set \<Rightarrow> timer set \<Rightarrow> service \<Rightarrow> service \<Rightarrow> bool" where
  "run_to U A T s t \<longleftrightarrow> (\<forall>y. sy_svc y = s \<longrightarrow> A \<subseteq> sy_attempts y \<longrightarrow> T \<subseteq> sy_timers y \<longrightarrow> (\<exists>cs y'. steps U y cs y' \<and> sy_svc y' = t))"

named_theorems run_step \<open>an operation that is a run of sections\<close>

lemma run_toD:
  assumes "run_to U A T s t" "sy_svc y = s" "A \<subseteq> sy_attempts y" "T \<subseteq> sy_timers y"
  obtains cs y' where "steps U y cs y'" "sy_svc y' = t" "A \<subseteq> sy_attempts y'" "T \<subseteq> sy_timers y'"
proof -
  obtain cs y' where y': "steps U y cs y'" "sy_svc y' = t"
    using assms unfolding run_to_def by blast
  moreover have "A \<subseteq> sy_attempts y'" "T \<subseteq> sy_timers y'"
    using steps_tokens [OF y'(1)] assms(3,4) by auto
  ultimately show ?thesis using that by blast
qed

lemma run_toI:
  assumes "\<And>y. sy_svc y = s \<Longrightarrow> A \<subseteq> sy_attempts y \<Longrightarrow> T \<subseteq> sy_timers y \<Longrightarrow> \<exists>cs y'. steps U y cs y' \<and> sy_svc y' = t"
  shows "run_to U A T s t"
  using assms unfolding run_to_def by blast

lemma run_refl [simp]: "run_to U A T s s"
  by (rule run_toI) (use steps_Nil in blast)

lemma run_trans: "run_to U A T s t \<Longrightarrow> run_to U A T t u \<Longrightarrow> run_to U A T s u"
proof (rule run_toI)
  fix y :: sys
  assume a: "run_to U A T s t" and b: "run_to U A T t u" and y: "sy_svc y = s" "A \<subseteq> sy_attempts y" "T \<subseteq> sy_timers y"
  obtain cs z where z: "steps U y cs z" "sy_svc z = t" "A \<subseteq> sy_attempts z" "T \<subseteq> sy_timers z"
    by (rule run_toD [OF a y])
  obtain ds z' where "steps U z ds z'" "sy_svc z' = u"
    by (rule run_toD [OF b z(2-4)])
  then show "\<exists>cs y'. steps U y cs y' \<and> sy_svc y' = u"
    using steps_trans [OF _ z(1)] by blast
qed

text \<open>What a section needs: a token for the end of an attempt and for a timer.\<close>

fun needs :: "sect \<Rightarrow> (string \<times> Profile \<times> bool) set \<times> timer set" where
  "needs (ConnectFailed profile aid allow ctx e) = ({(aid, profile, allow)}, {})"
| "needs (ConnectRollback profile aid allow e c) = ({(aid, profile, allow)}, {})"
| "needs (ConnectCommit profile aid allow ctx session) = ({(aid, profile, allow)}, {})"
| "needs (ScheduledBegin t) = ({}, {t})"
| "needs (ScheduledFailed t reason e) = ({}, {t})"
| "needs _ = ({}, {})"

lemma needs_enabled: "fst (needs c) \<subseteq> sy_attempts y \<Longrightarrow> snd (needs c) \<subseteq> sy_timers y \<Longrightarrow> enabled c y"
  by (cases c) auto

lemma run_exec: "run_to U A T s t \<Longrightarrow> fst (needs c) \<subseteq> A \<Longrightarrow> snd (needs c) \<subseteq> T \<Longrightarrow> run_to U A T s (exec U c t)"
proof (erule run_trans, rule run_toI)
  fix y :: sys
  assume n: "fst (needs c) \<subseteq> A" "snd (needs c) \<subseteq> T" and y: "sy_svc y = t" "A \<subseteq> sy_attempts y" "T \<subseteq> sy_timers y"
  then have "steps U y [c] (after_step U c y)"
    by (intro steps_one needs_enabled) auto
  with y show "\<exists>cs y'. steps U y cs y' \<and> sy_svc y' = exec U c t"
    by (metis after_step_fields(1))
qed

lemma run_exec': "exec U c t = u \<Longrightarrow> fst (needs c) \<subseteq> A \<Longrightarrow> snd (needs c) \<subseteq> T \<Longrightarrow> run_to U A T s t \<Longrightarrow> run_to U A T s u"
  using run_exec by blast

text \<open>An attempt that began leaves its token.\<close>

lemma run_begin:
  assumes "run_to U A T s t" and "connect_begin x allow t = (u, Proceed (aid, cid))" and "run_to U (insert (aid, x, allow) A) T u v"
  shows "run_to U A T s v"
proof (rule run_trans [OF assms(1)], rule run_toI)
  fix y :: sys assume y: "sy_svc y = t" "A \<subseteq> sy_attempts y" "T \<subseteq> sy_timers y"
  let ?y = "after_step U (ConnectBegin x allow) y"
  have z: "sy_svc ?y = u" "insert (aid, x, allow) A \<subseteq> sy_attempts ?y" "T \<subseteq> sy_timers ?y"
    using y assms(2) by auto
  have "steps U y [ConnectBegin x allow] ?y"
    by (rule steps_one) simp
  moreover obtain cs y' where "steps U ?y cs y'" "sy_svc y' = v"
    by (rule run_toD [OF assms(3) z])
  ultimately show "\<exists>cs y'. steps U y cs y' \<and> sy_svc y' = v"
    using steps_trans by blast
qed

lemmas run_section [run_step] =
  run_exec [where c = DisconnectEnd, simplified] run_exec [where c = "FailCleanup e" for e, simplified]
  run_exec [where c = StopProxyEnd, simplified] run_exec [where c = "StartProxyFailed e" for e, simplified]
  run_exec [where c = "StartProxyEnd v" for v, simplified] run_exec [where c = "ProxyError e" for e, simplified]
  run_exec [where c = "StartReconnect pid q" for pid q, simplified] run_exec [where c = StopReconnect, simplified]
  run_exec [where c = "LogLine l m" for l m, simplified] run_exec [where c = "RepairEnd r i pid f e" for r i pid f e, simplified]
  run_exec [where c = "CloseEnd e" for e, simplified] run_exec [where c = CloseBegin, simplified]
  run_exec [where c = "ReleaseIdle a" for a, simplified] run_exec [where c = ConnectHead, simplified]
  run_exec [where c = "FinishOp x e" for x e, simplified]

lemma run_outside: "u = t\<lparr>svc_backend := svc_backend u\<rparr> \<Longrightarrow> run_to U A T s t \<Longrightarrow> run_to U A T s u"
  using run_exec' [of U "Outside (svc_backend u)" t u] by simp

lemma run_calls [run_step]:
  "backend_connect t = (u, a) \<Longrightarrow> run_to U A T s t \<Longrightarrow> run_to U A T s u"
  "backend_disconnect t = (u, r) \<Longrightarrow> run_to U A T s t \<Longrightarrow> run_to U A T s u"
  "backend_close t = (u, r) \<Longrightarrow> run_to U A T s t \<Longrightarrow> run_to U A T s u"
  "backend_dialer t = (u, d) \<Longrightarrow> run_to U A T s t \<Longrightarrow> run_to U A T s u"
  "socks_listen t = (u, l) \<Longrightarrow> run_to U A T s t \<Longrightarrow> run_to U A T s u"
  "socks_close t = (u, r) \<Longrightarrow> run_to U A T s t \<Longrightarrow> run_to U A T s u"
  by (erule run_outside [rotated], auto simp: backend_connect_def backend_disconnect_def backend_close_def backend_dialer_def
      socks_listen_def socks_close_def split: list.splits)+

lemma run_pairs [run_step]:
  "secrets_get ref t = (u, pw) \<Longrightarrow> run_to U A T s t \<Longrightarrow> run_to U A T s u"
  "newID t = (u, i) \<Longrightarrow> run_to U A T s t \<Longrightarrow> run_to U A T s u"
  "disconnect_begin m t = (u, b) \<Longrightarrow> run_to U A T s t \<Longrightarrow> run_to U A T s u"
  "stopProxy_begin t = (u, p) \<Longrightarrow> run_to U A T s t \<Longrightarrow> run_to U A T s u"
  "startProxy_begin addr t = (u, p) \<Longrightarrow> run_to U A T s t \<Longrightarrow> run_to U A T s u"
  "connect_begin x al t = (u, g) \<Longrightarrow> run_to U A T s t \<Longrightarrow> run_to U A T s u"
  "event_section ev t = (u, f) \<Longrightarrow> run_to U A T s t \<Longrightarrow> run_to U A T s u"
  using run_exec' [of U "ReadSecret ref" t u] run_exec' [of U DrawID t u] run_exec' [of U "DisconnectBegin m" t u]
    run_exec' [of U StopProxyBegin t u] run_exec' [of U "StartProxyBegin addr" t u] run_exec' [of U "ConnectBegin x al" t u]
    run_exec' [of U "BackendEvent ev" t u]
  by auto

lemma run_profile_ops [run_step]:
  "CreateProfile U x pw t = (u, y1) \<Longrightarrow> run_to U A T s t \<Longrightarrow> run_to U A T s u"
  "updateProfile_locked U pid req t = (u, y2) \<Longrightarrow> run_to U A T s t \<Longrightarrow> run_to U A T s u"
  "UpdateRoutes_locked pid rreq t = (u, y3) \<Longrightarrow> run_to U A T s t \<Longrightarrow> run_to U A T s u"
  "DeleteProfile_end pid b t = (u, y4) \<Longrightarrow> run_to U A T s t \<Longrightarrow> run_to U A T s u"
  "persist (select_profile actor x t) = (u, y5) \<Longrightarrow> run_to U A T s t \<Longrightarrow> run_to U A T s u"
  "persist (set_mode mode pid t) = (u, y6) \<Longrightarrow> run_to U A T s t \<Longrightarrow> run_to U A T s u"
  "adopt_created actor x t = (u, y7) \<Longrightarrow> run_to U A T s t \<Longrightarrow> run_to U A T s u"
  "registerOperation op t = (u, y8) \<Longrightarrow> run_to U A T s t \<Longrightarrow> run_to U A T s u"
  using run_exec' [of U "DoCreate x pw" t u] run_exec' [of U "DoUpdate pid req" t u] run_exec' [of U "DoRoutes pid rreq" t u]
    run_exec' [of U "DoDelete pid b" t u] run_exec' [of U "SelectProfile actor x" t u] run_exec' [of U "SetMode mode pid" t u]
    run_exec' [of U "AdoptCreated actor x" t u] run_exec' [of U "RegisterOp op" t u]
  by auto

lemma run_newProfile [run_step]: "newProfile name t = (u, x) \<Longrightarrow> run_to U A T s t \<Longrightarrow> run_to U A T s u"
  by (auto simp: newProfile_def split: prod.splits sum.splits intro: run_pairs)

lemma run_stopProxy [run_step]: "stopProxy t = (u, r) \<Longrightarrow> run_to U A T s t \<Longrightarrow> run_to U A T s u"
  unfolding stopProxy_def
  by (auto split: prod.splits option.splits if_splits dest!: run_pairs(4) [where s = s] run_calls(6) [where s = s] intro: run_section)

lemma run_startProxy [run_step]: "startProxy a d t = (u, r) \<Longrightarrow> run_to U A T s t \<Longrightarrow> run_to U A T s u"
  unfolding startProxy_def Let_def
  by (auto split: prod.splits option.splits sum.splits if_splits dest!: run_pairs(5) [where s = s] run_calls(5,6) [where s = s]
      intro: run_section)

lemma run_disconnect [run_step]: "disconnect m t = (u, r) \<Longrightarrow> run_to U A T s t \<Longrightarrow> run_to U A T s u"
  unfolding disconnect_def
  by (auto split: prod.splits option.splits if_splits dest!: run_pairs(3) [where s = s] run_stopProxy [where s = s] run_calls(2) [where s = s]
      intro: run_section)

lemma run_Close [run_step]: "Close t = (u, r) \<Longrightarrow> run_to U A T s t \<Longrightarrow> run_to U A T s u"
  unfolding Close_def Let_def
  by (auto split: prod.splits if_splits dest!: run_stopProxy [where s = s] run_calls(3) [where s = s] intro: run_section)

lemma run_components [run_step]: "connect_components x session t = (u, r) \<Longrightarrow> run_to U A T s t \<Longrightarrow> run_to U A T s u"
  unfolding connect_components_def
  by (auto split: prod.splits sum.splits if_splits dest!: run_calls(4) [where s = s] intro: run_stopProxy run_startProxy)

lemma run_attempts:
  assumes "(aid, x, allow) \<in> A" and "run_to U A T s t"
  shows "connect_failed x aid ctx e t = (u, r) \<Longrightarrow> run_to U A T s u"
    and "run_to U A T s (connect_rollback x aid e c t)"
    and "connect_commit x aid allow ctx session t = (u', r') \<Longrightarrow> run_to U A T s u'"
  using assms run_exec' [of U "ConnectFailed x aid allow ctx e" t u] run_exec [of U A T s t "ConnectRollback x aid allow e c"]
    run_exec' [of U "ConnectCommit x aid allow ctx session" t u']
  by auto

lemma run_finish:
  assumes "(aid, x, allow) \<in> A" and "connect_finish x aid allow ctx a t = (u, r)" and "run_to U A T s t"
  shows "run_to U A T s u"
  using assms(2,3) unfolding connect_finish_def Let_def
  by (auto split: sum.splits prod.splits option.splits dest!: run_components [where s = s] run_calls(2) [where s = s]
      intro: run_section run_attempts(2) [OF assms(1)] run_attempts(1,3) [OF assms(1)])

lemma run_tail [run_step]: "connect_tail ctx x allow t = (u, r) \<Longrightarrow> run_to U A T s t \<Longrightarrow> run_to U A T s u"
proof -
  assume tail: "connect_tail ctx x allow t = (u, r)" and t: "run_to U A T s t"
  obtain v g where b: "connect_begin x allow t = (v, g)"
    by (meson surj_pair)
  show ?thesis
  proof (cases g)
    case (Return r')
    then show ?thesis
      using tail b t run_pairs(6) by (auto simp: connect_tail_def)
  next
    case (Proceed p)
    obtain w a where w: "backend_connect v = (w, a)"
      by (meson surj_pair)
    let ?A = "insert (fst p, x, allow) A"
    have "run_to U ?A T v u"
      using tail run_calls(1) [OF w run_refl, of U ?A T] run_finish [of "fst p" x allow ?A]
      by (auto simp: connect_tail_def b w Proceed case_prod_unfold)
    with t b Proceed show ?thesis
      by (metis run_begin prod.collapse)
  qed
qed

lemma run_loadSecret [run_step]: "loadProfileSecret x t = (u, pw) \<Longrightarrow> run_to U A T s t \<Longrightarrow> run_to U A T s u"
  unfolding loadProfileSecret_def
  by (auto split: prod.splits sum.splits if_splits dest!: run_pairs(1) [where s = s])

lemma run_prepared [run_step]: "connectPreparedProfile U ctx x pw allow t = (u, r) \<Longrightarrow> run_to U A T s t \<Longrightarrow> run_to U A T s u"
  unfolding connectPreparedProfile_def
  by (auto split: option.splits prod.splits sum.splits gate.splits if_splits dest!: run_loadSecret [where s = s] run_disconnect [where s = s]
      intro: run_tail)

lemma run_Connect [run_step]: "Connect U ctx pid t = (u, r) \<Longrightarrow> run_to U A T s t \<Longrightarrow> run_to U A T s u"
  unfolding Connect_def Let_def
  by (drule run_section(14)) (auto split: prod.splits sum.splits dest!: run_loadSecret [where s = s] intro: run_prepared)

lemma run_reconnect [run_step]: "reconnectProfile U ctx pid m t = (u, r) \<Longrightarrow> run_to U A T s t \<Longrightarrow> run_to U A T s u"
  unfolding reconnectProfile_def
  by (drule run_section(9)) (auto split: prod.splits option.splits dest!: run_disconnect [where s = s] intro: run_Connect)

lemma run_applyProxy [run_step]: "applyProxyProfile x t = (u, r) \<Longrightarrow> run_to U A T s t \<Longrightarrow> run_to U A T s u"
proof -
  assume p: "applyProxyProfile x t = (u, r)" and t: "run_to U A T s t"
  have stop: "run_to U A T s (fst (stopProxy v))" if "run_to U A T s v" for v
    using that run_stopProxy by (metis prod.collapse)
  from p t show ?thesis
    unfolding applyProxyProfile_def
    by (auto split: prod.splits sum.splits if_splits dest!: run_calls(4) [where s = s] intro: run_stopProxy run_startProxy run_section(6) stop)
qed

lemma run_event: "run_to U A T s t \<Longrightarrow> run_to U A T s (fst (handle_event ev t))"
  unfolding handle_event_def
  by (auto split: prod.splits followup.splits dest!: run_pairs(7) [where s = s] intro: run_section)

lemma run_repair: "run_to U A T s t \<Longrightarrow> run_to U A T s (runNetworkReconnect U ctx rid cid t)"
  unfolding runNetworkReconnect_def
  by (auto split: option.splits prod.splits sum.splits if_splits dest!: run_disconnect [where s = s] run_loadSecret [where s = s]
      run_prepared [where s = s] intro: run_section)

lemma run_scheduled: "tm \<in> T \<Longrightarrow> run_to U A T s t \<Longrightarrow> run_to U A T s (runScheduledReconnect U ctx tm t)"
proof -
  assume tm: "tm \<in> T" and t: "run_to U A T s t"
  have b: "run_to U A T s v" if "scheduled_begin tm t = (v, p)" for v p
    using run_exec [of U A T s t "ScheduledBegin tm"] t tm that by simp
  have f: "run_to U A T s (scheduled_failed tm m e v)" if "run_to U A T s v" for m e v
    using run_exec [of U A T s v "ScheduledFailed tm m e"] tm that by simp
  have d: "run_to U A T s w" if "disconnect m (log_add l n v) = (w, r)" "run_to U A T s v" for m l n v w r
    using run_disconnect that run_section(9) by blast
  show ?thesis
    unfolding runScheduledReconnect_def
    by (auto split: option.splits prod.splits sum.splits dest!: b d run_loadSecret [where s = s] run_prepared [where s = s]
        intro: f run_section(8))
qed

lemma run_monitor: "run_to U A T s t \<Longrightarrow> run_to U A T s (monitorProxy server pid e t)"
proof -
  assume t: "run_to U A T s t"
  have "run_to U A T s v" if "disconnect m (recordProxyError e t) = (v, r)" for m v r
    using run_disconnect that run_section(6) [OF t] by blast
  with t show ?thesis
    unfolding monitorProxy_def by (auto split: prod.splits option.splits intro: run_section(6))
qed

lemma run_UpdateRoutes: "UpdateRoutes U ctx pid req t = (u, r) \<Longrightarrow> run_to U A T s t \<Longrightarrow> run_to U A T s u"
  unfolding UpdateRoutes_def
  by (auto split: prod.splits sum.splits if_splits dest!: run_profile_ops(3) [where s = s] intro: run_reconnect)

lemma run_updateProfile: "updateProfile U ctx pid req b t = (u, r) \<Longrightarrow> run_to U A T s t \<Longrightarrow> run_to U A T s u"
  unfolding updateProfile_def
  by (auto split: prod.splits sum.splits option.splits if_splits dest!: run_profile_ops(2) [where s = s] run_applyProxy [where s = s]
      intro: run_reconnect)

lemma run_DeleteProfile: "DeleteProfile pid t = (u, r) \<Longrightarrow> run_to U A T s t \<Longrightarrow> run_to U A T s u"
  unfolding DeleteProfile_def
  by (auto split: prod.splits option.splits if_splits dest!: run_disconnect [where s = s] intro: run_profile_ops(4))

lemma run_ConnectFor: "ConnectFor U ctx actor pid t = (u, r) \<Longrightarrow> run_to U A T s t \<Longrightarrow> run_to U A T s u"
  unfolding ConnectFor_def
  by (auto split: prod.splits option.splits sum.splits dest!: run_profile_ops(5) [where s = s] run_Connect [where s = s]
      intro: run_section(13))

lemma run_CreateProfileFor: "CreateProfileFor U actor req t = (u, r) \<Longrightarrow> run_to U A T s t \<Longrightarrow> run_to U A T s u"
  unfolding CreateProfileFor_def Let_def
  by (auto split: prod.splits option.splits sum.splits if_splits dest!: run_newProfile [where s = s] run_profile_ops(1,7) [where s = s])

lemma run_newOperation: "newOperation actor kind pid t = (u, r) \<Longrightarrow> run_to U A T s t \<Longrightarrow> run_to U A T s u"
  unfolding newOperation_def
  by (auto split: prod.splits sum.splits dest!: run_pairs(2) [where s = s])

lemma run_SetControlMode: "SetControlMode U ctx actor req t = (u, r) \<Longrightarrow> run_to U A T s t \<Longrightarrow> run_to U A T s u"
  unfolding SetControlMode_def Let_def
  by (auto split: prod.splits option.splits sum.splits if_splits dest!: run_disconnect [where s = s] run_profile_ops(6) [where s = s]
      run_Connect [where s = s] intro: run_section(7))

section \<open>Commands\<close>

text \<open>The entry points of the daemon: client commands, the goroutines it starts, the end of the process.\<close>

datatype (plugins only: code) command =
    CmdConnect "error option" Actor string | CmdDisconnect Actor | CmdMode "error option" Actor ControlModeRequest
  | CmdCreate Actor ProfileCreateRequest | CmdUpdate "error option" Actor string ProfileUpdateRequest
  | CmdUpdateActive "error option" Actor string ProfileUpdateRequest | CmdDelete Actor string
  | CmdRoutes "error option" string RouteUpdateRequest | CmdApply "error option" string ProfileUpdateRequest | CmdSwitch string
  | CmdStart Actor string string | CmdEvent Event | CmdTimer "error option" timer | CmdRepair "error option" u64 string
  | CmdProxyFailed "nat \<times> string" string error | CmdClose

fun perform :: "urlparser \<Rightarrow> command \<Rightarrow> service \<Rightarrow> service" where
  "perform U (CmdConnect ctx actor pid) s = fst (ConnectFor U ctx actor pid s)"
| "perform U (CmdDisconnect actor) s = fst (DisconnectFor actor s)"
| "perform U (CmdMode ctx actor req) s = fst (SetControlMode U ctx actor req s)"
| "perform U (CmdCreate actor req) s = fst (CreateProfileFor U actor req s)"
| "perform U (CmdUpdate ctx actor pid req) s = fst (UpdateProfileFor U ctx actor pid req s)"
| "perform U (CmdUpdateActive ctx actor pid req) s = (case UpdateActiveProfileFor U ctx actor pid req s of
      (s1, Inl e) \<Rightarrow> s1
    | (s1, Inr operation) \<Rightarrow> run_operation operation (reconnectProfile U ctx pid (''reapplying updated profile '' @ pid)) s1)"
| "perform U (CmdDelete actor pid) s = fst (DeleteProfileFor actor pid s)"
| "perform U (CmdRoutes ctx pid req) s = fst (UpdateRoutes U ctx pid req s)"
| "perform U (CmdApply ctx pid req) s = fst (updateProfile U ctx pid req True s)"
| "perform U (CmdSwitch pid) s = fst (SwitchProfile pid s)"
| "perform U (CmdStart actor kind pid) s = fst (StartOperation actor kind pid s)"
| "perform U (CmdEvent event) s = fst (handle_event event s)"
| "perform U (CmdTimer ctx t) s = runScheduledReconnect U ctx t s"
| "perform U (CmdRepair ctx repairID cid) s = runNetworkReconnect U ctx repairID cid s"
| "perform U (CmdProxyFailed server pid e) s = monitorProxy server pid e s"
| "perform U CmdClose s = fst (Close s)"

fun command_timers :: "command \<Rightarrow> timer set" where
  "command_timers (CmdTimer ctx t) = {t}"
| "command_timers _ = {}"

lemma run_fst: "(\<And>u r. f t = (u, r) \<Longrightarrow> run_to U A T s t \<Longrightarrow> run_to U A T s u) \<Longrightarrow> run_to U A T s t \<Longrightarrow> run_to U A T s (fst (f t))"
  by (metis prod.collapse)

lemma run_guarded: "run_to U A T s t \<Longrightarrow> run_to U A T s (fst (DisconnectFor actor t))"
  "run_to U A T s t \<Longrightarrow> run_to U A T s (fst (UpdateProfileFor U ctx actor pid req t))"
  "run_to U A T s t \<Longrightarrow> run_to U A T s (fst (DeleteProfileFor actor pid t))"
  "run_to U A T s t \<Longrightarrow> run_to U A T s (fst (StartOperation actor kind pid t))"
  "run_to U A T s t \<Longrightarrow> run_to U A T s (fst (SwitchProfile pid t))"
  by (auto simp: DisconnectFor_def Disconnect_def UpdateProfileFor_def DeleteProfileFor_def StartOperation_def
      split: option.splits sum.splits prod.splits dest!: run_newOperation [where s = s] run_profile_ops(8) [where s = s]
      intro: run_fst [OF run_disconnect] run_fst [OF run_DeleteProfile] run_updateProfile)
    (use run_exec [of U A T s t "DoSwitch pid"] in simp)

lemma run_update_active: "UpdateActiveProfileFor U ctx actor pid req t = (u, r) \<Longrightarrow> run_to U A T s t \<Longrightarrow> run_to U A T s u"
  unfolding UpdateActiveProfileFor_def
  by (auto split: option.splits sum.splits prod.splits if_splits dest!: run_newOperation [where s = s] run_updateProfile [where s = s]
      run_profile_ops(8) [where s = s])


section \<open>Every schedule of a started daemon\<close>

lemma started_ok:
  assumes "New U version w be clock = Inr s"
  shows "view_ok (view_of s)" "timers_ok (sys_of s)" "bounded s" "attempted A (view_of s)"
  using New_started [OF assms] by (simp_all add: conn_ok_def timers_ok_def sys_of_def attempted_def view_of_def)

text \<open>A daemon started on an empty state file, and a short history of it: an attempt begins, the backend answers, a
  status read, the attempt commits, the client disconnects.\<close>

definition sample_world :: world where
  "sample_world = \<lparr>w_path = [], w_disk = NoFile, w_saves = [], w_secrets = [], w_secretCalls = [],
     w_rand = [Inr ''epoch'', Inr ''a1'', Inr ''c1''], w_trace = []\<rparr>"

definition started :: service where
  "started = (case New sample_url [] sample_world sample_backend 0 of Inr s \<Rightarrow> s | Inl e \<Rightarrow> sample_service)"

definition sample_session :: SessionInfo where
  "sample_session = \<lparr>si_ConnectionID = ''c1'', si_ServerAddress = [], si_LocalAddress = [], si_RemoteAddress = [], si_Hostname = [],
     si_TUNName = [], si_VPNAddress = [], si_VPNMask = [], si_DNS = [], si_MTU = 1399, si_SplitInclude = [], si_SplitExclude = [],
     si_TLSCipher = [], si_DTLSCipher = [], si_Underlay = None\<rparr>"

lemma started_eq: "New sample_url [] sample_world sample_backend 0 = Inr started"
proof -
  have "\<exists>s. New sample_url [] sample_world sample_backend 0 = Inr s"
    by (simp add: New_def world_newID_def sample_world_def load_def fresh_service_def Load_def check_data_def recoverIntentLocked_def Let_def)
  then show ?thesis by (auto simp: started_def)
qed

lemma started_fields: "svc_world started = sample_world\<lparr>w_rand := [Inr ''a1'', Inr ''c1'']\<rparr>" "svc_conn started = zero_conn"
  "st_State (svc_status started) = StateDisconnected"
  by (simp_all add: started_def New_def world_newID_def sample_world_def load_def fresh_service_def Load_def check_data_def
      recoverIntentLocked_def zero_status_def Let_def healthy_def)

definition sample_schedule :: "sect list" where
  "sample_schedule = [ConnectBegin (sample_profile ''i'') False, ReadStatus,
     ConnectCommit (sample_profile ''i'') ''a1'' False None sample_session]"

definition sample_sys :: sys where
  "sample_sys = foldl (\<lambda>y c. after_step sample_url c y) (sys_of started) sample_schedule"

lemma sample_begin: "snd (connect_begin (sample_profile ''i'') False started) = Proceed (''a1'', ''c1'')"
  by (simp add: connect_begin_def connect_gate_def newID_def world_newID_def started_fields sample_world_def Let_def)

fun runnable :: "urlparser \<Rightarrow> sys \<Rightarrow> sect list \<Rightarrow> bool" where
  "runnable U y [] = True"
| "runnable U y (c # cs) = (enabled c y \<and> runnable U (after_step U c y) cs)"

lemma runnable_steps: "runnable U y cs \<Longrightarrow> steps U y cs (foldl (\<lambda>y c. after_step U c y) y cs)"
proof (induction cs arbitrary: y)
  case (Cons c cs)
  then show ?case
    using steps_trans [OF Cons.IH steps_one] by fastforce
qed auto

lemma sample_steps: "steps sample_url (sys_of started) sample_schedule sample_sys"
  unfolding sample_sys_def by (rule runnable_steps) (simp add: sample_schedule_def sys_of_def sample_begin)

text \<open>C2: Whatever the order of critical sections since the daemon started, the published status is coherent with the
  supervisor: it names the current attempt; Connecting has an attempt that can be canceled; Connected has no attempt
  pending, a session, and names the connected profile, for which an attempt has begun; routes are reported only with a
  session; an enabled proxy has its listener at the reported address.\<close>

theorem supervisor_coherent:
  assumes "New U version w be clock = Inr s" and "steps U (sys_of s) cs y"
  shows "let st = svc_status (sy_svc y); c = svc_conn (sy_svc y) in
      st_AttemptID st = s_attemptID c
    \<and> (st_State st = StateConnecting \<longrightarrow> s_attemptCancel c)
    \<and> (st_State st = StateConnected \<longrightarrow> \<not> s_attemptCancel c \<and> s_attemptID c = [] \<and> st_Session st \<noteq> None
        \<and> st_ConnectedProfileID st = s_connectedID c \<and> (\<exists>aid x allow. (aid, x, allow) \<in> sy_attempts y \<and> prof_ID x = s_connectedID c))
    \<and> (st_Session st = None \<longrightarrow> st_EffectiveRoutes st = [])
    \<and> (st_SOCKS5Enabled st \<longrightarrow> map_option snd (s_proxyServer c) = Some (st_SOCKS5Listen st))"
proof -
  have "view_ok (view_of (sy_svc y))"
    using coherent.kept_steps [OF assms(2)] started_ok(1) [OF assms(1)] by (simp add: sys_of_def list_all_iff)
  moreover have "attempted (sy_attempts y) (view_of (sy_svc y))"
    using provenance.kept_steps [OF assms(2)] started_ok(4) [OF assms(1)] by (simp add: sys_of_def list_all_iff)
  ultimately show ?thesis
    by (auto simp: view_ok_def view_of_def attempted_def Let_def)
qed

lemma sample_connected: "st_State (svc_status (sy_svc sample_sys)) = StateConnected"
proof -
  let ?s = "fst (Service_Status (fst (connect_begin (sample_profile ''i'') False started)))"
  have a: "v_attempt (view_of ?s) = ''a1''"
    using read_status_view [of "fst (connect_begin (sample_profile ''i'') False started)"]
    by (auto simp: connect_begin_view sample_begin)
  have "s_canceled (svc_conn ?s) = []"
    by (simp add: connect_begin_def connect_gate_def newID_def world_newID_def started_fields sample_world_def zero_conn_def Let_def
        start_attempt_def set_state_def set_currentID_def touch_def clear_traffic_def emit_status_def Service_Status_def
        refreshConnectedStatusLocked_def split: option.split)
  with a have "v_State (view_of (sy_svc sample_sys)) = StateConnected"
    by (simp add: sample_sys_def sample_schedule_def sys_of_def connect_commit_view attempt_err_def view_attempt)
  then show ?thesis by (simp add: view_of_def)
qed

theorem supervisor_coherent_witness:
  "st_State (svc_status (sy_svc sample_sys)) = StateConnected \<and> st_Session (svc_status (sy_svc sample_sys)) \<noteq> None
   \<and> s_attemptID (svc_conn (sy_svc sample_sys)) = []"
  using supervisor_coherent [OF started_eq sample_steps] sample_connected by (simp add: Let_def)

text \<open>C3: A completed disconnect is final: whatever sections run after it, late answers of the backend to earlier
  attempts and timers included, the daemon does not become Connected unless a new attempt begins. Attempt identifiers are
  not empty.\<close>

theorem disconnect_is_final:
  assumes "steps U (after_step U DisconnectEnd y) cs y'" and "list_all (\<lambda>c. \<not> is_begin c) cs"
    and "\<forall>(aid, x, allow) \<in> sy_attempts y. aid \<noteq> []"
  shows "st_State (svc_status (sy_svc y')) \<noteq> StateConnected"
proof -
  have "idle_view (sy_attempts (after_step U DisconnectEnd y)) (view_of (sy_svc (after_step U DisconnectEnd y)))"
    using assms(3) by (auto simp: idle_view_def)
  then have "idle_view (sy_attempts y') (view_of (sy_svc y'))"
    by (rule idle.kept_steps [OF assms(1,2)])
  then show ?thesis
    by (simp add: idle_view_def view_of_def)
qed

theorem disconnect_is_final_witness:
  "st_State (svc_status (sy_svc (after_step sample_url (ConnectCommit (sample_profile ''i'') ''a1'' False None sample_session)
      (after_step sample_url DisconnectEnd sample_sys)))) \<noteq> StateConnected"
proof (rule disconnect_is_final)
  show "steps sample_url (after_step sample_url DisconnectEnd sample_sys) [ConnectCommit (sample_profile ''i'') ''a1'' False None sample_session]
      (after_step sample_url (ConnectCommit (sample_profile ''i'') ''a1'' False None sample_session) (after_step sample_url DisconnectEnd sample_sys))"
    by (rule steps_one) (simp add: sample_sys_def sample_schedule_def sys_of_def sample_begin)
  show "list_all (\<lambda>c. \<not> is_begin c) [ConnectCommit (sample_profile ''i'') ''a1'' False None sample_session]"
    by simp
  show "\<forall>(aid, x, allow) \<in> sy_attempts sample_sys. aid \<noteq> []"
    by (simp add: sample_sys_def sample_schedule_def sys_of_def sample_begin)
qed

text \<open>C27: The daemon's memory for events, logs, connection history and slow watchers is bounded in every schedule, and
  every recorded error is one line of at most 512 bytes.\<close>

theorem bus_stays_bounded:
  assumes "New U version w be clock = Inr s" and "steps U (sys_of s) cs y"
  shows "bus_bounded (svc_bus (sy_svc y))"
  using bus_bounds.kept_steps [OF assms(2)] started_ok(3) [OF assms(1)] by (simp add: sys_of_def list_all_iff)

theorem bus_stays_bounded_witness: "bus_bounded (svc_bus (sy_svc sample_sys))"
  by (rule bus_stays_bounded [OF started_eq sample_steps])

section \<open>Reconnect timers\<close>

text \<open>C25: In every schedule that starts without a pending timer, an armed timer carries one of the three allowed attempts,
  and the pending one is what the reconnect fields announce to clients.\<close>

theorem reconnects_bounded:
  assumes "s_reconnectTimer (svc_recon s) = None" and "steps U (sys_of s) cs y"
  shows "(\<forall>t \<in> sy_timers y. 1 \<le> tm_Attempt t \<and> tm_Attempt t \<le> 3)
    \<and> (\<forall>t. s_reconnectTimer (svc_recon (sy_svc y)) = Some t \<longrightarrow>
        reconnectSnapshotLocked (sy_svc y) = \<lparr>rsn_Active = True, rsn_ProfileID = tm_ProfileID t, rsn_Attempt = tm_Attempt t,
          rsn_NextRetryAt = Some (tm_Due t), rsn_LifecycleID = s_reconnectLifecycleID (svc_recon (sy_svc y))\<rparr>)"
proof -
  have "timers_ok (sys_of s)"
    using assms(1) by (simp add: timers_ok_def sys_of_def no_timer_rec)
  then have "timers_ok y"
    using timers.kept_steps [OF assms(2)] by (simp add: list_all_iff)
  then show ?thesis
    by (auto simp: timers_ok_def recon_ok_def timer_bound_def autoReconnectMaxTries_def reconnectSnapshotLocked_def Let_def)
qed

definition sample_waiting :: service where
  "sample_waiting = sample_service\<lparr>svc_p := sample_pstate\<lparr>s_profiles := [(sample_profile ''i'')\<lparr>prof_AutoReconnect := Some True\<rparr>],
     s_currentID := ''i''\<rparr>\<rparr>"

lemma sample_wanted: "reconnect_wanted ''i'' 0 sample_waiting"
  by (simp add: reconnect_wanted_def profileAutoReconnect_def sample_waiting_def sample_service_def fresh_service_def zero_conn_def
      sample_profile_def NewProfile_def autoReconnectEnabledLocked_def)

theorem reconnects_bounded_witness:
  "s_reconnectTimer (svc_recon (startReconnectLocked ''i'' 0 1 sample_waiting)) \<noteq> None
   \<and> rsn_Attempt (reconnectSnapshotLocked (startReconnectLocked ''i'' 0 1 sample_waiting)) = 1"
proof -
  let ?y = "after_step sample_url (StartReconnect ''i'' 0) (sys_of sample_waiting)"
  have r: "s_reconnectTimer (svc_recon sample_waiting) = None"
    by (simp add: sample_waiting_def sample_service_def fresh_service_def zero_recon_def)
  have "steps sample_url (sys_of sample_waiting) [StartReconnect ''i'' 0] ?y"
    by (rule steps_one) simp
  from reconnects_bounded [OF r this]
  have p: "\<forall>t. s_reconnectTimer (svc_recon (startReconnectLocked ''i'' 0 1 sample_waiting)) = Some t \<longrightarrow>
      rsn_Attempt (reconnectSnapshotLocked (startReconnectLocked ''i'' 0 1 sample_waiting)) = tm_Attempt t"
    by (simp add: sys_of_def)
  have "\<exists>t. s_reconnectTimer (svc_recon (startReconnectLocked ''i'' 0 1 sample_waiting)) = Some t \<and> tm_Attempt t = 1"
    by (simp add: startReconnectLocked_def sample_wanted Let_def)
  with p show ?thesis by auto
qed

lemma delay_loop_closed: "delay_loop n d = min autoReconnectMaxDelay (d * 2 ^ n)"
proof (induction n arbitrary: d)
  case (Suc n)
  have "m \<le> d * 2 \<Longrightarrow> m \<le> d * (2 * 2 ^ n)" for m :: nat
    by (erule order_trans) simp
  with Suc show ?case by (simp add: mult.assoc min_absorb1)
qed simp

text \<open>The reconnect delay is the minimum delay doubled per attempt, capped at the maximum, for every attempt number.\<close>

theorem reconnectDelay_closed:
  "reconnectDelay attempt = min autoReconnectMaxDelay (autoReconnectMinDelay * 2 ^ nat (attempt - 1))"
  by (simp add: reconnectDelay_def delay_loop_closed)

text \<open>C26: A failed scheduled attempt either arms the next attempt, after its delay, or gives up: with a retryable error
  below the third attempt, while the reconnect is still wanted, there is a next timer; with another error or after the third attempt
  the daemon is in state Error with no timer pending. So a lost connection causes at most three attempts.\<close>

theorem reconnect_gives_up:
  "let s' = scheduled_failed t reason e s in
     if IsRetryable e \<and> tm_Attempt t < 3
     then reconnect_wanted (tm_ProfileID t) (tm_ManualSeq t) s \<longrightarrow> 0 \<le> tm_Attempt t \<longrightarrow>
       (\<exists>next. s_reconnectTimer (svc_recon s') = Some next \<and> tm_Attempt next = tm_Attempt t + 1
          \<and> tm_ProfileID next = tm_ProfileID t \<and> tm_Due next = svc_clock s + reconnectDelay (tm_Attempt t + 1))
     else s_reconnectTimer (svc_recon s') = None \<and> st_State (svc_status s') = StateError
       \<and> st_LastError (svc_status s') = sanitizeDiagnostic (err_msg e)"
proof -
  have w: "reconnect_wanted pid q (record_connection x (log_add l m u)) = reconnect_wanted pid q u" for pid q x l m u
    by (simp add: reconnect_wanted_def profileAutoReconnect_def autoReconnectEnabledLocked_def split: option.split)
  show ?thesis
    by (simp add: scheduled_failed_def retryReconnectLocked_def autoReconnectMaxTries_def startReconnectLocked_def w Let_def)
      (simp add: emit_status_def stopReconnectLocked_def release_owner_def touch_def set_lastError_def set_state_def)
qed

theorem reconnect_gives_up_witness:
  "\<exists>t. s_reconnectTimer (svc_recon (scheduled_failed \<lparr>tm_ProfileID = ''i'', tm_ManualSeq = 0, tm_Attempt = 1, tm_ReconnectID = 1,
      tm_Due = 0\<rparr> ''connect_failed'' (ConnectError ''auth'' True (Errors ''x'')) sample_waiting)) = Some t \<and> tm_Attempt t = 2"
proof -
  show ?thesis
    using sample_wanted reconnect_gives_up [of "\<lparr>tm_ProfileID = ''i'', tm_ManualSeq = 0, tm_Attempt = 1, tm_ReconnectID = 1, tm_Due = 0\<rparr>"
        "''connect_failed''" "ConnectError ''auth'' True (Errors ''x'')" sample_waiting]
    by (auto simp: Let_def)
qed

text \<open>A manual disconnect disarms the pending reconnect: when its timer fires all the same, even before the backend
  has been disconnected, it changes nothing. The reconnect identifier wraps at 64 bits and is never the one the timer captured.\<close>

theorem disarmed_timer_is_inert:
  assumes "s_reconnectTimer (svc_recon s) = Some t" and "recon_ok (svc_recon s)"
  shows "runScheduledReconnect U ctx t (fst (disconnect_begin True s)) = fst (disconnect_begin True s)"
proof -
  have "s_reconnectID (svc_recon (fst (disconnect_begin True s))) = tm_ReconnectID t + 1"
    using assms by (simp add: disconnect_begin_def Let_def recon_ok_def) (simp add: stopReconnectLocked_def)
  then show ?thesis
    by (simp add: runScheduledReconnect_def scheduled_begin_def Let_def)
qed

theorem disarmed_timer_is_inert_witness:
  "\<exists>t. s_reconnectTimer (svc_recon (startReconnectLocked ''i'' 0 1 sample_waiting)) = Some t
    \<and> runScheduledReconnect sample_url None t (fst (disconnect_begin True (startReconnectLocked ''i'' 0 1 sample_waiting)))
      = fst (disconnect_begin True (startReconnectLocked ''i'' 0 1 sample_waiting))"
proof -
  obtain t where t: "s_reconnectTimer (svc_recon (startReconnectLocked ''i'' 0 1 sample_waiting)) = Some t"
    by (simp add: startReconnectLocked_def sample_wanted Let_def)
  have "recon_ok (svc_recon (startReconnectLocked ''i'' 0 1 sample_waiting))"
    by (rule startReconnect_rec) (simp_all add: autoReconnectMaxTries_def sample_waiting_def sample_service_def fresh_service_def
        zero_recon_def no_timer_rec)
  with t disarmed_timer_is_inert show ?thesis by blast
qed

end
