(* ===== verification/Attempts.thy ===== *)
theory Attempts
  imports Schedules
begin

text \<open>
  What one connection attempt comes to, when nothing else runs between its sections, and what the loss of the connection
  leaves behind.
\<close>

section \<open>The proxy leaves the attempt alone\<close>

definition same_attempt :: "service \<Rightarrow> service \<Rightarrow> bool" where
  "same_attempt s t \<longleftrightarrow> s_attemptID (svc_conn t) = s_attemptID (svc_conn s) \<and> s_canceled (svc_conn t) = s_canceled (svc_conn s)
     \<and> st_State (svc_status t) = st_State (svc_status s)"

lemma same_attempt_refl [simp]: "same_attempt s s"
  by (simp add: same_attempt_def)

lemma conn_frame [simp]:
  "svc_conn (touch s) = svc_conn s" "svc_conn (set_lastError m s) = svc_conn s" "svc_conn (emit_status e m s) = svc_conn s"
  "st_State (svc_status (touch s)) = st_State (svc_status s)" "st_State (svc_status (set_lastError m s)) = st_State (svc_status s)"
  "svc_status (emit_status e m s) = svc_status s"
  by (simp_all add: touch_def set_lastError_def emit_status_def)

lemma proxy_attempt:
  "same_attempt s (fst (stopProxy_begin t)) = same_attempt s t" "same_attempt s (stopProxy_end t) = same_attempt s t"
  "same_attempt s (fst (startProxy_begin addr t)) = same_attempt s t" "same_attempt s (startProxy_failed e t) = same_attempt s t"
  "same_attempt s (startProxy_end server t) = same_attempt s t"
  by (simp_all add: stopProxy_begin_def stopProxy_end_def startProxy_begin_def startProxy_failed_def startProxy_end_def set_proxy_def
      same_attempt_def Let_def)

lemma call_attempt:
  "socks_close t = (u, r) \<Longrightarrow> same_attempt s u = same_attempt s t" "socks_listen t = (u, l) \<Longrightarrow> same_attempt s u = same_attempt s t"
  "backend_dialer t = (u, d) \<Longrightarrow> same_attempt s u = same_attempt s t" "backend_disconnect t = (u, r) \<Longrightarrow> same_attempt s u = same_attempt s t"
  "backend_connect t = (u, a) \<Longrightarrow> same_attempt s u = same_attempt s t"
  by (auto simp: socks_close_def socks_listen_def backend_dialer_def backend_disconnect_def backend_connect_def same_attempt_def
      split: list.splits)

lemma begin_attempt: "stopProxy_begin t = (u, p) \<Longrightarrow> same_attempt s u = same_attempt s t"
  "startProxy_begin addr t = (u, p) \<Longrightarrow> same_attempt s u = same_attempt s t"
  using proxy_attempt(1,3) by (metis fst_conv)+

lemma stopProxy_attempt: "stopProxy t = (u, r) \<Longrightarrow> same_attempt s u = same_attempt s t"
  by (auto simp: stopProxy_def proxy_attempt call_attempt begin_attempt split: prod.splits option.splits if_splits)

lemma startProxy_attempt: "startProxy a d t = (u, r) \<Longrightarrow> same_attempt s u = same_attempt s t"
  by (auto simp: startProxy_def Let_def proxy_attempt call_attempt begin_attempt split: prod.splits option.splits sum.splits if_splits)

lemma components_attempt: "connect_components x session s = (t, r) \<Longrightarrow> same_attempt s t"
  using stopProxy_attempt [of s t r s] by (auto simp: connect_components_def startProxy_attempt call_attempt split: if_splits prod.splits sum.splits)

section \<open>One attempt\<close>

text \<open>C10: An attempt whose context stays live and that nothing supersedes is all or nothing: it returns no error exactly when the
  daemon is Connected to the profile, with the backend's session and the routes planned for it; every failure (the backend's, an
  empty session, the tunnel dialer, the proxy, the cleanup after them) ends the attempt outside Connected.\<close>

theorem attempt_all_or_nothing:
  assumes "s_attemptID (svc_conn s) = aid" and "aid \<notin> set (s_canceled (svc_conn s))"
    and "connect_finish x aid allow None answer s = (s', r)"
  shows "case r of
      None \<Rightarrow> st_State (svc_status s') = StateConnected \<and> s_connectedID (svc_conn s') = prof_ID x \<and> s_attemptID (svc_conn s') = []
        \<and> (\<exists>session. answer = Inr (Some session) \<and> st_Session (svc_status s') = Some session
             \<and> st_EffectiveRoutes (svc_status s') = Plan (si_SplitInclude session) (si_SplitExclude session) x)
    | Some e \<Rightarrow> st_State (svc_status s') \<in> {StateError, StateDisconnected} \<and> s_attemptID (svc_conn s') = []
        \<and> \<not> s_attemptCancel (svc_conn s')"
proof (cases answer)
  case (Inl e)
  then have "s' = fst (connect_failed x aid None e s)" "\<exists>e. r = Some e"
    using assms(3) by (auto simp: connect_finish_def split: prod.splits)
  moreover have "v_attempt (view_of s) = aid" using assms(1) by (simp add: view_attempt)
  ultimately show ?thesis
    using connect_failed_view [of x aid None e s] assms(1) by (auto simp: view_of_def split: if_splits)
next
  case (Inr session)
  obtain t q where t: "connect_components x session s = (t, q)" by (meson surj_pair)
  then have keep: "s_attemptID (svc_conn t) = aid" "aid \<notin> set (s_canceled (svc_conn t))"
    using components_attempt [OF t] assms(1,2) by (simp_all add: same_attempt_def)
  show ?thesis
  proof (cases q)
    case None
    then obtain x' where session: "session = Some x'"
      using t by (cases session) (auto simp: connect_components_def)
    have "connect_commit x aid allow None x' t = (s', r)"
      using assms(3) t by (simp add: connect_finish_def Inr session None)
    moreover have "snd (connect_commit x aid allow None x' t) = None"
      using keep by (simp add: connect_commit_def attempt_err_def Let_def)
    ultimately have "s' = fst (connect_commit x aid allow None x' t)" "r = None"
      by simp_all
    then show ?thesis
      using connect_commit_view [of x aid allow None x' t] keep
      by (auto simp: view_of_def attempt_err_def Inr session)
  next
    case (Some e)
    obtain u c where u: "backend_disconnect t = (u, c)" by (meson surj_pair)
    then have "s_attemptID (svc_conn u) = aid"
      using call_attempt(4) [of t u c t] keep by (auto simp: same_attempt_def)
    moreover have "view_of s' \<in> {view_of (connect_rollback x aid e c u), (view_of (connect_rollback x aid e c u))\<lparr>v_State := StateError\<rparr>}"
      and "\<exists>e. r = Some e"
      using assms(3) Some by (auto simp: connect_finish_def Inr t u Let_def split: option.splits)
    ultimately show ?thesis
      by (auto simp: connect_rollback_view) (auto simp: view_of_def)
  qed
qed

theorem attempt_all_or_nothing_witness:
  "\<exists>s'. connect_finish (sample_profile ''i'') [] False None (Inl (Errors ''refused'')) started = (s', Some (Errors ''refused''))
    \<and> st_State (svc_status s') \<in> {StateError, StateDisconnected}"
proof -
  obtain s' r where f: "connect_finish (sample_profile ''i'') [] False None (Inl (Errors ''refused'')) started = (s', r)"
    by (meson surj_pair)
  have "r = Some (Errors ''refused'')"
    using f by (auto simp: connect_finish_def connect_failed_def started_fields zero_conn_def Let_def split: prod.splits)
  with f attempt_all_or_nothing [OF _ _ f] show ?thesis
    by (auto simp: started_fields zero_conn_def)
qed

text \<open>C32: When the caller's context has ended but the backend connected all the same (the 90 s limit of a network repair), the
  attempt returns \<open>context.Canceled\<close> and undoes nothing: the session is not rolled back, and the attempt stays current with nobody
  left to finish it.\<close>

theorem expired_context_abandons_attempt:
  assumes "s_attemptID (svc_conn s) = aid" and "connect_components x (Some session) s = (t, None)"
  shows "connect_finish x aid allow (Some DeadlineExceeded) (Inr (Some session)) s = (t, Some Canceled)
    \<and> s_attemptID (svc_conn t) = aid \<and> st_State (svc_status t) = st_State (svc_status s)"
  using assms components_attempt [OF assms(2)]
  by (simp add: connect_finish_def connect_commit_def attempt_err_def same_attempt_def)

definition sample_attempting :: service where
  "sample_attempting = fst (connect_begin (sample_profile ''i'') True started)"

lemma sample_attempting_fields: "s_attemptID (svc_conn sample_attempting) = ''a1''" "s_proxyServer (svc_conn sample_attempting) = None"
  "\<not> st_SOCKS5Enabled (svc_status sample_attempting)" "st_SOCKS5Listen (svc_status sample_attempting) = []"
proof -
  have p: "snd (connect_begin (sample_profile ''i'') True started) = Proceed (''a1'', ''c1'')"
    by (simp add: connect_begin_def connect_gate_def newID_def world_newID_def started_fields sample_world_def Let_def)
  have v: "view_of started = view_of (fresh_service [] [] sample_world sample_backend 0)"
    by (simp add: started_def New_def world_newID_def sample_world_def load_def fresh_service_def Load_def check_data_def
        recoverIntentLocked_def zero_status_def Let_def healthy_def view_of_def)
  have "view_of sample_attempting = (view_of started)\<lparr>v_attempt := ''a1'', v_cancel := True, v_AttemptID := ''a1'', v_ConnectedProfileID := [],
      v_State := StateReconnecting\<rparr>"
    by (simp add: sample_attempting_def connect_begin_view p)
  then show "s_attemptID (svc_conn sample_attempting) = ''a1''" "s_proxyServer (svc_conn sample_attempting) = None"
    "\<not> st_SOCKS5Enabled (svc_status sample_attempting)" "st_SOCKS5Listen (svc_status sample_attempting) = []"
    by (simp_all add: v) (simp_all add: view_of_def fresh_service_def zero_conn_def zero_status_def)
qed

theorem expired_context_abandons_attempt_witness:
  "connect_finish (sample_profile ''i'') ''a1'' True (Some DeadlineExceeded) (Inr (Some sample_session)) sample_attempting
    = (sample_attempting, Some Canceled) \<and> s_attemptID (svc_conn sample_attempting) = ''a1''"
proof -
  have "connect_components (sample_profile ''i'') (Some sample_session) sample_attempting = (sample_attempting, None)"
    by (simp add: connect_components_def stopProxy_def stopProxy_begin_def sample_attempting_fields Let_def sample_profile_def NewProfile_def)
  from expired_context_abandons_attempt [OF sample_attempting_fields(1) this] show ?thesis by simp
qed

section \<open>A lost connection\<close>

text \<open>C31: When the backend reports the loss of the current connection, the status no longer shows a session, routes or a proxy, and
  is not Connected; but the SOCKS5 listener is not closed: the service still holds it, while the status says there is none.\<close>

theorem lost_connection_keeps_listener:
  assumes "\<not> stale_event event s"
  shows "let s' = fst (lost_event event s) in
      st_State (svc_status s') \<noteq> StateConnected \<and> st_Session (svc_status s') = None \<and> st_EffectiveRoutes (svc_status s') = []
    \<and> s_connectedID (svc_conn s') = [] \<and> \<not> st_SOCKS5Enabled (svc_status s') \<and> st_SOCKS5Listen (svc_status s') = []
    \<and> s_proxyServer (svc_conn s') = s_proxyServer (svc_conn s)"
proof -
  let ?d = "drop_connection event (classify_loss event s) s"
  have "view_of (fst (lost_event event s)) \<in> {view_of ?d, (view_of ?d)\<lparr>v_State := StateError\<rparr>}"
    using event_tail_view [of event _ _ ?d] assms by (simp add: lost_event_def Let_def)
  then have v: "\<exists>st \<in> {StateReconnecting, StateDisconnected, StateError}. view_of (fst (lost_event event s)) = dropped st (view_of s)"
    by (auto simp: drop_connection_view dropped_def split: if_splits)
  then obtain st where "st \<noteq> StateConnected" "view_of (fst (lost_event event s)) = dropped st (view_of s)"
    by auto
  then show ?thesis
    unfolding view_of_def dropped_def by (simp add: Let_def)
qed

theorem lost_connection_keeps_listener_witness:
  "let s' = fst (lost_event \<lparr>ev_Type = ''disconnected'', ev_ConnectionID = [], ev_Err = None, ev_Close = None, ev_Network = None, ev_Component = []\<rparr>
       (startProxy_end (1, ''127.0.0.1:1080'') started))
   in \<not> st_SOCKS5Enabled (svc_status s') \<and> s_proxyServer (svc_conn s') = Some (1, ''127.0.0.1:1080'')"
proof -
  have "v_proxy (view_of (startProxy_end (1, ''127.0.0.1:1080'') started)) = Some (1, ''127.0.0.1:1080'')"
    by simp
  then have "s_proxyServer (svc_conn (startProxy_end (1, ''127.0.0.1:1080'') started)) = Some (1, ''127.0.0.1:1080'')"
    by (simp add: view_of_def)
  then show ?thesis
    using lost_connection_keeps_listener [of "\<lparr>ev_Type = ''disconnected'', ev_ConnectionID = [], ev_Err = None, ev_Close = None,
        ev_Network = None, ev_Component = []\<rparr>" "startProxy_end (1, ''127.0.0.1:1080'') started"]
    by (simp add: stale_event_def Let_def)
qed

end
