(* ===== verification/Isolation.thy ===== *)
theory Isolation
  imports Attempts
begin

text \<open>
  What the access rules of \<open>internal/appd/v2.go\<close> give: the answers to an unprivileged client depend only on its own profiles
  and on the public part of the status; a daemon that cannot write safely refuses every write; a profile of somebody else is as good as
  absent. And where they fall short.
\<close>

section \<open>Confidentiality of the answers\<close>

text \<open>The part of the service an unprivileged actor may learn about: its own profiles, its selection, its operations, the
  public fields of the status, and the connection when it is its own.\<close>

definition public_status :: "Status \<Rightarrow> Status" where
  "public_status st = st\<lparr>st_SelectedProfileID := [], st_ConnectedProfileID := [], st_Operation := None, st_Session := None,
     st_EffectiveRoutes := [], st_SOCKS5Listen := []\<rparr>"

definition own_operation :: "Actor \<Rightarrow> Operation option \<Rightarrow> Operation option" where
  "own_operation actor x = (case x of None \<Rightarrow> None | Some operation \<Rightarrow> if op_OwnerID operation = ac_ID actor then Some operation else None)"

definition own_connection :: "Actor \<Rightarrow> service \<Rightarrow> (string \<times> SessionInfo option \<times> RouteSpec list \<times> string \<times> TrafficSnapshot) option" where
  "own_connection actor s = (let st = svc_status s in
     if profile_visible actor (st_ConnectedProfileID st) s
     then Some (st_ConnectedProfileID st, st_Session st, st_EffectiveRoutes st, st_SOCKS5Listen st, tf_traffic (svc_traffic s)) else None)"

record knowledge =
  kn_profiles :: "Profile list"
  kn_mode :: string
  kn_machine :: string
  kn_selected :: "string option"
  kn_status :: Status
  kn_operation :: "Operation option"
  kn_operations :: "string \<Rightarrow> Operation option"
  kn_connection :: "(string \<times> SessionInfo option \<times> RouteSpec list \<times> string \<times> TrafficSnapshot) option"

definition knows_of :: "Actor \<Rightarrow> service \<Rightarrow> knowledge" where
  "knows_of actor s = \<lparr>kn_profiles = filter (\<lambda>p. prof_Scope p = ProfileScopeUser \<and> prof_OwnerID p = ac_ID actor) (s_profiles (svc_p s)),
     kn_mode = s_controlMode (svc_p s), kn_machine = s_machineProfileID (svc_p s),
     kn_selected = map_of (s_selectedProfiles (svc_p s)) (ac_ID actor), kn_status = public_status (svc_status s),
     kn_operation = own_operation actor (st_Operation (svc_status s)),
     kn_operations = (\<lambda>i. own_operation actor (map_of (s_operations (svc_conn s)) i)), kn_connection = own_connection actor s\<rparr>"

lemma unprivileged_visible: "\<not> privileged actor \<Longrightarrow> visible_profiles actor (s_profiles (svc_p s)) = map publicProfile (kn_profiles (knows_of actor s))"
proof -
  assume "\<not> privileged actor"
  then have "actorCanAccessProfile actor = (\<lambda>p. prof_Scope p = ProfileScopeUser \<and> prof_OwnerID p = ac_ID actor)"
    by (simp add: fun_eq_iff actorCanAccessProfile_def privileged_def)
  then show ?thesis
    by (simp add: visible_profiles_def knows_of_def)
qed

lemma authorize_read: "authorize actor False s = authorize actor False s'"
  by (simp add: authorize_def)

text \<open>The status an unprivileged actor gets, from its knowledge.\<close>

definition status_of_knowledge :: "knowledge \<Rightarrow> Status" where
  "status_of_knowledge k = (let st = (kn_status k)\<lparr>st_Operation := kn_operation k,
       st_SelectedProfileID := (if kn_mode k = ''machine'' then kn_machine k else case kn_selected k of Some x \<Rightarrow> x | None \<Rightarrow> [])\<rparr>
     in case kn_connection k of None \<Rightarrow> st
        | Some (pid, session, routes, listen, traffic) \<Rightarrow> st\<lparr>st_ConnectedProfileID := pid, st_Session := session, st_EffectiveRoutes := routes,
            st_SOCKS5Listen := listen\<rparr>)"

lemma status_known: "\<not> privileged actor \<Longrightarrow> statusForActorLocked actor s = status_of_knowledge (knows_of actor s)"
  by (auto simp: statusForActorLocked_def status_of_knowledge_def knows_of_def public_status_def own_operation_def own_connection_def
      selected_for_def Let_def split: option.splits)

lemma traffic_known: "\<not> privileged actor \<Longrightarrow> TrafficFor actor s = (case authorize actor False s of Some e \<Rightarrow> Inl e
    | None \<Rightarrow> (case kn_connection (knows_of actor s) of None \<Rightarrow> Inr zero_traffic
        | Some (pid, session, routes, listen, traffic) \<Rightarrow> Inr (if pid = [] then zero_traffic else traffic)))"
  by (auto simp: TrafficFor_def StatusFor_def status_known split: option.splits)
    (auto simp: status_of_knowledge_def knows_of_def public_status_def own_connection_def Let_def split: option.splits if_splits)

lemma operation_known: "\<not> privileged actor \<Longrightarrow> OperationFor actor i s = (case authorize actor False s of Some e \<Rightarrow> Inl e
    | None \<Rightarrow> (case kn_operations (knows_of actor s) i of None \<Rightarrow> Inl operation_not_found | Some operation \<Rightarrow> Inr operation))"
  by (auto simp: OperationFor_def knows_of_def own_operation_def split: option.splits)


definition uid2 :: Actor where
  "uid2 = \<lparr>ac_ID = ''uid:2'', ac_System = False, ac_Admin = False\<rparr>"


text \<open>C33: The event stream is not filtered as the answers are: an operation of another user, which \<open>OperationFor\<close> does not show to
  the client, reaches it through the watch channel unchanged, and so do the traffic counters of a connection that is not its own.\<close>

theorem watch_leaks_operations:
  assumes "\<not> privileged actor" and "op_OwnerID operation \<noteq> ac_ID actor"
  shows "(\<forall>s. OperationFor actor (op_ID operation) (fst (registerOperation operation s)) \<noteq> Inr operation)
    \<and> nt_Operation (notifyForActorLocked actor s (operation_event operation)) = Some operation
    \<and> nt_Traffic (notifyForActorLocked actor s (traffic_event s)) = Some (tf_traffic (svc_traffic s))"
  using assms
  by (auto simp: OperationFor_def notifyForActorLocked_def operation_event_def traffic_event_def operation_not_found_def Let_def
      split: option.splits)

theorem watch_leaks_operations_witness:
  "\<exists>operation. op_OwnerID operation = ''uid:1'' \<and> nt_Operation (notifyForActorLocked uid2 sample_service (operation_event operation)) = Some operation"
proof -
  let ?o = "\<lparr>op_ID = ''o'', op_Kind = ''connect'', op_ProfileID = ''i'', op_AttemptID = [], op_State = OperationRunning, op_ErrorCode = [],
    op_Error = [], op_StartedAt = None, op_EndedAt = None, op_OwnerID = ''uid:1''\<rparr>"
  show ?thesis
    using watch_leaks_operations [of uid2 ?o sample_service] by (intro exI [of _ ?o]) (simp add: privileged_def uid2_def)
qed

section \<open>Refused writes\<close>



text \<open>A daemon that reports itself ready blocks no write for its own condition, unless a cleanup failure is on record.\<close>

theorem ready_daemon_is_not_blocked:
  assumes "rdy_Ready (Ready s)"
  shows "write_blocked s = None \<or> s_fatalErr (svc_conn s) \<noteq> None"
proof -
  have c: "list_all cs_Ready (map (ready_component s) components)" "\<not> s_closed (svc_conn s)" "s_intent (svc_p s) = None"
    using assms by (simp_all add: Ready_def Let_def)
  then have "find (\<lambda>c. \<not> cs_Ready (health_of c s)) write_components = None"
    by (simp add: ready_component_def components_def write_components_def)
  with c show ?thesis
    by (simp add: write_blocked_def)
qed

theorem ready_daemon_is_not_blocked_witness:
  "rdy_Ready (Ready started) \<and> write_blocked started = None"
proof -
  have r: "rdy_Ready (Ready started)"
    by (simp add: Ready_def ready_component_def components_def health_of_def started_def New_def world_newID_def sample_world_def load_def
        fresh_service_def Load_def check_data_def recoverIntentLocked_def zero_status_def zero_conn_def Let_def healthy_def)
  with ready_daemon_is_not_blocked [OF r] show ?thesis
    by (simp add: started_fields zero_conn_def)
qed



text \<open>In machine mode an administrator is authorized to write, but cannot connect the machine profile: \<open>SetControlMode\<close> makes
  \<open>system\<close> the active owner, and \<open>ConnectFor\<close> repeats the owner check without the exception \<open>authorize\<close> makes.\<close>

theorem machine_admin_cannot_connect:
  assumes "s_controlMode (svc_p s) = ''machine''" and "s_activeOwnerID (svc_conn s) = ''system''" and "write_blocked s = None"
    and "ac_ID actor \<notin> {[], ''system''}" and "ac_Admin actor" and "\<not> ac_System actor" and "profileForActor actor pid s = Inr x"
  shows "authorize actor True s = None
    \<and> ConnectFor U ctx actor pid s = (s, Some (coded ''daemon_in_use'' ''FlexConnect is already in use by another local user'' None))"
  using assms by (auto simp: authorize_def ConnectFor_def ConnectFor_refused_def)

definition admin1 :: Actor where
  "admin1 = \<lparr>ac_ID = ''uid:0'', ac_System = False, ac_Admin = True\<rparr>"

definition sample_machine :: service where
  "sample_machine = set_mode ''machine'' ''m'' (sample_service\<lparr>svc_p := sample_pstate\<lparr>s_profiles := [(sample_profile ''m'')\<lparr>prof_Scope := ProfileScopeMachine\<rparr>]\<rparr>\<rparr>)"

theorem machine_admin_cannot_connect_witness:
  "ConnectFor sample_url None admin1 ''m'' sample_machine
    = (sample_machine, Some (coded ''daemon_in_use'' ''FlexConnect is already in use by another local user'' None))"
proof -
  have "profileForActor admin1 ''m'' sample_machine = Inr ((sample_profile ''m'')\<lparr>prof_Scope := ProfileScopeMachine\<rparr>)"
    by (simp add: profileForActor_def findProfileLocked_def sample_machine_def set_mode_def actorCanMutateProfile_def admin1_def
        sample_profile_def NewProfile_def)
  moreover have "write_blocked sample_machine = None" "s_controlMode (svc_p sample_machine) = ''machine''"
    "s_activeOwnerID (svc_conn sample_machine) = ''system''"
    by (simp_all add: sample_machine_def set_mode_def write_blocked_def sample_service_def fresh_service_def zero_conn_def sample_pstate_def
        zero_pstate_def write_components_def health_of_def components_def)
  ultimately show ?thesis
    using machine_admin_cannot_connect [of sample_machine admin1 "''m''"] by (simp add: admin1_def)
qed

section \<open>Operations\<close>

lemma push_last: "0 < limit \<Longrightarrow> last (push_bounded limit x xs) = x" "0 < limit \<Longrightarrow> push_bounded limit x xs \<noteq> []"
  by (simp_all add: push_bounded_def keep_last_def Let_def)

text \<open>The end of an operation: it is no longer registered or shown in the status, the other operations stay, and the last event of
  the stream carries its outcome, with the code of the error.\<close>

theorem finished_operation:
  "let s' = finishOperation operation err s in
     map_of (s_operations (svc_conn s')) = (map_of (s_operations (svc_conn s)))(op_ID operation := None)
   \<and> (\<forall>x. st_Operation (svc_status s') = Some x \<longrightarrow> op_ID x \<noteq> op_ID operation)
   \<and> b_eventRing (svc_bus s') \<noteq> []
   \<and> (\<exists>x. nt_Operation (last (b_eventRing (svc_bus s'))) = Some x \<and> op_ID x = op_ID operation
        \<and> op_State x = (if err = None then OperationSucceeded else OperationFailed)
        \<and> op_ErrorCode x = (case err of None \<Rightarrow> op_ErrorCode operation | Some e \<Rightarrow> errorCode e))"
proof -
  let ?t = "terminal_operation operation err s"
  have e: "nt_Operation (last (b_eventRing (svc_bus (finishOperation operation err s)))) = Some ?t"
    "b_eventRing (svc_bus (finishOperation operation err s)) \<noteq> []"
    by (simp_all add: finishOperation_def Let_def emit_def emitLocked_def operation_event_def push_last split: option.split)
  have "map_of (s_operations (svc_conn (finishOperation operation err s))) = (map_of (s_operations (svc_conn s)))(op_ID operation := None)"
    by (simp add: finishOperation_def Let_def AList.delete_conv' split: option.split)
  moreover have "\<forall>x. st_Operation (svc_status (finishOperation operation err s)) = Some x \<longrightarrow> op_ID x \<noteq> op_ID operation"
    by (auto simp: finishOperation_def Let_def split: option.split)
  ultimately show ?thesis
    using e by (auto simp: Let_def terminal_operation_def split: option.split)
qed

theorem finished_operation_witness:
  "nt_Operation (last (b_eventRing (svc_bus (finishOperation \<lparr>op_ID = ''o'', op_Kind = ''connect'', op_ProfileID = ''i'', op_AttemptID = [],
      op_State = OperationRunning, op_ErrorCode = [], op_Error = [], op_StartedAt = None, op_EndedAt = None, op_OwnerID = ''uid:1''\<rparr> None started)))) \<noteq> None"
  using finished_operation [of "\<lparr>op_ID = ''o'', op_Kind = ''connect'', op_ProfileID = ''i'', op_AttemptID = [],
      op_State = OperationRunning, op_ErrorCode = [], op_Error = [], op_StartedAt = None, op_EndedAt = None, op_OwnerID = ''uid:1''\<rparr>" None started]
  by (auto simp: Let_def)

end
