(* ===== verification/Netlink.thy ===== *)
theory Netlink
  imports Router
begin

text \<open>
  The operating system as the Linux network code sees it. The packages \<open>vishvananda/netlink\<close> and
  \<open>godbus/dbus\<close> and the commands it starts are not part of the repository: their calls are the fields of the
  record \<open>netlink\<close>, which every definition of the platform theories takes as an argument, and \<open>'k\<close> is the state of
  the machine they read and change. What the code relies on is stated in the locale \<open>route_table\<close>: an observer
  \<open>tbl\<close> gives the routes present in a state, and only \<open>RouteAdd\<close> adds one.

  A call may fail at any time, so a machine that loses power is covered too: from some call on every call fails and
  changes nothing.
\<close>

section \<open>Types of the netlink package\<close>

text \<open>\<open>netlink.Link\<close> with the attributes that are read.\<close>

record link =
  lk_Name :: string
  lk_Index :: int
  lk_MAC :: string

text \<open>\<open>netlink.Route\<close> with the fields that are set or read. A nil destination is the default route. An
  \<open>net.IP\<close> is an address in its unmapped form, nil is \<open>None\<close>.\<close>

record kroute =
  kr_Dst :: "Netip.prefix option"
  kr_LinkIndex :: int
  kr_Gw :: "addr option"
  kr_Src :: "addr option"
  kr_Priority :: int

text \<open>\<open>net.ParseIP\<close>: no zone, and the four-byte and the mapped form are the same address.\<close>

definition net_ParseIP :: "string \<Rightarrow> addr option" where
  "net_ParseIP s = (case ParseAddr s of
      None \<Rightarrow> None
    | Some ip \<Rightarrow> if withoutZone ip \<noteq> ip then None else Some (Unmap ip))"

text \<open>The verb \<open>%d\<close> of \<open>fmt\<close>.\<close>

definition fmt_d :: "int \<Rightarrow> string" where
  "fmt_d i = (if i < 0 then ''-'' @ itoa (nat (- i)) else itoa (nat i))"

text \<open>\<open>os.ErrNotExist\<close> and \<open>os.IsNotExist\<close>.\<close>

definition ErrNotExist :: error where
  "ErrNotExist = Errors ''file does not exist''"

definition IsNotExist :: "error \<Rightarrow> bool" where
  "IsNotExist e \<longleftrightarrow> e = ErrNotExist"

text \<open>\<open>dbus.Variant\<close> values of NetworkManager settings, as far as the code builds them.\<close>

datatype variant = VAddresses "string list" | VBool bool | VOther nat

type_synonym nm_settings = "string \<rightharpoonup> (string \<rightharpoonup> variant)"

text \<open>The calls. A call that only reads gives a value or an error; a call that changes the machine gives an error
  or nil and the next state. An address of a link is its prefix.\<close>

record 'k netlink =
  LinkByName :: "'k \<Rightarrow> string \<Rightarrow> error + link"
  LinkByIndex :: "'k \<Rightarrow> int \<Rightarrow> error + link"
  LinkSetUp :: "'k \<Rightarrow> int \<Rightarrow> error option \<times> 'k"
  LinkSetMulticastOff :: "'k \<Rightarrow> int \<Rightarrow> error option \<times> 'k"
  LinkSetMTU :: "'k \<Rightarrow> int \<Rightarrow> int \<Rightarrow> error option \<times> 'k"
  NlParseAddr :: "string \<Rightarrow> error + Netip.prefix"
  ParseIPNet :: "string \<Rightarrow> error + Netip.prefix"
  AddrList :: "'k \<Rightarrow> int \<Rightarrow> error + Netip.prefix list"
  AddrAdd :: "'k \<Rightarrow> int \<Rightarrow> Netip.prefix \<Rightarrow> error option \<times> 'k"
  AddrDel :: "'k \<Rightarrow> int \<Rightarrow> Netip.prefix \<Rightarrow> error option \<times> 'k"
  RouteList :: "'k \<Rightarrow> error + kroute list"
  RouteListDst :: "'k \<Rightarrow> error + kroute list"                       \<comment> \<open>\<open>RouteListFiltered\<close> with a nil destination\<close>
  RouteListFiltered :: "'k \<Rightarrow> Netip.prefix \<Rightarrow> int \<Rightarrow> error + kroute list"  \<comment> \<open>by destination and interface\<close>
  RouteAdd :: "'k \<Rightarrow> kroute \<Rightarrow> error option \<times> 'k"
  RouteDel :: "'k \<Rightarrow> kroute \<Rightarrow> error option \<times> 'k"
  SystemBus :: "'k \<Rightarrow> error option"
  SetLinkDNS :: "'k \<Rightarrow> int \<Rightarrow> addr list \<Rightarrow> error option \<times> 'k"
  SetLinkDomains :: "'k \<Rightarrow> int \<Rightarrow> error option \<times> 'k"
  RevertLink :: "'k \<Rightarrow> int \<Rightarrow> error option \<times> 'k"
  NmGetDevice :: "'k \<Rightarrow> string \<Rightarrow> error + string"
  NmPathValid :: "string \<Rightarrow> bool"
  NmGetApplied :: "'k \<Rightarrow> string \<Rightarrow> error + (nm_settings \<times> u64)"
  NmReapply :: "'k \<Rightarrow> string \<Rightarrow> nm_settings \<Rightarrow> u64 \<Rightarrow> error option \<times> 'k"
  LookPath :: "'k \<Rightarrow> error + string"
  ResolvconfAdd :: "'k \<Rightarrow> string \<Rightarrow> string \<Rightarrow> string \<Rightarrow> (error \<times> string) option \<times> 'k"
  ResolvconfDel :: "'k \<Rightarrow> string \<Rightarrow> string \<Rightarrow> (error \<times> string) option \<times> 'k"

section \<open>What the code relies on\<close>

text \<open>An IPv4 prefix with a valid length: the only kind of route the managers list and delete.\<close>

fun v4_prefix :: "Netip.prefix \<Rightarrow> bool" where
  "v4_prefix (V4 a, b) = (b \<le> 32)"
| "v4_prefix (V6 a z, b) = False"

lemma v4_prefix_Masked [simp]: "v4_prefix (Masked p) = v4_prefix p"
  by (cases p rule: Masked.cases) auto

lemma v4_prefix_string: "v4_prefix p \<Longrightarrow> Netip.ParsePrefix (prefix_string p) = Some p"
  by (cases p rule: v4_prefix.cases) (auto intro: ParsePrefix_ipv4)

text \<open>The laws: the package parses what \<open>netip\<close> prints; a route is present after \<open>RouteAdd\<close> only if it was there
  before or is the one added, and a failed \<open>RouteAdd\<close> adds nothing; a successful \<open>RouteDel\<close>, or one that reports the
  route as absent, leaves the route absent; no other call adds a route; a successful filtered list has every route present with that
  destination and interface; a link found by its index has that index.\<close>

locale route_table =
  fixes nl :: "'k netlink" and tbl :: "'k \<Rightarrow> kroute set"
  assumes ParseIPNet_string: "v4_prefix p \<Longrightarrow> ParseIPNet nl (prefix_string p) = Inr p"
    and RouteAdd_ok: "RouteAdd nl k r = (None, k') \<Longrightarrow> tbl k' \<subseteq> insert r (tbl k)"
    and RouteAdd_error: "RouteAdd nl k r = (Some e, k') \<Longrightarrow> tbl k' \<subseteq> tbl k"
    and RouteDel_ok: "RouteDel nl k r = (None, k') \<Longrightarrow> tbl k' \<subseteq> tbl k - {r}"
    and RouteDel_error: "RouteDel nl k r = (Some e, k') \<Longrightarrow> tbl k' \<subseteq> tbl k \<and> (IsNotExist e \<longrightarrow> r \<notin> tbl k')"
    and RouteListFiltered_complete: "RouteListFiltered nl k p i = Inr rs \<Longrightarrow> r \<in> tbl k \<Longrightarrow>
          kr_Dst r = Some p \<Longrightarrow> kr_LinkIndex r = i \<Longrightarrow> r \<in> set rs"
    and LinkByIndex_index: "LinkByIndex nl k i = Inr l \<Longrightarrow> lk_Index l = i"
    and link_calls: "LinkSetUp nl k i = (res, k') \<Longrightarrow> tbl k' \<subseteq> tbl k"
        "LinkSetMulticastOff nl k i = (res, k') \<Longrightarrow> tbl k' \<subseteq> tbl k"
        "LinkSetMTU nl k i mtu = (res, k') \<Longrightarrow> tbl k' \<subseteq> tbl k"
    and addr_calls: "AddrAdd nl k i a = (res, k') \<Longrightarrow> tbl k' \<subseteq> tbl k"
        "AddrDel nl k i a = (res, k') \<Longrightarrow> tbl k' \<subseteq> tbl k"
    and dns_calls: "SetLinkDNS nl k i as = (res, k') \<Longrightarrow> tbl k' \<subseteq> tbl k"
        "SetLinkDomains nl k i = (res, k') \<Longrightarrow> tbl k' \<subseteq> tbl k"
        "RevertLink nl k i = (res, k') \<Longrightarrow> tbl k' \<subseteq> tbl k"
        "NmReapply nl k d st v = (res, k') \<Longrightarrow> tbl k' \<subseteq> tbl k"
        "ResolvconfAdd nl k path n inp = (x, k') \<Longrightarrow> tbl k' \<subseteq> tbl k"
        "ResolvconfDel nl k path n = (x, k') \<Longrightarrow> tbl k' \<subseteq> tbl k"

end
