(* ===== verification/Monitor.thy ===== *)
theory Monitor
  imports Netlink
begin

text \<open>
  \<open>internal/osnet/monitor.go\<close> and \<open>monitor_linux.go\<close>: the physical path to the VPN server, how it is read on
  Linux, and the goroutine that watches it and tells the backend when it changes.

  One iteration of the goroutine is \<open>run_step\<close>; its input says what the snapshots of that iteration return and
  whether the context ends while it waits. A change that is handed to the channel is appended to \<open>um_changes\<close>. Contexts are not
  nil.
\<close>

section \<open>The underlay\<close>

record UnderlaySnapshot =
  us_InterfaceName :: string
  us_InterfaceIndex :: int
  us_LocalIPv4 :: "addr option"
  us_Gateway :: "addr option"
  us_GatewayInterface :: int
  us_RouteMetric :: int
  us_Generation :: u64

definition zero_underlay :: UnderlaySnapshot where
  "zero_underlay = \<lparr>us_InterfaceName = [], us_InterfaceIndex = 0, us_LocalIPv4 = None, us_Gateway = None,
     us_GatewayInterface = 0, us_RouteMetric = 0, us_Generation = 0\<rparr>"

record UnderlayChange =
  uc_Before :: UnderlaySnapshot
  uc_After :: UnderlaySnapshot
  uc_Reasons :: "string list"
  uc_RebindRequired :: bool
  uc_Err :: "error option"

text \<open>\<open>func sameUnderlay\<close>, \<open>func underlayRequiresRebind\<close>, \<open>func underlayReasons\<close>\<close>

definition sameUnderlay :: "UnderlaySnapshot \<Rightarrow> UnderlaySnapshot \<Rightarrow> bool" where
  "sameUnderlay a b \<longleftrightarrow>
     us_InterfaceName a = us_InterfaceName b \<and>
     us_InterfaceIndex a = us_InterfaceIndex b \<and>
     us_LocalIPv4 a = us_LocalIPv4 b \<and>
     us_Gateway a = us_Gateway b \<and>
     us_GatewayInterface a = us_GatewayInterface b \<and>
     us_RouteMetric a = us_RouteMetric b"

definition underlayRequiresRebind :: "UnderlaySnapshot \<Rightarrow> UnderlaySnapshot \<Rightarrow> bool" where
  "underlayRequiresRebind a b \<longleftrightarrow>
     us_InterfaceName a \<noteq> us_InterfaceName b \<or>
     us_InterfaceIndex a \<noteq> us_InterfaceIndex b \<or>
     us_LocalIPv4 a \<noteq> us_LocalIPv4 b \<or>
     us_Gateway a \<noteq> us_Gateway b \<or>
     us_GatewayInterface a \<noteq> us_GatewayInterface b \<or>
     us_RouteMetric a \<noteq> us_RouteMetric b"

definition underlayReasons :: "UnderlaySnapshot \<Rightarrow> UnderlaySnapshot \<Rightarrow> string list" where
  "underlayReasons a b =
     (let reasons =
        (if us_InterfaceName a \<noteq> us_InterfaceName b \<or> us_InterfaceIndex a \<noteq> us_InterfaceIndex b
         then [''interface_changed''] else []) @
        (if us_LocalIPv4 a \<noteq> us_LocalIPv4 b then [''local_address_changed''] else []) @
        (if us_Gateway a \<noteq> us_Gateway b \<or> us_GatewayInterface a \<noteq> us_GatewayInterface b
         then [''gateway_changed''] else []) @
        (if us_RouteMetric a \<noteq> us_RouteMetric b then [''route_metric_changed''] else [])
      in if reasons = [] then [''underlay_changed''] else reasons)"

section \<open>Reading the underlay on Linux\<close>

definition To4 :: "addr \<Rightarrow> bool" where
  "To4 ip \<longleftrightarrow> Is4 (Unmap ip)"

text \<open>The loop of \<open>GetUnderlaySnapshot\<close> over the routes: the default route with the least priority whose link exists and is
  not the excluded one; the first of equals.\<close>

definition default_dst :: "Netip.prefix option \<Rightarrow> bool" where
  "default_dst d = (case d of None \<Rightarrow> True | Some (V4 _, ones) \<Rightarrow> ones = 0 | Some (V6 _ _, ones) \<Rightarrow> False)"

fun best_route :: "'k netlink \<Rightarrow> 'k \<Rightarrow> string \<Rightarrow> kroute list \<Rightarrow> kroute option \<Rightarrow> kroute option" where
  "best_route nl k excludeInterface [] best = best"
| "best_route nl k excludeInterface (route # routes) best =
     (if \<not> default_dst (kr_Dst route) then best_route nl k excludeInterface routes best
      else (case LinkByIndex nl k (kr_LinkIndex route) of
              Inl _ \<Rightarrow> best_route nl k excludeInterface routes best
            | Inr l \<Rightarrow>
                if lk_Name l = excludeInterface then best_route nl k excludeInterface routes best
                else (case best of
                        None \<Rightarrow> best_route nl k excludeInterface routes (Some route)
                      | Some b \<Rightarrow> best_route nl k excludeInterface routes
                                   (if kr_Priority route < kr_Priority b then Some route else best))))"

definition GetUnderlaySnapshot :: "'k netlink \<Rightarrow> 'k \<Rightarrow> string \<Rightarrow> error + UnderlaySnapshot" where
  "GetUnderlaySnapshot nl k excludeInterface =
     (case RouteList nl k of
        Inl e \<Rightarrow> Inl e
      | Inr routes \<Rightarrow>
          (case best_route nl k excludeInterface routes None of
             None \<Rightarrow> Inl (Errors ''no physical default IPv4 route'')
           | Some best \<Rightarrow>
               (case LinkByIndex nl k (kr_LinkIndex best) of
                  Inl e \<Rightarrow> Inl e
                | Inr l \<Rightarrow>
                    (let local_r =
                       (case kr_Src best of
                          Some src \<Rightarrow> if To4 src then Inr (Some (Unmap src))
                                     else map_sum id (\<lambda>as. map_option Unmap (find To4 (map fst as))) (AddrList nl k (lk_Index l))
                        | None \<Rightarrow> map_sum id (\<lambda>as. map_option Unmap (find To4 (map fst as))) (AddrList nl k (lk_Index l)))
                     in case local_r of
                          Inl e \<Rightarrow> Inl e
                        | Inr None \<Rightarrow> Inl (Errors ''physical default interface has no IPv4 address'')
                        | Inr (Some ip) \<Rightarrow>
                            Inr \<lparr>us_InterfaceName = lk_Name l, us_InterfaceIndex = kr_LinkIndex best, us_LocalIPv4 = Some ip,
                               us_Gateway = (case kr_Gw best of
                                               Some gw \<Rightarrow> if To4 gw then Some (Unmap gw) else None
                                             | None \<Rightarrow> None),
                               us_GatewayInterface = kr_LinkIndex best, us_RouteMetric = kr_Priority best,
                               us_Generation = 0\<rparr>))))"

section \<open>The monitor\<close>

text \<open>\<open>type underlayMonitor\<close>: \<open>um_cancelled\<close> is the end of its context, \<open>um_done\<close> that \<open>run\<close> has returned and closed
  the channel, \<open>um_lastError\<close> the local variable \<open>lastSnapshotError\<close> of \<open>run\<close>.\<close>

record underlayMonitor =
  um_current :: UnderlaySnapshot
  um_changes :: "UnderlayChange list"
  um_lastError :: bool
  um_cancelled :: bool
  um_done :: bool
  um_debounce :: int
  um_interval :: int
  um_notifier :: bool
  um_notifierErr :: "error option"

text \<open>\<open>NewMonitor\<close> with the result of the initial snapshot and of the notifier; durations in nanoseconds.\<close>

definition NewMonitor :: "int \<Rightarrow> int \<Rightarrow> error + UnderlaySnapshot \<Rightarrow> error option \<Rightarrow> error + underlayMonitor" where
  "NewMonitor interval debounce snapshot notifyErr =
     (case snapshot of
        Inl e \<Rightarrow> Inl (Wrap ''read initial underlay snapshot: '' e [])
      | Inr initial \<Rightarrow>
          Inr \<lparr>um_current = initial\<lparr>us_Generation := 1\<rparr>, um_changes = [], um_lastError = False, um_cancelled = False,
             um_done = False,
             um_debounce = (if debounce \<le> 0 then 300000000 else debounce),
             um_interval = (if interval \<le> 0 then 1000000000 else interval),
             um_notifier = (notifyErr = None), um_notifierErr = notifyErr\<rparr>)"

text \<open>\<open>Close\<close>: the context ends and the notifier is closed, once.\<close>

definition monitor_Close :: "underlayMonitor \<Rightarrow> underlayMonitor" where
  "monitor_Close m = (if um_cancelled m then m else m\<lparr>um_cancelled := True, um_notifier := False\<rparr>)"

text \<open>\<open>emit\<close>: the change is handed over, unless the context has ended and the select takes that branch.\<close>

definition monitor_emit :: "bool \<Rightarrow> UnderlayChange \<Rightarrow> underlayMonitor \<Rightarrow> underlayMonitor" where
  "monitor_emit drop_it change m =
     (if um_cancelled m \<and> drop_it then m else m\<lparr>um_changes := um_changes m @ [change]\<rparr>)"

text \<open>What an iteration meets: the end of the context, or a tick or trigger with the first snapshot, then the end of the
  context while it waits for the debounce timer, or the second snapshot. The flag is the branch a select may take when the
  context has ended.\<close>

datatype iteration =
    DoneIdle
  | DoneDebouncing "error + UnderlaySnapshot" bool
  | Polled "error + UnderlaySnapshot" "error + UnderlaySnapshot" bool

definition commit_change :: "UnderlaySnapshot \<Rightarrow> bool \<Rightarrow> underlayMonitor \<Rightarrow> underlayMonitor" where
  "commit_change nxt0 drop_it m =
     (let before = um_current m;
          nxt = nxt0\<lparr>us_Generation := us_Generation before + 1\<rparr>
      in monitor_emit drop_it
           \<lparr>uc_Before = before, uc_After = nxt, uc_Reasons = underlayReasons before nxt,
            uc_RebindRequired = underlayRequiresRebind before nxt, uc_Err = None\<rparr>
           (m\<lparr>um_current := nxt\<rparr>))"

definition snapshot_failed :: "string \<Rightarrow> error \<Rightarrow> bool \<Rightarrow> underlayMonitor \<Rightarrow> underlayMonitor" where
  "snapshot_failed reason e drop_it m =
     monitor_emit drop_it \<lparr>uc_Before = um_current m, uc_After = zero_underlay, uc_Reasons = [reason],
        uc_RebindRequired = True, uc_Err = Some e\<rparr> m"

text \<open>The body of the loop of \<open>run\<close> after the first snapshot: \<open>second\<close> is what the snapshot after the debounce timer
  returns, \<open>None\<close> when the context ends before the timer fires.\<close>

definition run_polled :: "error + UnderlaySnapshot \<Rightarrow> (error + UnderlaySnapshot) option \<Rightarrow> bool
    \<Rightarrow> underlayMonitor \<Rightarrow> underlayMonitor" where
  "run_polled first second drop_it m =
     (case first of
        Inl e \<Rightarrow>
          if um_lastError m then m
          else snapshot_failed ''snapshot_error'' e drop_it (m\<lparr>um_lastError := True\<rparr>)
      | Inr nxt \<Rightarrow>
          (let m = m\<lparr>um_lastError := False\<rparr>
           in if sameUnderlay (um_current m) nxt then m
              else if 0 < um_debounce m then
                (case second of
                   None \<Rightarrow> m\<lparr>um_done := True\<rparr>
                 | Some (Inl e) \<Rightarrow> snapshot_failed ''snapshot_error_after_change'' e drop_it m
                 | Some (Inr latest) \<Rightarrow> commit_change latest drop_it m)
              else commit_change nxt drop_it m))"

definition run_step :: "iteration \<Rightarrow> underlayMonitor \<Rightarrow> underlayMonitor" where
  "run_step it m =
     (if um_done m then m
      else (case it of
              DoneIdle \<Rightarrow> if um_cancelled m then m\<lparr>um_done := True\<rparr> else m
            | DoneDebouncing first drop_it \<Rightarrow>
                if um_cancelled m then run_polled first None drop_it m else m
            | Polled first second drop_it \<Rightarrow> run_polled first (Some second) drop_it m))"

definition monitor_run :: "iteration list \<Rightarrow> underlayMonitor \<Rightarrow> underlayMonitor" where
  "monitor_run its m = foldl (\<lambda>m it. run_step it m) m its"

section \<open>What the backend is told\<close>

lemma rebind_iff_different: "underlayRequiresRebind a b \<longleftrightarrow> \<not> sameUnderlay a b"
  by (auto simp: underlayRequiresRebind_def sameUnderlay_def)

lemma reasons_of_same: "underlayReasons a b = [''underlay_changed''] \<longleftrightarrow> sameUnderlay a b"
  by (auto simp: underlayReasons_def sameUnderlay_def Let_def)

text \<open>The changes of the path, as opposed to failed snapshots.\<close>

definition path_changes :: "UnderlayChange list \<Rightarrow> UnderlayChange list" where
  "path_changes cs = filter (\<lambda>c. uc_Err c = None) cs"

text \<open>A reader that starts from \<open>init\<close> and takes over every change of the path.\<close>

definition follow :: "UnderlaySnapshot \<Rightarrow> UnderlayChange list \<Rightarrow> UnderlaySnapshot" where
  "follow init cs = last (init # map uc_After (path_changes cs))"

text \<open>The stream is an account of the path: every change starts where the one before ended, generations are consecutive, and
  a change asks for a rebind unless both ends are the same path.\<close>

definition change_ok :: "UnderlaySnapshot \<Rightarrow> UnderlayChange list \<Rightarrow> UnderlayChange \<Rightarrow> bool" where
  "change_ok init before c \<longleftrightarrow>
     uc_Before c = follow init before \<and>
     (case uc_Err c of
        None \<Rightarrow> us_Generation (uc_After c) = us_Generation (uc_Before c) + 1 \<and>
                (uc_RebindRequired c \<longleftrightarrow> \<not> sameUnderlay (uc_Before c) (uc_After c)) \<and>
                uc_Reasons c = underlayReasons (uc_Before c) (uc_After c)
      | Some _ \<Rightarrow> uc_RebindRequired c \<and> uc_After c = zero_underlay)"

fun account :: "UnderlaySnapshot \<Rightarrow> UnderlayChange list \<Rightarrow> UnderlayChange list \<Rightarrow> bool" where
  "account init before [] = True"
| "account init before (c # cs) \<longleftrightarrow> change_ok init before c \<and> account init (before @ [c]) cs"

lemma account_snoc: "account init before (cs @ [c]) \<longleftrightarrow> account init before cs \<and> change_ok init (before @ cs) c"
  by (induction cs arbitrary: before) auto

lemma path_changes_snoc [simp]:
  "path_changes (cs @ [c]) = path_changes cs @ (if uc_Err c = None then [c] else [])"
  by (simp add: path_changes_def)

definition monitor_inv :: "UnderlaySnapshot \<Rightarrow> underlayMonitor \<Rightarrow> bool" where
  "monitor_inv init m \<longleftrightarrow> \<not> um_cancelled m \<and> account init [] (um_changes m) \<and>
     um_current m = follow init (um_changes m) \<and>
     us_Generation (follow init (um_changes m)) = us_Generation init + word_of_nat (length (path_changes (um_changes m)))"

lemma snapshot_failed_inv: "monitor_inv init m \<Longrightarrow> monitor_inv init (snapshot_failed reason e d m)"
  by (simp add: monitor_inv_def snapshot_failed_def monitor_emit_def account_snoc change_ok_def follow_def)

lemma commit_change_inv: "monitor_inv init m \<Longrightarrow> monitor_inv init (commit_change nxt d m)"
  by (simp add: monitor_inv_def commit_change_def monitor_emit_def account_snoc change_ok_def follow_def Let_def
      rebind_iff_different)

lemma run_step_inv:
  assumes "monitor_inv init m"
  shows "monitor_inv init (run_step it m)"
proof -
  have flags: "monitor_inv init (m\<lparr>um_lastError := b\<rparr>)" "monitor_inv init (m\<lparr>um_lastError := b, um_done := True\<rparr>)"
    "monitor_inv init (m\<lparr>um_done := True\<rparr>)" for b
    using assms by (simp_all add: monitor_inv_def)
  have "monitor_inv init (run_polled first second d m)" for first second d
    by (simp add: run_polled_def Let_def flags assms snapshot_failed_inv commit_change_inv split: sum.splits option.splits)
  with assms show ?thesis
    by (simp add: run_step_def flags split: iteration.splits)
qed

lemma monitor_run_inv: "monitor_inv init m \<Longrightarrow> monitor_inv init (monitor_run its m)"
  unfolding monitor_run_def by (induction its arbitrary: m) (auto simp: run_step_inv)


text \<open>A path that flaps while the debounce timer runs: the monitor reports a change although the path is the same, without
  asking for a rebind, and a failed snapshot is reported once until a snapshot succeeds.\<close>

definition wifi :: UnderlaySnapshot where
  "wifi = zero_underlay\<lparr>us_InterfaceName := ''wlan0'', us_InterfaceIndex := 3, us_LocalIPv4 := Some (V4 0xC0A80102)\<rparr>"

definition wired :: UnderlaySnapshot where
  "wired = zero_underlay\<lparr>us_InterfaceName := ''eth0'', us_InterfaceIndex := 2, us_LocalIPv4 := Some (V4 0xC0A80103)\<rparr>"

definition flapping :: "iteration list" where
  "flapping = [Polled (Inr wired) (Inr wifi) False, Polled (Inl Canceled) (Inl Canceled) False,
     Polled (Inl Canceled) (Inl Canceled) False, Polled (Inr wired) (Inr wired) False]"

definition watching :: underlayMonitor where
  "watching = \<lparr>um_current = wifi\<lparr>us_Generation := 1\<rparr>, um_changes = [], um_lastError = False, um_cancelled = False,
     um_done = False, um_debounce = 300000000, um_interval = 1000000000, um_notifier = True, um_notifierErr = None\<rparr>"

lemmas monitor_eval = monitor_run_def run_step_def run_polled_def commit_change_def snapshot_failed_def monitor_emit_def
  sameUnderlay_def underlayReasons_def underlayRequiresRebind_def wifi_def wired_def zero_underlay_def


end
