(* ===== verification/Linuxnet.thy ===== *)
theory Linuxnet
  imports Monitor
begin

text \<open>
  \<open>internal/osnet/manager_linux.go\<close>: the manager that owns the addresses, routes and DNS settings of one tunnel on Linux,
  with the configuration types of \<open>internal/osnet/types.go\<close> and \<open>dns_selection.go\<close>. The maps of owned prefixes are lists of
  their keys (no claim depends on the order); every operation returns an error or nil, the manager and the machine.

  The locale \<open>route_table\<close> carries the ownership lemmas: a route that is present and was not there before the manager is one
  the manager remembers, as long as no \<open>Close\<close> fails.
\<close>

section \<open>Configuration\<close>

record LocalInterface =
  li_Name :: string
  li_IP4 :: string
  li_MAC :: string
  li_Gateway :: string
  li_InterfaceIndex :: int

record Config =
  cf_InterfaceName :: string
  cf_InterfaceIndex :: int
  cf_VPNAddress :: "Netip.prefix option"
  cf_MTU :: int
  cf_Underlay :: UnderlaySnapshot
  cf_ServerAddress :: "addr option"
  cf_Gateway :: "addr option"
  cf_GatewayInterfaceIndex :: int
  cf_IncludeRoutes :: "Netip.prefix list"
  cf_ExcludeRoutes :: "Netip.prefix list"
  cf_DNSServers :: "addr list"

record DynamicRoutes =
  dr_Include :: "addr list"
  dr_Exclude :: "addr list"

section \<open>The manager\<close>

record platformManager =
  pm_name :: string
  pm_link :: "link option"
  pm_localLink :: "link option"
  pm_gateway :: "addr option"
  pm_serverRoutes :: "Netip.prefix list"
  pm_includeRoutes :: "Netip.prefix list"
  pm_excludeRoutes :: "Netip.prefix list"
  pm_dynamicInclude :: "Netip.prefix list"
  pm_dynamicExclude :: "Netip.prefix list"
  pm_dnsBackend :: string
  pm_nmDevice :: string
  pm_nmOriginal :: "nm_settings option"
  pm_vpnAddress :: "Netip.prefix option"
  pm_vpnAddressOwned :: bool

definition newPlatformManager :: "string \<Rightarrow> platformManager" where
  "newPlatformManager name =
     \<lparr>pm_name = name, pm_link = None, pm_localLink = None, pm_gateway = None, pm_serverRoutes = [], pm_includeRoutes = [],
      pm_excludeRoutes = [], pm_dynamicInclude = [], pm_dynamicExclude = [], pm_dnsBackend = [], pm_nmDevice = [],
      pm_nmOriginal = None, pm_vpnAddress = None, pm_vpnAddressOwned = False\<rparr>"

text \<open>\<open>Up\<close>: the link is remembered before it is brought up.\<close>

definition pm_Up :: "'k netlink \<Rightarrow> platformManager \<Rightarrow> 'k \<Rightarrow> error option \<times> platformManager \<times> 'k" where
  "pm_Up nl m k =
     (case LinkByName nl k (pm_name m) of
        Inl e \<Rightarrow> (Some e, m, k)
      | Inr l \<Rightarrow>
          (let m = m\<lparr>pm_link := Some l\<rparr>
           in case LinkSetUp nl k (lk_Index l) of
                (Some e, k) \<Rightarrow> (Some e, m, k)
              | (None, k) \<Rightarrow> (None, m, snd (LinkSetMulticastOff nl k (lk_Index l)))))"

section \<open>Routes\<close>

text \<open>\<open>func routeDel\<close>: every listed route of the destination and link with the priority and the gateway is deleted; one that
  has gone in the meantime is no error.\<close>

definition route_matches :: "addr option \<Rightarrow> int \<Rightarrow> kroute \<Rightarrow> bool" where
  "route_matches gateway priority route \<longleftrightarrow>
     \<not> (0 < priority \<and> kr_Priority route \<noteq> priority) \<and>
     (case gateway of
        None \<Rightarrow> (case kr_Gw route of None \<Rightarrow> True | Some gw \<Rightarrow> IsUnspecified gw)
      | Some gw \<Rightarrow> kr_Gw route = Some gw)"

fun del_routes :: "'k netlink \<Rightarrow> addr option \<Rightarrow> int \<Rightarrow> kroute list \<Rightarrow> 'k \<Rightarrow> error option \<times> 'k" where
  "del_routes nl gateway priority [] k = (None, k)"
| "del_routes nl gateway priority (route # routes) k =
     (if \<not> route_matches gateway priority route then del_routes nl gateway priority routes k
      else (case RouteDel nl k route of
              (None, k) \<Rightarrow> del_routes nl gateway priority routes k
            | (Some e, k) \<Rightarrow> if IsNotExist e then del_routes nl gateway priority routes k else (Some e, k)))"

definition routeDel :: "'k netlink \<Rightarrow> Netip.prefix \<Rightarrow> link option \<Rightarrow> addr option \<Rightarrow> int \<Rightarrow> 'k \<Rightarrow> error option \<times> 'k" where
  "routeDel nl p l gateway priority k =
     (case l of
        None \<Rightarrow> (Some (Errors (''missing link for route cleanup '' @ prefix_string p)), k)
      | Some link \<Rightarrow>
          (case ParseIPNet nl (prefix_string p) of
             Inl e \<Rightarrow> (Some e, k)
           | Inr dst \<Rightarrow>
               (case RouteListFiltered nl k dst (lk_Index link) of
                  Inl e \<Rightarrow> (Some e, k)
                | Inr routes \<Rightarrow> del_routes nl gateway priority routes k)))"

text \<open>The two loops of \<open>syncRoutes\<close>. They return the owned prefixes so far, and with an error whether the caller's map is
  set to them (\<open>*old = owned\<close>) or left as it was.\<close>

fun sync_add :: "'k netlink \<Rightarrow> link \<Rightarrow> addr option \<Rightarrow> int \<Rightarrow> Netip.prefix list \<Rightarrow> Netip.prefix list \<Rightarrow> 'k
    \<Rightarrow> (error \<times> bool) option \<times> Netip.prefix list \<times> 'k" where
  "sync_add nl l gw priority [] owned k = (None, owned, k)"
| "sync_add nl l gw priority (p # ps) owned k =
     (case ParseIPNet nl (prefix_string p) of
        Inl e \<Rightarrow> (Some (e, False), owned, k)
      | Inr dst \<Rightarrow>
          (case RouteAdd nl k \<lparr>kr_Dst = Some dst, kr_LinkIndex = lk_Index l, kr_Gw = gw, kr_Src = None, kr_Priority = priority\<rparr> of
             (Some e, k) \<Rightarrow> (Some (e, True), owned, k)
           | (None, k) \<Rightarrow> sync_add nl l gw priority ps (p # removeAll p owned) k))"

fun sync_del :: "'k netlink \<Rightarrow> link \<Rightarrow> addr option \<Rightarrow> int \<Rightarrow> Netip.prefix list \<Rightarrow> Netip.prefix list \<Rightarrow> 'k
    \<Rightarrow> error option \<times> Netip.prefix list \<times> 'k" where
  "sync_del nl l gw priority [] owned k = (None, owned, k)"
| "sync_del nl l gw priority (p # ps) owned k =
     (case routeDel nl p (Some l) gw priority k of
        (Some e, k) \<Rightarrow> (Some e, owned, k)
      | (None, k) \<Rightarrow> sync_del nl l gw priority ps (removeAll p owned) k)"

definition syncRoutes :: "'k netlink \<Rightarrow> Netip.prefix list \<Rightarrow> Netip.prefix list \<Rightarrow> link option \<Rightarrow> addr option \<Rightarrow> int \<Rightarrow> 'k
    \<Rightarrow> error option \<times> Netip.prefix list \<times> 'k" where
  "syncRoutes nl old nxt l gw priority k =
     (case l of
        None \<Rightarrow> (None, old, k)
      | Some link \<Rightarrow>
          (let (add, del, state) = DiffPrefixes old nxt
           in case sync_add nl link gw priority add old k of
                (Some (e, assign), owned, k) \<Rightarrow> (Some e, if assign then owned else old, k)
              | (None, owned, k) \<Rightarrow>
                  (case sync_del nl link gw priority del owned k of
                     (Some e, owned, k) \<Rightarrow> (Some e, owned, k)
                   | (None, owned, k) \<Rightarrow> (None, state, k))))"

section \<open>Addresses\<close>

definition deleteExactAddress :: "'k netlink \<Rightarrow> link option \<Rightarrow> Netip.prefix option \<Rightarrow> 'k \<Rightarrow> error option \<times> 'k" where
  "deleteExactAddress nl l owned k =
     (case (l, owned) of
        (Some link, Some a) \<Rightarrow>
          (case AddrList nl k (lk_Index link) of
             Inl e \<Rightarrow> (Some e, k)
           | Inr addresses \<Rightarrow> if a \<in> set addresses then AddrDel nl k (lk_Index link) a else (None, k))
      | _ \<Rightarrow> (None, k))"

definition setVPNAddress :: "'k netlink \<Rightarrow> link \<Rightarrow> Netip.prefix \<Rightarrow> platformManager \<Rightarrow> 'k
    \<Rightarrow> error option \<times> platformManager \<times> 'k" where
  "setVPNAddress nl link addr m k =
     (if pm_vpnAddressOwned m \<and> pm_vpnAddress m = Some addr then (None, m, k)
      else
        (let (r, m, k) =
           (if pm_vpnAddressOwned m \<and> pm_vpnAddress m \<noteq> None then
              (case deleteExactAddress nl (Some link) (pm_vpnAddress m) k of
                 (Some e, k) \<Rightarrow> (Some e, m, k)
               | (None, k) \<Rightarrow> (None, m\<lparr>pm_vpnAddressOwned := False\<rparr>, k))
            else (None, m, k))
         in case r of
              Some e \<Rightarrow> (Some e, m, k)
            | None \<Rightarrow>
                (case AddrList nl k (lk_Index link) of
                   Inl e \<Rightarrow> (Some e, m, k)
                 | Inr addresses \<Rightarrow>
                     if addr \<in> set addresses then (None, m\<lparr>pm_vpnAddress := Some addr\<rparr>, k)
                     else (case AddrAdd nl k (lk_Index link) addr of
                             (Some e, k) \<Rightarrow> (Some (Wrap (''add VPN address '' @ prefix_string addr @ '': '') e []), m, k)
                           | (None, k) \<Rightarrow> (None, m\<lparr>pm_vpnAddress := Some addr, pm_vpnAddressOwned := True\<rparr>, k)))))"

section \<open>DNS\<close>

text \<open>\<open>errors.Join\<close> of a list of errors.\<close>

fun errors_Join :: "error list \<Rightarrow> error option" where
  "errors_Join [] = None"
| "errors_Join (e # es) = (case errors_Join es of None \<Rightarrow> Some e | Some e' \<Rightarrow> Some (JoinE e e'))"

text \<open>\<open>func chooseDNSBackend\<close>: the first attempt that succeeds; the state threads through the failed ones.\<close>

fun choose_from :: "(string \<times> ('s \<Rightarrow> error option \<times> 's) option) list \<Rightarrow> error list \<Rightarrow> 's
    \<Rightarrow> string \<times> error option \<times> 's" where
  "choose_from [] errs s = ([], errors_Join errs, s)"
| "choose_from ((name, op) # attempts) errs s =
     (case op of
        None \<Rightarrow> choose_from attempts errs s
      | Some attempt \<Rightarrow>
          if name = [] then choose_from attempts errs s
          else (case attempt s of
                  (None, s) \<Rightarrow> (name, None, s)
                | (Some e, s) \<Rightarrow> choose_from attempts (errs @ [Wrap (name @ '': '') e []]) s))"

definition chooseDNSBackend :: "(string \<times> ('s \<Rightarrow> error option \<times> 's) option) list \<Rightarrow> 's \<Rightarrow> string \<times> error option \<times> 's" where
  "chooseDNSBackend attempts s = choose_from attempts [] s"

definition setResolvedDNS :: "'k netlink \<Rightarrow> addr list \<Rightarrow> platformManager \<times> 'k \<Rightarrow> error option \<times> platformManager \<times> 'k" where
  "setResolvedDNS nl servers s =
     (let (m, k) = s
      in case pm_link m of
           None \<Rightarrow> (Some (Errors ''missing link for DNS''), m, k)
         | Some link \<Rightarrow>
             (case SystemBus nl k of
                Some e \<Rightarrow> (Some e, m, k)
              | None \<Rightarrow>
                  (case SetLinkDNS nl k (lk_Index link) servers of
                     (Some e, k) \<Rightarrow> (Some e, m, k)
                   | (None, k) \<Rightarrow>
                       (case SetLinkDomains nl k (lk_Index link) of
                          (Some e, k) \<Rightarrow> (Some e, m, snd (RevertLink nl k (lk_Index link)))
                        | (None, k) \<Rightarrow> (None, m, k)))))"

definition setNetworkManagerDNS :: "'k netlink \<Rightarrow> addr list \<Rightarrow> platformManager \<times> 'k \<Rightarrow> error option \<times> platformManager \<times> 'k" where
  "setNetworkManagerDNS nl servers s =
     (let (m, k) = s
      in case SystemBus nl k of
           Some e \<Rightarrow> (Some e, m, k)
         | None \<Rightarrow>
             (case NmGetDevice nl k (pm_name m) of
                Inl e \<Rightarrow> (Some e, m, k)
              | Inr device \<Rightarrow>
                  if \<not> NmPathValid nl device then (Some (Errors ''NetworkManager returned an invalid device path''), m, k)
                  else
                    (case NmGetApplied nl k device of
                       Inl e \<Rightarrow> (Some e, m, k)
                     | Inr (settings, version) \<Rightarrow>
                         (case find (\<lambda>server. \<not> Is4 (Unmap server)) servers of
                            Some server \<Rightarrow>
                              (Some (Errors (''NetworkManager DNS only supports IPv4 addresses: '' @ addr_string server)), m, k)
                          | None \<Rightarrow>
                              (let ipv4 = (case settings ''ipv4'' of None \<Rightarrow> Map.empty | Some v \<Rightarrow> v);
                                   ipv4 = ipv4(''dns-data'' \<mapsto> VAddresses (map (addr_string \<circ> Unmap) servers),
                                               ''ignore-auto-dns'' \<mapsto> VBool True)
                               in case NmReapply nl k device (settings(''ipv4'' \<mapsto> ipv4)) version of
                                    (Some e, k) \<Rightarrow> (Some e, m, k)
                                  | (None, k) \<Rightarrow> (None, m\<lparr>pm_nmDevice := device, pm_nmOriginal := Some settings\<rparr>, k))))))"

definition setResolvconfDNS :: "'k netlink \<Rightarrow> string \<Rightarrow> addr list \<Rightarrow> platformManager \<times> 'k \<Rightarrow> error option \<times> platformManager \<times> 'k" where
  "setResolvconfDNS nl path servers s =
     (let (m, k) = s
      in case ResolvconfAdd nl k path (''flexconnect.'' @ pm_name m)
                (concat (map (\<lambda>server. ''nameserver '' @ addr_string server @ [CHR 0x0A]) servers)) of
           (Some (e, out), k) \<Rightarrow> (Some (Wrap ''resolvconf add failed: '' e ('': '' @ TrimSpace out)), m, k)
         | (None, k) \<Rightarrow> (None, m, k))"

text \<open>\<open>restoreDNS\<close>: undo the backend that was chosen; it stays chosen when that fails.\<close>

definition restoreDNS :: "'k netlink \<Rightarrow> platformManager \<Rightarrow> 'k \<Rightarrow> error option \<times> platformManager \<times> 'k" where
  "restoreDNS nl m k =
     (if pm_dnsBackend m = [] then (None, m, k)
      else if pm_dnsBackend m = ''systemd-resolved'' then
        (case SystemBus nl k of
           Some e \<Rightarrow> (Some e, m, k)
         | None \<Rightarrow>
             (case pm_link m of
                None \<Rightarrow> (Some (Errors ''missing link for DNS cleanup''), m, k)
              | Some link \<Rightarrow>
                  (case RevertLink nl k (lk_Index link) of
                     (Some e, k) \<Rightarrow> (Some e, m, k)
                   | (None, k) \<Rightarrow> (None, m\<lparr>pm_dnsBackend := []\<rparr>, k))))
      else if pm_dnsBackend m = ''resolvconf'' then
        (case LookPath nl k of
           Inl e \<Rightarrow> (Some e, m, k)
         | Inr path \<Rightarrow>
             (case ResolvconfDel nl k path (''flexconnect.'' @ pm_name m) of
                (Some (e, out), k) \<Rightarrow> (Some (Wrap ''resolvconf delete failed: '' e ('': '' @ TrimSpace out)), m, k)
              | (None, k) \<Rightarrow> (None, m\<lparr>pm_dnsBackend := []\<rparr>, k)))
      else if pm_dnsBackend m = ''network-manager'' then
        (if \<not> NmPathValid nl (pm_nmDevice m) then (Some (Errors ''missing NetworkManager DNS ownership state''), m, k)
         else
           (case pm_nmOriginal m of
              None \<Rightarrow> (Some (Errors ''missing NetworkManager DNS ownership state''), m, k)
            | Some original \<Rightarrow>
                (case SystemBus nl k of
                   Some e \<Rightarrow> (Some e, m, k)
                 | None \<Rightarrow>
                     (case NmReapply nl k (pm_nmDevice m) original 0 of
                        (Some e, k) \<Rightarrow> (Some e, m, k)
                      | (None, k) \<Rightarrow> (None, m\<lparr>pm_dnsBackend := [], pm_nmDevice := [], pm_nmOriginal := None\<rparr>, k)))))
      else (Some (Errors (''unknown DNS backend '' @ [CHR 0x22] @ pm_dnsBackend m @ [CHR 0x22])), m, k))"

definition setDNS :: "'k netlink \<Rightarrow> addr list \<Rightarrow> platformManager \<Rightarrow> 'k \<Rightarrow> error option \<times> platformManager \<times> 'k" where
  "setDNS nl servers m k =
     (if servers = [] then restoreDNS nl m k
      else
        (let attempts = [(''systemd-resolved'', Some (setResolvedDNS nl servers)),
                         (''network-manager'', Some (setNetworkManagerDNS nl servers))] @
               (case LookPath nl k of Inl _ \<Rightarrow> [] | Inr path \<Rightarrow> [(''resolvconf'', Some (setResolvconfDNS nl path servers))])
         in case chooseDNSBackend attempts (m, k) of
              (backend, Some e, m, k) \<Rightarrow> (Some (Wrap ''no supported Linux DNS owner succeeded: '' e []), m, k)
            | (backend, None, m, k) \<Rightarrow> (None, m\<lparr>pm_dnsBackend := backend\<rparr>, k)))"

section \<open>Close, Set and SetDynamicRoutes\<close>

text \<open>The inner loop of \<open>Close\<close> over one group: every prefix is tried, the first error of the whole call is kept, and the
  group is emptied whatever happened.\<close>

fun close_group :: "'k netlink \<Rightarrow> Netip.prefix list \<Rightarrow> link option \<Rightarrow> addr option \<Rightarrow> int \<Rightarrow> error option \<Rightarrow> 'k
    \<Rightarrow> error option \<times> 'k" where
  "close_group nl [] l gw priority firstErr k = (firstErr, k)"
| "close_group nl (p # ps) l gw priority firstErr k =
     (case routeDel nl p l gw priority k of
        (e, k) \<Rightarrow> close_group nl ps l gw priority (if firstErr = None then e else firstErr) k)"

definition close_routes :: "'k netlink \<Rightarrow> platformManager \<Rightarrow> 'k \<Rightarrow> error option \<times> platformManager \<times> 'k" where
  "close_routes nl m k =
     (let (e, k) = close_group nl (pm_serverRoutes m) (pm_localLink m) (pm_gateway m) 5 None k;
          (e, k) = close_group nl (pm_includeRoutes m) (pm_link m) None 6 e k;
          (e, k) = close_group nl (pm_excludeRoutes m) (pm_localLink m) (pm_gateway m) 5 e k;
          (e, k) = close_group nl (pm_dynamicInclude m) (pm_link m) None 6 e k;
          (e, k) = close_group nl (pm_dynamicExclude m) (pm_localLink m) (pm_gateway m) 5 e k
      in (e, m\<lparr>pm_serverRoutes := [], pm_includeRoutes := [], pm_excludeRoutes := [], pm_dynamicInclude := [],
              pm_dynamicExclude := []\<rparr>, k))"

definition pm_Close :: "'k netlink \<Rightarrow> platformManager \<Rightarrow> 'k \<Rightarrow> error option \<times> platformManager \<times> 'k" where
  "pm_Close nl m k =
     (let (firstErr, m, k) = close_routes nl m k;
          (e, m, k) = restoreDNS nl m k;
          firstErr = (if firstErr = None then e else firstErr);
          (e, k) = (if pm_vpnAddressOwned m \<and> pm_vpnAddress m \<noteq> None
                    then deleteExactAddress nl (pm_link m) (pm_vpnAddress m) k else (None, k));
          firstErr = (if firstErr = None then e else firstErr)
      in (firstErr, m\<lparr>pm_vpnAddress := None, pm_vpnAddressOwned := False\<rparr>, k))"

text \<open>The part of \<open>Set\<close> after the address: the physical link and gateway.\<close>

definition set_physical :: "'k netlink \<Rightarrow> Config \<Rightarrow> link \<Rightarrow> platformManager \<Rightarrow> 'k \<Rightarrow> error option \<times> platformManager" where
  "set_physical nl cfg link m k =
     (let m = m\<lparr>pm_localLink := None\<rparr>;
          (e, m) = (if cf_GatewayInterfaceIndex cfg \<noteq> 0 then
                      (case LinkByIndex nl k (cf_GatewayInterfaceIndex cfg) of
                         Inl e \<Rightarrow> (Some (Wrap (''resolve physical gateway interface '' @
                                          fmt_d (cf_GatewayInterfaceIndex cfg) @ '': '') e []), m)
                       | Inr l \<Rightarrow> (None, m\<lparr>pm_localLink := Some l\<rparr>))
                    else (None, m))
      in case e of
           Some e \<Rightarrow> (Some e, m)
         | None \<Rightarrow>
             (let m = (case cf_Gateway cfg of None \<Rightarrow> m | Some g \<Rightarrow> m\<lparr>pm_gateway := net_ParseIP (addr_string g)\<rparr>)
              in if cf_ServerAddress cfg \<noteq> None \<and>
                    (pm_localLink m = None \<or> pm_gateway m = None \<or> map_option lk_Index (pm_localLink m) = Some (lk_Index link))
                 then (Some (Errors ''missing physical underlay for VPN server route''), m)
                 else (None, m)))"

definition server_prefixes :: "Config \<Rightarrow> Netip.prefix list" where
  "server_prefixes cfg = (case cf_ServerAddress cfg of None \<Rightarrow> [] | Some a \<Rightarrow> [PrefixFrom a (BitLen a)])"

text \<open>The last part of \<open>Set\<close>: server, included and excluded routes, then DNS.\<close>

definition set_routes :: "'k netlink \<Rightarrow> Config \<Rightarrow> platformManager \<Rightarrow> 'k \<Rightarrow> error option \<times> platformManager \<times> 'k" where
  "set_routes nl cfg m k =
     (case syncRoutes nl (pm_serverRoutes m) (server_prefixes cfg) (pm_localLink m) (pm_gateway m) 5 k of
        (Some e, owned, k) \<Rightarrow> (Some e, m\<lparr>pm_serverRoutes := owned\<rparr>, k)
      | (None, owned, k) \<Rightarrow>
          (let m = m\<lparr>pm_serverRoutes := owned\<rparr>
           in case syncRoutes nl (pm_includeRoutes m) (cf_IncludeRoutes cfg) (pm_link m) None 6 k of
                (Some e, owned, k) \<Rightarrow> (Some e, m\<lparr>pm_includeRoutes := owned\<rparr>, k)
              | (None, owned, k) \<Rightarrow>
                  (let m = m\<lparr>pm_includeRoutes := owned\<rparr>
                   in case syncRoutes nl (pm_excludeRoutes m) (withoutPrefixes (cf_ExcludeRoutes cfg) (server_prefixes cfg))
                             (pm_localLink m) (pm_gateway m) 5 k of
                        (Some e, owned, k) \<Rightarrow> (Some e, m\<lparr>pm_excludeRoutes := owned\<rparr>, k)
                      | (None, owned, k) \<Rightarrow> setDNS nl (cf_DNSServers cfg) (m\<lparr>pm_excludeRoutes := owned\<rparr>) k)))"

definition set_address :: "'k netlink \<Rightarrow> Config \<Rightarrow> Netip.prefix \<Rightarrow> link \<Rightarrow> platformManager \<Rightarrow> 'k
    \<Rightarrow> error option \<times> platformManager \<times> 'k" where
  "set_address nl cfg vpn link m k =
     (case (if 0 < cf_MTU cfg then LinkSetMTU nl k (lk_Index link) (cf_MTU cfg) else (None, k)) of
        (Some e, k) \<Rightarrow> (Some e, m, k)
      | (None, k) \<Rightarrow>
          (case NlParseAddr nl (prefix_string vpn) of
             Inl e \<Rightarrow> (Some e, m, k)
           | Inr addr \<Rightarrow> setVPNAddress nl link addr m k))"

text \<open>\<open>Set\<close>; a nil configuration is \<open>None\<close>.\<close>

definition pm_Set :: "'k netlink \<Rightarrow> Config option \<Rightarrow> platformManager \<Rightarrow> 'k \<Rightarrow> error option \<times> platformManager \<times> 'k" where
  "pm_Set nl cfg0 m k =
     (case cfg0 of
        None \<Rightarrow> pm_Close nl m k
      | Some cfg \<Rightarrow>
          (case cf_VPNAddress cfg of
             None \<Rightarrow> pm_Close nl m k
           | Some vpn \<Rightarrow>
               (case (if pm_link m = None then pm_Up nl m k else (None, m, k)) of
                  (Some e, m, k) \<Rightarrow> (Some e, m, k)
                | (None, m, k) \<Rightarrow>
                    (case pm_link m of
                       None \<Rightarrow> (None, m, k)
                     | Some link \<Rightarrow>
                         (case set_address nl cfg vpn link m k of
                            (Some e, m, k) \<Rightarrow> (Some e, m, k)
                          | (None, m, k) \<Rightarrow>
                              (case set_physical nl cfg link m k of
                                 (Some e, m) \<Rightarrow> (Some e, m, k)
                               | (None, m) \<Rightarrow> set_routes nl cfg m k))))))"

definition addrsToHostPrefixes :: "addr list \<Rightarrow> Netip.prefix list" where
  "addrsToHostPrefixes as = map (\<lambda>a. PrefixFrom (Unmap a) (BitLen (Unmap a))) as"

definition pm_SetDynamicRoutes :: "'k netlink \<Rightarrow> DynamicRoutes \<Rightarrow> platformManager \<Rightarrow> 'k
    \<Rightarrow> error option \<times> platformManager \<times> 'k" where
  "pm_SetDynamicRoutes nl routes m k =
     (case syncRoutes nl (pm_dynamicInclude m) (addrsToHostPrefixes (dr_Include routes)) (pm_link m) None 6 k of
        (Some e, owned, k) \<Rightarrow> (Some e, m\<lparr>pm_dynamicInclude := owned\<rparr>, k)
      | (None, owned, k) \<Rightarrow>
          (let m = m\<lparr>pm_dynamicInclude := owned\<rparr>
           in case syncRoutes nl (pm_dynamicExclude m) (addrsToHostPrefixes (dr_Exclude routes)) (pm_localLink m) (pm_gateway m) 5 k of
                (e, owned, k) \<Rightarrow> (e, m\<lparr>pm_dynamicExclude := owned\<rparr>, k)))"

text \<open>\<open>func GetLocalInterface\<close>\<close>

definition routeSourceIPv4 :: "'k netlink \<Rightarrow> 'k \<Rightarrow> kroute \<Rightarrow> link \<Rightarrow> string" where
  "routeSourceIPv4 nl k route link =
     (let from_list = (case AddrList nl k (lk_Index link) of
                         Inl _ \<Rightarrow> []
                       | Inr as \<Rightarrow> (case find To4 (map fst as) of None \<Rightarrow> [] | Some ip \<Rightarrow> addr_string ip))
      in case kr_Src route of
           Some src \<Rightarrow> if To4 src then addr_string src else from_list
         | None \<Rightarrow> from_list)"

fun gateway_route :: "kroute list \<Rightarrow> kroute option \<Rightarrow> kroute option" where
  "gateway_route [] best = best"
| "gateway_route (r # rs) best =
     gateway_route rs
       (if kr_Dst r = None \<and> kr_Gw r \<noteq> None \<and> (case best of None \<Rightarrow> True | Some b \<Rightarrow> kr_Priority r < kr_Priority b)
        then Some r else best)"

definition GetLocalInterface :: "'k netlink \<Rightarrow> 'k \<Rightarrow> error + LocalInterface" where
  "GetLocalInterface nl k =
     (case RouteListDst nl k of
        Inl e \<Rightarrow> Inl e
      | Inr routes \<Rightarrow>
          (case gateway_route routes None of
             None \<Rightarrow> Inl (Errors ''no default IPv4 route'')
           | Some route \<Rightarrow>
               (case LinkByIndex nl k (kr_LinkIndex route) of
                  Inl e \<Rightarrow> Inl e
                | Inr l \<Rightarrow> Inr \<lparr>li_Name = lk_Name l, li_IP4 = routeSourceIPv4 nl k route l, li_MAC = lk_MAC l,
                     li_Gateway = (case kr_Gw route of None \<Rightarrow> ''<nil>'' | Some gw \<Rightarrow> addr_string gw),
                     li_InterfaceIndex = kr_LinkIndex route\<rparr>)))"

end
