(* ===== verification/Ownership.thy ===== *)
theory Ownership
  imports Linuxnet
begin

text \<open>
  Which routes the Linux manager answers for. \<open>tracked\<close> is the set of routes its maps stand for; the lemmas, proved in the locale
  \<open>route_table\<close>, say that whatever call fails, a route that the manager added and did not delete is tracked after \<open>Set\<close> and
  \<open>SetDynamicRoutes\<close>, and that a \<open>Close\<close> without an error leaves none of them.
\<close>

definition kroute_of :: "int \<Rightarrow> addr option \<Rightarrow> int \<Rightarrow> Netip.prefix \<Rightarrow> kroute" where
  "kroute_of i gw priority p = \<lparr>kr_Dst = Some p, kr_LinkIndex = i, kr_Gw = gw, kr_Src = None, kr_Priority = priority\<rparr>"

definition group_routes :: "link option \<Rightarrow> addr option \<Rightarrow> int \<Rightarrow> Netip.prefix set \<Rightarrow> kroute set" where
  "group_routes l gw priority ps = (case l of None \<Rightarrow> {} | Some link \<Rightarrow> kroute_of (lk_Index link) gw priority ` ps)"

definition physical :: "platformManager \<Rightarrow> Netip.prefix set" where
  "physical m = set (pm_serverRoutes m) \<union> set (pm_excludeRoutes m) \<union> set (pm_dynamicExclude m)"

definition tunnelled :: "platformManager \<Rightarrow> Netip.prefix set" where
  "tunnelled m = set (pm_includeRoutes m) \<union> set (pm_dynamicInclude m)"

definition tracked :: "platformManager \<Rightarrow> kroute set" where
  "tracked m = group_routes (pm_localLink m) (pm_gateway m) 5 (physical m) \<union> group_routes (pm_link m) None 6 (tunnelled m)"

definition all_v4 :: "platformManager \<Rightarrow> bool" where
  "all_v4 m \<longleftrightarrow> (\<forall>p \<in> physical m \<union> tunnelled m. v4_prefix p)"

definition config_v4 :: "Config \<Rightarrow> bool" where
  "config_v4 cfg \<longleftrightarrow> (\<forall>p \<in> set (cf_IncludeRoutes cfg) \<union> set (cf_ExcludeRoutes cfg). v4_prefix p) \<and>
     (case cf_ServerAddress cfg of None \<Rightarrow> True | Some a \<Rightarrow> Is4 a)"

lemma group_routes_union: "group_routes l gw pr (A \<union> B) = group_routes l gw pr A \<union> group_routes l gw pr B"
  by (auto simp: group_routes_def split: option.splits)

lemma group_routes_mono: "A \<subseteq> B \<Longrightarrow> group_routes l gw pr A \<subseteq> group_routes l gw pr B"
  by (auto simp: group_routes_def split: option.splits)

lemma group_routes_empty [simp]: "group_routes l gw pr {} = {}" "group_routes None gw pr ps = {}"
  by (auto simp: group_routes_def split: option.splits)

lemma route_matches_kroute_of [simp]: "route_matches gw pr (kroute_of i gw pr p)"
  by (simp add: route_matches_def kroute_of_def split: option.splits)

lemma kroute_of_eq [simp]: "kroute_of i gw pr p = kroute_of i gw pr q \<longleftrightarrow> p = q"
  by (simp add: kroute_of_def)

lemma DiffPrefixes_sets:
  assumes "DiffPrefixes old nxt = (add, del, state)"
  shows "set state = Masked ` set nxt" "set add = set state - set old" "set del = set old - set state"
  using assms diff_add_spec [of old nxt "[]" "[]"] by (auto simp: DiffPrefixes_def split: prod.splits)

lemma choose_from_keeps:
  assumes "\<And>n op f s e s'. (n, op) \<in> set attempts \<Longrightarrow> op = Some f \<Longrightarrow> f s = (e, s') \<Longrightarrow> P s \<Longrightarrow> P s'"
    and "P s" "choose_from attempts errs s = (n, e, s')"
  shows "P s'"
  using assms
proof (induction attempts arbitrary: errs s)
  case (Cons a attempts)
  obtain nm op where a: "a = (nm, op)" by fastforce
  show ?case
  proof (cases "op = None \<or> nm = []")
    case True
    with Cons.prems(3) a have "choose_from attempts errs s = (n, e, s')" by (auto split: option.splits)
    from Cons.IH [OF _ Cons.prems(2) this] Cons.prems(1) show ?thesis by fastforce
  next
    case False
    then obtain f where f: "op = Some f" by auto
    obtain d s1 where d: "f s = (d, s1)" by fastforce
    have s1: "P s1" using Cons.prems(1,2) a f d by fastforce
    show ?thesis
    proof (cases d)
      case None
      with Cons.prems(3) a f d False s1 show ?thesis by auto
    next
      case (Some x)
      with Cons.prems(3) a f d False have "choose_from attempts (errs @ [Wrap (nm @ '': '') x []]) s1 = (n, e, s')" by auto
      from Cons.IH [OF _ s1 this] Cons.prems(1) show ?thesis by fastforce
    qed
  qed
qed simp

lemma host_prefixes_v4:
  assumes "\<forall>a \<in> set as. Is4 (Unmap a)"
  shows "(\<forall>p \<in> set (addrsToHostPrefixes as). v4_prefix p) \<and> Masked ` set (addrsToHostPrefixes as) = set (addrsToHostPrefixes as)"
proof -
  have "v4_prefix p \<and> Masked p = p" if p: "p \<in> set (addrsToHostPrefixes as)" for p
  proof -
    from p obtain a where "a \<in> set as" "p = PrefixFrom (Unmap a) (BitLen (Unmap a))" by (auto simp: addrsToHostPrefixes_def)
    with assms show ?thesis by (cases "Unmap a") (auto simp: PrefixFrom_def)
  qed
  then show ?thesis by force
qed

text \<open>What \<open>Set\<close> makes of the physical side of a manager that owns no physical route yet: the link of the gateway interface and the
  gateway of the configuration, or nothing.\<close>

definition cfg_gateway :: "Config \<Rightarrow> addr option" where
  "cfg_gateway cfg = (case cf_Gateway cfg of None \<Rightarrow> None | Some g \<Rightarrow> net_ParseIP (addr_string g))"

section \<open>Deleting\<close>

context route_table
begin

lemma RouteDel_shrinks: "RouteDel nl k r = (e, k') \<Longrightarrow> tbl k' \<subseteq> tbl k"
  using RouteDel_ok [of k r k'] RouteDel_error [of k r _ k'] by (cases e) auto

lemma del_routes_shrinks: "del_routes nl gw pr rs k = (e, k') \<Longrightarrow> tbl k' \<subseteq> tbl k"
proof (induction rs arbitrary: k)
  case (Cons r rs)
  then show ?case
    by (fastforce split: if_splits prod.splits option.splits dest: RouteDel_shrinks)
qed simp

lemma del_routes_gone: "del_routes nl gw pr rs k = (None, k') \<Longrightarrow> r \<in> set rs \<Longrightarrow> route_matches gw pr r \<Longrightarrow> r \<notin> tbl k'"
proof (induction rs arbitrary: k)
  case (Cons x rs)
  show ?case
  proof (cases "r = x")
    case True
    obtain d k1 where d: "RouteDel nl k x = (d, k1)" by fastforce
    with True Cons.prems have "x \<notin> tbl k1 \<and> del_routes nl gw pr rs k1 = (None, k')"
      using RouteDel_ok [of k x k1] RouteDel_error [of k x _ k1]
      by (auto split: option.splits if_splits)
    then show ?thesis using True del_routes_shrinks by blast
  next
    case False
    with Cons.prems obtain k1 where "del_routes nl gw pr rs k1 = (None, k')"
      by (auto split: option.splits if_splits prod.splits)
    with Cons False show ?thesis by auto
  qed
qed simp

lemma routeDel_shrinks: "routeDel nl p l gw pr k = (e, k') \<Longrightarrow> tbl k' \<subseteq> tbl k"
  by (auto simp: routeDel_def split: option.splits sum.splits dest: del_routes_shrinks)

lemma routeDel_gone:
  assumes "routeDel nl p (Some link) gw pr k = (None, k')" "v4_prefix p"
  shows "kroute_of (lk_Index link) gw pr p \<notin> tbl k'"
proof -
  from assms obtain rs where l: "RouteListFiltered nl k p (lk_Index link) = Inr rs" and d: "del_routes nl gw pr rs k = (None, k')"
    by (auto simp: routeDel_def ParseIPNet_string split: sum.splits)
  let ?r = "kroute_of (lk_Index link) gw pr p"
  have "?r \<in> tbl k \<Longrightarrow> ?r \<in> set rs"
    by (rule RouteListFiltered_complete [OF l]) (simp_all add: kroute_of_def)
  with del_routes_shrinks [OF d] del_routes_gone [OF d, of ?r] show ?thesis by auto
qed

lemma routeDel_link: "routeDel nl p l gw pr k = (None, k') \<Longrightarrow> l \<noteq> None"
  by (auto simp: routeDel_def split: option.splits)

section \<open>Synchronising one group\<close>

lemma sync_add_owns:
  assumes "sync_add nl l gw pr ps owned k = (e, owned', k')" "\<forall>p \<in> set ps. v4_prefix p"
  shows "tbl k' \<subseteq> tbl k \<union> kroute_of (lk_Index l) gw pr ` set owned' \<and> set owned \<subseteq> set owned' \<and>
    set owned' \<subseteq> set owned \<union> set ps \<and> (\<forall>x. e \<noteq> Some (x, False)) \<and> (e = None \<longrightarrow> set owned' = set owned \<union> set ps)"
  using assms
proof (induction ps arbitrary: owned k)
  case (Cons p ps)
  let ?r = "kroute_of (lk_Index l) gw pr p"
  obtain d k1 where d: "RouteAdd nl k ?r = (d, k1)" by fastforce
  show ?case
  proof (cases d)
    case (Some x)
    with Cons.prems d RouteAdd_error [of k ?r x k1] show ?thesis
      by (auto simp: ParseIPNet_string kroute_of_def)
  next
    case None
    let ?o = "p # removeAll p owned"
    from None Cons.prems d have "sync_add nl l gw pr ps ?o k1 = (e, owned', k')"
      by (simp add: ParseIPNet_string kroute_of_def)
    from Cons.IH [OF this] Cons.prems RouteAdd_ok [of k ?r k1] d None show ?thesis
      by auto
  qed
qed simp

lemma sync_del_owns:
  assumes "sync_del nl l gw pr ps owned k = (e, owned', k')" "\<forall>p \<in> set ps. v4_prefix p"
  shows "tbl k' \<subseteq> tbl k \<and> set owned' \<subseteq> set owned \<and> (e = None \<longrightarrow> set owned' = set owned - set ps) \<and>
    (\<forall>p \<in> set owned - set owned'. kroute_of (lk_Index l) gw pr p \<notin> tbl k')"
  using assms
proof (induction ps arbitrary: owned k)
  case (Cons p ps)
  obtain d k1 where d: "routeDel nl p (Some l) gw pr k = (d, k1)" by fastforce
  show ?case
  proof (cases d)
    case (Some x)
    with Cons.prems d routeDel_shrinks [OF d] show ?thesis by auto
  next
    case None
    with Cons.prems d have "sync_del nl l gw pr ps (removeAll p owned) k1 = (e, owned', k')" by simp
    from Cons.IH [OF this] Cons.prems routeDel_shrinks [OF d] routeDel_gone [OF d [unfolded None]] show ?thesis
      by auto
  qed
qed simp

text \<open>After \<open>syncRoutes\<close>, with or without an error, the group remembers every route it may have added, forgets only what is gone,
  and never remembers anything but old and requested prefixes; without an error it is exactly the request.\<close>

lemma syncRoutes_owns:
  assumes s: "syncRoutes nl old nxt l gw pr k = (e, new, k')" and v: "\<forall>p \<in> set old \<union> set nxt. v4_prefix p"
  shows "tbl k' \<subseteq> tbl k \<union> group_routes l gw pr (set new) \<and>
    tbl k' \<inter> group_routes l gw pr (set old - set new) = {} \<and>
    set new \<subseteq> set old \<union> Masked ` set nxt \<and> (l = None \<longrightarrow> new = old) \<and>
    (e = None \<longrightarrow> l \<noteq> None \<longrightarrow> set new = Masked ` set nxt)"
proof (cases l)
  case None
  with s show ?thesis by (auto simp: syncRoutes_def)
next
  case (Some link)
  obtain add del state where d: "DiffPrefixes old nxt = (add, del, state)" using prod_cases3 by blast
  note sets = DiffPrefixes_sets [OF d]
  have vs: "\<forall>p \<in> set add. v4_prefix p" "\<forall>p \<in> set del. v4_prefix p"
    using v sets by auto
  obtain e1 o1 k1 where a: "sync_add nl link gw pr add old k = (e1, o1, k1)" using prod_cases3 by blast
  note add_owns = sync_add_owns [OF a vs(1)]
  show ?thesis
  proof (cases e1)
    case (Some x)
    then obtain y where "e1 = Some (y, True)" using add_owns by (cases x) auto
    with s a d \<open>l = Some link\<close> add_owns sets show ?thesis by (auto simp: syncRoutes_def group_routes_def)
  next
    case None
    obtain e2 o2 k2 where b: "sync_del nl link gw pr del o1 k1 = (e2, o2, k2)" using prod_cases3 by blast
    note del_owns = sync_del_owns [OF b vs(2)]
    have "k' = k2 \<and> (e2 = None \<and> new = state \<or> e2 \<noteq> None \<and> new = o2) \<and> (e = e2)"
      using s a b d Some None by (auto simp: syncRoutes_def split: option.splits)
    moreover have "set o1 = set old \<union> set state" using add_owns None sets by auto
    moreover have "e2 = None \<Longrightarrow> set o2 = set state"
      using del_owns add_owns None sets by auto
    ultimately have new: "set new = set o2" "k' = k2" "e = None \<Longrightarrow> set new = set state" "set o1 = set old \<union> set state"
      by auto
    have "tbl k' \<subseteq> tbl k \<union> kroute_of (lk_Index link) gw pr ` set new"
    proof
      fix r assume r: "r \<in> tbl k'"
      then have "r \<in> tbl k \<or> (\<exists>p \<in> set o1. r = kroute_of (lk_Index link) gw pr p)"
        using add_owns del_owns new(2) by auto
      then show "r \<in> tbl k \<union> kroute_of (lk_Index link) gw pr ` set new"
        using del_owns new(1,2) r by (metis DiffI UnCI UnI2 imageI)
    qed
    moreover have "tbl k' \<inter> kroute_of (lk_Index link) gw pr ` (set old - set new) = {}"
      using del_owns new by auto
    moreover have "set new \<subseteq> set old \<union> Masked ` set nxt"
      using del_owns new sets by auto
    ultimately show ?thesis
      using Some new sets by (auto simp: group_routes_def)
  qed
qed

section \<open>The operations of the manager\<close>

lemma pm_Up_frame:
  assumes "pm_Up nl m k = (e, m', k')"
  shows "tbl k' \<subseteq> tbl k \<and> (m' = m \<or> (\<exists>l. LinkByName nl k (pm_name m) = Inr l \<and> m' = m\<lparr>pm_link := Some l\<rparr>)) \<and>
    (e = None \<longrightarrow> pm_link m' \<noteq> None)"
proof (cases "LinkByName nl k (pm_name m)")
  case (Inl x)
  with assms show ?thesis by (auto simp: pm_Up_def)
next
  case (Inr l)
  obtain d k1 where d: "LinkSetUp nl k (lk_Index l) = (d, k1)" by fastforce
  obtain f k2 where f: "LinkSetMulticastOff nl k1 (lk_Index l) = (f, k2)" by fastforce
  from assms Inr d f link_calls(1) [OF d] link_calls(2) [OF f] show ?thesis
    by (auto simp: pm_Up_def Let_def split: option.splits)
qed

lemma deleteExactAddress_frame: "deleteExactAddress nl l a k = (e, k') \<Longrightarrow> tbl k' \<subseteq> tbl k"
  by (auto simp: deleteExactAddress_def split: option.splits sum.splits if_splits dest: addr_calls)

text \<open>The fields the route lemmas talk about.\<close>

definition route_state :: "platformManager \<Rightarrow> link option \<times> link option \<times> addr option \<times> Netip.prefix list \<times> Netip.prefix list
    \<times> Netip.prefix list \<times> Netip.prefix list \<times> Netip.prefix list" where
  "route_state m = (pm_link m, pm_localLink m, pm_gateway m, pm_serverRoutes m, pm_includeRoutes m, pm_excludeRoutes m,
     pm_dynamicInclude m, pm_dynamicExclude m)"

lemma setVPNAddress_frame:
  assumes "setVPNAddress nl link a m k = (e, m', k')"
  shows "tbl k' \<subseteq> tbl k \<and> route_state m' = route_state m \<and> pm_name m' = pm_name m"
proof -
  have upd: "route_state (m\<lparr>pm_vpnAddressOwned := b\<rparr>) = route_state m" "route_state (m\<lparr>pm_vpnAddress := x\<rparr>) = route_state m"
    "route_state (m\<lparr>pm_vpnAddressOwned := b, pm_vpnAddress := x\<rparr>) = route_state m"
    "route_state (m\<lparr>pm_vpnAddress := x, pm_vpnAddressOwned := b\<rparr>) = route_state m"
    "route_state (m\<lparr>pm_vpnAddressOwned := c, pm_vpnAddress := x, pm_vpnAddressOwned := b\<rparr>) = route_state m" for b c x
    by (simp_all add: route_state_def)
  show ?thesis
    using assms unfolding setVPNAddress_def Let_def
    by (force split: if_splits option.splits sum.splits prod.splits simp: upd dest: deleteExactAddress_frame addr_calls)
qed

lemma set_address_frame:
  assumes "set_address nl cfg vpn link m k = (e, m', k')"
  shows "tbl k' \<subseteq> tbl k \<and> route_state m' = route_state m \<and> pm_name m' = pm_name m"
  using assms unfolding set_address_def
  by (fastforce split: if_splits option.splits sum.splits prod.splits dest: setVPNAddress_frame link_calls(3))

lemma restoreDNS_frame:
  assumes "restoreDNS nl m k = (e, m', k')"
  shows "tbl k' \<subseteq> tbl k \<and> route_state m' = route_state m \<and> pm_name m' = pm_name m"
  using assms unfolding restoreDNS_def
  by (auto split: if_splits option.splits sum.splits prod.splits simp: route_state_def dest: dns_calls)

lemma dns_attempt_frames:
  "setResolvedDNS nl servers (m, k) = (e, m', k') \<Longrightarrow> tbl k' \<subseteq> tbl k \<and> route_state m' = route_state m \<and> pm_name m' = pm_name m"
  "setNetworkManagerDNS nl servers (m, k) = (e, m', k') \<Longrightarrow> tbl k' \<subseteq> tbl k \<and> route_state m' = route_state m \<and> pm_name m' = pm_name m"
  "setResolvconfDNS nl path servers (m, k) = (e, m', k') \<Longrightarrow> tbl k' \<subseteq> tbl k \<and> route_state m' = route_state m \<and> pm_name m' = pm_name m"
proof -
  assume r: "setResolvedDNS nl servers (m, k) = (e, m', k')"
  show "tbl k' \<subseteq> tbl k \<and> route_state m' = route_state m \<and> pm_name m' = pm_name m"
  proof (cases "pm_link m")
    case (Some l)
    obtain d1 k1 where 1: "SetLinkDNS nl k (lk_Index l) servers = (d1, k1)" by fastforce
    obtain d2 k2 where 2: "SetLinkDomains nl k1 (lk_Index l) = (d2, k2)" by fastforce
    obtain d3 k3 where 3: "RevertLink nl k2 (lk_Index l) = (d3, k3)" by fastforce
    from r Some 1 2 3 dns_calls(1) [OF 1] dns_calls(2) [OF 2] dns_calls(3) [OF 3] show ?thesis
      by (auto simp: setResolvedDNS_def split: option.splits)
  qed (use r in \<open>simp add: setResolvedDNS_def\<close>)
next
  assume "setNetworkManagerDNS nl servers (m, k) = (e, m', k')"
  then show "tbl k' \<subseteq> tbl k \<and> route_state m' = route_state m \<and> pm_name m' = pm_name m"
    by (auto simp: setNetworkManagerDNS_def Let_def route_state_def split: if_splits option.splits sum.splits prod.splits
        dest: dns_calls(4))
next
  assume "setResolvconfDNS nl path servers (m, k) = (e, m', k')"
  then show "tbl k' \<subseteq> tbl k \<and> route_state m' = route_state m \<and> pm_name m' = pm_name m"
    by (auto simp: setResolvconfDNS_def split: option.splits prod.splits dest: dns_calls(5))
qed

lemma setDNS_frame:
  assumes "setDNS nl servers m k = (e, m', k')"
  shows "tbl k' \<subseteq> tbl k \<and> route_state m' = route_state m \<and> pm_name m' = pm_name m"
proof (cases "servers = []")
  case True
  with assms restoreDNS_frame show ?thesis by (auto simp: setDNS_def)
next
  case False
  let ?attempts = "[(''systemd-resolved'', Some (setResolvedDNS nl servers)), (''network-manager'', Some (setNetworkManagerDNS nl servers))] @
    (case LookPath nl k of Inl _ \<Rightarrow> [] | Inr path \<Rightarrow> [(''resolvconf'', Some (setResolvconfDNS nl path servers))])"
  let ?P = "\<lambda>(n, j). tbl j \<subseteq> tbl k \<and> route_state n = route_state m \<and> pm_name n = pm_name m"
  obtain b x n j where c: "chooseDNSBackend ?attempts (m, k) = (b, x, n, j)" by (metis prod_cases4)
  have "?P (n, j)"
  proof (rule choose_from_keeps [where P = ?P, OF _ _ c [unfolded chooseDNSBackend_def]])
    show "?P s'" if "(nm, op) \<in> set ?attempts" "op = Some f" "f s = (d, s')" "?P s" for nm op f s d s'
      using that by (cases s; cases s')
        (auto split: sum.splits dest!: dns_attempt_frames)
  qed simp
  with assms c False show ?thesis
    by (auto simp: setDNS_def Let_def route_state_def split: option.splits)
qed

text \<open>\<open>Close\<close>\<close>

lemma close_group_shrinks: "close_group nl ps l gw pr e0 k = (e, k') \<Longrightarrow> tbl k' \<subseteq> tbl k"
proof (induction ps arbitrary: e0 k)
  case (Cons p ps)
  then show ?case by (fastforce split: prod.splits dest: routeDel_shrinks)
qed simp

lemma close_group_gone:
  assumes "close_group nl ps l gw pr e0 k = (None, k')" "\<forall>p \<in> set ps. v4_prefix p"
  shows "e0 = None \<and> tbl k' \<inter> group_routes l gw pr (set ps) = {}"
  using assms
proof (induction ps arbitrary: e0 k)
  case (Cons p ps)
  obtain d k1 where d: "routeDel nl p l gw pr k = (d, k1)" by fastforce
  with Cons.prems have c: "close_group nl ps l gw pr (if e0 = None then d else e0) k1 = (None, k')" by simp
  from Cons.IH [OF this] Cons.prems have n: "e0 = None" "d = None" and g: "tbl k' \<inter> group_routes l gw pr (set ps) = {}"
    by (auto split: if_splits)
  from routeDel_link [of p l gw pr k k1] d n obtain link where l: "l = Some link" by auto
  from routeDel_gone [of p link gw pr k k1] d n l Cons.prems(2) close_group_shrinks [OF c] g show ?case
    by (auto simp: group_routes_def n(1))
qed simp

lemma close_routes_shrinks: "close_routes nl m k = (e, m', k') \<Longrightarrow> tbl k' \<subseteq> tbl k"
  by (fastforce simp: close_routes_def split: prod.splits dest!: close_group_shrinks)

lemma close_routes_gone:
  assumes "close_routes nl m k = (None, m', k')" "all_v4 m"
  shows "tbl k' \<inter> tracked m = {}"
proof -
  obtain e1 k1 where 1: "close_group nl (pm_serverRoutes m) (pm_localLink m) (pm_gateway m) 5 None k = (e1, k1)" by fastforce
  obtain e2 k2 where 2: "close_group nl (pm_includeRoutes m) (pm_link m) None 6 e1 k1 = (e2, k2)" by fastforce
  obtain e3 k3 where 3: "close_group nl (pm_excludeRoutes m) (pm_localLink m) (pm_gateway m) 5 e2 k2 = (e3, k3)" by fastforce
  obtain e4 k4 where 4: "close_group nl (pm_dynamicInclude m) (pm_link m) None 6 e3 k3 = (e4, k4)" by fastforce
  from assms 1 2 3 4 have 5: "close_group nl (pm_dynamicExclude m) (pm_localLink m) (pm_gateway m) 5 e4 k4 = (None, k')"
    by (auto simp: close_routes_def split: prod.splits)
  have v: "\<forall>p \<in> set (pm_serverRoutes m). v4_prefix p" "\<forall>p \<in> set (pm_includeRoutes m). v4_prefix p"
    "\<forall>p \<in> set (pm_excludeRoutes m). v4_prefix p" "\<forall>p \<in> set (pm_dynamicInclude m). v4_prefix p"
    "\<forall>p \<in> set (pm_dynamicExclude m). v4_prefix p"
    using assms(2) by (auto simp: all_v4_def physical_def tunnelled_def)
  note g5 = close_group_gone [OF 5 v(5)]
  note g4 = close_group_gone [OF 4 [unfolded g5 [THEN conjunct1]] v(4)]
  note g3 = close_group_gone [OF 3 [unfolded g4 [THEN conjunct1]] v(3)]
  note g2 = close_group_gone [OF 2 [unfolded g3 [THEN conjunct1]] v(2)]
  note g1 = close_group_gone [OF 1 [unfolded g2 [THEN conjunct1]] v(1)]
  have sub: "tbl k' \<subseteq> tbl k4" "tbl k' \<subseteq> tbl k3" "tbl k' \<subseteq> tbl k2" "tbl k' \<subseteq> tbl k1"
    using close_group_shrinks [OF 5] close_group_shrinks [OF 4] close_group_shrinks [OF 3] close_group_shrinks [OF 2]
    by auto
  have cut: "X \<subseteq> Y \<Longrightarrow> Y \<inter> Z = {} \<Longrightarrow> X \<inter> Z = {}" for X Y Z :: "kroute set" by auto
  from g5 cut [OF sub(1) g4 [THEN conjunct2]] cut [OF sub(2) g3 [THEN conjunct2]] cut [OF sub(3) g2 [THEN conjunct2]]
    cut [OF sub(4) g1 [THEN conjunct2]]
  show ?thesis
    by (simp add: tracked_def physical_def tunnelled_def group_routes_union Int_Un_distrib)
qed

lemma pm_Close_frame:
  assumes "pm_Close nl m k = (e, m', k')"
  shows "tbl k' \<subseteq> tbl k \<and> (all_v4 m \<longrightarrow> e = None \<longrightarrow> tbl k' \<inter> tracked m = {})"
proof -
  obtain e1 m1 k1 where 1: "close_routes nl m k = (e1, m1, k1)" using prod_cases3 by blast
  obtain e2 m2 k2 where 2: "restoreDNS nl m1 k1 = (e2, m2, k2)" using prod_cases3 by blast
  obtain e3 k3 where 3: "(if pm_vpnAddressOwned m2 \<and> pm_vpnAddress m2 \<noteq> None
      then deleteExactAddress nl (pm_link m2) (pm_vpnAddress m2) k2 else (None, k2)) = (e3, k3)" by fastforce
  from 1 2 3 assms have r: "k' = k3" "e = None \<Longrightarrow> e1 = None"
    by (auto simp: pm_Close_def Let_def split: if_splits)
  have "tbl k3 \<subseteq> tbl k2" using 3 deleteExactAddress_frame by (auto split: if_splits)
  moreover have "tbl k2 \<subseteq> tbl k1" using restoreDNS_frame [OF 2] by simp
  moreover have "tbl k1 \<subseteq> tbl k" by (rule close_routes_shrinks [OF 1])
  moreover have "all_v4 m \<Longrightarrow> e = None \<Longrightarrow> tbl k1 \<inter> tracked m = {}"
    using close_routes_gone [of m k m1 k1] 1 r by auto
  ultimately show ?thesis using r by blast
qed

text \<open>\<open>Set\<close> and \<open>SetDynamicRoutes\<close>\<close>

definition owns :: "kroute set \<Rightarrow> platformManager \<Rightarrow> 'k \<Rightarrow> bool" where
  "owns B m k \<longleftrightarrow> tbl k \<subseteq> B \<union> tracked m \<and> all_v4 m"

lemma swap_group:
  assumes "T \<subseteq> B \<union> group_routes l gw pr (A \<union> old)" "T' \<subseteq> T \<union> group_routes l gw pr new"
    "T' \<inter> group_routes l gw pr (old - new) = {}"
  shows "T' \<subseteq> B \<union> group_routes l gw pr (A \<union> new)"
  using assms by (auto simp: group_routes_def split: option.splits) blast+

lemma sync_physical:
  assumes o: "owns B m k" and s: "syncRoutes nl old nxt (pm_localLink m) (pm_gateway m) 5 k = (e, new, k')"
    and v: "\<forall>p \<in> set nxt. v4_prefix p"
    and m: "physical m = A \<union> set old" "physical m' = A \<union> set new" "tunnelled m' = tunnelled m"
      "pm_link m' = pm_link m" "pm_localLink m' = pm_localLink m" "pm_gateway m' = pm_gateway m"
  shows "owns B m' k'" "set new \<subseteq> set old \<union> Masked ` set nxt"
proof -
  have vo: "\<forall>p \<in> set old \<union> set nxt. v4_prefix p" using o v m(1) by (auto simp: owns_def all_v4_def)
  note so = syncRoutes_owns [OF s vo]
  then show sub: "set new \<subseteq> set old \<union> Masked ` set nxt" by blast
  let ?B = "B \<union> group_routes (pm_link m) None 6 (tunnelled m)"
  have "tbl k \<subseteq> ?B \<union> group_routes (pm_localLink m) (pm_gateway m) 5 (A \<union> set old)"
    using o m by (auto simp: owns_def tracked_def)
  then have "tbl k' \<subseteq> ?B \<union> group_routes (pm_localLink m) (pm_gateway m) 5 (A \<union> set new)"
    by (rule swap_group) (use so in auto)
  moreover have "all_v4 m'" using o m sub vo by (auto simp: owns_def all_v4_def)
  ultimately show "owns B m' k'" using m by (auto simp: owns_def tracked_def)
qed

lemma sync_tunnelled:
  assumes o: "owns B m k" and s: "syncRoutes nl old nxt (pm_link m) None 6 k = (e, new, k')"
    and v: "\<forall>p \<in> set nxt. v4_prefix p"
    and m: "tunnelled m = A \<union> set old" "tunnelled m' = A \<union> set new" "physical m' = physical m"
      "pm_link m' = pm_link m" "pm_localLink m' = pm_localLink m" "pm_gateway m' = pm_gateway m"
  shows "owns B m' k'" "set new \<subseteq> set old \<union> Masked ` set nxt"
proof -
  have vo: "\<forall>p \<in> set old \<union> set nxt. v4_prefix p" using o v m(1) by (auto simp: owns_def all_v4_def)
  note so = syncRoutes_owns [OF s vo]
  then show sub: "set new \<subseteq> set old \<union> Masked ` set nxt" by blast
  let ?B = "B \<union> group_routes (pm_localLink m) (pm_gateway m) 5 (physical m)"
  have "tbl k \<subseteq> ?B \<union> group_routes (pm_link m) None 6 (A \<union> set old)"
    using o m by (auto simp: owns_def tracked_def)
  then have "tbl k' \<subseteq> ?B \<union> group_routes (pm_link m) None 6 (A \<union> set new)"
    by (rule swap_group) (use so in auto)
  moreover have "all_v4 m'" using o m sub vo by (auto simp: owns_def all_v4_def)
  ultimately show "owns B m' k'" using m by (auto simp: owns_def tracked_def)
qed

lemma owns_route_state: "route_state m' = route_state m \<Longrightarrow> owns B m k \<Longrightarrow> tbl k' \<subseteq> tbl k \<Longrightarrow> owns B m' k'"
  by (auto simp: owns_def tracked_def all_v4_def physical_def tunnelled_def route_state_def)

end

text \<open>The links, the gateway and the groups \<open>Set\<close> does not touch; where the groups it touches come from.\<close>

definition links_of :: "platformManager \<Rightarrow> link option \<times> link option \<times> addr option \<times> string" where
  "links_of m = (pm_link m, pm_localLink m, pm_gateway m, pm_name m)"

definition set_within :: "Config \<Rightarrow> platformManager \<Rightarrow> platformManager \<Rightarrow> bool" where
  "set_within cfg m m' \<longleftrightarrow>
     set (pm_serverRoutes m') \<subseteq> set (pm_serverRoutes m) \<union> Masked ` set (server_prefixes cfg) \<and>
     set (pm_includeRoutes m') \<subseteq> set (pm_includeRoutes m) \<union> Masked ` set (cf_IncludeRoutes cfg) \<and>
     set (pm_excludeRoutes m') \<subseteq> set (pm_excludeRoutes m) \<union> Masked ` set (cf_ExcludeRoutes cfg) \<and>
     pm_dynamicInclude m' = pm_dynamicInclude m \<and> pm_dynamicExclude m' = pm_dynamicExclude m"

lemma config_v4_server: "config_v4 cfg \<Longrightarrow> p \<in> set (server_prefixes cfg) \<Longrightarrow> v4_prefix p"
  by (auto simp: config_v4_def server_prefixes_def PrefixFrom_def split: option.splits)
    (metis BitLen.simps(1) Is4.elims(2) order_refl v4_prefix.simps(1) withoutZone.simps(1))

lemma withoutPrefixes_subset: "set (withoutPrefixes ps rs) \<subseteq> set ps"
  by (auto simp: withoutPrefixes_def)

context route_table
begin

lemma set_routes_owns:
  assumes o: "owns B m k" and c: "config_v4 cfg" and s: "set_routes nl cfg m k = (e, m', k')"
  shows "owns B m' k' \<and> links_of m' = links_of m \<and> set_within cfg m m'"
proof -
  let ?ex = "withoutPrefixes (cf_ExcludeRoutes cfg) (server_prefixes cfg)"
  have v: "\<forall>p \<in> set (server_prefixes cfg). v4_prefix p" "\<forall>p \<in> set (cf_IncludeRoutes cfg). v4_prefix p" "\<forall>p \<in> set ?ex. v4_prefix p"
    using c config_v4_server withoutPrefixes_subset by (fastforce simp: config_v4_def)+
  obtain e1 n1 k1 where 1: "syncRoutes nl (pm_serverRoutes m) (server_prefixes cfg) (pm_localLink m) (pm_gateway m) 5 k = (e1, n1, k1)"
    using prod_cases3 by blast
  let ?m1 = "m\<lparr>pm_serverRoutes := n1\<rparr>"
  have o1: "owns B ?m1 k1" "set n1 \<subseteq> set (pm_serverRoutes m) \<union> Masked ` set (server_prefixes cfg)"
    by (rule sync_physical [OF o 1 v(1), where m' = ?m1 and A = "set (pm_excludeRoutes m) \<union> set (pm_dynamicExclude m)"];
        auto simp: physical_def tunnelled_def)+
  obtain e2 n2 k2 where 2: "syncRoutes nl (pm_includeRoutes m) (cf_IncludeRoutes cfg) (pm_link m) None 6 k1 = (e2, n2, k2)"
    using prod_cases3 by blast
  let ?m2 = "?m1\<lparr>pm_includeRoutes := n2\<rparr>"
  have o2: "owns B ?m2 k2" "set n2 \<subseteq> set (pm_includeRoutes m) \<union> Masked ` set (cf_IncludeRoutes cfg)"
    by (rule sync_tunnelled [OF o1(1) _ v(2), where m' = ?m2 and A = "set (pm_dynamicInclude m)" and e = e2 and old = "pm_includeRoutes m"];
        use 2 in \<open>auto simp: physical_def tunnelled_def\<close>)+
  obtain e3 n3 k3 where 3: "syncRoutes nl (pm_excludeRoutes m) ?ex (pm_localLink m) (pm_gateway m) 5 k2 = (e3, n3, k3)"
    using prod_cases3 by blast
  let ?m3 = "?m2\<lparr>pm_excludeRoutes := n3\<rparr>"
  have o3: "owns B ?m3 k3" "set n3 \<subseteq> set (pm_excludeRoutes m) \<union> Masked ` set ?ex"
    by (rule sync_physical [OF o2(1) _ v(3), where m' = ?m3 and A = "set n1 \<union> set (pm_dynamicExclude m)" and e = e3 and old = "pm_excludeRoutes m"];
        use 3 in \<open>auto simp: physical_def tunnelled_def\<close>)+
  have n3: "set n3 \<subseteq> set (pm_excludeRoutes m) \<union> Masked ` set (cf_ExcludeRoutes cfg)"
    using o3(2) withoutPrefixes_subset [of "cf_ExcludeRoutes cfg" "server_prefixes cfg"] by blast
  obtain e4 m4 k4 where 4: "setDNS nl (cf_DNSServers cfg) ?m3 k3 = (e4, m4, k4)" using prod_cases3 by blast
  note f4 = setDNS_frame [OF 4]
  have o4: "owns B m4 k4" using owns_route_state [OF _ o3(1)] f4 by blast
  from s 1 2 3 4 consider "m' = ?m1" "k' = k1" | "m' = ?m2" "k' = k2" | "m' = ?m3" "k' = k3" | "m' = m4" "k' = k4"
    by (auto simp: set_routes_def Let_def split: option.splits)
  then show ?thesis
    by cases (use o1 o2 o3(1) n3 o4 f4 in \<open>auto simp: links_of_def set_within_def route_state_def\<close>)
qed

lemma set_physical_frame:
  assumes "set_physical nl cfg link m k = (e, m')"
  shows "pm_link m' = pm_link m" "pm_name m' = pm_name m" "tunnelled m' = tunnelled m" "physical m' = physical m"
    "set_within cfg m m'"
    "pm_localLink m' = None \<or> (\<exists>l. pm_localLink m' = Some l \<and> LinkByIndex nl k (cf_GatewayInterfaceIndex cfg) = Inr l)"
    "e = None \<Longrightarrow> pm_gateway m = None \<Longrightarrow> pm_gateway m' = cfg_gateway cfg"
  using assms
  by (auto simp: set_physical_def Let_def physical_def tunnelled_def set_within_def cfg_gateway_def
      split: if_splits sum.splits option.splits)

lemma pm_Set_owns:
  assumes o: "owns B m k" and p: "physical m = {}" "pm_gateway m = None" and c: "config_v4 cfg" "cf_VPNAddress cfg = Some vpn"
    and s: "pm_Set nl (Some cfg) m k = (e, m', k')"
  shows "owns B m' k' \<and> set_within cfg m m' \<and> pm_name m' = pm_name m \<and>
    (pm_link m' = pm_link m \<or> (\<exists>l j. pm_link m' = Some l \<and> LinkByName nl j (pm_name m) = Inr l)) \<and>
    (physical m' \<noteq> {} \<or> e = None \<longrightarrow> pm_gateway m' = cfg_gateway cfg \<and>
       (\<forall>l. pm_localLink m' = Some l \<longrightarrow> lk_Index l = cf_GatewayInterfaceIndex cfg))"
proof -
  obtain e1 m1 k1 where 1: "(if pm_link m = None then pm_Up nl m k else (None, m, k)) = (e1, m1, k1)" using prod_cases3 by blast
  have f1: "tbl k1 \<subseteq> tbl k" "m1 = m \<or> (pm_link m = None \<and> (\<exists>l. LinkByName nl k (pm_name m) = Inr l \<and> m1 = m\<lparr>pm_link := Some l\<rparr>))"
    using 1 pm_Up_frame [of m k e1 m1 k1] by (auto split: if_splits)
  have up: "e1 = None \<Longrightarrow> pm_link m1 \<noteq> None"
    using 1 pm_Up_frame [of m k e1 m1 k1] by (auto split: if_splits)
  have m1: "physical m1 = {}" "pm_gateway m1 = None" "pm_name m1 = pm_name m" "set_within cfg m m1" "tunnelled m1 = tunnelled m"
    "pm_link m1 = pm_link m \<or> (\<exists>l j. pm_link m1 = Some l \<and> LinkByName nl j (pm_name m) = Inr l)"
    using f1 p by (auto simp: physical_def tunnelled_def set_within_def)
  have o1: "owns B m1 k1"
    using o f1 m1 p by (auto simp: owns_def tracked_def all_v4_def)
  show ?thesis
  proof (cases "e1 \<noteq> None \<or> pm_link m1 = None")
    case True
    with s c 1 up have "m' = m1" "k' = k1" "e \<noteq> None" by (auto simp: pm_Set_def split: option.splits)
    with o1 m1 show ?thesis by auto
  next
    case False
    then obtain link where link: "pm_link m1 = Some link" and e1: "e1 = None" by auto
    obtain e2 m2 k2 where 2: "set_address nl cfg vpn link m1 k1 = (e2, m2, k2)" using prod_cases3 by blast
    note f2 = set_address_frame [OF 2]
    have o2: "owns B m2 k2" by (rule owns_route_state [OF _ o1]) (use f2 in auto)
    have m2: "physical m2 = {}" "pm_gateway m2 = None" "pm_name m2 = pm_name m" "set_within cfg m m2" "pm_link m2 = pm_link m1"
      "tunnelled m2 = tunnelled m1"
      using f2 m1 by (auto simp: route_state_def physical_def tunnelled_def set_within_def)
    show ?thesis
    proof (cases e2)
      case (Some x)
      with s c 1 e1 link 2 have "m' = m2" "k' = k2" "e \<noteq> None" by (auto simp: pm_Set_def)
      with o2 m2 m1 show ?thesis by auto
    next
      case None
      obtain e3 m3 where 3: "set_physical nl cfg link m2 k2 = (e3, m3)" by fastforce
      note f3 = set_physical_frame [OF 3]
      have o3: "owns B m3 k2" using o2 f3 m2 by (auto simp: owns_def tracked_def all_v4_def)
      show ?thesis
      proof (cases e3)
        case (Some x)
        with s c 1 e1 link 2 None 3 have "m' = m3" "k' = k2" "e \<noteq> None" by (auto simp: pm_Set_def)
        with o3 f3 m2 m1 show ?thesis by (auto simp: set_within_def)
      next
        case e3: None
        with s c 1 e1 link 2 None 3 have "set_routes nl cfg m3 k2 = (e, m', k')" by (auto simp: pm_Set_def)
        from set_routes_owns [OF o3 c(1) this] f3 e3 m2 m1 show ?thesis
          by (auto simp: links_of_def set_within_def dest: LinkByIndex_index)
      qed
    qed
  qed
qed

lemma pm_SetDynamicRoutes_owns:
  assumes o: "owns B m k" and v: "\<forall>a \<in> set (dr_Include routes) \<union> set (dr_Exclude routes). Is4 (Unmap a)"
    and s: "pm_SetDynamicRoutes nl routes m k = (e, m', k')"
  shows "owns B m' k' \<and> links_of m' = links_of m \<and> pm_serverRoutes m' = pm_serverRoutes m \<and>
    pm_includeRoutes m' = pm_includeRoutes m \<and> pm_excludeRoutes m' = pm_excludeRoutes m \<and>
    set (pm_dynamicInclude m') \<subseteq> set (pm_dynamicInclude m) \<union> set (addrsToHostPrefixes (dr_Include routes)) \<and>
    set (pm_dynamicExclude m') \<subseteq> set (pm_dynamicExclude m) \<union> set (addrsToHostPrefixes (dr_Exclude routes)) \<and>
    (e = None \<longrightarrow> (pm_link m \<noteq> None \<longrightarrow> set (pm_dynamicInclude m') \<subseteq> set (addrsToHostPrefixes (dr_Include routes))) \<and>
                 (pm_localLink m \<noteq> None \<longrightarrow> set (pm_dynamicExclude m') \<subseteq> set (addrsToHostPrefixes (dr_Exclude routes))))"
proof -
  let ?i = "addrsToHostPrefixes (dr_Include routes)" and ?x = "addrsToHostPrefixes (dr_Exclude routes)"
  have v4: "\<forall>p \<in> set ?i. v4_prefix p" "\<forall>p \<in> set ?x. v4_prefix p" and mk: "Masked ` set ?i = set ?i" "Masked ` set ?x = set ?x"
    using v host_prefixes_v4 by auto
  obtain e1 n1 k1 where 1: "syncRoutes nl (pm_dynamicInclude m) ?i (pm_link m) None 6 k = (e1, n1, k1)" using prod_cases3 by blast
  let ?m1 = "m\<lparr>pm_dynamicInclude := n1\<rparr>"
  have o1: "owns B ?m1 k1" "set n1 \<subseteq> set (pm_dynamicInclude m) \<union> Masked ` set ?i"
    by (rule sync_tunnelled [OF o 1 v4(1), where m' = ?m1 and A = "set (pm_includeRoutes m)"]; auto simp: physical_def tunnelled_def)+
  obtain e2 n2 k2 where 2: "syncRoutes nl (pm_dynamicExclude m) ?x (pm_localLink m) (pm_gateway m) 5 k1 = (e2, n2, k2)"
    using prod_cases3 by blast
  let ?m2 = "?m1\<lparr>pm_dynamicExclude := n2\<rparr>"
  have o2: "owns B ?m2 k2" "set n2 \<subseteq> set (pm_dynamicExclude m) \<union> Masked ` set ?x"
    by (rule sync_physical [OF o1(1) _ v4(2), where m' = ?m2 and A = "set (pm_serverRoutes m) \<union> set (pm_excludeRoutes m)" and e = e2
          and old = "pm_dynamicExclude m"]; use 2 in \<open>auto simp: physical_def tunnelled_def\<close>)+
  have old: "\<forall>p \<in> set (pm_dynamicInclude m) \<union> set ?i. v4_prefix p" "\<forall>p \<in> set (pm_dynamicExclude m) \<union> set ?x. v4_prefix p"
    using o v4 by (auto simp: owns_def all_v4_def physical_def tunnelled_def)
  note exact = syncRoutes_owns [OF 1 old(1)] syncRoutes_owns [OF 2 old(2)]
  show ?thesis
  proof (cases e1)
    case (Some x)
    with s 1 have "e = Some x" "m' = ?m1" "k' = k1" by (auto simp: pm_SetDynamicRoutes_def)
    with o1 mk show ?thesis by (auto simp: links_of_def)
  next
    case None
    with s 1 2 have "e = e2" "m' = ?m2" "k' = k2" by (auto simp: pm_SetDynamicRoutes_def Let_def)
    with None o1 o2 mk exact show ?thesis by (auto simp: links_of_def)
  qed
qed

end

end
