(* ===== verification/Journal.thy ===== *)
theory Journal
  imports Ownership Store
begin

text \<open>
  \<open>internal/osnet/journal.go\<close>, the Linux part of its recovery (\<open>journal_recover_linux.go\<close>) and \<open>NewManager\<close> of
  \<open>types.go\<close>: a file that names what the network manager may have changed, written before the change, so that the next start of
  the daemon can undo it.

  The wrapped \<open>Manager\<close> is a record of its operations (the Go interface), so the wrapper is defined and reasoned about
  independently of the platform: the locale \<open>tracked_manager\<close> is what the wrapper relies on, and \<open>linux_manager\<close> provides it.
  File operations meet the faults of \<open>jw_faults\<close>, one per operation, as in \<open>Store\<close>. A killed process is a run in which every
  call from some point on fails and changes nothing, so a claim about all faults and all machines covers every point at
  which it can be killed.
\<close>

section \<open>The Manager interface\<close>

record ('m, 'k) manager =
  mgr_Up :: "'m \<Rightarrow> 'k \<Rightarrow> error option \<times> 'm \<times> 'k"
  mgr_Set :: "Config option \<Rightarrow> 'm \<Rightarrow> 'k \<Rightarrow> error option \<times> 'm \<times> 'k"
  mgr_SetDynamicRoutes :: "DynamicRoutes \<Rightarrow> 'm \<Rightarrow> 'k \<Rightarrow> error option \<times> 'm \<times> 'k"
  mgr_Close :: "'m \<Rightarrow> 'k \<Rightarrow> error option \<times> 'm \<times> 'k"

definition linux_manager :: "'k netlink \<Rightarrow> (platformManager, 'k) manager" where
  "linux_manager nl = \<lparr>mgr_Up = pm_Up nl, mgr_Set = pm_Set nl, mgr_SetDynamicRoutes = pm_SetDynamicRoutes nl, mgr_Close = pm_Close nl\<rparr>"

section \<open>The journal and its file\<close>

definition networkJournalSchema :: int where
  "networkJournalSchema = 1"

record ownershipJournal =
  oj_Schema :: int
  oj_Phase :: string
  oj_InterfaceName :: string
  oj_InterfaceIndex :: int
  oj_VPNAddress :: string
  oj_Gateway :: string
  oj_GatewayInterfaceIndex :: int
  oj_ServerAddress :: string
  oj_IncludeRoutes :: "string list"
  oj_ExcludeRoutes :: "string list"
  oj_DynamicInclude :: "string list"
  oj_DynamicExclude :: "string list"
  oj_DNSServers :: "string list"

datatype journal_file =
    NoJournal                       \<comment> \<open>\<open>os.ErrNotExist\<close>\<close>
  | UnreadableJournal error         \<comment> \<open>another error of \<open>os.ReadFile\<close>\<close>
  | UndecodableJournal error        \<comment> \<open>no JSON value of the type, or an unknown field\<close>
  | JournalTrailing                 \<comment> \<open>data after the first value\<close>
  | JournalDoc ownershipJournal

record 'k jworld =
  jw_k :: 'k
  jw_file :: journal_file
  jw_faults :: "fault list"

definition next_fault :: "'k jworld \<Rightarrow> fault \<times> 'k jworld" where
  "next_fault w = (case jw_faults w of [] \<Rightarrow> (None, w) | f # fs \<Rightarrow> (f, w\<lparr>jw_faults := fs\<rparr>))"

text \<open>\<open>readNetworkJournal\<close>: the error of a missing file is \<open>os.ErrNotExist\<close>.\<close>

definition readNetworkJournal :: "'k jworld \<Rightarrow> error + ownershipJournal" where
  "readNetworkJournal w =
     (case jw_file w of
        NoJournal \<Rightarrow> Inl ErrNotExist
      | UnreadableJournal e \<Rightarrow> Inl e
      | UndecodableJournal e \<Rightarrow> Inl e
      | JournalTrailing \<Rightarrow> Inl (Errors ''network journal contains trailing data'')
      | JournalDoc j \<Rightarrow>
          if oj_Schema j \<noteq> networkJournalSchema \<or> oj_InterfaceName j = []
          then Inl (Errors (''unsupported or incomplete network journal schema '' @ fmt_d (oj_Schema j)))
          else Inr j)"

text \<open>\<open>writeNetworkJournal\<close>: the file changes at the rename; securing it and syncing the directory can still fail.\<close>

definition writeNetworkJournal :: "string \<Rightarrow> ownershipJournal \<Rightarrow> 'k jworld \<Rightarrow> error option \<times> 'k jworld" where
  "writeNetworkJournal path journal w =
     (if path = [] then (Some (Errors ''network journal path is empty''), w)
      else
        (let (f, w) = next_fault w
         in case run_stages f [StMkdirAll, StMarshal, StCreateTemp, StChmod, StWrite, StSync, StClose, StReplace] of
              Some e \<Rightarrow> (Some e, w)
            | None \<Rightarrow> (run_stages f [StSecureFile, StSyncDir], w\<lparr>jw_file := JournalDoc journal\<rparr>)))"

definition removeNetworkJournal :: "'k jworld \<Rightarrow> error option \<times> 'k jworld" where
  "removeNetworkJournal w =
     (let (f, w) = next_fault w
      in if jw_file w = NoJournal then (None, w)
         else (case fails f StRemove of
                 Some e \<Rightarrow> (if errors_is e ErrNotExist then None else Some e, w)
               | None \<Rightarrow> (fails f StSyncDir, w\<lparr>jw_file := NoJournal\<rparr>)))"

section \<open>The wrapper\<close>

record 'm journaledManager =
  jm_inner :: 'm
  jm_path :: string
  jm_journal :: ownershipJournal

datatype 'm wrapped = Unjournaled 'm | Journaled "'m journaledManager"

definition wrapJournal :: "'m \<Rightarrow> string \<Rightarrow> string \<Rightarrow> 'm wrapped" where
  "wrapJournal inner path interfaceName =
     (if path = [] then Unjournaled inner
      else Journaled \<lparr>jm_inner = inner, jm_path = path,
             jm_journal = \<lparr>oj_Schema = networkJournalSchema, oj_Phase = ''planned'', oj_InterfaceName = interfaceName,
               oj_InterfaceIndex = 0, oj_VPNAddress = [], oj_Gateway = [], oj_GatewayInterfaceIndex = 0, oj_ServerAddress = [],
               oj_IncludeRoutes = [], oj_ExcludeRoutes = [], oj_DynamicInclude = [], oj_DynamicExclude = [], oj_DNSServers = []\<rparr>\<rparr>)"

text \<open>\<open>func NewManager\<close>: \<open>devName\<close> is what the device answers, \<open>platform\<close> is \<open>newPlatformManager\<close>.\<close>

definition NewManager :: "(string \<Rightarrow> error + 'm) \<Rightarrow> string \<Rightarrow> error + string \<Rightarrow> string \<Rightarrow> error + 'm wrapped" where
  "NewManager platform journalPath devName fallbackName =
     (let name = (case devName of Inl _ \<Rightarrow> fallbackName | Inr n \<Rightarrow> if n = [] then fallbackName else n)
      in if name = [] then Inl (Errors ''missing TUN interface name'')
         else (case platform name of
                 Inl e \<Rightarrow> Inl e
               | Inr manager \<Rightarrow> Inr (wrapJournal manager journalPath name)))"

definition journalFromConfig :: "Config \<Rightarrow> ownershipJournal" where
  "journalFromConfig cfg =
     \<lparr>oj_Schema = networkJournalSchema, oj_Phase = ''planned'', oj_InterfaceName = cf_InterfaceName cfg,
      oj_InterfaceIndex = cf_InterfaceIndex cfg,
      oj_VPNAddress = (case cf_VPNAddress cfg of None \<Rightarrow> ''invalid Prefix'' | Some p \<Rightarrow> prefix_string p),
      oj_Gateway = (case cf_Gateway cfg of None \<Rightarrow> [] | Some a \<Rightarrow> addr_string a),
      oj_GatewayInterfaceIndex = cf_GatewayInterfaceIndex cfg,
      oj_ServerAddress = (case cf_ServerAddress cfg of None \<Rightarrow> [] | Some a \<Rightarrow> addr_string a),
      oj_IncludeRoutes = PrefixStrings (cf_IncludeRoutes cfg), oj_ExcludeRoutes = PrefixStrings (cf_ExcludeRoutes cfg),
      oj_DynamicInclude = [], oj_DynamicExclude = [], oj_DNSServers = AddrStrings (cf_DNSServers cfg)\<rparr>"

text \<open>\<open>func unionStrings\<close>: the values of both lists, each once, in the order they first occur.\<close>

fun union_loop :: "string list \<Rightarrow> string list \<Rightarrow> string list" where
  "union_loop [] out = out"
| "union_loop (v # vs) out = union_loop vs (if v \<in> set out then out else out @ [v])"

definition unionStrings :: "string list \<Rightarrow> string list \<Rightarrow> string list" where
  "unionStrings first second = union_loop second (union_loop first [])"

text \<open>The error of a rollback that failed too.\<close>

definition jm_closeLocked :: "('m, 'k) manager \<Rightarrow> 'm journaledManager \<Rightarrow> 'k jworld \<Rightarrow> error option \<times> 'm journaledManager \<times> 'k jworld" where
  "jm_closeLocked mgr m w =
     (case mgr_Close mgr (jm_inner m) (jw_k w) of
        (Some e, inner, k) \<Rightarrow>
          (let m = m\<lparr>jm_inner := inner, jm_journal := (jm_journal m)\<lparr>oj_Phase := ''cleanup_failed''\<rparr>\<rparr>
           in (Some e, m, snd (writeNetworkJournal (jm_path m) (jm_journal m) (w\<lparr>jw_k := k\<rparr>))))
      | (None, inner, k) \<Rightarrow>
          (case removeNetworkJournal (w\<lparr>jw_k := k\<rparr>) of (e, w) \<Rightarrow> (e, m\<lparr>jm_inner := inner\<rparr>, w)))"

definition jm_Close :: "('m, 'k) manager \<Rightarrow> 'm journaledManager \<Rightarrow> 'k jworld \<Rightarrow> error option \<times> 'm journaledManager \<times> 'k jworld" where
  "jm_Close mgr m w = jm_closeLocked mgr m w"

definition jm_Up :: "('m, 'k) manager \<Rightarrow> 'm journaledManager \<Rightarrow> 'k jworld \<Rightarrow> error option \<times> 'm journaledManager \<times> 'k jworld" where
  "jm_Up mgr m w =
     (case mgr_Up mgr (jm_inner m) (jw_k w) of (e, inner, k) \<Rightarrow> (e, m\<lparr>jm_inner := inner\<rparr>, w\<lparr>jw_k := k\<rparr>))"

text \<open>The two rollbacks of \<open>Set\<close>: close the inner manager and remove the journal if that worked.\<close>

definition set_rollback :: "('m, 'k) manager \<Rightarrow> 'm journaledManager \<Rightarrow> 'k jworld \<Rightarrow> error option \<times> 'm journaledManager \<times> 'k jworld" where
  "set_rollback mgr m w =
     (case mgr_Close mgr (jm_inner m) (jw_k w) of
        (None, inner, k) \<Rightarrow> (None, m\<lparr>jm_inner := inner\<rparr>, snd (removeNetworkJournal (w\<lparr>jw_k := k\<rparr>)))
      | (Some e, inner, k) \<Rightarrow> (Some e, m\<lparr>jm_inner := inner\<rparr>, w\<lparr>jw_k := k\<rparr>))"

definition jm_Set :: "('m, 'k) manager \<Rightarrow> Config option \<Rightarrow> 'm journaledManager \<Rightarrow> 'k jworld
    \<Rightarrow> error option \<times> 'm journaledManager \<times> 'k jworld" where
  "jm_Set mgr cfg0 m w =
     (case cfg0 of
        None \<Rightarrow> jm_closeLocked mgr m w
      | Some cfg \<Rightarrow>
          if cf_VPNAddress cfg = None then jm_closeLocked mgr m w
          else
            (let m = m\<lparr>jm_journal := (journalFromConfig cfg)\<lparr>oj_Phase := ''planned''\<rparr>\<rparr>
             in case writeNetworkJournal (jm_path m) (jm_journal m) w of
                  (Some e, w) \<Rightarrow> (Some (Wrap ''write network ownership plan: '' e []), m, w)
                | (None, w) \<Rightarrow>
                    (case mgr_Set mgr (Some cfg) (jm_inner m) (jw_k w) of
                       (Some e, inner, k) \<Rightarrow>
                         (case set_rollback mgr (m\<lparr>jm_inner := inner\<rparr>) (w\<lparr>jw_k := k\<rparr>) of
                            (None, m, w) \<Rightarrow> (Some e, m, w)
                          | (Some ce, m, w) \<Rightarrow> (Some (JoinE e (Wrap ''rollback network transaction: '' ce [])), m, w))
                     | (None, inner, k) \<Rightarrow>
                         (let m = m\<lparr>jm_inner := inner, jm_journal := (jm_journal m)\<lparr>oj_Phase := ''active''\<rparr>\<rparr>
                          in case writeNetworkJournal (jm_path m) (jm_journal m) (w\<lparr>jw_k := k\<rparr>) of
                               (None, w) \<Rightarrow> (None, m, w)
                             | (Some e, w) \<Rightarrow>
                                 (case set_rollback mgr m w of
                                    (ce, m, w) \<Rightarrow>
                                      (errors_Join ([Wrap ''commit network ownership journal: '' e []] @
                                         (case ce of None \<Rightarrow> [] | Some x \<Rightarrow> [x])), m, w))))))"

definition jm_SetDynamicRoutes :: "('m, 'k) manager \<Rightarrow> DynamicRoutes \<Rightarrow> 'm journaledManager \<Rightarrow> 'k jworld
    \<Rightarrow> error option \<times> 'm journaledManager \<times> 'k jworld" where
  "jm_SetDynamicRoutes mgr routes m w =
     (let nextInclude = AddrStrings (dr_Include routes);
          nextExclude = AddrStrings (dr_Exclude routes);
          planned = (jm_journal m)\<lparr>oj_DynamicInclude := unionStrings (oj_DynamicInclude (jm_journal m)) nextInclude,
                       oj_DynamicExclude := unionStrings (oj_DynamicExclude (jm_journal m)) nextExclude,
                       oj_Phase := ''planned''\<rparr>
      in case writeNetworkJournal (jm_path m) planned w of
           (Some e, w) \<Rightarrow> (Some (Wrap ''write dynamic route ownership plan: '' e []), m, w)
         | (None, w) \<Rightarrow>
             (case mgr_SetDynamicRoutes mgr routes (jm_inner m) (jw_k w) of
                (Some e, inner, k) \<Rightarrow> (Some e, m\<lparr>jm_inner := inner, jm_journal := planned\<rparr>, w\<lparr>jw_k := k\<rparr>)
              | (None, inner, k) \<Rightarrow>
                  (let committed = planned\<lparr>oj_DynamicInclude := nextInclude, oj_DynamicExclude := nextExclude,
                                      oj_Phase := ''active''\<rparr>
                   in case writeNetworkJournal (jm_path m) committed (w\<lparr>jw_k := k\<rparr>) of
                        (Some e, w) \<Rightarrow> (Some e, m\<lparr>jm_inner := inner, jm_journal := planned\<rparr>, w)
                      | (None, w) \<Rightarrow> (None, m\<lparr>jm_inner := inner, jm_journal := committed\<rparr>, w))))"

section \<open>Recovery\<close>

text \<open>\<open>journal_recover_linux.go\<close>: \<open>routeStrings\<close>, \<open>hostRouteStrings\<close>\<close>

definition host_string :: "string \<Rightarrow> string" where
  "host_string raw = (case ParseAddr raw of None \<Rightarrow> raw | Some a \<Rightarrow> prefix_string (PrefixFrom a (BitLen a)))"

definition routeStrings :: "string \<Rightarrow> string list" where
  "routeStrings address = (if address = [] then [] else [host_string address])"

definition hostRouteStrings :: "string list \<Rightarrow> string list" where
  "hostRouteStrings addresses = map host_string addresses"

definition physical_raw :: "ownershipJournal \<Rightarrow> string list" where
  "physical_raw j = routeStrings (oj_ServerAddress j) @ oj_ExcludeRoutes j @ hostRouteStrings (oj_DynamicExclude j)"

definition tunnel_raw :: "ownershipJournal \<Rightarrow> string list" where
  "tunnel_raw j = oj_IncludeRoutes j @ hostRouteStrings (oj_DynamicInclude j)"

text \<open>The loops over the physical routes and over the routes of the tunnel link; \<open>skip\<close> is the test \<open>tunLink != nil\<close>.\<close>

fun recover_routes :: "'k netlink \<Rightarrow> bool \<Rightarrow> link option \<Rightarrow> addr option \<Rightarrow> int \<Rightarrow> string list \<Rightarrow> error list \<Rightarrow> 'k \<Rightarrow> error list \<times> 'k" where
  "recover_routes nl skip l gw priority [] errs k = (errs, k)"
| "recover_routes nl skip l gw priority (raw # raws) errs k =
     (case Netip.ParsePrefix raw of
        None \<Rightarrow> recover_routes nl skip l gw priority raws (errs @ [Errors ''netip.ParsePrefix'']) k
      | Some p \<Rightarrow>
          if skip \<and> l = None then recover_routes nl skip l gw priority raws errs k
          else (case routeDel nl p l gw priority k of
                  (Some e, k) \<Rightarrow> recover_routes nl skip l gw priority raws (errs @ [e]) k
                | (None, k) \<Rightarrow> recover_routes nl skip l gw priority raws errs k))"

text \<open>The DNS part of the recovery: the errors of the bus are ignored.\<close>

definition recover_dns :: "'k netlink \<Rightarrow> ownershipJournal \<Rightarrow> link option \<Rightarrow> error list \<Rightarrow> 'k \<Rightarrow> error list \<times> 'k" where
  "recover_dns nl j tunLink errs k =
     (if oj_DNSServers j = [] then (errs, k)
      else
        (let k = (case tunLink of
                    None \<Rightarrow> k
                  | Some l \<Rightarrow> if SystemBus nl k = None then snd (RevertLink nl k (lk_Index l)) else k)
         in case LookPath nl k of
              Inl _ \<Rightarrow> (errs, k)
            | Inr path \<Rightarrow>
                (case ResolvconfDel nl k path (''flexconnect.'' @ oj_InterfaceName j) of
                   (None, k) \<Rightarrow> (errs, k)
                 | (Some (e, out), k) \<Rightarrow>
                     (if Contains (ToLower out) ''not found'' then errs else errs @ [e], k))))"

definition platformRecoverJournal :: "'k netlink \<Rightarrow> ownershipJournal \<Rightarrow> 'k \<Rightarrow> error option \<times> 'k" where
  "platformRecoverJournal nl j k =
     (let physical = (if oj_GatewayInterfaceIndex j \<noteq> 0
                      then (case LinkByIndex nl k (oj_GatewayInterfaceIndex j) of Inl _ \<Rightarrow> None | Inr l \<Rightarrow> Some l) else None);
          gateway = (if oj_Gateway j \<noteq> [] then net_ParseIP (oj_Gateway j) else None);
          (errs, k) = recover_routes nl False physical gateway 5 (physical_raw j) [] k;
          tunLink = (case LinkByName nl k (oj_InterfaceName j) of Inl _ \<Rightarrow> None | Inr l \<Rightarrow> Some l);
          (errs, k) = recover_routes nl True tunLink None 6 (tunnel_raw j) errs k;
          (errs, k) = recover_dns nl j tunLink errs k
      in (errors_Join errs, k))"

definition RecoverNetworkJournal :: "'k netlink \<Rightarrow> 'k jworld \<Rightarrow> error option \<times> 'k jworld" where
  "RecoverNetworkJournal nl w =
     (case readNetworkJournal w of
        Inl e \<Rightarrow> if errors_is e ErrNotExist then (None, w) else (Some (Wrap ''read network ownership journal: '' e []), w)
      | Inr j \<Rightarrow>
          (case platformRecoverJournal nl j (jw_k w) of
             (Some e, k) \<Rightarrow> (Some (Wrap ''recover network ownership journal: '' e []), w\<lparr>jw_k := k\<rparr>)
           | (None, k) \<Rightarrow> removeNetworkJournal (w\<lparr>jw_k := k\<rparr>)))"

end
