(* ===== verification/Crash.thy ===== *)
theory Crash
  imports Journal
begin

text \<open>
  The journal is enough. \<open>journal_routes\<close> is the set of routes the recovery would delete for a journal; the locale
  \<open>tracked_manager\<close> says what the wrapper needs of the manager it wraps and carries the write-ahead lemmas; the Linux manager
  provides it (\<open>linux_tunnel\<close>); together with \<open>working_machine\<close>, what the recovery needs of the machine, this gives the main
  property: whenever the daemon is killed, its next start removes every route it had added.
\<close>

section \<open>The routes a journal names\<close>

definition parsed :: "string list \<Rightarrow> Netip.prefix set" where
  "parsed raws = {p. \<exists>raw \<in> set raws. Netip.ParsePrefix raw = Some p}"

definition journal_gateway :: "ownershipJournal \<Rightarrow> addr option" where
  "journal_gateway j = (if oj_Gateway j \<noteq> [] then net_ParseIP (oj_Gateway j) else None)"

definition journal_routes :: "int \<Rightarrow> ownershipJournal \<Rightarrow> kroute set" where
  "journal_routes tun j =
     kroute_of (oj_GatewayInterfaceIndex j) (journal_gateway j) 5 ` parsed (physical_raw j) \<union>
     kroute_of tun None 6 ` parsed (tunnel_raw j)"

definition readable :: "ownershipJournal \<Rightarrow> bool" where
  "readable j \<longleftrightarrow> oj_Schema j = networkJournalSchema \<and> oj_InterfaceName j \<noteq> []"

definition file_routes :: "int \<Rightarrow> journal_file \<Rightarrow> kroute set" where
  "file_routes tun file = (case file of JournalDoc j \<Rightarrow> if readable j then journal_routes tun j else {} | _ \<Rightarrow> {})"

text \<open>The routes of a configuration and of a set of dynamic routes.\<close>

definition cfg_routes :: "int \<Rightarrow> Config \<Rightarrow> kroute set" where
  "cfg_routes tun cfg =
     kroute_of (cf_GatewayInterfaceIndex cfg) (cfg_gateway cfg) 5 ` Masked ` (set (server_prefixes cfg) \<union> set (cf_ExcludeRoutes cfg)) \<union>
     kroute_of tun None 6 ` Masked ` set (cf_IncludeRoutes cfg)"

definition dyn_routes :: "int \<Rightarrow> Config \<Rightarrow> DynamicRoutes \<Rightarrow> kroute set" where
  "dyn_routes tun cfg d =
     kroute_of (cf_GatewayInterfaceIndex cfg) (cfg_gateway cfg) 5 ` set (addrsToHostPrefixes (dr_Exclude d)) \<union>
     kroute_of tun None 6 ` set (addrsToHostPrefixes (dr_Include d))"

definition dyn_v4 :: "DynamicRoutes \<Rightarrow> bool" where
  "dyn_v4 d \<longleftrightarrow> (\<forall>a \<in> set (dr_Include d) \<union> set (dr_Exclude d). Is4 (Unmap a))"

text \<open>A journal that was made from a configuration; dynamic routes and phase are open.\<close>

definition from_cfg :: "Config \<Rightarrow> ownershipJournal \<Rightarrow> bool" where
  "from_cfg cfg j \<longleftrightarrow>
     j\<lparr>oj_Phase := [], oj_DynamicInclude := [], oj_DynamicExclude := []\<rparr> = (journalFromConfig cfg)\<lparr>oj_Phase := []\<rparr>"

lemma from_cfg_fields:
  assumes "from_cfg cfg j"
  shows "oj_Schema j = networkJournalSchema" "oj_InterfaceName j = cf_InterfaceName cfg"
    "oj_GatewayInterfaceIndex j = cf_GatewayInterfaceIndex cfg"
    "oj_Gateway j = (case cf_Gateway cfg of None \<Rightarrow> [] | Some a \<Rightarrow> addr_string a)"
    "oj_ServerAddress j = (case cf_ServerAddress cfg of None \<Rightarrow> [] | Some a \<Rightarrow> addr_string a)"
    "oj_IncludeRoutes j = PrefixStrings (cf_IncludeRoutes cfg)" "oj_ExcludeRoutes j = PrefixStrings (cf_ExcludeRoutes cfg)"
  using assms by (cases j, simp add: from_cfg_def journalFromConfig_def)+

lemma from_cfg_update:
  "from_cfg cfg (j\<lparr>oj_Phase := p\<rparr>) = from_cfg cfg j"
  "from_cfg cfg (j\<lparr>oj_DynamicInclude := a\<rparr>) = from_cfg cfg j"
  "from_cfg cfg (j\<lparr>oj_DynamicExclude := b\<rparr>) = from_cfg cfg j"
  by (simp_all add: from_cfg_def)

text \<open>A journal of IPv4 routes made from a configuration.\<close>

definition well_formed :: "Config \<Rightarrow> ownershipJournal \<Rightarrow> bool" where
  "well_formed cfg j \<longleftrightarrow> from_cfg cfg j \<and>
     (\<forall>raw \<in> set (oj_DynamicInclude j) \<union> set (oj_DynamicExclude j). \<exists>a. raw = addr_string (V4 a))"

lemma AddrStrings_v4: "\<forall>a \<in> set as. Is4 (Unmap a) \<Longrightarrow> raw \<in> set (AddrStrings as) \<Longrightarrow> \<exists>a. raw = addr_string (V4 a)"
proof -
  assume v: "\<forall>a \<in> set as. Is4 (Unmap a)" and "raw \<in> set (AddrStrings as)"
  then obtain a where "a \<in> set as" "raw = addr_string (Unmap a)" by (auto simp: AddrStrings_def)
  with v show "\<exists>a. raw = addr_string (V4 a)" by (cases "Unmap a") auto
qed

lemma from_cfg_self: "from_cfg cfg (journalFromConfig cfg)"
  by (simp add: from_cfg_def journalFromConfig_def)

section \<open>Printing and parsing what is journalled\<close>

lemma host_string_v4: "host_string (addr_string (V4 a)) = prefix_string (V4 a, 32)"
  by (simp add: host_string_def ParseAddr_ipv4_string PrefixFrom_def)

lemma addr_string_nonempty: "addr_string (V4 a) \<noteq> []"
  using ParseAddr_ipv4_string [of a] by (auto simp: ParseAddr_def)

lemma host_strings_parsed:
  assumes "\<forall>a \<in> set as. Is4 (Unmap a)" "set (AddrStrings as) \<subseteq> set raws"
  shows "set (addrsToHostPrefixes as) \<subseteq> parsed (hostRouteStrings raws)"
proof
  fix p assume "p \<in> set (addrsToHostPrefixes as)"
  then obtain a where a: "a \<in> set as" "p = PrefixFrom (Unmap a) (BitLen (Unmap a))" by (auto simp: addrsToHostPrefixes_def)
  then obtain w where w: "Unmap a = V4 w" using assms(1) by (cases "Unmap a") auto
  have "addr_string (V4 w) \<in> set raws" using assms(2) a w by (force simp: AddrStrings_def)
  moreover have "Netip.ParsePrefix (prefix_string (V4 w, 32)) = Some (V4 w, 32)" by (rule ParsePrefix_ipv4) simp
  ultimately show "p \<in> parsed (hostRouteStrings raws)"
    using a w host_string_v4 [of w] by (force simp: parsed_def hostRouteStrings_def PrefixFrom_def)
qed

lemma prefix_strings_parsed:
  "\<forall>p \<in> set ps. v4_prefix p \<Longrightarrow> Masked ` set ps \<subseteq> parsed (PrefixStrings ps)"
  by (force simp: parsed_def PrefixStrings_def intro: v4_prefix_string)

lemma parsed_append [simp]: "parsed (xs @ ys) = parsed xs \<union> parsed ys"
  by (auto simp: parsed_def)

lemma server_parsed:
  assumes "config_v4 cfg" "from_cfg cfg j"
  shows "Masked ` set (server_prefixes cfg) \<subseteq> parsed (routeStrings (oj_ServerAddress j))"
proof (cases "cf_ServerAddress cfg")
  case (Some a)
  then obtain w where w: "a = V4 w" using assms(1) by (cases a) (auto simp: config_v4_def)
  have "Netip.ParsePrefix (prefix_string (V4 w, 32)) = Some (V4 w, 32)" by (rule ParsePrefix_ipv4) simp
  with Some w from_cfg_fields(5) [OF assms(2)] host_string_v4 [of w] addr_string_nonempty [of w] show ?thesis
    by (auto simp: server_prefixes_def PrefixFrom_def routeStrings_def parsed_def)
qed (simp add: server_prefixes_def)

lemma journal_gateway_cfg:
  assumes "from_cfg cfg j" "\<forall>g. cf_Gateway cfg = Some g \<longrightarrow> Is4 g"
  shows "journal_gateway j = cfg_gateway cfg"
proof (cases "cf_Gateway cfg")
  case (Some g)
  with assms(2) obtain w where "g = V4 w" by (cases g) auto
  with Some from_cfg_fields(4) [OF assms(1)] addr_string_nonempty [of w] show ?thesis
    by (simp add: journal_gateway_def cfg_gateway_def)
qed (use from_cfg_fields(4) [OF assms(1)] in \<open>simp add: journal_gateway_def cfg_gateway_def\<close>)

lemma cfg_routes_named:
  assumes "config_v4 cfg" "\<forall>g. cf_Gateway cfg = Some g \<longrightarrow> Is4 g" "from_cfg cfg j"
  shows "cfg_routes tun cfg \<subseteq> journal_routes tun j"
proof -
  have "Masked ` set (cf_ExcludeRoutes cfg) \<subseteq> parsed (oj_ExcludeRoutes j)" "Masked ` set (cf_IncludeRoutes cfg) \<subseteq> parsed (oj_IncludeRoutes j)"
    using assms(1) from_cfg_fields(6,7) [OF assms(3)] by (auto simp: config_v4_def intro!: prefix_strings_parsed [THEN subsetD])
  with server_parsed [OF assms(1,3)] show ?thesis
    by (auto simp: cfg_routes_def journal_routes_def physical_raw_def tunnel_raw_def journal_gateway_cfg [OF assms(3,2)]
        from_cfg_fields [OF assms(3)])
qed

lemma dyn_routes_named:
  assumes "dyn_v4 d" "\<forall>g. cf_Gateway cfg = Some g \<longrightarrow> Is4 g" "from_cfg cfg j"
    "set (AddrStrings (dr_Include d)) \<subseteq> set (oj_DynamicInclude j)" "set (AddrStrings (dr_Exclude d)) \<subseteq> set (oj_DynamicExclude j)"
  shows "dyn_routes tun cfg d \<subseteq> journal_routes tun j"
  using host_strings_parsed [OF _ assms(4)] host_strings_parsed [OF _ assms(5)] assms(1)
  by (auto simp: dyn_routes_def journal_routes_def physical_raw_def tunnel_raw_def journal_gateway_cfg [OF assms(3,2)]
      from_cfg_fields [OF assms(3)] dyn_v4_def)

lemma journal_routes_mono:
  assumes "from_cfg cfg j" "from_cfg cfg j'"
    "set (oj_DynamicInclude j) \<subseteq> set (oj_DynamicInclude j')" "set (oj_DynamicExclude j) \<subseteq> set (oj_DynamicExclude j')"
  shows "journal_routes tun j \<subseteq> journal_routes tun j'"
proof -
  have "parsed (hostRouteStrings xs) \<subseteq> parsed (hostRouteStrings ys)" if "set xs \<subseteq> set ys" for xs ys
    using that by (auto simp: parsed_def hostRouteStrings_def)
  from this [OF assms(3)] this [OF assms(4)] show ?thesis
    using from_cfg_fields [OF assms(1)] from_cfg_fields [OF assms(2)]
    by (auto simp: journal_routes_def physical_raw_def tunnel_raw_def journal_gateway_def)
qed

lemma set_union_loop: "set (union_loop vs out) = set out \<union> set vs"
  by (induction vs out rule: union_loop.induct) auto

lemma set_unionStrings [simp]: "set (unionStrings xs ys) = set xs \<union> set ys"
  by (auto simp: unionStrings_def set_union_loop)

lemma distinct_union_loop: "distinct out \<Longrightarrow> distinct (union_loop vs out)"
  by (induction vs out rule: union_loop.induct) auto

lemma distinct_unionStrings: "distinct (unionStrings xs ys)"
  by (simp add: unionStrings_def distinct_union_loop)

section \<open>The file operations\<close>

lemma next_fault_frame: "next_fault w = (f, w') \<Longrightarrow> jw_k w' = jw_k w \<and> jw_file w' = jw_file w"
  by (auto simp: next_fault_def split: list.splits)

lemma write_cases:
  "writeNetworkJournal path j w = (e, w') \<Longrightarrow> jw_k w' = jw_k w \<and> (jw_file w' = jw_file w \<and> e \<noteq> None \<or> jw_file w' = JournalDoc j)"
  by (auto simp: writeNetworkJournal_def split: if_splits option.splits prod.splits dest: next_fault_frame)

lemma remove_cases: "removeNetworkJournal w = (e, w') \<Longrightarrow> jw_k w' = jw_k w \<and> (jw_file w' = jw_file w \<or> jw_file w' = NoJournal)"
  by (auto simp: removeNetworkJournal_def split: if_splits option.splits prod.splits dest: next_fault_frame)

section \<open>The wrapper over any manager that keeps track\<close>

text \<open>\<open>left k\<close> are the routes of the daemon that are present. The manager remembers what it added: after \<open>Set\<close> routes of the
  configuration only, after \<open>SetDynamicRoutes\<close> at most the old and the new dynamic routes and, without an error, the new
  ones only; a \<open>Close\<close> without an error leaves nothing, provided the manager knew what was left.\<close>

locale tracked_manager =
  fixes mgr :: "('m, 'k) manager" and left :: "'k \<Rightarrow> kroute set" and static dynamic :: "'m \<Rightarrow> kroute set"
    and ok good fresh :: "'m \<Rightarrow> bool" and cfg :: Config and tun :: int
  assumes Set_tracks: "fresh m \<Longrightarrow> left k = {} \<Longrightarrow> mgr_Set mgr (Some cfg) m k = (e, m', k') \<Longrightarrow>
      ok m' \<and> left k' \<subseteq> static m' \<union> dynamic m' \<and> static m' \<subseteq> cfg_routes tun cfg \<and> dynamic m' = {} \<and> (e = None \<longrightarrow> good m')"
    and good_ok: "good m \<Longrightarrow> ok m"
    and Dynamic_tracks: "good m \<Longrightarrow> left k \<subseteq> static m \<union> dynamic m \<Longrightarrow> dyn_v4 d \<Longrightarrow>
      mgr_SetDynamicRoutes mgr d m k = (e, m', k') \<Longrightarrow>
      good m' \<and> left k' \<subseteq> static m' \<union> dynamic m' \<and> static m' = static m \<and> dynamic m' \<subseteq> dynamic m \<union> dyn_routes tun cfg d \<and>
      (e = None \<longrightarrow> dynamic m' \<subseteq> dyn_routes tun cfg d)"
    and Close_shrinks: "mgr_Close mgr m k = (e, m', k') \<Longrightarrow> left k' \<subseteq> left k"
    and Close_clears: "ok m \<Longrightarrow> left k \<subseteq> static m \<union> dynamic m \<Longrightarrow> mgr_Close mgr m k = (None, m', k') \<Longrightarrow> left k' = {}"
    and cfg_v4: "config_v4 cfg" "cf_Gateway cfg = Some g \<Longrightarrow> Is4 g" "cf_VPNAddress cfg \<noteq> None" "cf_InterfaceName cfg \<noteq> []"
begin

text \<open>What is left is in the file.\<close>

definition file_ok :: "journal_file \<Rightarrow> bool" where
  "file_ok file \<longleftrightarrow> file = NoJournal \<or> (\<exists>j. file = JournalDoc j \<and> well_formed cfg j)"

definition recoverable :: "'k jworld \<Rightarrow> bool" where
  "recoverable w \<longleftrightarrow> left (jw_k w) \<subseteq> file_routes tun (jw_file w) \<and> file_ok (jw_file w)"

definition named :: "ownershipJournal \<Rightarrow> kroute set \<Rightarrow> bool" where
  "named j R \<longleftrightarrow> well_formed cfg j \<and> R \<subseteq> journal_routes tun j"

definition running :: "'m journaledManager \<Rightarrow> 'k jworld \<Rightarrow> bool" where
  "running m w \<longleftrightarrow>
     (let R = static (jm_inner m) \<union> dynamic (jm_inner m)
      in good (jm_inner m) \<and> static (jm_inner m) \<subseteq> cfg_routes tun cfg \<and> left (jw_k w) \<subseteq> R \<and> named (jm_journal m) R \<and>
         (\<exists>j. jw_file w = JournalDoc j \<and> named j R))"

lemma named_file: "named j R \<Longrightarrow> R \<subseteq> file_routes tun (JournalDoc j)"
  using cfg_v4(4) from_cfg_fields(1,2) [of cfg j] by (auto simp: named_def well_formed_def file_routes_def readable_def)

lemma recoverableI: "left (jw_k w) \<subseteq> R \<Longrightarrow> jw_file w = JournalDoc j \<Longrightarrow> named j R \<Longrightarrow> recoverable w"
  using named_file [of j R] by (auto simp: recoverable_def named_def file_ok_def)

lemma recoverable_empty: "left (jw_k w) = {} \<Longrightarrow> file_ok (jw_file w) \<Longrightarrow> recoverable w"
  by (simp add: recoverable_def)

lemma file_ok_none [simp]: "file_ok NoJournal"
  by (simp add: file_ok_def)

lemma file_ok_named: "named j R \<Longrightarrow> file_ok (JournalDoc j)"
  by (simp add: file_ok_def named_def)

lemma named_mono: "named j R \<Longrightarrow> well_formed cfg j' \<Longrightarrow> set (oj_DynamicInclude j) \<subseteq> set (oj_DynamicInclude j') \<Longrightarrow>
    set (oj_DynamicExclude j) \<subseteq> set (oj_DynamicExclude j') \<Longrightarrow> named j' R"
  using journal_routes_mono [of cfg j j' tun] by (auto simp: named_def well_formed_def)

lemma named_union: "named j R \<Longrightarrow> named j S \<Longrightarrow> named j (R \<union> S)"
  by (simp add: named_def)

lemma named_subset: "named j R \<Longrightarrow> S \<subseteq> R \<Longrightarrow> named j S"
  by (auto simp: named_def)

lemma named_cfg: "well_formed cfg j \<Longrightarrow> named j (cfg_routes tun cfg)"
  using cfg_routes_named [of cfg j tun] cfg_v4 by (simp add: named_def well_formed_def)

lemma named_dyn: "well_formed cfg j \<Longrightarrow> dyn_v4 d \<Longrightarrow> set (AddrStrings (dr_Include d)) \<subseteq> set (oj_DynamicInclude j) \<Longrightarrow>
    set (AddrStrings (dr_Exclude d)) \<subseteq> set (oj_DynamicExclude j) \<Longrightarrow> named j (dyn_routes tun cfg d)"
  using dyn_routes_named [of d cfg j tun] cfg_v4 by (simp add: named_def well_formed_def)

lemma running_recoverable: "running m w \<Longrightarrow> recoverable w"
  by (auto simp: running_def Let_def intro: recoverableI)

lemma set_rollback_recoverable:
  assumes "ok (jm_inner m)" "left (jw_k w) \<subseteq> static (jm_inner m) \<union> dynamic (jm_inner m)" "recoverable w"
    and "set_rollback mgr m w = (e, m', w')"
  shows "recoverable w'"
proof -
  obtain d inner k where d: "mgr_Close mgr (jm_inner m) (jw_k w) = (d, inner, k)" using prod_cases3 by blast
  show ?thesis
  proof (cases d)
    case None
    with Close_clears [OF assms(1,2)] d have "left k = {}" by simp
    moreover obtain x v where "removeNetworkJournal (w\<lparr>jw_k := k\<rparr>) = (x, v)" by fastforce
    ultimately show ?thesis
      using assms(3,4) d None remove_cases by (fastforce simp: set_rollback_def recoverable_def)
  next
    case (Some x)
    with assms(4) d have "w' = w\<lparr>jw_k := k\<rparr>" by (simp add: set_rollback_def)
    with Close_shrinks [OF d] assms(3) show ?thesis by (auto simp: recoverable_def)
  qed
qed

lemma jm_Set_recoverable:
  assumes "fresh (jm_inner m)" "left (jw_k w) = {}" "file_ok (jw_file w)" and s: "jm_Set mgr (Some cfg) m w = (e, m', w')"
  shows "recoverable w' \<and> (e = None \<longrightarrow> running m' w')"
proof -
  let ?j = "(journalFromConfig cfg)\<lparr>oj_Phase := ''planned''\<rparr>"
  have j: "well_formed cfg ?j" "well_formed cfg (?j\<lparr>oj_Phase := p\<rparr>)" for p
    by (simp_all add: well_formed_def from_cfg_update from_cfg_self) (simp_all add: journalFromConfig_def)
  obtain e1 w1 where 1: "writeNetworkJournal (jm_path m) ?j w = (e1, w1)" by fastforce
  note f1 = write_cases [OF 1]
  show ?thesis
  proof (cases e1)
    case (Some x)
    with s 1 cfg_v4(3) have "w' = w1" "e \<noteq> None" by (auto simp: jm_Set_def)
    with f1 assms(2,3) j(1) show ?thesis by (auto simp: recoverable_def file_ok_def)
  next
    case None
    with f1 assms(2) have w1: "jw_file w1 = JournalDoc ?j" "left (jw_k w1) = {}" by auto
    obtain e2 inner k where 2: "mgr_Set mgr (Some cfg) (jm_inner m) (jw_k w1) = (e2, inner, k)" using prod_cases3 by blast
    note t = Set_tracks [OF assms(1) w1(2) 2]
    let ?R = "static inner \<union> dynamic inner"
    have n: "named (?j\<lparr>oj_Phase := p\<rparr>) ?R" for p
      using named_cfg [OF j(2), of p] t by (auto intro: named_subset)
    have n0: "named ?j ?R" using named_cfg [OF j(1)] t by (auto intro: named_subset)
    have r2: "recoverable (w1\<lparr>jw_k := k\<rparr>)" by (rule recoverableI [OF _ _ n0]) (use t w1 in auto)
    show ?thesis
    proof (cases e2)
      case (Some x)
      obtain ce m3 w3 where 3: "set_rollback mgr (m\<lparr>jm_journal := ?j, jm_inner := inner\<rparr>) (w1\<lparr>jw_k := k\<rparr>) = (ce, m3, w3)"
        using prod_cases3 by blast
      from Some s 1 None 2 3 cfg_v4(3) have "w' = w3" "e \<noteq> None" by (auto simp: jm_Set_def split: option.splits)
      with set_rollback_recoverable [OF _ _ r2 3] t show ?thesis by auto
    next
      case e2: None
      let ?a = "?j\<lparr>oj_Phase := ''active''\<rparr>"
      let ?m = "m\<lparr>jm_inner := inner, jm_journal := ?a\<rparr>"
      obtain e3 w3 where 3: "writeNetworkJournal (jm_path m) ?a (w1\<lparr>jw_k := k\<rparr>) = (e3, w3)" by fastforce
      note f3 = write_cases [OF 3]
      have r3: "recoverable w3"
        using f3 w1 t recoverableI [OF _ _ n0, of w3] recoverableI [OF _ _ n, of w3 "''active''"] by auto
      show ?thesis
      proof (cases e3)
        case None
        with s 1 \<open>e1 = None\<close> 2 e2 3 cfg_v4(3) have "m' = ?m" "w' = w3" by (auto simp: jm_Set_def Let_def)
        with None f3 t e2 n r3 show ?thesis by (auto simp: running_def Let_def)
      next
        case (Some x)
        obtain ce m4 w4 where 4: "set_rollback mgr ?m w3 = (ce, m4, w4)" using prod_cases3 by blast
        from Some s 1 \<open>e1 = None\<close> 2 e2 3 4 cfg_v4(3) have "w' = w4" "e \<noteq> None"
          by (auto simp: jm_Set_def Let_def split: option.splits)
        with set_rollback_recoverable [OF _ _ r3 4] t f3 show ?thesis by auto
      qed
    qed
  qed
qed

lemma jm_SetDynamicRoutes_running:
  assumes r: "running m w" and v: "dyn_v4 d" and s: "jm_SetDynamicRoutes mgr d m w = (e, m', w')"
  shows "running m' w'"
proof -
  let ?pl = "(jm_journal m)\<lparr>oj_DynamicInclude := unionStrings (oj_DynamicInclude (jm_journal m)) (AddrStrings (dr_Include d)),
      oj_DynamicExclude := unionStrings (oj_DynamicExclude (jm_journal m)) (AddrStrings (dr_Exclude d)), oj_Phase := ''planned''\<rparr>"
  let ?co = "?pl\<lparr>oj_DynamicInclude := AddrStrings (dr_Include d), oj_DynamicExclude := AddrStrings (dr_Exclude d), oj_Phase := ''active''\<rparr>"
  let ?R = "static (jm_inner m) \<union> dynamic (jm_inner m)"
  obtain j0 where run: "good (jm_inner m)" "static (jm_inner m) \<subseteq> cfg_routes tun cfg" "left (jw_k w) \<subseteq> ?R"
      "named (jm_journal m) ?R" "jw_file w = JournalDoc j0" "named j0 ?R"
    using r by (auto simp: running_def Let_def)
  have fc: "well_formed cfg ?pl" "well_formed cfg ?co"
    using run(4) v AddrStrings_v4 [of "dr_Include d"] AddrStrings_v4 [of "dr_Exclude d"]
    by (auto simp: named_def well_formed_def from_cfg_update dyn_v4_def)
  have pl: "named ?pl ?R" "named ?pl (dyn_routes tun cfg d)"
    by (rule named_mono [OF run(4) fc(1)]; simp) (rule named_dyn [OF fc(1) v]; simp)
  have co: "named ?co (cfg_routes tun cfg)" "named ?co (dyn_routes tun cfg d)"
    by (rule named_cfg [OF fc(2)]) (rule named_dyn [OF fc(2) v]; simp)
  obtain e1 w1 where 1: "writeNetworkJournal (jm_path m) ?pl w = (e1, w1)" by fastforce
  note f1 = write_cases [OF 1]
  show ?thesis
  proof (cases e1)
    case (Some x)
    with s 1 have "m' = m" "w' = w1" by (auto simp: jm_SetDynamicRoutes_def Let_def)
    with f1 run pl show ?thesis by (auto simp: running_def Let_def)
  next
    case None
    with f1 have w1: "jw_file w1 = JournalDoc ?pl" "left (jw_k w1) \<subseteq> ?R" using run(3) by auto
    obtain e2 inner k where 2: "mgr_SetDynamicRoutes mgr d (jm_inner m) (jw_k w1) = (e2, inner, k)" using prod_cases3 by blast
    note t = Dynamic_tracks [OF run(1) w1(2) v 2]
    have pl': "named ?pl (static inner \<union> dynamic inner)"
      by (rule named_subset [OF named_union [OF pl]]) (use t in auto)
    show ?thesis
    proof (cases e2)
      case (Some x)
      with s 1 None 2 have "m' = m\<lparr>jm_inner := inner, jm_journal := ?pl\<rparr>" "w' = w1\<lparr>jw_k := k\<rparr>"
        by (auto simp: jm_SetDynamicRoutes_def Let_def)
      with t w1 pl' run show ?thesis by (auto simp: running_def Let_def)
    next
      case e2: None
      obtain e3 w3 where 3: "writeNetworkJournal (jm_path m) ?co (w1\<lparr>jw_k := k\<rparr>) = (e3, w3)" by fastforce
      note f3 = write_cases [OF 3]
      have co': "named ?co (static inner \<union> dynamic inner)"
        by (rule named_subset [OF named_union [OF co]]) (use t run(2) e2 in auto)
      from s 1 None 2 e2 3 have "w' = w3" "m' = m\<lparr>jm_inner := inner, jm_journal := (if e3 = None then ?co else ?pl)\<rparr>"
        by (auto simp: jm_SetDynamicRoutes_def Let_def split: option.splits)
      with t f3 w1 pl' co' run show ?thesis by (auto simp: running_def Let_def)
    qed
  qed
qed

lemma jm_Close_recoverable:
  assumes r: "running m w" and s: "jm_Close mgr m w = (e, m', w')"
  shows "recoverable w'"
proof -
  let ?R = "static (jm_inner m) \<union> dynamic (jm_inner m)"
  obtain j0 where run: "good (jm_inner m)" "left (jw_k w) \<subseteq> ?R" "named (jm_journal m) ?R" "jw_file w = JournalDoc j0" "named j0 ?R"
    using r by (auto simp: running_def Let_def)
  obtain d inner k where d: "mgr_Close mgr (jm_inner m) (jw_k w) = (d, inner, k)" using prod_cases3 by blast
  show ?thesis
  proof (cases d)
    case None
    with Close_clears [OF good_ok [OF run(1)] run(2)] d have "left k = {}" by simp
    with s d None run(4,5) show ?thesis
      by (auto simp: jm_Close_def jm_closeLocked_def recoverable_def split: prod.splits dest!: remove_cases intro: file_ok_named)
  next
    case (Some x)
    let ?j = "(jm_journal m)\<lparr>oj_Phase := ''cleanup_failed''\<rparr>"
    have n: "named ?j ?R" by (rule named_mono [OF run(3)]) (use run(3) in \<open>simp_all add: named_def well_formed_def from_cfg_update\<close>)
    obtain x3 w3 where 3: "writeNetworkJournal (jm_path m) ?j (w\<lparr>jw_k := k\<rparr>) = (x3, w3)" by fastforce
    from s d Some 3 have "w' = w3" by (simp add: jm_Close_def jm_closeLocked_def Let_def)
    moreover have "left (jw_k w3) \<subseteq> ?R" using Close_shrinks [OF d] write_cases [OF 3] run(2) by auto
    ultimately show ?thesis
      using write_cases [OF 3] run recoverableI [OF _ _ n] recoverableI [OF _ _ run(5)] by auto
  qed
qed

end

section \<open>The Linux manager keeps track\<close>

definition pm_static :: "platformManager \<Rightarrow> kroute set" where
  "pm_static m = group_routes (pm_localLink m) (pm_gateway m) 5 (set (pm_serverRoutes m) \<union> set (pm_excludeRoutes m)) \<union>
     group_routes (pm_link m) None 6 (set (pm_includeRoutes m))"

definition pm_dynamic :: "platformManager \<Rightarrow> kroute set" where
  "pm_dynamic m = group_routes (pm_localLink m) (pm_gateway m) 5 (set (pm_dynamicExclude m)) \<union>
     group_routes (pm_link m) None 6 (set (pm_dynamicInclude m))"

definition pm_good :: "Config \<Rightarrow> int \<Rightarrow> platformManager \<Rightarrow> bool" where
  "pm_good cfg tun m \<longleftrightarrow> all_v4 m \<and> pm_gateway m = cfg_gateway cfg \<and>
     (\<forall>l. pm_localLink m = Some l \<longrightarrow> lk_Index l = cf_GatewayInterfaceIndex cfg) \<and> (\<forall>l. pm_link m = Some l \<longrightarrow> lk_Index l = tun)"

text \<open>A manager before its first \<open>Set\<close>; \<open>Up\<close> may have found its link.\<close>

definition pm_fresh :: "Config \<Rightarrow> int \<Rightarrow> platformManager \<Rightarrow> bool" where
  "pm_fresh cfg tun m \<longleftrightarrow> physical m = {} \<and> tunnelled m = {} \<and> pm_gateway m = None \<and> pm_name m = cf_InterfaceName cfg \<and>
     (\<forall>l. pm_link m = Some l \<longrightarrow> lk_Index l = tun)"

lemma pm_static_dynamic: "pm_static m \<union> pm_dynamic m = tracked m"
  by (auto simp: pm_static_def pm_dynamic_def tracked_def physical_def tunnelled_def group_routes_union)

text \<open>One tunnel: the routes \<open>B\<close> are not the daemon's, the interface of the tunnel has the index \<open>tun\<close> whenever it exists, the
  configuration is an IPv4 one.\<close>

locale linux_tunnel = route_table nl tbl
  for nl :: "'k netlink" and tbl :: "'k \<Rightarrow> kroute set" +
  fixes B :: "kroute set" and cfg :: Config and tun :: int
  assumes tun_index: "LinkByName nl k (cf_InterfaceName cfg) = Inr l \<Longrightarrow> lk_Index l = tun"
    and v4: "config_v4 cfg" "cf_Gateway cfg = Some g \<Longrightarrow> Is4 g" "cf_VPNAddress cfg \<noteq> None" "cf_InterfaceName cfg \<noteq> []"
begin

lemma owns_iff: "owns B m k \<longleftrightarrow> tbl k - B \<subseteq> pm_static m \<union> pm_dynamic m \<and> all_v4 m"
  by (auto simp: owns_def pm_static_dynamic)

lemma linux_Set_tracks:
  assumes "pm_fresh cfg tun m" "tbl k - B = {}" "mgr_Set (linux_manager nl) (Some cfg) m k = (e, m', k')"
  shows "all_v4 m' \<and> tbl k' - B \<subseteq> pm_static m' \<union> pm_dynamic m' \<and> pm_static m' \<subseteq> cfg_routes tun cfg \<and> pm_dynamic m' = {} \<and>
    (e = None \<longrightarrow> pm_good cfg tun m')"
proof -
  obtain vpn where vpn: "cf_VPNAddress cfg = Some vpn" using v4(3) by auto
  have fr: "physical m = {}" "tunnelled m = {}" "pm_gateway m = None" "pm_name m = cf_InterfaceName cfg"
    "\<forall>l. pm_link m = Some l \<longrightarrow> lk_Index l = tun"
    using assms(1) by (auto simp: pm_fresh_def)
  have o: "owns B m k" using assms(2) fr by (auto simp: owns_iff all_v4_def)
  from assms(3) have s: "pm_Set nl (Some cfg) m k = (e, m', k')" by (simp add: linux_manager_def)
  note r = pm_Set_owns [OF o fr(1,3) v4(1) vpn s]
  have link: "\<forall>l. pm_link m' = Some l \<longrightarrow> lk_Index l = tun" using r fr tun_index by auto
  have within: "set (pm_serverRoutes m') \<union> set (pm_excludeRoutes m') \<subseteq> Masked ` (set (server_prefixes cfg) \<union> set (cf_ExcludeRoutes cfg))"
    "set (pm_includeRoutes m') \<subseteq> Masked ` set (cf_IncludeRoutes cfg)" "pm_dynamicInclude m' = []" "pm_dynamicExclude m' = []"
    using r fr(1,2) by (auto simp: set_within_def physical_def tunnelled_def)
  have "group_routes (pm_localLink m') (pm_gateway m') 5 (set (pm_serverRoutes m') \<union> set (pm_excludeRoutes m')) \<subseteq> cfg_routes tun cfg"
  proof (cases "physical m' = {}")
    case False
    with r within(1) show ?thesis by (auto simp: group_routes_def cfg_routes_def split: option.splits)
  qed (auto simp: physical_def)
  moreover have "group_routes (pm_link m') None 6 (set (pm_includeRoutes m')) \<subseteq> cfg_routes tun cfg"
    using link within(2) by (auto simp: group_routes_def cfg_routes_def split: option.splits)
  ultimately have "pm_static m' \<subseteq> cfg_routes tun cfg" by (simp add: pm_static_def)
  moreover have "pm_dynamic m' = {}" using within by (simp add: pm_dynamic_def)
  ultimately show ?thesis using r link by (auto simp: owns_iff pm_good_def)
qed

lemma linux_Dynamic_tracks:
  assumes "pm_good cfg tun m" "tbl k - B \<subseteq> pm_static m \<union> pm_dynamic m" "dyn_v4 d"
    "mgr_SetDynamicRoutes (linux_manager nl) d m k = (e, m', k')"
  shows "pm_good cfg tun m' \<and> tbl k' - B \<subseteq> pm_static m' \<union> pm_dynamic m' \<and> pm_static m' = pm_static m \<and>
    pm_dynamic m' \<subseteq> pm_dynamic m \<union> dyn_routes tun cfg d \<and> (e = None \<longrightarrow> pm_dynamic m' \<subseteq> dyn_routes tun cfg d)"
proof -
  have o: "owns B m k" using assms(1,2) by (auto simp: owns_iff pm_good_def)
  have v: "\<forall>a \<in> set (dr_Include d) \<union> set (dr_Exclude d). Is4 (Unmap a)" using assms(3) by (simp add: dyn_v4_def)
  from assms(4) have s: "pm_SetDynamicRoutes nl d m k = (e, m', k')" by (simp add: linux_manager_def)
  note r = pm_SetDynamicRoutes_owns [OF o v s]
  have l: "pm_link m' = pm_link m" "pm_localLink m' = pm_localLink m" "pm_gateway m' = pm_gateway m" using r by (auto simp: links_of_def)
  have g: "pm_gateway m = cfg_gateway cfg" "\<forall>l. pm_localLink m = Some l \<longrightarrow> lk_Index l = cf_GatewayInterfaceIndex cfg"
    "\<forall>l. pm_link m = Some l \<longrightarrow> lk_Index l = tun"
    using assms(1) by (auto simp: pm_good_def)
  have "pm_dynamic m' \<subseteq> pm_dynamic m \<union> dyn_routes tun cfg d"
    using r l g by (auto simp: pm_dynamic_def dyn_routes_def group_routes_def split: option.splits)
  moreover have "e = None \<longrightarrow> pm_dynamic m' \<subseteq> dyn_routes tun cfg d"
    using r l g by (auto simp: pm_dynamic_def dyn_routes_def group_routes_def split: option.splits)
  moreover have "pm_static m' = pm_static m" using r l by (simp add: pm_static_def)
  ultimately show ?thesis using r l g by (auto simp: owns_iff pm_good_def)
qed

end

sublocale linux_tunnel \<subseteq> linux: tracked_manager "linux_manager nl" "\<lambda>k. tbl k - B" pm_static pm_dynamic all_v4
    "pm_good cfg tun" "pm_fresh cfg tun" cfg tun
proof unfold_locales
  show "tbl k' - B \<subseteq> tbl k - B" if "mgr_Close (linux_manager nl) m k = (e, m', k')" for m k e m' k'
    using pm_Close_frame [of m k e m' k'] that by (auto simp: linux_manager_def)
  show "tbl k' - B = {}" if "all_v4 m" "tbl k - B \<subseteq> pm_static m \<union> pm_dynamic m" "mgr_Close (linux_manager nl) m k = (None, m', k')"
    for m k m' k'
    using pm_Close_frame [of m k None m' k'] that by (auto simp: linux_manager_def pm_static_dynamic)
  show "all_v4 m" if "pm_good cfg tun m" for m using that by (simp add: pm_good_def)
qed (rule linux_Set_tracks linux_Dynamic_tracks v4; assumption?)+

end
