(* ===== verification/Recovery.thy ===== *)
theory Recovery
  imports Crash
begin

text \<open>
  A session of the network manager (one \<open>Set\<close>, any number of updates of the dynamic routes, perhaps a \<open>Close\<close>), killed at
  any point and recovered by the next start; and two situations in which the journal does not do its job.
\<close>

section \<open>Sessions\<close>

fun run_dynamic :: "('m, 'k) manager \<Rightarrow> DynamicRoutes list \<Rightarrow> 'm journaledManager \<Rightarrow> 'k jworld \<Rightarrow> 'm journaledManager \<times> 'k jworld" where
  "run_dynamic mgr [] m w = (m, w)"
| "run_dynamic mgr (d # ds) m w = (case jm_SetDynamicRoutes mgr d m w of (_, m, w) \<Rightarrow> run_dynamic mgr ds m w)"

definition session :: "('m, 'k) manager \<Rightarrow> Config \<Rightarrow> DynamicRoutes list \<Rightarrow> bool \<Rightarrow> 'm journaledManager \<Rightarrow> 'k jworld \<Rightarrow> 'k jworld" where
  "session mgr cfg ds closing m w =
     (case jm_Set mgr (Some cfg) m w of
        (Some e, m, w) \<Rightarrow> w
      | (None, m, w) \<Rightarrow>
          (case run_dynamic mgr ds m w of
             (m, w) \<Rightarrow> if closing then snd (snd (jm_Close mgr m w)) else w))"

context tracked_manager
begin

lemma run_dynamic_running:
  "running m w \<Longrightarrow> \<forall>d \<in> set ds. dyn_v4 d \<Longrightarrow> run_dynamic mgr ds m w = (m', w') \<Longrightarrow> running m' w'"
proof (induction ds arbitrary: m w)
  case (Cons d ds)
  obtain e m1 w1 where s: "jm_SetDynamicRoutes mgr d m w = (e, m1, w1)" using prod_cases3 by blast
  from jm_SetDynamicRoutes_running [OF Cons.prems(1) _ s] Cons.prems have "running m1 w1" by simp
  from Cons.IH [OF this] Cons.prems s show ?case by simp
qed simp

lemma session_recoverable:
  assumes "fresh (jm_inner m)" "left (jw_k w) = {}" "jw_file w = NoJournal" "\<forall>d \<in> set ds. dyn_v4 d"
  shows "recoverable (session mgr cfg ds closing m w)"
proof -
  obtain e m1 w1 where s: "jm_Set mgr (Some cfg) m w = (e, m1, w1)" using prod_cases3 by blast
  note r = jm_Set_recoverable [OF assms(1,2) _ s]
  obtain m2 w2 where d: "run_dynamic mgr ds m1 w1 = (m2, w2)" by fastforce
  obtain x m3 w3 where c: "jm_Close mgr m2 w2 = (x, m3, w3)" using prod_cases3 by blast
  show ?thesis
  proof (cases e)
    case None
    with r assms(3) have "running m1 w1" by simp
    from run_dynamic_running [OF this assms(4) d] have "running m2 w2" .
    with s None d c show ?thesis
      by (auto simp: session_def intro: running_recoverable jm_Close_recoverable)
  next
    case (Some y)
    with s r assms(3) show ?thesis by (simp add: session_def)
  qed
qed

end

section \<open>Recovery on a working machine\<close>

text \<open>A machine that works: while \<open>up\<close> holds, routes can be listed and deleted, the two interfaces exist, and \<open>resolvconf\<close>, if
  it is installed, works.\<close>

locale working_machine = linux_tunnel nl tbl B cfg tun
  for nl :: "'k netlink" and tbl :: "'k \<Rightarrow> kroute set" and B :: "kroute set" and cfg :: Config and tun :: int +
  fixes up :: "'k \<Rightarrow> bool"
  assumes up_list: "up k \<Longrightarrow> v4_prefix p \<Longrightarrow> \<exists>rs. RouteListFiltered nl k p i = Inr rs"
    and up_del: "up k \<Longrightarrow> RouteDel nl k r = (e, k') \<Longrightarrow> up k' \<and> (case e of None \<Rightarrow> True | Some x \<Rightarrow> IsNotExist x)"
    and up_tunnel: "up k \<Longrightarrow> \<exists>l. LinkByName nl k (cf_InterfaceName cfg) = Inr l"
    and up_gateway: "up k \<Longrightarrow> cf_GatewayInterfaceIndex cfg \<noteq> 0 \<and> (\<exists>l. LinkByIndex nl k (cf_GatewayInterfaceIndex cfg) = Inr l)"
    and up_revert: "up k \<Longrightarrow> RevertLink nl k i = (e, k') \<Longrightarrow> up k'"
    and up_resolvconf: "up k \<Longrightarrow> LookPath nl k = Inr path \<Longrightarrow> ResolvconfDel nl k path n = (x, k') \<Longrightarrow> x = None"
begin

lemma del_routes_up: "up k \<Longrightarrow> del_routes nl gw pr rs k = (e, k') \<Longrightarrow> e = None \<and> up k'"
proof (induction rs arbitrary: k)
  case (Cons r rs)
  obtain d k1 where d: "RouteDel nl k r = (d, k1)" by fastforce
  from up_del [OF Cons.prems(1) d] Cons.prems Cons.IH [of k] Cons.IH [of k1] d show ?case
    by (auto split: if_splits option.splits)
qed simp

lemma routeDel_up:
  assumes "up k" "v4_prefix p" "routeDel nl p (Some l) gw pr k = (e, k')"
  shows "e = None \<and> up k'"
  using assms up_list [OF assms(1,2), of "lk_Index l"]
  by (auto simp: routeDel_def ParseIPNet_string dest: del_routes_up split: sum.splits)

lemma recover_routes_up:
  assumes "up k" "\<forall>raw \<in> set raws. \<exists>p. Netip.ParsePrefix raw = Some p \<and> v4_prefix p"
    "recover_routes nl skip (Some l) gw pr raws errs k = (errs', k')"
  shows "errs' = errs \<and> up k' \<and> tbl k' \<subseteq> tbl k \<and> tbl k' \<inter> kroute_of (lk_Index l) gw pr ` parsed raws = {}"
  using assms
proof (induction raws arbitrary: k)
  case (Cons raw raws)
  then obtain p where p: "Netip.ParsePrefix raw = Some p" "v4_prefix p" by auto
  obtain d k1 where d: "routeDel nl p (Some l) gw pr k = (d, k1)" by fastforce
  have d1: "d = None" "up k1" using routeDel_up [OF Cons.prems(1) p(2) d] by auto
  with Cons.prems p d have "recover_routes nl skip (Some l) gw pr raws errs k1 = (errs', k')" by simp
  from Cons.IH [OF d1(2) _ this] Cons.prems have "errs' = errs \<and> up k' \<and> tbl k' \<subseteq> tbl k1 \<and> tbl k' \<inter> kroute_of (lk_Index l) gw pr ` parsed raws = {}"
    by simp
  moreover have "parsed (raw # raws) = insert p (parsed raws)" using p by (auto simp: parsed_def)
  ultimately show ?case
    using routeDel_shrinks [OF d] routeDel_gone [of p l gw pr k k1] d d1 p by auto
qed (simp add: parsed_def)

lemma recover_dns_up:
  assumes "up k" "recover_dns nl j tunLink errs k = (errs', k')"
  shows "errs' = errs \<and> tbl k' \<subseteq> tbl k"
proof -
  let ?k = "case tunLink of None \<Rightarrow> k | Some l \<Rightarrow> if SystemBus nl k = None then snd (RevertLink nl k (lk_Index l)) else k"
  have rev: "up (snd (RevertLink nl k i)) \<and> tbl (snd (RevertLink nl k i)) \<subseteq> tbl k" for i
    using up_revert [OF assms(1), of i] dns_calls(3) [of k i] by (metis prod.collapse)
  have "up ?k" "tbl ?k \<subseteq> tbl k" using assms(1) rev by (auto split: option.splits)
  moreover have "errs' = errs \<and> tbl k' \<subseteq> tbl ?k" if "oj_DNSServers j \<noteq> []"
    using that assms(2) up_resolvconf [OF \<open>up ?k\<close>] dns_calls(6) [of ?k]
    by (fastforce simp: recover_dns_def Let_def split: sum.splits option.splits prod.splits)
  ultimately show ?thesis using assms(2) by (cases "oj_DNSServers j = []") (auto simp: recover_dns_def)
qed

lemma raw_parses:
  assumes "well_formed cfg j" "raw \<in> set (physical_raw j) \<union> set (tunnel_raw j)"
  shows "\<exists>p. Netip.ParsePrefix raw = Some p \<and> v4_prefix p"
proof -
  have fc: "from_cfg cfg j" using assms(1) by (simp add: well_formed_def)
  have host: "\<exists>p. Netip.ParsePrefix (host_string (addr_string (V4 a))) = Some p \<and> v4_prefix p" for a
    unfolding host_string_v4 by (intro exI conjI, rule ParsePrefix_ipv4) simp_all
  have strs: "\<exists>p. Netip.ParsePrefix raw = Some p \<and> v4_prefix p" if "raw \<in> set (PrefixStrings ps)" "\<forall>p \<in> set ps. v4_prefix p" for ps
  proof -
    from that(1) obtain p where "p \<in> set ps" "raw = prefix_string (Masked p)" unfolding PrefixStrings_def by auto
    with that(2) v4_prefix_string [of "Masked p"] v4_prefix_Masked [of p] show ?thesis by blast
  qed
  from assms(2) consider "raw \<in> set (routeStrings (oj_ServerAddress j))" | "raw \<in> set (oj_ExcludeRoutes j) \<union> set (oj_IncludeRoutes j)"
    | "raw \<in> host_string ` (set (oj_DynamicInclude j) \<union> set (oj_DynamicExclude j))"
    by (auto simp: physical_raw_def tunnel_raw_def hostRouteStrings_def)
  then show ?thesis
  proof cases
    case 1
    then obtain a where "cf_ServerAddress cfg = Some a" "raw = host_string (addr_string a)"
      using from_cfg_fields(5) [OF fc] by (auto simp: routeStrings_def split: if_splits option.splits)
    moreover from this(1) obtain v where "a = V4 v" using v4(1) by (cases a) (auto simp: config_v4_def)
    ultimately show ?thesis using host by simp
  next
    case 2
    then show ?thesis
      using strs [of "cf_ExcludeRoutes cfg"] strs [of "cf_IncludeRoutes cfg"] from_cfg_fields(6,7) [OF fc] v4(1)
      by (auto simp: config_v4_def)
  next
    case 3
    then obtain raw0 where "raw0 \<in> set (oj_DynamicInclude j) \<union> set (oj_DynamicExclude j)" "raw = host_string raw0" by blast
    moreover from this(1) obtain a where "raw0 = addr_string (V4 a)" using assms(1) unfolding well_formed_def by blast
    ultimately show ?thesis using host by metis
  qed
qed

lemma platformRecoverJournal_clears:
  assumes "up k" "well_formed cfg j" "tbl k - B \<subseteq> journal_routes tun j"
  shows "\<exists>k'. platformRecoverJournal nl j k = (None, k') \<and> tbl k' \<subseteq> B"
proof -
  have fc: "from_cfg cfg j" using assms(2) by (simp add: well_formed_def)
  note ff = from_cfg_fields [OF fc]
  obtain phys where phys: "LinkByIndex nl k (cf_GatewayInterfaceIndex cfg) = Inr phys" "cf_GatewayInterfaceIndex cfg \<noteq> 0"
    using up_gateway [OF assms(1)] by auto
  obtain e1 k1 where 1: "recover_routes nl False (Some phys) (journal_gateway j) 5 (physical_raw j) [] k = (e1, k1)" by fastforce
  note r1 = recover_routes_up [OF assms(1) _ 1]
  have p1: "e1 = []" "up k1" "tbl k1 \<subseteq> tbl k"
    "tbl k1 \<inter> kroute_of (cf_GatewayInterfaceIndex cfg) (journal_gateway j) 5 ` parsed (physical_raw j) = {}"
    using r1 raw_parses [OF assms(2)] LinkByIndex_index [OF phys(1)] by auto
  obtain tlink where tl: "LinkByName nl k1 (cf_InterfaceName cfg) = Inr tlink" using up_tunnel [OF p1(2)] by auto
  obtain e2 k2 where 2: "recover_routes nl True (Some tlink) None 6 (tunnel_raw j) e1 k1 = (e2, k2)" by fastforce
  note r2 = recover_routes_up [OF p1(2) _ 2]
  have p2: "e2 = []" "up k2" "tbl k2 \<subseteq> tbl k1" "tbl k2 \<inter> kroute_of tun None 6 ` parsed (tunnel_raw j) = {}"
    using r2 p1(1) raw_parses [OF assms(2)] tun_index [OF tl] by auto
  obtain e3 k3 where 3: "recover_dns nl j (Some tlink) e2 k2 = (e3, k3)" by fastforce
  note r3 = recover_dns_up [OF p2(2) 3]
  have "platformRecoverJournal nl j k = (None, k3)"
    using phys ff 1 2 3 tl r3 p2 by (simp add: platformRecoverJournal_def Let_def journal_gateway_def)
  moreover have "tbl k3 \<subseteq> B"
  proof
    fix r assume "r \<in> tbl k3"
    then have "r \<in> tbl k2" "r \<in> tbl k1" "r \<in> tbl k" using r3 p2(3) p1(3) by auto
    with assms(3) p1(4) p2(4) show "r \<in> B" unfolding journal_routes_def ff(3) by blast
  qed
  ultimately show ?thesis by blast
qed

lemma recovery_clears:
  assumes "linux.recoverable w" "jw_file v = jw_file w" "tbl (jw_k v) \<subseteq> tbl (jw_k w)" "up (jw_k v)" "jw_faults v = []"
  shows "\<exists>v'. RecoverNetworkJournal nl v = (None, v') \<and> tbl (jw_k v') \<subseteq> B \<and> jw_file v' = NoJournal"
proof (cases "jw_file w = NoJournal")
  case True
  with assms show ?thesis
    by (auto simp: RecoverNetworkJournal_def readNetworkJournal_def linux.recoverable_def file_routes_def ErrNotExist_def)
next
  case False
  with assms(1) obtain j where j: "jw_file w = JournalDoc j" "well_formed cfg j"
    by (auto simp: linux.recoverable_def linux.file_ok_def)
  have rd: "readable j" using j(2) from_cfg_fields(1,2) [of cfg j] v4(4) by (auto simp: readable_def well_formed_def)
  have "tbl (jw_k v) - B \<subseteq> journal_routes tun j"
    using assms(1,3) j rd by (auto simp: linux.recoverable_def file_routes_def)
  from platformRecoverJournal_clears [OF assms(4) j(2) this] obtain k' where
    k': "platformRecoverJournal nl j (jw_k v) = (None, k')" "tbl k' \<subseteq> B" by blast
  have "RecoverNetworkJournal nl v = removeNetworkJournal (v\<lparr>jw_k := k'\<rparr>)"
    using k'(1) j(1) rd assms(2) by (simp add: RecoverNetworkJournal_def readNetworkJournal_def readable_def)
  moreover have "removeNetworkJournal (v\<lparr>jw_k := k'\<rparr>) = (None, v\<lparr>jw_k := k', jw_file := NoJournal\<rparr>)"
    using assms(2,5) j(1) by (simp add: removeNetworkJournal_def next_fault_def fails_def)
  ultimately show ?thesis using k'(2) by simp
qed

lemma session_recovers:
  assumes "pm_fresh cfg tun (jm_inner m)" "tbl (jw_k w) \<subseteq> B" "jw_file w = NoJournal" "\<forall>d \<in> set ds. dyn_v4 d"
    and "jw_file v = jw_file (session (linux_manager nl) cfg ds closing m w)"
      "tbl (jw_k v) \<subseteq> tbl (jw_k (session (linux_manager nl) cfg ds closing m w))" "up (jw_k v)" "jw_faults v = []"
  shows "\<exists>v'. RecoverNetworkJournal nl v = (None, v') \<and> tbl (jw_k v') \<subseteq> B \<and> jw_file v' = NoJournal"
  by (rule recovery_clears [OF linux.session_recoverable assms(5-8)]) (use assms in auto)

end

section \<open>A machine\<close>

text \<open>A small machine with two interfaces: the physical one, with index 2, and the tunnel, with index 7. It has no bus and no
  \<open>resolvconf\<close>. It executes \<open>sk_power\<close> more changes (\<open>None\<close>: any number) and cannot delete the routes in \<open>sk_busy\<close>.\<close>

record simk =
  sk_routes :: "kroute list"
  sk_busy :: "kroute list"
  sk_power :: "nat option"

definition eth0 :: link where
  "eth0 = \<lparr>lk_Name = ''eth0'', lk_Index = 2, lk_MAC = []\<rparr>"

definition tun0 :: link where
  "tun0 = \<lparr>lk_Name = ''flexconnect'', lk_Index = 7, lk_MAC = []\<rparr>"

definition sim_change :: "(simk \<Rightarrow> error option \<times> simk) \<Rightarrow> simk \<Rightarrow> error option \<times> simk" where
  "sim_change f k =
     (case sk_power k of
        None \<Rightarrow> f k
      | Some 0 \<Rightarrow> (Some (Errors ''killed''), k)
      | Some (Suc n) \<Rightarrow> f (k\<lparr>sk_power := Some n\<rparr>))"

definition sim_add :: "kroute \<Rightarrow> simk \<Rightarrow> error option \<times> simk" where
  "sim_add r k = (if r \<in> set (sk_routes k) then (Some (Errors ''file exists''), k) else (None, k\<lparr>sk_routes := r # sk_routes k\<rparr>))"

definition sim_del :: "kroute \<Rightarrow> simk \<Rightarrow> error option \<times> simk" where
  "sim_del r k = (if r \<in> set (sk_busy k) then (Some (Errors ''device or resource busy''), k)
     else (None, k\<lparr>sk_routes := filter (\<lambda>x. x \<noteq> r) (sk_routes k)\<rparr>))"

definition sim_parse :: "string \<Rightarrow> error + Netip.prefix" where
  "sim_parse s = (case Netip.ParsePrefix s of None \<Rightarrow> Inl (Errors ''invalid CIDR address'') | Some p \<Rightarrow> Inr p)"

definition sim :: "simk netlink" where
  "sim = \<lparr>LinkByName = (\<lambda>k n. if n = lk_Name tun0 then Inr tun0 else Inl (Errors ''Link not found'')),
     LinkByIndex = (\<lambda>k i. if i = 2 then Inr eth0 else Inl (Errors ''Link not found'')),
     LinkSetUp = (\<lambda>k i. (None, k)), LinkSetMulticastOff = (\<lambda>k i. (None, k)), LinkSetMTU = (\<lambda>k i mtu. (None, k)),
     NlParseAddr = sim_parse, ParseIPNet = sim_parse,
     AddrList = (\<lambda>k i. Inr []), AddrAdd = (\<lambda>k i a. sim_change (Pair None) k), AddrDel = (\<lambda>k i a. sim_change (Pair None) k),
     RouteList = (\<lambda>k. Inr (sk_routes k)), RouteListDst = (\<lambda>k. Inr []),
     RouteListFiltered = (\<lambda>k p i. Inr (filter (\<lambda>r. kr_Dst r = Some p \<and> kr_LinkIndex r = i) (sk_routes k))),
     RouteAdd = (\<lambda>k r. sim_change (sim_add r) k), RouteDel = (\<lambda>k r. sim_change (sim_del r) k),
     SystemBus = (\<lambda>k. Some (Errors ''no bus'')), SetLinkDNS = (\<lambda>k i as. (None, k)), SetLinkDomains = (\<lambda>k i. (None, k)),
     RevertLink = (\<lambda>k i. (None, k)), NmGetDevice = (\<lambda>k n. Inl (Errors ''no bus'')), NmPathValid = (\<lambda>p. False),
     NmGetApplied = (\<lambda>k d. Inl (Errors ''no bus'')), NmReapply = (\<lambda>k d st v. (None, k)),
     LookPath = (\<lambda>k. Inl (Errors ''not found'')), ResolvconfAdd = (\<lambda>k p n inp. (None, k)), ResolvconfDel = (\<lambda>k p n. (None, k))\<rparr>"

definition sim_tbl :: "simk \<Rightarrow> kroute set" where
  "sim_tbl k = set (sk_routes k)"

definition sim_up :: "simk \<Rightarrow> bool" where
  "sim_up k \<longleftrightarrow> sk_power k = None \<and> sk_busy k = []"

definition office :: Config where
  "office = \<lparr>cf_InterfaceName = ''flexconnect'', cf_InterfaceIndex = 0, cf_VPNAddress = Some (V4 0x0A080005, 24), cf_MTU = 1399,
     cf_Underlay = zero_underlay, cf_ServerAddress = Some (V4 0xCB007105), cf_Gateway = Some (V4 0xC0A80101),
     cf_GatewayInterfaceIndex = 2, cf_IncludeRoutes = [(V4 0x0A000000, 8)], cf_ExcludeRoutes = [(V4 0xC0A80000, 16)],
     cf_DNSServers = []\<rparr>"

lemma sim_change_tbl:
  "sim_change (sim_add r) k = (None, k') \<Longrightarrow> sim_tbl k' \<subseteq> insert r (sim_tbl k)"
  "sim_change (sim_add r) k = (Some e, k') \<Longrightarrow> sim_tbl k' \<subseteq> sim_tbl k"
  "sim_change (sim_del r) k = (None, k') \<Longrightarrow> sim_tbl k' \<subseteq> sim_tbl k - {r}"
  "sim_change (sim_del r) k = (Some e, k') \<Longrightarrow> sim_tbl k' \<subseteq> sim_tbl k \<and> \<not> IsNotExist e"
  "sim_change (Pair None) k = (res, k') \<Longrightarrow> sim_tbl k' \<subseteq> sim_tbl k"
  by (auto simp: sim_change_def sim_add_def sim_del_def sim_tbl_def IsNotExist_def ErrNotExist_def
      split: option.splits nat.splits if_splits)

interpretation sim_table: route_table sim sim_tbl
  by unfold_locales
    (auto simp: sim_def v4_prefix_string sim_parse_def eth0_def sim_tbl_def [abs_def] split: if_splits
      dest!: sim_change_tbl [unfolded sim_tbl_def] )

lemma sim_up_del: "sim_up k \<Longrightarrow> sim_change (sim_del r) k = (e, k') \<Longrightarrow> e = None \<and> sim_up k'"
  by (auto simp: sim_up_def sim_change_def sim_del_def)

interpretation sim_machine: working_machine sim sim_tbl B office 7 sim_up for B
proof unfold_locales
qed (auto simp: sim_def tun0_def office_def config_v4_def dest: sim_up_del)

section \<open>The property\<close>


text \<open>The process is killed after two changes of the machine: the address and the route to the server are set, the plan is on disk.\<close>

definition office_manager :: "platformManager journaledManager" where
  "office_manager = \<lparr>jm_inner = newPlatformManager ''flexconnect'', jm_path = ''/var/lib/flexconnect/network-ownership.json'',
     jm_journal = journalFromConfig office\<rparr>"

definition fragile :: "simk jworld" where
  "fragile = \<lparr>jw_k = \<lparr>sk_routes = [], sk_busy = [], sk_power = Some 2\<rparr>, jw_file = NoJournal, jw_faults = []\<rparr>"

definition killed :: "simk jworld" where
  "killed = session (linux_manager sim) office [] False office_manager fragile"

definition rebooted :: "simk jworld" where
  "rebooted = killed\<lparr>jw_k := (jw_k killed)\<lparr>sk_power := None, sk_busy := []\<rparr>, jw_faults := []\<rparr>"

lemma sim_parse_v4: "b \<le> 32 \<Longrightarrow> sim_parse (prefix_string (V4 a, b)) = Inr (V4 a, b)"
  by (simp add: sim_parse_def ParsePrefix_ipv4)

lemmas office_eval = sim_def sim_parse_v4 sim_change_def sim_add_def sim_del_def office_def tun0_def eth0_def newPlatformManager_def
  pm_Set_def pm_Up_def pm_Close_def set_address_def setVPNAddress_def deleteExactAddress_def set_physical_def set_routes_def
  server_prefixes_def PrefixFrom_def syncRoutes_def DiffPrefixes_def withoutPrefixes_def setDNS_def restoreDNS_def close_routes_def
  routeDel_def route_matches_def linux_manager_def jm_Set_def jm_Close_def jm_closeLocked_def set_rollback_def
  writeNetworkJournal_def removeNetworkJournal_def next_fault_def fails_def net_ParseIP_def
  ParseAddr_ipv4_string IsNotExist_def ErrNotExist_def

lemma killed_leaves_route:
  "sk_routes (jw_k killed) = [kroute_of 2 (Some (V4 0xC0A80101)) 5 (V4 0xCB007105, 32)] \<and>
   jw_file killed = JournalDoc ((journalFromConfig office)\<lparr>oj_Phase := ''planned''\<rparr>)"
  by (simp add: killed_def fragile_def session_def office_manager_def office_eval kroute_of_def Let_def)


section \<open>Where the journal is lost, and where it gets in the way\<close>

lemma pm_Close_forgets:
  assumes "pm_Close nl m k = (e, m', k')"
  shows "tracked m' = {} \<and> pm_vpnAddressOwned m' = False \<and> pm_vpnAddress m' = None \<and>
    pm_serverRoutes m' = [] \<and> pm_includeRoutes m' = [] \<and> pm_excludeRoutes m' = [] \<and> pm_dynamicInclude m' = [] \<and> pm_dynamicExclude m' = []"
proof -
  have d: "restoreDNS nl n j = (x, n', j') \<Longrightarrow> pm_serverRoutes n' = pm_serverRoutes n \<and> pm_includeRoutes n' = pm_includeRoutes n \<and>
      pm_excludeRoutes n' = pm_excludeRoutes n \<and> pm_dynamicInclude n' = pm_dynamicInclude n \<and> pm_dynamicExclude n' = pm_dynamicExclude n"
    for n j x n' j'
    by (auto simp: restoreDNS_def split: if_splits option.splits sum.splits prod.splits)
  show ?thesis
    using assms by (auto simp: pm_Close_def close_routes_def Let_def tracked_def physical_def tunnelled_def split: prod.splits if_splits dest!: d)
qed

lemma pm_Close_again:
  assumes "pm_Close nl m k = (e, m', k')" "pm_dnsBackend m' = []"
  shows "pm_Close nl m' k'' = (None, m', k'')"
  using pm_Close_forgets [OF assms(1)] assms(2)
  by (auto simp: pm_Close_def close_routes_def restoreDNS_def Let_def)

text \<open>C39: a failed cleanup is forgotten. When the Linux manager could not delete a route, \<open>Close\<close> reports it and the journal stays,
  for the next start to finish the work; but the manager no longer remembers the route, so the next \<open>Close\<close> (\<open>SetupTunnelWithClient\<close>
  calls it after a failed \<open>Set\<close>, whose own rollback has just failed) touches nothing, reports success and removes the journal.\<close>

theorem second_Close_drops_journal:
  assumes "pm_Close nl (jm_inner m) (jw_k w) = (Some e, inner, k)" "pm_dnsBackend inner = []"
    and "jm_Close (linux_manager nl) m w = (r, m', w')" "jw_faults w' = []"
  shows "r = Some e \<and> (jw_file w' = jw_file w \<or> jw_file w' = JournalDoc (jm_journal m')) \<and>
    jm_Close (linux_manager nl) m' w' = (None, m', w'\<lparr>jw_file := NoJournal\<rparr>)"
proof -
  let ?j = "(jm_journal m)\<lparr>oj_Phase := ''cleanup_failed''\<rparr>"
  obtain x w3 where 3: "writeNetworkJournal (jm_path m) ?j (w\<lparr>jw_k := k\<rparr>) = (x, w3)" by fastforce
  have r: "r = Some e" "m' = m\<lparr>jm_inner := inner, jm_journal := ?j\<rparr>" "w' = w3"
    using assms(1,3) 3 by (auto simp: jm_Close_def jm_closeLocked_def linux_manager_def Let_def)
  have "pm_Close nl inner (jw_k w') = (None, inner, jw_k w')"
    using pm_Close_again [OF assms(1,2)] by blast
  then have "jm_Close (linux_manager nl) m' w' = (None, m', w'\<lparr>jw_file := NoJournal\<rparr>)"
    using assms(4) r by (auto simp: jm_Close_def jm_closeLocked_def linux_manager_def removeNetworkJournal_def next_fault_def fails_def)
  with r write_cases [OF 3] show ?thesis by auto
qed

text \<open>The route to the server cannot be deleted at the moment of the \<open>Close\<close>.\<close>

definition sticky :: "simk jworld" where
  "sticky = \<lparr>jw_k = \<lparr>sk_routes = [], sk_busy = [kroute_of 2 (Some (V4 0xC0A80101)) 5 (V4 0xCB007105, 32)], sk_power = None\<rparr>,
     jw_file = NoJournal, jw_faults = []\<rparr>"

theorem second_Close_drops_journal_witness:
  "case jm_Set (linux_manager sim) (Some office) office_manager sticky of
     (_, m, w) \<Rightarrow>
       (case jm_Close (linux_manager sim) m w of
          (r, m', w') \<Rightarrow>
            r = Some (Errors ''device or resource busy'') \<and>
            (case jm_Close (linux_manager sim) m' w' of
               (r', m'', w'') \<Rightarrow> r' = None \<and> jw_file w'' = NoJournal \<and>
                 sk_routes (jw_k w'') = [kroute_of 2 (Some (V4 0xC0A80101)) 5 (V4 0xCB007105, 32)]))"
proof -
  obtain r0 m w where s: "jm_Set (linux_manager sim) (Some office) office_manager sticky = (r0, m, w)" using prod_cases3 by blast
  obtain r m' w' where c: "jm_Close (linux_manager sim) m w = (r, m', w')" using prod_cases3 by blast
  obtain e inner k where p: "pm_Close sim (jm_inner m) (jw_k w) = (e, inner, k)" using prod_cases3 by blast
  have m: "m = \<lparr>jm_inner = jm_inner m, jm_path = jm_path office_manager, jm_journal = (journalFromConfig office)\<lparr>oj_Phase := ''active''\<rparr>\<rparr>"
    "pm_Close sim (jm_inner m) (jw_k w) = (Some (Errors ''device or resource busy''), inner, k)"
    "pm_dnsBackend inner = []" "jw_faults w' = []" "sk_routes (jw_k w') = [kroute_of 2 (Some (V4 0xC0A80101)) 5 (V4 0xCB007105, 32)]"
    using s c p by (auto simp: sticky_def office_manager_def office_eval kroute_of_def Let_def)
  from second_Close_drops_journal [OF m(2,3) c m(4)] s c m(5) show ?thesis by simp
qed

text \<open>While the physical interface named by the journal does not exist, no recovery succeeds: every route of the physical side is
  reported as an error, the journal stays, and the daemon does not start.\<close>

lemma recover_routes_errors: "errs \<noteq> [] \<Longrightarrow> fst (recover_routes nl skip l gw pr raws errs k) \<noteq> []"
  by (induction raws arbitrary: errs k) (auto split: option.splits prod.splits)

lemma recover_dns_errors: "errs \<noteq> [] \<Longrightarrow> fst (recover_dns nl j tlink errs k) \<noteq> []"
  by (auto simp: recover_dns_def Let_def split: sum.splits option.splits prod.splits)

lemma errors_Join_nonempty: "errs \<noteq> [] \<Longrightarrow> errors_Join errs \<noteq> None"
  by (cases errs) (auto split: option.splits)

theorem recovery_needs_the_gateway_interface:
  assumes "jw_file w = JournalDoc j" "readable j" "physical_raw j \<noteq> []"
    "oj_GatewayInterfaceIndex j = 0 \<or> LinkByIndex nl (jw_k w) (oj_GatewayInterfaceIndex j) = Inl x"
  shows "\<exists>e w'. RecoverNetworkJournal nl w = (Some e, w') \<and> jw_file w' = jw_file w"
proof -
  obtain raw raws where raws: "physical_raw j = raw # raws" using assms(3) by (cases "physical_raw j") auto
  let ?p = "if oj_GatewayInterfaceIndex j \<noteq> 0
      then (case LinkByIndex nl (jw_k w) (oj_GatewayInterfaceIndex j) of Inl _ \<Rightarrow> None | Inr l \<Rightarrow> Some l) else None"
  have p: "?p = None" using assms(4) by auto
  have 1: "fst (recover_routes nl False None gw 5 (physical_raw j) [] k) \<noteq> []" for gw k
    by (auto simp: raws routeDel_def recover_routes_errors split: option.splits)
  obtain e1 k1 where r1: "recover_routes nl False ?p (journal_gateway j) 5 (physical_raw j) [] (jw_k w) = (e1, k1)" by fastforce
  define tlink where "tlink = (case LinkByName nl k1 (oj_InterfaceName j) of Inl _ \<Rightarrow> None | Inr l \<Rightarrow> Some l)"
  obtain e2 k2 where r2: "recover_routes nl True tlink None 6 (tunnel_raw j) e1 k1 = (e2, k2)" by fastforce
  obtain e3 k3 where r3: "recover_dns nl j tlink e2 k2 = (e3, k3)" by fastforce
  have "e1 \<noteq> []" using 1 [of "journal_gateway j" "jw_k w"] r1 unfolding p by simp
  with recover_routes_errors [of e1 nl True tlink None 6 "tunnel_raw j" k1] r2 have "e2 \<noteq> []" by simp
  with recover_dns_errors [of e2 nl j tlink k2] r3 have "e3 \<noteq> []" by simp
  from errors_Join_nonempty [OF this] obtain e where "errors_Join e3 = Some e" by auto
  then have "platformRecoverJournal nl j (jw_k w) = (Some e, k3)"
    using r1 r2 r3 by (simp add: platformRecoverJournal_def Let_def journal_gateway_def tlink_def)
  then show ?thesis
    using assms(1,2) by (auto simp: RecoverNetworkJournal_def readNetworkJournal_def readable_def)
qed

end
