(* ===== verification/Connsession.thy ===== *)
theory Connsession
  imports Monitor
begin

text \<open>
  \<open>internal/anyconnect/session/session.go\<close>: the state that the TLS and the DTLS channel, the TUN workers and the timers of one
  VPN connection share, and the parts of \<open>proto\<close> and \<open>utils\<close> it uses.

  A channel of payloads is the list of its elements, oldest first, with the capacity 64. A closed channel, a finished
  \<open>sync.Once\<close> and an atomic value are fields. \<open>now\<close> is the clock when a time is recorded. The XML decoder for the server's post
  authentication document is a parameter: it yields the two domain lists, or fails. Sessions are not nil.
\<close>

section \<open>Payloads\<close>

text \<open>\<open>proto.Payload\<close>; \<open>pl_cap\<close> is the capacity of the slice.\<close>

record Payload =
  pl_Type :: "8 word"
  pl_Data :: "8 word list"
  pl_cap :: nat

definition queue_cap :: nat where
  "queue_cap = 64"

section \<open>State\<close>

record stat =
  st_BytesSent :: u64
  st_BytesReceived :: u64
  st_TUNReads :: u64
  st_TUNWrites :: u64
  st_TUNReadErrors :: u64
  st_TUNWriteErrors :: u64
  st_DPDSent :: u64
  st_DPDResponses :: u64
  st_QueueDrops :: u64

record TransportFault =
  tf_Code :: string
  tf_Transport :: string
  tf_Error :: string
  tf_Time :: stamp

record CloseInfo =
  ci_Code :: string
  ci_Transport :: string
  ci_Error :: string
  ci_Time :: stamp
  ci_TransportFaults :: "TransportFault list"

text \<open>A lease of dynamic routes (\<open>dynamicRouteLease\<close> of \<open>tun.go\<close>).\<close>

record dynamicRouteLease =
  dl_Addresses :: "string list"
  dl_ExpiresAt :: time

record ConnSession =
  cs_ActiveClose :: bool                  \<comment> \<open>\<open>Sess.ActiveClose\<close>\<close>
  cs_isCurrent :: bool                    \<comment> \<open>\<open>Sess.CSess\<close> is this session\<close>
  cs_sessClosed :: bool                   \<comment> \<open>\<open>Sess.CloseChan\<close> is closed\<close>
  cs_ServerAddress :: string
  cs_TLSServerName :: string
  cs_TunName :: string
  cs_VPNAddress :: string
  cs_VPNMask :: string
  cs_DNS :: "string list"
  cs_MTU :: int
  cs_SplitInclude :: "string list"
  cs_SplitExclude :: "string list"
  cs_UseDefaultRouteWhenEmpty :: bool
  cs_DynamicSplitTunneling :: bool
  cs_DynamicSplitIncludeDomains :: "string list"
  cs_DynamicSplitIncludeResolved :: "(string \<times> dynamicRouteLease) list"
  cs_DynamicSplitExcludeDomains :: "string list"
  cs_DynamicSplitExcludeResolved :: "(string \<times> dynamicRouteLease) list"
  cs_Underlay :: UnderlaySnapshot
  cs_TLSDpdTime :: int
  cs_TLSKeepaliveTime :: int
  cs_DTLSPort :: string
  cs_DTLSDpdTime :: int
  cs_DTLSKeepaliveTime :: int
  cs_DTLSId :: string
  cs_DTLSCipherSuite :: string
  cs_Stat :: stat
  cs_closeOnce :: bool                    \<comment> \<open>\<open>closeOnce\<close> has been entered\<close>
  cs_CloseChan :: bool                    \<comment> \<open>closed\<close>
  cs_PayloadIn :: "Payload list"
  cs_PayloadOutTLS :: "Payload list"
  cs_PayloadOutDTLS :: "Payload list"
  cs_NetworkErrors :: "error option list"
  cs_DtlsConnected :: bool
  cs_DtlsSetup :: bool                    \<comment> \<open>\<open>DtlsSetupChan\<close> is closed\<close>
  cs_dtlsClosed :: bool                   \<comment> \<open>\<open>DSess.CloseChan\<close> is closed\<close>
  cs_ResetTLSReadDead :: bool
  cs_ResetDTLSReadDead :: bool
  cs_LifecycleState :: string
  cs_TLSState :: string
  cs_DTLSState :: string
  cs_closeInfo :: CloseInfo
  cs_closeInfoSet :: bool
  cs_transportFaults :: "TransportFault list"
  cs_tunnelErr :: "error option"

section \<open>Dead peer detection\<close>

definition defaultDPDSeconds :: int where
  "defaultDPDSeconds = 30"

definition EffectiveDPD :: "int \<Rightarrow> int" where
  "EffectiveDPD advertised = (if advertised \<le> 0 then defaultDPDSeconds else advertised)"

text \<open>\<open>utils.Min\<close>: the other values count only when they are not zero.\<close>

fun utils_Min :: "int \<Rightarrow> int list \<Rightarrow> int" where
  "utils_Min minValue [] = minValue"
| "utils_Min minValue (val # other) = utils_Min (if val \<noteq> 0 \<and> val < minValue then val else minValue) other"

text \<open>The period of \<open>DPDTimer\<close> in seconds.\<close>

definition dpd_period :: "ConnSession \<Rightarrow> int" where
  "dpd_period c =
     (let dpdTime = utils_Min (cs_TLSDpdTime c) [cs_DTLSDpdTime c] - 5
      in if dpdTime < 10 then 10 else dpdTime)"

definition tlsDpd :: Payload where
  "tlsDpd = \<lparr>pl_Type = 0x03, pl_Data = [], pl_cap = 8\<rparr>"

definition dtlsDpd :: Payload where
  "dtlsDpd = \<lparr>pl_Type = 0x03, pl_Data = [], pl_cap = 1\<rparr>"

definition inc_sent :: "ConnSession \<Rightarrow> ConnSession" where
  "inc_sent c = c\<lparr>cs_Stat := (cs_Stat c)\<lparr>st_DPDSent := st_DPDSent (cs_Stat c) + 1\<rparr>\<rparr>"

definition inc_drops :: "ConnSession \<Rightarrow> ConnSession" where
  "inc_drops c = c\<lparr>cs_Stat := (cs_Stat c)\<lparr>st_QueueDrops := st_QueueDrops (cs_Stat c) + 1\<rparr>\<rparr>"

text \<open>A tick of \<open>DPDTimer\<close>: a full queue drops the probe.\<close>

definition dpd_tick :: "ConnSession \<Rightarrow> ConnSession" where
  "dpd_tick c =
     (let c = (if length (cs_PayloadOutTLS c) < queue_cap
               then inc_sent (c\<lparr>cs_PayloadOutTLS := cs_PayloadOutTLS c @ [tlsDpd]\<rparr>) else inc_drops c)
      in if cs_DtlsConnected c
         then (if length (cs_PayloadOutDTLS c) < queue_cap
               then inc_sent (c\<lparr>cs_PayloadOutDTLS := cs_PayloadOutDTLS c @ [dtlsDpd]\<rparr>) else inc_drops c)
         else c)"

text \<open>A tick of \<open>ReadDeadTimer\<close>.\<close>

definition read_dead_tick :: "ConnSession \<Rightarrow> ConnSession" where
  "read_dead_tick c = (if cs_CloseChan c then c else c\<lparr>cs_ResetTLSReadDead := True, cs_ResetDTLSReadDead := True\<rparr>)"

section \<open>Faults and the reason of the end\<close>

definition diagnosticError :: "error option \<Rightarrow> string" where
  "diagnosticError err = (case err of None \<Rightarrow> [] | Some e \<Rightarrow> take 512 (err_msg e))"

definition RecordTransportFault :: "stamp \<Rightarrow> string \<Rightarrow> string \<Rightarrow> error option \<Rightarrow> ConnSession \<Rightarrow> ConnSession" where
  "RecordTransportFault now code transport err c =
     (if 8 \<le> length (cs_transportFaults c) then c
      else c\<lparr>cs_transportFaults := cs_transportFaults c @
               [\<lparr>tf_Code = code, tf_Transport = transport, tf_Error = diagnosticError err, tf_Time = now\<rparr>]\<rparr>)"

definition RecordClose :: "stamp \<Rightarrow> string \<Rightarrow> string \<Rightarrow> error option \<Rightarrow> ConnSession \<Rightarrow> ConnSession" where
  "RecordClose now code transport err c =
     (if cs_closeInfoSet c then c
      else
        (let (code, transport, err) = (if cs_ActiveClose c then (''local_requested'', ''local'', None) else (code, transport, err));
             code = (if code = [] then ''unknown_close'' else code)
         in c\<lparr>cs_closeInfo := \<lparr>ci_Code = code, ci_Transport = transport, ci_Error = diagnosticError err, ci_Time = now,
                 ci_TransportFaults = cs_transportFaults c\<rparr>,
               cs_closeInfoSet := True\<rparr>))"

definition session_CloseInfo :: "stamp \<Rightarrow> ConnSession \<Rightarrow> CloseInfo" where
  "session_CloseInfo now c =
     (if \<not> cs_closeInfoSet c
      then \<lparr>ci_Code = ''unknown_close'', ci_Transport = [], ci_Error = [], ci_Time = now, ci_TransportFaults = []\<rparr>
      else (cs_closeInfo c)\<lparr>ci_TransportFaults := cs_transportFaults c\<rparr>)"

section \<open>States, DTLS session, tunnel error\<close>

definition SetLifecycleState :: "string \<Rightarrow> ConnSession \<Rightarrow> ConnSession" where
  "SetLifecycleState state c = (if state = [] then c else c\<lparr>cs_LifecycleState := state\<rparr>)"

definition SetTLSState :: "string \<Rightarrow> ConnSession \<Rightarrow> ConnSession" where
  "SetTLSState state c = (if state = [] then c else c\<lparr>cs_TLSState := state\<rparr>)"

definition SetDTLSState :: "string \<Rightarrow> ConnSession \<Rightarrow> ConnSession" where
  "SetDTLSState state c = (if state = [] then c else c\<lparr>cs_DTLSState := state\<rparr>)"

definition SignalDTLSSetup :: "ConnSession \<Rightarrow> ConnSession" where
  "SignalDTLSSetup c = c\<lparr>cs_DtlsSetup := True\<rparr>"

definition SetTunnelError :: "error option \<Rightarrow> ConnSession \<Rightarrow> ConnSession" where
  "SetTunnelError err c = c\<lparr>cs_tunnelErr := err\<rparr>"

text \<open>\<open>DtlsSession.Close\<close>, once.\<close>

definition DtlsSession_Close :: "ConnSession \<Rightarrow> ConnSession" where
  "DtlsSession_Close c =
     (if cs_dtlsClosed c then c else c\<lparr>cs_dtlsClosed := True, cs_DtlsConnected := False, cs_DTLSCipherSuite := []\<rparr>)"

text \<open>The body of \<open>ConnSession.Close\<close> up to the hook. It runs once; the hook is the subject of \<open>Controller\<close>.\<close>

definition Close_body :: "stamp \<Rightarrow> ConnSession \<Rightarrow> ConnSession" where
  "Close_body now c =
     (let c = RecordClose now [] [] None (SetLifecycleState ''Draining'' c);
          c = (if cs_DtlsConnected c then DtlsSession_Close c else c);
          c = c\<lparr>cs_CloseChan := True\<rparr>;
          c = (if cs_isCurrent c then c\<lparr>cs_isCurrent := False, cs_sessClosed := True\<rparr> else c)
      in SetLifecycleState ''Closed'' c)"

definition session_Close :: "stamp \<Rightarrow> ConnSession \<Rightarrow> ConnSession" where
  "session_Close now c = (if cs_closeOnce c then c else Close_body now (c\<lparr>cs_closeOnce := True\<rparr>))"

text \<open>\<open>RuntimeStats\<close> copies the counters.\<close>

definition RuntimeStats :: "ConnSession \<Rightarrow> stat" where
  "RuntimeStats c = cs_Stat c"

section \<open>A new session from the server's headers\<close>

text \<open>\<open>header.Values\<close> is the argument, \<open>header.Get\<close> the first value or nothing; \<open>n, _ = strconv.Atoi(s)\<close> gives 0 on a syntax error
  and the nearest representable value when the number is out of range.\<close>

definition Get :: "(string \<Rightarrow> string list) \<Rightarrow> string \<Rightarrow> string" where
  "Get header key = (case header key of [] \<Rightarrow> [] | v # _ \<Rightarrow> v)"

definition Atoi_value :: "string \<Rightarrow> int" where
  "Atoi_value s =
     (case Atoi s of
        Some v \<Rightarrow> v
      | None \<Rightarrow>
          (let (neg, ds) = (case s of [] \<Rightarrow> (False, [])
                            | c # cs \<Rightarrow> if c = CHR ''-'' then (True, cs) else if c = CHR ''+'' then (False, cs) else (False, s))
           in case parse_nat ds of None \<Rightarrow> 0 | Some n \<Rightarrow> if neg then - (2 ^ 63) else 2 ^ 63 - 1))"

text \<open>The two domain lists of the post authentication document.\<close>

definition apply_post_auth :: "string \<times> string \<Rightarrow> ConnSession \<Rightarrow> ConnSession" where
  "apply_post_auth domains c =
     (let (incl, excl) = domains;
          c = (if incl \<noteq> [] then c\<lparr>cs_DynamicSplitIncludeDomains := Split (CHR '','') incl, cs_DynamicSplitTunneling := True\<rparr> else c)
      in if excl \<noteq> [] then c\<lparr>cs_DynamicSplitExcludeDomains := Split (CHR '','') excl, cs_DynamicSplitTunneling := True\<rparr> else c)"

definition NewConnSession :: "bool \<Rightarrow> (string \<Rightarrow> error + string \<times> string) \<Rightarrow> (string \<Rightarrow> string list) \<Rightarrow> ConnSession" where
  "NewConnSession noDTLS unmarshal header =
     (let c = \<lparr>cs_ActiveClose = False, cs_isCurrent = True, cs_sessClosed = False,
            cs_ServerAddress = [], cs_TLSServerName = [], cs_TunName = [],
            cs_VPNAddress = Get header ''X-CSTP-Address'', cs_VPNMask = Get header ''X-CSTP-Netmask'',
            cs_DNS = header ''X-CSTP-DNS'', cs_MTU = Atoi_value (Get header ''X-CSTP-MTU''),
            cs_SplitInclude = header ''X-CSTP-Split-Include'', cs_SplitExclude = header ''X-CSTP-Split-Exclude'',
            cs_UseDefaultRouteWhenEmpty = (header ''X-CSTP-Split-Include'' = []),
            cs_DynamicSplitTunneling = False, cs_DynamicSplitIncludeDomains = [], cs_DynamicSplitIncludeResolved = [],
            cs_DynamicSplitExcludeDomains = [], cs_DynamicSplitExcludeResolved = [], cs_Underlay = zero_underlay,
            cs_TLSDpdTime = Atoi_value (Get header ''X-CSTP-DPD''),
            cs_TLSKeepaliveTime = Atoi_value (Get header ''X-CSTP-Keepalive''),
            cs_DTLSPort = Get header ''X-DTLS-Port'', cs_DTLSDpdTime = Atoi_value (Get header ''X-DTLS-DPD''),
            cs_DTLSKeepaliveTime = Atoi_value (Get header ''X-DTLS-Keepalive''),
            cs_DTLSId = (if Get header ''X-DTLS-Session-ID'' = [] then Get header ''X-DTLS-App-ID'' else Get header ''X-DTLS-Session-ID''),
            cs_DTLSCipherSuite = (if noDTLS then ''Unknown'' else Get header ''X-DTLS12-CipherSuite''),
            cs_Stat = \<lparr>st_BytesSent = 0, st_BytesReceived = 0, st_TUNReads = 0, st_TUNWrites = 0, st_TUNReadErrors = 0,
              st_TUNWriteErrors = 0, st_DPDSent = 0, st_DPDResponses = 0, st_QueueDrops = 0\<rparr>,
            cs_closeOnce = False, cs_CloseChan = False, cs_PayloadIn = [], cs_PayloadOutTLS = [], cs_PayloadOutDTLS = [],
            cs_NetworkErrors = [], cs_DtlsConnected = False, cs_DtlsSetup = False, cs_dtlsClosed = False,
            cs_ResetTLSReadDead = True, cs_ResetDTLSReadDead = True, cs_LifecycleState = ''Created'', cs_TLSState = ''Starting'',
            cs_DTLSState = ''Disabled'',
            cs_closeInfo = \<lparr>ci_Code = [], ci_Transport = [], ci_Error = [], ci_Time = None, ci_TransportFaults = []\<rparr>,
            cs_closeInfoSet = False, cs_transportFaults = [], cs_tunnelErr = None\<rparr>;
          postAuth = Get header ''X-CSTP-Post-Auth-XML''
      in if postAuth = [] then c
         else (case unmarshal postAuth of Inl _ \<Rightarrow> c | Inr domains \<Rightarrow> apply_post_auth domains c))"

section \<open>Probes come before the deadline\<close>


lemma missing_dtls_interval_times_out:
  "cs_TLSDpdTime c = 90 \<Longrightarrow> cs_DTLSDpdTime c = 0 \<Longrightarrow> dpd_period c = 85 \<and> EffectiveDPD (cs_DTLSDpdTime c) + 5 = 35"
  by (simp add: dpd_period_def EffectiveDPD_def defaultDPDSeconds_def)

section \<open>The record of the end\<close>

text \<open>What happens to a session after its end was recorded: more faults, more reasons, closing, probes.\<close>

datatype session_op =
    OpFault stamp string string "error option"
  | OpRecord stamp string string "error option"
  | OpClose stamp
  | OpDtlsClose
  | OpActive                                \<comment> \<open>\<open>Disconnect\<close> sets \<open>ActiveClose\<close>\<close>
  | OpProbe

fun do_op :: "session_op \<Rightarrow> ConnSession \<Rightarrow> ConnSession" where
  "do_op (OpFault t c tr e) s = RecordTransportFault t c tr e s"
| "do_op (OpRecord t c tr e) s = RecordClose t c tr e s"
| "do_op (OpClose t) s = session_Close t s"
| "do_op OpDtlsClose s = DtlsSession_Close s"
| "do_op OpActive s = s\<lparr>cs_ActiveClose := True\<rparr>"
| "do_op OpProbe s = dpd_tick s"

definition faults_ok :: "ConnSession \<Rightarrow> bool" where
  "faults_ok s \<longleftrightarrow> length (cs_transportFaults s) \<le> 8 \<and> (\<forall>f \<in> set (cs_transportFaults s). length (tf_Error f) \<le> 512)"

lemma diagnosticError_length: "length (diagnosticError e) \<le> 512"
  by (simp add: diagnosticError_def split: option.splits)

lemma close_ops_frame:
  "cs_transportFaults (RecordClose t c tr e s) = cs_transportFaults s"
  "cs_transportFaults (DtlsSession_Close s) = cs_transportFaults s"
  "cs_transportFaults (session_Close t s) = cs_transportFaults s"
  "cs_transportFaults (dpd_tick s) = cs_transportFaults s"
  "cs_closeInfo (dpd_tick s) = cs_closeInfo s" "cs_closeInfoSet (dpd_tick s) = cs_closeInfoSet s"
  "cs_closeInfo (DtlsSession_Close s) = cs_closeInfo s" "cs_closeInfoSet (DtlsSession_Close s) = cs_closeInfoSet s"
  by (auto simp: RecordClose_def DtlsSession_Close_def session_Close_def Close_body_def SetLifecycleState_def dpd_tick_def inc_sent_def
      inc_drops_def Let_def)

lemma closeInfo_once:
  "cs_closeInfoSet s \<Longrightarrow> RecordClose t c tr e s = s"
  "cs_closeInfoSet s \<Longrightarrow> cs_closeInfo (session_Close t s) = cs_closeInfo s \<and> cs_closeInfoSet (session_Close t s)"
  by (auto simp: RecordClose_def session_Close_def Close_body_def SetLifecycleState_def DtlsSession_Close_def Let_def)

lemma session_op_faults:
  "faults_ok s \<Longrightarrow> faults_ok (do_op a s) \<and> prefix (cs_transportFaults s) (cs_transportFaults (do_op a s))"
  by (cases a) (auto simp: faults_ok_def close_ops_frame RecordTransportFault_def diagnosticError_length)

lemma session_op_closeInfo: "cs_closeInfoSet s \<Longrightarrow> cs_closeInfo (do_op a s) = cs_closeInfo s \<and> cs_closeInfoSet (do_op a s)"
  by (cases a) (auto simp: closeInfo_once close_ops_frame RecordTransportFault_def)

lemma session_ops_keep:
  "faults_ok s \<Longrightarrow> cs_closeInfoSet s \<Longrightarrow>
   (let s' = foldl (\<lambda>s a. do_op a s) s as
    in faults_ok s' \<and> cs_closeInfoSet s' \<and> cs_closeInfo s' = cs_closeInfo s \<and> prefix (cs_transportFaults s) (cs_transportFaults s'))"
proof (induction as rule: rev_induct)
  case (snoc a as)
  then show ?case
    using session_op_faults [of "foldl (\<lambda>s a. do_op a s) s as" a] session_op_closeInfo [of "foldl (\<lambda>s a. do_op a s) s as" a]
    by (auto simp: Let_def dest: prefix_order.trans)
qed simp

text \<open>The first recorded reason is what every later reader gets, whatever happens afterwards, and a requested end is reported as
  such.\<close>

lemma close_reason_is_final:
  assumes "\<not> cs_closeInfoSet s" "faults_ok s"
  shows "let s' = foldl (\<lambda>s a. do_op a s) (RecordClose t code transport err s) as; info = session_CloseInfo now s'
         in ci_Code info = (if cs_ActiveClose s then ''local_requested'' else if code = [] then ''unknown_close'' else code) \<and>
            ci_Transport info = (if cs_ActiveClose s then ''local'' else transport) \<and> ci_Time info = t \<and>
            length (ci_TransportFaults info) \<le> 8 \<and> prefix (cs_transportFaults s) (ci_TransportFaults info)"
proof -
  let ?r = "RecordClose t code transport err s"
  have "cs_closeInfoSet ?r" "cs_transportFaults ?r = cs_transportFaults s" "faults_ok ?r"
    "ci_Code (cs_closeInfo ?r) = (if cs_ActiveClose s then ''local_requested'' else if code = [] then ''unknown_close'' else code)"
    "ci_Transport (cs_closeInfo ?r) = (if cs_ActiveClose s then ''local'' else transport)" "ci_Time (cs_closeInfo ?r) = t"
    using assms by (auto simp: RecordClose_def faults_ok_def Let_def)
  with session_ops_keep [of ?r as] show ?thesis
    by (simp add: Let_def session_CloseInfo_def faults_ok_def)
qed

end
