(* ===== verification/Cstp.thy ===== *)
theory Cstp
  imports Connsession
begin

text \<open>
  The two packet channels: \<open>internal/anyconnect/proto/protocol.go\<close> (the CSTP header), \<open>tunnel/buffer.go\<close> (payload buffers),
  \<open>tunnel/tls.go\<close> and \<open>tunnel/dtls.go\<close> (framing, reading, and the loops of both directions, one iteration each).

  A connection is the bytes it will deliver and the error after them. The contents of a recycled buffer are the argument \<open>junk\<close>.
  Slicing past the capacity panics: \<open>None\<close>. The branch a select takes when several are ready is an argument.
\<close>

section \<open>Header and buffers\<close>

definition Header :: "8 word list" where
  "Header = [0x53, 0x54, 0x46, 0x01, 0x00, 0x00, 0x00, 0x00]"

definition minimumPacketMTU :: int where "minimumPacketMTU = 576"
definition maximumPacketMTU :: int where "maximumPacketMTU = 9000"
definition packetHeadroom :: int where "packetHeadroom = 256"

definition payloadBufferSize :: "int \<Rightarrow> int" where
  "payloadBufferSize mtu0 =
     (let mtu = (if mtu0 < minimumPacketMTU then 1399 else mtu0);
          mtu = (if maximumPacketMTU < mtu then maximumPacketMTU else mtu)
      in mtu + packetHeadroom)"

text \<open>\<open>getPayloadBuffer\<close>: a buffer of the pool for the size, or a new one.\<close>

definition getPayloadBuffer :: "8 word list \<Rightarrow> int \<Rightarrow> Payload" where
  "getPayloadBuffer junk mtu =
     (let size = nat (payloadBufferSize mtu)
      in \<lparr>pl_Type = 0, pl_Data = take size (junk @ replicate size 0), pl_cap = size\<rparr>)"

text \<open>\<open>putPayloadBuffer\<close>: the size of the pool the buffer goes to, if it is kept.\<close>

definition putPayloadBuffer :: "Payload \<Rightarrow> nat option" where
  "putPayloadBuffer pl =
     (if int (pl_cap pl) < minimumPacketMTU + packetHeadroom \<or> maximumPacketMTU + packetHeadroom < int (pl_cap pl)
      then None else Some (pl_cap pl))"

section \<open>Reading a frame\<close>

definition EOF :: error where "EOF = Errors ''EOF''"
definition ErrUnexpectedEOF :: error where "ErrUnexpectedEOF = Errors ''unexpected EOF''"

record reader =
  rd_bytes :: "8 word list"
  rd_end :: error

text \<open>\<open>io.ReadFull\<close> of \<open>n\<close> bytes.\<close>

definition ReadFull :: "nat \<Rightarrow> reader \<Rightarrow> (error + 8 word list) \<times> reader" where
  "ReadFull n r =
     (if n \<le> length (rd_bytes r) then (Inr (take n (rd_bytes r)), r\<lparr>rd_bytes := drop n (rd_bytes r)\<rparr>)
      else (Inl (if rd_end r = EOF \<and> rd_bytes r \<noteq> [] then ErrUnexpectedEOF else rd_end r), r\<lparr>rd_bytes := []\<rparr>))"

definition Uint16 :: "8 word list \<Rightarrow> nat" where
  "Uint16 bs = 256 * unat (bs ! 0) + unat (bs ! 1)"

definition PutUint16 :: "nat \<Rightarrow> 8 word list" where
  "PutUint16 n = [word_of_nat (n div 256), word_of_nat (n mod 256)]"

definition maxCSTPPayloadSize :: nat where
  "maxCSTPPayloadSize = 64 * 1024 - 1"

definition readCSTPFrame :: "reader \<Rightarrow> Payload \<Rightarrow> (error + 8 word \<times> nat) \<times> Payload \<times> reader" where
  "readCSTPFrame r pl =
     (case ReadFull 8 r of
        (Inl e, r) \<Rightarrow> (Inl e, pl, r)
      | (Inr header, r) \<Rightarrow>
          if take 4 header \<noteq> take 4 Header \<or> header ! 7 \<noteq> Header ! 7
          then (Inl (Errors (''invalid CSTP header '' @ hex_encode header)), pl, r)
          else
            (let payloadSize = Uint16 (take 2 (drop 4 header))
             in if maxCSTPPayloadSize < payloadSize
                then (Inl (Errors (''CSTP payload exceeds '' @ itoa maxCSTPPayloadSize @ '' bytes: '' @ itoa payloadSize)), pl, r)
                else
                  (let pl = (if pl_cap pl < payloadSize then pl\<lparr>pl_cap := payloadSize\<rparr> else pl)
                   in case ReadFull payloadSize r of
                        (Inl e, r) \<Rightarrow> (Inl e, pl, r)
                      | (Inr data, r) \<Rightarrow> (Inr (header ! 6, 8 + payloadSize), pl\<lparr>pl_Data := data\<rparr>, r))))"

section \<open>Writing a frame\<close>

text \<open>The bytes \<open>payloadOutTLSToServer\<close> and \<open>payloadOutDTLSToServer\<close> hand to the connection. The length field has 16 bits.\<close>

definition tls_frame :: "Payload \<Rightarrow> 8 word list option" where
  "tls_frame pl =
     (if pl_Type pl = 0x00
      then (let l = length (pl_Data pl)
            in if pl_cap pl < l + 8 then None
               else Some (take 4 Header @ PutUint16 (l mod 65536) @ drop 6 Header @ pl_Data pl))
      else Some (Header[6 := pl_Type pl]))"

definition dtls_frame :: "Payload \<Rightarrow> 8 word list option" where
  "dtls_frame pl =
     (if pl_Type pl = 0x00
      then (if pl_cap pl < length (pl_Data pl) + 1 then None else Some (pl_Type pl # pl_Data pl))
      else Some [pl_Type pl])"

section \<open>The outgoing loops\<close>

datatype progress = Continue | Blocked | Panic | Exit

text \<open>One iteration of \<open>payloadOutTLSToServer\<close>: \<open>conn.Write\<close> is the argument \<open>wr\<close>, its error comes with whether it is a timeout.
  The deferred calls run at the exit. Queued payloads are not nil.\<close>

definition add_sent :: "nat \<Rightarrow> ConnSession \<Rightarrow> ConnSession" where
  "add_sent n c = c\<lparr>cs_Stat := (cs_Stat c)\<lparr>st_BytesSent := st_BytesSent (cs_Stat c) + word_of_nat n\<rparr>\<rparr>"

definition add_received :: "nat \<Rightarrow> ConnSession \<Rightarrow> ConnSession" where
  "add_received n c = c\<lparr>cs_Stat := (cs_Stat c)\<lparr>st_BytesReceived := st_BytesReceived (cs_Stat c) + word_of_nat n\<rparr>\<rparr>"

definition payloadOutTLSToServer :: "stamp \<Rightarrow> bool \<Rightarrow> (8 word list \<Rightarrow> (error \<times> bool) option \<times> nat) \<Rightarrow> ConnSession \<Rightarrow> progress \<times> ConnSession" where
  "payloadOutTLSToServer now takeClose wr c =
     (if cs_CloseChan c \<and> (takeClose \<or> cs_PayloadOutTLS c = []) then (Exit, session_Close now c)
      else (case cs_PayloadOutTLS c of
              [] \<Rightarrow> (Blocked, c)
            | pl # rest \<Rightarrow>
                (let c = c\<lparr>cs_PayloadOutTLS := rest\<rparr>
                 in case tls_frame pl of
                      None \<Rightarrow> (Panic, c)
                    | Some bytes \<Rightarrow>
                        (case wr bytes of
                           (Some (e, timeout), _) \<Rightarrow>
                             (Exit, session_Close now (RecordClose now (if timeout then ''tls_write_timeout'' else ''tls_write_error'') ''tls'' (Some e) c))
                         | (None, bytesSent) \<Rightarrow> (Continue, add_sent bytesSent c)))))"

definition payloadOutDTLSToServer :: "stamp \<Rightarrow> bool \<Rightarrow> (8 word list \<Rightarrow> (error \<times> bool) option \<times> nat) \<Rightarrow> ConnSession \<Rightarrow> progress \<times> ConnSession" where
  "payloadOutDTLSToServer now takeClose wr c =
     (if cs_dtlsClosed c \<and> (takeClose \<or> cs_PayloadOutDTLS c = []) then (Exit, DtlsSession_Close c)
      else (case cs_PayloadOutDTLS c of
              [] \<Rightarrow> (Blocked, c)
            | pl # rest \<Rightarrow>
                (let c = c\<lparr>cs_PayloadOutDTLS := rest\<rparr>
                 in case dtls_frame pl of
                      None \<Rightarrow> (Panic, c)
                    | Some bytes \<Rightarrow>
                        (case wr bytes of
                           (Some (e, timeout), _) \<Rightarrow>
                             (Exit, DtlsSession_Close
                               (RecordTransportFault now (if timeout then ''dtls_write_timeout'' else ''dtls_write_error'') ''dtls'' (Some e) c))
                         | (None, bytesSent) \<Rightarrow> (Continue, add_sent bytesSent c)))))"

section \<open>The incoming loops\<close>

text \<open>A send on a bounded channel next to the close channel: \<open>Some True\<close> sent, \<open>Some False\<close> closed, \<open>None\<close> blocked.\<close>

definition offer :: "'a list \<Rightarrow> bool \<Rightarrow> bool \<Rightarrow> bool option" where
  "offer q isClosed takeClose =
     (if isClosed \<and> (takeClose \<or> queue_cap \<le> length q) then Some False
      else if length q < queue_cap then Some True else None)"

text \<open>The switch of \<open>tlsChannel\<close> on the frame type. \<open>tls_exit\<close> is its deferred function.\<close>

definition tls_exit :: "stamp \<Rightarrow> ConnSession \<Rightarrow> ConnSession" where
  "tls_exit now c = session_Close now (SetTLSState ''Closed'' c)"

definition tls_dispatch :: "stamp \<Rightarrow> bool \<Rightarrow> 8 word \<Rightarrow> nat \<Rightarrow> Payload \<Rightarrow> ConnSession \<Rightarrow> progress \<times> ConnSession" where
  "tls_dispatch now takeClose frameType wireBytes pl0 c =
     (let pl = pl0\<lparr>pl_Type := frameType\<rparr>
      in if frameType = 0x00 then
           (case offer (cs_PayloadIn c) (cs_CloseChan c) takeClose of
              None \<Rightarrow> (Blocked, c)
            | Some False \<Rightarrow> (Exit, tls_exit now c)
            | Some True \<Rightarrow> (Continue, add_received wireBytes (c\<lparr>cs_PayloadIn := cs_PayloadIn c @ [pl]\<rparr>)))
         else if frameType = 0x04 \<or> frameType = 0x07 then
           (Continue, add_received wireBytes
              (if frameType = 0x04 then c\<lparr>cs_Stat := (cs_Stat c)\<lparr>st_DPDResponses := st_DPDResponses (cs_Stat c) + 1\<rparr>\<rparr> else c))
         else if frameType = 0x03 then
           (case offer (cs_PayloadOutTLS c) (cs_CloseChan c) takeClose of
              None \<Rightarrow> (Blocked, c)
            | Some False \<Rightarrow> (Exit, tls_exit now c)
            | Some True \<Rightarrow>
                (Continue, add_received wireBytes
                   (c\<lparr>cs_PayloadOutTLS := cs_PayloadOutTLS c @ [pl\<lparr>pl_Type := 0x04, pl_Data := []\<rparr>]\<rparr>)))
         else if frameType = 0x05 then (Exit, tls_exit now (RecordClose now ''server_disconnect'' ''tls'' None c))
         else if frameType = 0x09 then (Exit, tls_exit now (RecordClose now ''server_terminate'' ''tls'' None c))
         else (Exit, tls_exit now (RecordClose now ''tls_protocol_error'' ''tls''
                (Some (Errors (''unsupported CSTP frame type 0x'' @ hex_encode [frameType]))) c)))"

text \<open>One iteration of \<open>tlsChannel\<close>: \<open>deadline\<close> is the error of \<open>SetReadDeadline\<close>, \<open>timeout\<close> whether a read error is a timeout.\<close>

definition tlsChannel :: "stamp \<Rightarrow> bool \<Rightarrow> error option \<Rightarrow> (error \<Rightarrow> bool) \<Rightarrow> 8 word list \<Rightarrow> reader \<Rightarrow> ConnSession
    \<Rightarrow> progress \<times> reader \<times> ConnSession" where
  "tlsChannel now takeClose deadline timeout junk r c =
     (case (if cs_ResetTLSReadDead c then deadline else None) of
        Some e \<Rightarrow> (Exit, r, tls_exit now (RecordClose now ''tls_deadline_error'' ''tls'' (Some e) c))
      | None \<Rightarrow>
          (let c = (if cs_ResetTLSReadDead c then c\<lparr>cs_ResetTLSReadDead := False\<rparr> else c)
           in case readCSTPFrame r (getPayloadBuffer junk (cs_MTU c)) of
                (Inl e, _, r) \<Rightarrow>
                  (Exit, r, tls_exit now (RecordClose now (if timeout e then ''tls_read_timeout'' else ''tls_read_error'') ''tls'' (Some e) c))
              | (Inr (frameType, wireBytes), pl, r) \<Rightarrow>
                  (case tls_dispatch now takeClose frameType wireBytes pl c of (p, c) \<Rightarrow> (p, r, c))))"

text \<open>\<open>dtlsChannel\<close>: \<open>dtls_exit\<close> is its deferred function once the session exists, \<open>dtls_dispatch\<close> the handling of one datagram of
  \<open>n\<close> bytes in the buffer.\<close>

definition dtls_exit :: "ConnSession \<Rightarrow> ConnSession" where
  "dtls_exit c0 =
     (let c = DtlsSession_Close c0
      in SignalDTLSSetup (SetDTLSState (if cs_LifecycleState c \<noteq> ''Closed'' then ''Degraded'' else ''Closed'') c))"

definition dtls_dispatch :: "stamp \<Rightarrow> bool \<Rightarrow> nat \<Rightarrow> Payload \<Rightarrow> ConnSession \<Rightarrow> progress \<times> ConnSession" where
  "dtls_dispatch now takeClose n pl c =
     (if n = 0 \<or> length (pl_Data pl) < n
      then (Exit, dtls_exit (RecordTransportFault now ''dtls_read_invalid'' ''dtls''
             (Some (Errors ''DTLS returned an invalid packet length'')) c))
      else
        (let t = pl_Data pl ! 0
         in if t = 0x07 then (Continue, add_received n c)
            else if t = 0x05 then (Exit, dtls_exit (RecordTransportFault now ''server_disconnect'' ''dtls'' None c))
            else if t = 0x03 then
              (case offer (cs_PayloadOutDTLS c) (cs_dtlsClosed c) takeClose of
                 None \<Rightarrow> (Blocked, c)
               | Some False \<Rightarrow> (Exit, dtls_exit c)
               | Some True \<Rightarrow> (Continue, add_received n (c\<lparr>cs_PayloadOutDTLS := cs_PayloadOutDTLS c @ [pl\<lparr>pl_Type := 0x04\<rparr>]\<rparr>)))
            else if t = 0x04 then
              (Continue, add_received n (c\<lparr>cs_Stat := (cs_Stat c)\<lparr>st_DPDResponses := st_DPDResponses (cs_Stat c) + 1\<rparr>\<rparr>))
            else if t = 0x00 then
              (case offer (cs_PayloadIn c) (cs_dtlsClosed c) takeClose of
                 None \<Rightarrow> (Blocked, c)
               | Some False \<Rightarrow> (Exit, dtls_exit c)
               | Some True \<Rightarrow>
                   (Continue, add_received n (c\<lparr>cs_PayloadIn := cs_PayloadIn c @ [pl\<lparr>pl_Data := drop 1 (take n (pl_Data pl))\<rparr>]\<rparr>)))
            else (Exit, dtls_exit (RecordTransportFault now ''dtls_protocol_error'' ''dtls''
                   (Some (Errors ''unsupported DTLS frame type'')) c))))"

text \<open>The checks of \<open>dtlsChannel\<close> before it dials: the port, the address (\<open>net.ParseIP\<close>) and the session identifier. \<open>hex.DecodeString\<close>
  only has to succeed with at least one byte.\<close>

definition hex_decodes :: "string \<Rightarrow> bool" where
  "hex_decodes s \<longleftrightarrow> even (length s) \<and> list_all is_hex s"

definition dtls_config :: "ConnSession \<Rightarrow> error option" where
  "dtls_config c =
     (case Atoi (cs_DTLSPort c) of
        None \<Rightarrow> Some (Errors (''strconv.Atoi: parsing '' @ cs_DTLSPort c))
      | Some port \<Rightarrow>
          if port < 1 \<or> 65535 < port then Some (Errors ''DTLS port is outside the valid range'')
          else if net_ParseIP (cs_ServerAddress c) = None then Some (Errors ''invalid DTLS server address'')
          else if \<not> hex_decodes (cs_DTLSId c) then Some (Errors ''encoding/hex: invalid byte'')
          else if cs_DTLSId c = [] then Some (Errors ''missing DTLS session ID'')
          else None)"

text \<open>The start of \<open>dtlsChannel\<close>: \<open>dial\<close> and \<open>handshake\<close> are the errors of the DTLS package. Before the session exists the deferred
  function does not close it.\<close>

definition dtls_abort :: "ConnSession \<Rightarrow> ConnSession" where
  "dtls_abort c = SignalDTLSSetup (SetDTLSState (if cs_LifecycleState c \<noteq> ''Closed'' then ''Degraded'' else ''Closed'') c)"

definition dtls_start :: "stamp \<Rightarrow> error option \<Rightarrow> error option \<Rightarrow> string \<Rightarrow> ConnSession \<Rightarrow> progress \<times> ConnSession" where
  "dtls_start now dial handshake cipher c0 =
     (let c = SetDTLSState ''Starting'' c0
      in case dtls_config c of
           Some e \<Rightarrow> (Exit, dtls_abort (RecordTransportFault now ''dtls_config_error'' ''dtls'' (Some e) c))
         | None \<Rightarrow>
             (case dial of
                Some e \<Rightarrow> (Exit, dtls_abort (RecordTransportFault now ''dtls_dial_error'' ''dtls'' (Some e) c))
              | None \<Rightarrow>
                  (case handshake of
                     Some e \<Rightarrow> (Exit, dtls_abort (RecordTransportFault now ''dtls_handshake_error'' ''dtls'' (Some e) c))
                   | None \<Rightarrow>
                       (Continue, (SignalDTLSSetup (SetDTLSState ''Ready'' (c\<lparr>cs_DtlsConnected := True\<rparr>)))\<lparr>cs_DTLSCipherSuite := cipher\<rparr>))))"

section \<open>Streams of frames\<close>

text \<open>The frames a reader delivers until it fails, each read into a buffer from the pool.\<close>

function read_frames :: "8 word list \<Rightarrow> int \<Rightarrow> reader \<Rightarrow> (8 word \<times> 8 word list) list \<times> error" where
  "read_frames junk mtu r =
     (case readCSTPFrame r (getPayloadBuffer junk mtu) of
        (Inl e, _, _) \<Rightarrow> ([], e)
      | (Inr (t, _), pl, r') \<Rightarrow> (case read_frames junk mtu r' of (fs, e) \<Rightarrow> ((t, pl_Data pl) # fs, e)))"
  by pat_completeness auto

lemma readCSTPFrame_shorter: "readCSTPFrame r pl = (Inr x, pl', r') \<Longrightarrow> length (rd_bytes r') < length (rd_bytes r)"
  by (auto simp: readCSTPFrame_def ReadFull_def Let_def split: if_splits)

termination read_frames
  by (relation "measure (\<lambda>(junk, mtu, r). length (rd_bytes r))") (auto dest: readCSTPFrame_shorter [OF sym])

declare read_frames.simps [simp del]

text \<open>What a payload is on the other side: a control frame loses its data.\<close>

definition delivered :: "Payload \<Rightarrow> 8 word \<times> 8 word list" where
  "delivered pl = (pl_Type pl, if pl_Type pl = 0x00 then pl_Data pl else [])"

lemma Uint16_PutUint16: "n < 65536 \<Longrightarrow> Uint16 (PutUint16 n) = n"
proof -
  assume n: "n < 65536"
  then have "n div 256 < 256" by (simp add: less_mult_imp_div_less)
  then have "unat (word_of_nat (n div 256) :: 8 word) = n div 256" "unat (word_of_nat (n mod 256) :: 8 word) = n mod 256"
    by (simp_all add: unat_of_nat)
  then show "Uint16 (PutUint16 n) = n" by (simp add: Uint16_def PutUint16_def)
qed

lemma length_PutUint16 [simp]: "length (PutUint16 n) = 2"
  by (simp add: PutUint16_def)

lemma readCSTPFrame_tls_frame:
  assumes f: "tls_frame pl = Some bytes" and l: "length (pl_Data pl) < 65536"
  shows "\<exists>pl'. readCSTPFrame \<lparr>rd_bytes = bytes @ rest, rd_end = e\<rparr> buf =
      (Inr (pl_Type pl, length bytes), pl', \<lparr>rd_bytes = rest, rd_end = e\<rparr>) \<and> pl_Data pl' = snd (delivered pl)"
proof (cases "pl_Type pl = 0")
  case True
  let ?n = "length (pl_Data pl)"
  obtain a b where ab: "PutUint16 ?n = [a, b]" by (simp add: PutUint16_def)
  from True f l have b: "bytes = [0x53, 0x54, 0x46, 0x01, a, b, 0x00, 0x00] @ pl_Data pl"
    by (auto simp: tls_frame_def Header_def Let_def ab split: if_splits)
  have "Uint16 [a, b] = ?n" using Uint16_PutUint16 [OF l] ab by simp
  with True l show ?thesis
    by (simp add: readCSTPFrame_def ReadFull_def b Header_def Let_def delivered_def maxCSTPPayloadSize_def)
next
  case False
  with f have b: "bytes = [0x53, 0x54, 0x46, 0x01, 0x00, 0x00, pl_Type pl, 0x00]"
    by (auto simp: tls_frame_def Header_def)
  from False show ?thesis
    by (simp add: readCSTPFrame_def ReadFull_def b Header_def Let_def delivered_def maxCSTPPayloadSize_def Uint16_def)
qed

lemma read_frames_eof: "read_frames junk mtu \<lparr>rd_bytes = [], rd_end = e\<rparr> = ([], e)"
  by (simp add: read_frames.simps readCSTPFrame_def ReadFull_def)

lemma payloadBufferSize_bounds: "832 \<le> payloadBufferSize mtu \<and> payloadBufferSize mtu \<le> 9256"
  by (auto simp: payloadBufferSize_def minimumPacketMTU_def maximumPacketMTU_def packetHeadroom_def Let_def)

text \<open>A packet within the session's MTU fits its buffer with the header of either channel.\<close>

lemma mtu_packet_fits:
  assumes "minimumPacketMTU \<le> mtu" "mtu \<le> maximumPacketMTU" "int (length data) \<le> mtu"
  shows "tls_frame ((getPayloadBuffer junk mtu)\<lparr>pl_Data := data\<rparr>) \<noteq> None \<and> dtls_frame ((getPayloadBuffer junk mtu)\<lparr>pl_Data := data\<rparr>) \<noteq> None"
  using assms by (auto simp: tls_frame_def dtls_frame_def getPayloadBuffer_def payloadBufferSize_def minimumPacketMTU_def
      maximumPacketMTU_def packetHeadroom_def Let_def)

lemma pooled_frame_length:
  assumes "tls_frame pl = Some bytes" "pl_cap pl \<le> 9256" "length (pl_Data pl) \<le> pl_cap pl"
  shows "length (pl_Data pl) < 65536"
  using assms by simp


definition ping :: Payload where
  "ping = (getPayloadBuffer [] 1399)\<lparr>pl_Data := [0x45, 0, 0, 1]\<rparr>"


section \<open>What the receiver does with a frame\<close>

text \<open>A frame of an unknown type, compressed data included, ends the session with a protocol error.\<close>

lemma unknown_frame_ends_session:
  assumes "t \<notin> {0x00, 0x03, 0x04, 0x05, 0x07, 0x09}" "\<not> cs_closeInfoSet c" "\<not> cs_ActiveClose c" "\<not> cs_closeOnce c"
  shows "\<exists>c'. tls_dispatch now tc t n pl c = (Exit, c') \<and> ci_Code (cs_closeInfo c') = ''tls_protocol_error'' \<and> cs_CloseChan c' \<and>
     cs_TLSState c' = ''Closed'' \<and> cs_PayloadIn c' = cs_PayloadIn c"
  using assms by (auto simp: tls_dispatch_def tls_exit_def RecordClose_def session_Close_def Close_body_def SetTLSState_def
      SetLifecycleState_def DtlsSession_Close_def Let_def)

text \<open>A probe is answered with an empty frame of type 4, whatever it carried, although the protocol description of
  \<open>protocol.go\<close> says the response has the contents of the request.\<close>

lemma dpd_answer_is_empty:
  assumes "tls_dispatch now tc 0x03 n pl c = (Continue, c')"
  shows "\<exists>q. cs_PayloadOutTLS c' = cs_PayloadOutTLS c @ [q] \<and> tls_frame q = Some [0x53, 0x54, 0x46, 0x01, 0x00, 0x00, 0x04, 0x00]"
  using assms by (intro exI [of _ "pl\<lparr>pl_Type := 0x04, pl_Data := []\<rparr>"])
    (auto simp: tls_dispatch_def add_received_def tls_frame_def Header_def Let_def split: option.splits if_splits bool.splits)

text \<open>The queues never exceed their capacity.\<close>

lemma exit_queues [simp]:
  "cs_PayloadIn (tls_exit now c) = cs_PayloadIn c" "cs_PayloadOutTLS (tls_exit now c) = cs_PayloadOutTLS c"
  "cs_PayloadIn (RecordClose now code tr e c) = cs_PayloadIn c" "cs_PayloadOutTLS (RecordClose now code tr e c) = cs_PayloadOutTLS c"
  "cs_PayloadIn (add_received n c) = cs_PayloadIn c" "cs_PayloadOutTLS (add_received n c) = cs_PayloadOutTLS c"
  by (auto simp: tls_exit_def session_Close_def Close_body_def SetTLSState_def SetLifecycleState_def DtlsSession_Close_def
      RecordClose_def add_received_def Let_def)

lemma tls_dispatch_queues:
  assumes "length (cs_PayloadIn c) \<le> queue_cap" "length (cs_PayloadOutTLS c) \<le> queue_cap"
  shows "length (cs_PayloadIn (snd (tls_dispatch now tc t n pl c))) \<le> queue_cap \<and>
    length (cs_PayloadOutTLS (snd (tls_dispatch now tc t n pl c))) \<le> queue_cap"
  using assms by (simp add: tls_dispatch_def offer_def Let_def)

end
