(* ===== verification/Packets.thy ===== *)
theory Packets
  imports Cstp
begin

text \<open>
  The packets of a tunnel on their way between the device and the channels: \<open>tunToPayloadOut\<close>, \<open>payloadInToTun\<close> and
  \<open>watchTunEvents\<close> of \<open>tun.go\<close>, the user-space tunnel of \<open>usernet.go\<close> (its flow router, and how it shares the session's channels) and
  the packet accessors of \<open>utils\<close>. A worker is one iteration of its loop with what it waits for as arguments; a packet is a list of bytes. An
  index out of range is \<open>Panic\<close>. The user-space network stack itself is a third-party package: what it reads and whether it fails are
  arguments.
\<close>

unbundle bit_operations_syntax

section \<open>Packet headers\<close>

text \<open>\<open>waterutil\<close> and \<open>utils.ResolvePacket\<close>: no length is checked, so \<open>None\<close> is an index out of range.\<close>

definition IPv4Payload :: "8 word list \<Rightarrow> 8 word list option" where
  "IPv4Payload packet =
     (case packet of
        [] \<Rightarrow> None
      | b # _ \<Rightarrow> (let ihl = (b AND 0x0F) * 4 in if unat ihl \<le> length packet then Some (drop (unat ihl) packet) else None))"

definition IPv4Source :: "8 word list \<Rightarrow> 32 word option" where
  "IPv4Source packet = (if 16 \<le> length packet then Some (of_octets (map unat (take 4 (drop 12 packet)))) else None)"

definition IPv4Destination :: "8 word list \<Rightarrow> 32 word option" where
  "IPv4Destination packet = (if 20 \<le> length packet then Some (of_octets (map unat (take 4 (drop 16 packet)))) else None)"

definition IPv4SourcePort :: "8 word list \<Rightarrow> nat option" where
  "IPv4SourcePort packet =
     (case IPv4Payload packet of None \<Rightarrow> None | Some p \<Rightarrow> if 2 \<le> length p then Some (Uint16 (take 2 p)) else None)"

definition IPv4DestinationPort :: "8 word list \<Rightarrow> nat option" where
  "IPv4DestinationPort packet =
     (case IPv4Payload packet of None \<Rightarrow> None | Some p \<Rightarrow> if 4 \<le> length p then Some (Uint16 (take 2 (drop 2 p))) else None)"

definition ResolvePacket :: "8 word list \<Rightarrow> (string \<times> nat \<times> string \<times> nat) option" where
  "ResolvePacket packet =
     (case IPv4Source packet of None \<Rightarrow> None | Some src \<Rightarrow>
        (case IPv4SourcePort packet of None \<Rightarrow> None | Some srcPort \<Rightarrow>
           (case IPv4Destination packet of None \<Rightarrow> None | Some dst \<Rightarrow>
              (case IPv4DestinationPort packet of None \<Rightarrow> None | Some dstPort \<Rightarrow>
                 Some (ipv4_string src, srcPort, ipv4_string dst, dstPort)))))"

section \<open>Flows of the user-space tunnel\<close>

record flowKey =
  fk_proto :: "8 word"
  fk_src :: "8 word list"
  fk_dst :: "8 word list"
  fk_srcPort :: nat
  fk_dstPort :: nat

definition userFlowTTL :: time where
  "userFlowTTL = 5 * 60 * 1000000000"

definition packetFlowKey :: "8 word list \<Rightarrow> flowKey option" where
  "packetFlowKey packet =
     (if length packet < 24 \<or> drop_bit 4 (packet ! 0) \<noteq> 4 then None
      else
        (let ihl = unat (packet ! 0 AND 0x0F) * 4
         in if ihl < 20 \<or> length packet < ihl + 4 then None
            else if packet ! 9 \<noteq> 6 \<and> packet ! 9 \<noteq> 17 then None
            else Some \<lparr>fk_proto = packet ! 9, fk_src = take 4 (drop 12 packet), fk_dst = take 4 (drop 16 packet),
                   fk_srcPort = Uint16 (take 2 (drop ihl packet)), fk_dstPort = Uint16 (take 2 (drop (ihl + 2) packet))\<rparr>))"

definition reverse_flow :: "flowKey \<Rightarrow> flowKey" where
  "reverse_flow key = \<lparr>fk_proto = fk_proto key, fk_src = fk_dst key, fk_dst = fk_src key, fk_srcPort = fk_dstPort key, fk_dstPort = fk_srcPort key\<rparr>"

type_synonym userFlowRouter = "flowKey \<rightharpoonup> time"

definition pruneLocked :: "time \<Rightarrow> userFlowRouter \<Rightarrow> userFlowRouter" where
  "pruneLocked now flows = (\<lambda>k. case flows k of None \<Rightarrow> None | Some expires \<Rightarrow> if expires < now then None else Some expires)"

definition recordOutbound :: "time \<Rightarrow> 8 word list \<Rightarrow> userFlowRouter \<Rightarrow> bool \<times> userFlowRouter" where
  "recordOutbound now packet flows =
     (case packetFlowKey packet of
        None \<Rightarrow> (False, flows)
      | Some key \<Rightarrow> (True, (pruneLocked now flows)(reverse_flow key \<mapsto> now + userFlowTTL)))"

definition matchesInbound :: "time \<Rightarrow> 8 word list \<Rightarrow> userFlowRouter \<Rightarrow> bool \<times> userFlowRouter" where
  "matchesInbound now packet flows =
     (case packetFlowKey packet of
        None \<Rightarrow> (False, flows)
      | Some key \<Rightarrow> (let flows = pruneLocked now flows in (flows key \<noteq> None, flows)))"

section \<open>The tunnel's packets\<close>

text \<open>The session, its entry in \<open>userTunnels\<close> (its flows; closing a user tunnel removes the entry), the queue of DNS packets for the dynamic
  route worker, and the packets handed to the device and to the user-space stack.\<close>

record tunio =
  io_sess :: ConnSession
  io_user :: "userFlowRouter option"
  io_dns :: "8 word list list"
  io_dev :: "8 word list list"
  io_userDev :: "8 word list list"

definition upd_sess :: "(ConnSession \<Rightarrow> ConnSession) \<Rightarrow> tunio \<Rightarrow> tunio" where
  "upd_sess f io = io\<lparr>io_sess := f (io_sess io)\<rparr>"

definition closeUserTunnel :: "tunio \<Rightarrow> tunio" where
  "closeUserTunnel io = io\<lparr>io_user := None\<rparr>"

text \<open>\<open>parseIPv4Addrs\<close>, \<open>newUserTunnel\<close> and \<open>SessionTunnelDialer\<close>; \<open>create\<close> is the error of \<open>netstack.CreateNetTUN\<close>.\<close>

fun parseIPv4Addrs :: "string list \<Rightarrow> error + addr list" where
  "parseIPv4Addrs [] = Inr []"
| "parseIPv4Addrs (v # vs) =
     (case ParseAddr v of
        None \<Rightarrow> Inl (Errors (''invalid VPN DNS address '' @ v))
      | Some a \<Rightarrow> (case parseIPv4Addrs vs of Inl e \<Rightarrow> Inl e | Inr as \<Rightarrow> Inr (if Is4 (Unmap a) then Unmap a # as else as)))"

definition newUserTunnel :: "(addr \<Rightarrow> addr list \<Rightarrow> int \<Rightarrow> error option) \<Rightarrow> ConnSession \<Rightarrow> error + userFlowRouter" where
  "newUserTunnel create c =
     (case ParseAddr (cs_VPNAddress c) of
        None \<Rightarrow> Inl (Errors (''invalid IPv4 VPN address '' @ cs_VPNAddress c))
      | Some local \<Rightarrow>
          if \<not> Is4 local then Inl (Errors (''invalid IPv4 VPN address '' @ cs_VPNAddress c))
          else (case parseIPv4Addrs (cs_DNS c) of
                  Inl e \<Rightarrow> Inl e
                | Inr dns \<Rightarrow>
                    (case create local dns (if cs_MTU c \<le> 0 then 1399 else cs_MTU c) of
                       Some e \<Rightarrow> Inl e
                     | None \<Rightarrow> Inr Map.empty)))"

definition SessionTunnelDialer :: "(addr \<Rightarrow> addr list \<Rightarrow> int \<Rightarrow> error option) \<Rightarrow> tunio \<Rightarrow> error option \<times> tunio" where
  "SessionTunnelDialer create io =
     (case io_user io of
        Some _ \<Rightarrow> (None, io)
      | None \<Rightarrow> (case newUserTunnel create (io_sess io) of Inl e \<Rightarrow> (Some e, io) | Inr t \<Rightarrow> (None, io\<lparr>io_user := Some t\<rparr>)))"

text \<open>\<open>sendPayloadToServer\<close>: two selects. \<open>s1\<close> and \<open>s2\<close> are the cases the runtime selects; a case that is not ready is not selected,
  and \<open>None\<close> is a send that has to wait.\<close>

datatype sel = SelSend | SelDtlsClosed | SelClosed

definition send_tls :: "sel \<Rightarrow> Payload \<Rightarrow> ConnSession \<Rightarrow> (bool \<times> ConnSession) option" where
  "send_tls s2 pl c =
     (if s2 = SelSend \<and> length (cs_PayloadOutTLS c) < queue_cap then Some (True, c\<lparr>cs_PayloadOutTLS := cs_PayloadOutTLS c @ [pl]\<rparr>)
      else if s2 = SelClosed \<and> cs_CloseChan c then Some (False, c)
      else None)"

definition sendPayloadToServer :: "sel \<Rightarrow> sel \<Rightarrow> Payload \<Rightarrow> ConnSession \<Rightarrow> (bool \<times> ConnSession) option" where
  "sendPayloadToServer s1 s2 pl c =
     (if cs_DtlsConnected c then
        (if s1 = SelSend \<and> length (cs_PayloadOutDTLS c) < queue_cap then Some (True, c\<lparr>cs_PayloadOutDTLS := cs_PayloadOutDTLS c @ [pl]\<rparr>)
         else if s1 = SelDtlsClosed \<and> cs_dtlsClosed c then send_tls s2 pl c
         else if s1 = SelClosed \<and> cs_CloseChan c then Some (False, c)
         else None)
      else send_tls s2 pl c)"

text \<open>\<open>routeUserInbound\<close>: \<open>wrErr\<close> is the error of the user-space device; a failed write closes the user tunnel.\<close>

definition routeUserInbound :: "time \<Rightarrow> error option \<Rightarrow> 8 word list \<Rightarrow> tunio \<Rightarrow> bool \<times> tunio" where
  "routeUserInbound now wrErr packet io =
     (case io_user io of
        None \<Rightarrow> (False, io)
      | Some flows \<Rightarrow>
          (let (hit, flows) = matchesInbound now packet flows;
               io = io\<lparr>io_user := Some flows\<rparr>
           in if \<not> hit then (False, io)
              else if wrErr \<noteq> None then (False, closeUserTunnel io)
              else (True, io\<lparr>io_userDev := io_userDev io @ [packet]\<rparr>)))"

section \<open>The workers\<close>

text \<open>One iteration of \<open>tunToPayloadOut\<close>: \<open>rd\<close> is the result of \<open>dev.Read\<close>, its error, or the count, the size and the buffer after
  \<open>offset\<close> bytes of headroom.\<close>

definition inc_reads :: "ConnSession \<Rightarrow> ConnSession" where
  "inc_reads c = c\<lparr>cs_Stat := (cs_Stat c)\<lparr>st_TUNReads := st_TUNReads (cs_Stat c) + 1\<rparr>\<rparr>"

definition inc_readErrors :: "ConnSession \<Rightarrow> ConnSession" where
  "inc_readErrors c = c\<lparr>cs_Stat := (cs_Stat c)\<lparr>st_TUNReadErrors := st_TUNReadErrors (cs_Stat c) + 1\<rparr>\<rparr>"

definition tunToPayloadOut :: "stamp \<Rightarrow> int \<Rightarrow> sel \<Rightarrow> sel \<Rightarrow> error + int \<times> int \<times> 8 word list \<Rightarrow> ConnSession \<Rightarrow> progress \<times> ConnSession" where
  "tunToPayloadOut now offset s1 s2 rd c =
     (case rd of
        Inl e \<Rightarrow> (Exit, session_Close now (RecordClose now ''tun_read_error'' ''tun'' (Some e) (inc_readErrors c)))
      | Inr (readCount, sz, buf) \<Rightarrow>
          if readCount = 0 then (Continue, c)
          else
            (let c' = inc_reads c
             in if readCount \<noteq> 1 \<or> sz \<le> 0 \<or> payloadBufferSize (cs_MTU c) - offset < sz
                then (Exit, session_Close now (RecordClose now ''tun_read_invalid'' ''tun''
                        (Some (Errors (''TUN read returned count='' @ fmt_d readCount @ '' size='' @ fmt_d sz))) c'))
                else (case sendPayloadToServer s1 s2
                             \<lparr>pl_Type = 0, pl_Data = take (nat sz) buf, pl_cap = nat (payloadBufferSize (cs_MTU c) - offset)\<rparr> c' of
                        None \<Rightarrow> (Blocked, c)
                      | Some (False, c') \<Rightarrow> (Exit, c')
                      | Some (True, c') \<Rightarrow> (Continue, c'))))"

text \<open>\<open>userTunToPayloadOut\<close> of a registered user tunnel; at the exit the tunnel is closed.\<close>

definition userTunToPayloadOut :: "time \<Rightarrow> sel \<Rightarrow> sel \<Rightarrow> error + int \<times> int \<times> 8 word list \<Rightarrow> tunio \<Rightarrow> progress \<times> tunio" where
  "userTunToPayloadOut now s1 s2 rd io =
     (case io_user io of
        None \<Rightarrow> (Exit, io)
      | Some flows \<Rightarrow>
          (case rd of
             Inl e \<Rightarrow> (Exit, closeUserTunnel io)
           | Inr (readCount, n, buf) \<Rightarrow>
               (let c = io_sess io; bufLen = payloadBufferSize (cs_MTU c)
                in if readCount \<noteq> 1 then (Exit, closeUserTunnel io)
                   else if n \<le> 0 \<or> bufLen < n
                   then (if n < 0 \<or> bufLen < n then (Exit, closeUserTunnel io) else (Continue, io))
                   else (let data = take (nat n) buf; (_, flows') = recordOutbound now data flows
                         in case sendPayloadToServer s1 s2 \<lparr>pl_Type = 0, pl_Data = data, pl_cap = nat bufLen\<rparr> c of
                              None \<Rightarrow> (Blocked, io)
                            | Some (False, c) \<Rightarrow> (Exit, closeUserTunnel io)
                            | Some (True, c) \<Rightarrow> (Continue, io\<lparr>io_sess := c, io_user := Some flows'\<rparr>)))))"

text \<open>One iteration of \<open>payloadInToTun\<close>: \<open>takeClose\<close> whether a select with a closed \<open>CloseChan\<close> takes it, \<open>userErr\<close> the error of the
  user-space device, \<open>wr\<close> the result of \<open>dev.Write\<close>. The deferred function closes the user tunnel and the session.\<close>

definition in_exit :: "stamp \<Rightarrow> tunio \<Rightarrow> tunio" where
  "in_exit now io = upd_sess (session_Close now) (closeUserTunnel io)"

definition inc_writes :: "bool \<Rightarrow> ConnSession \<Rightarrow> ConnSession" where
  "inc_writes ok c =
     c\<lparr>cs_Stat := (if ok then (cs_Stat c)\<lparr>st_TUNWrites := st_TUNWrites (cs_Stat c) + 1\<rparr>
                   else (cs_Stat c)\<lparr>st_TUNWriteErrors := st_TUNWriteErrors (cs_Stat c) + 1\<rparr>)\<rparr>"

definition write_tun :: "stamp \<Rightarrow> error + int \<Rightarrow> 8 word list \<Rightarrow> tunio \<Rightarrow> progress \<times> tunio" where
  "write_tun now wr data io =
     (let err = (case wr of Inl e \<Rightarrow> Some e | Inr n \<Rightarrow> if n \<noteq> 1 then Some (Errors (''TUN write returned count='' @ fmt_d n)) else None)
      in case err of
           Some e \<Rightarrow> (Exit, in_exit now (upd_sess (\<lambda>c. RecordClose now ''tun_write_error'' ''tun'' (Some e) (inc_writes False c)) io))
         | None \<Rightarrow> (Continue, upd_sess (inc_writes True) (io\<lparr>io_dev := io_dev io @ [data]\<rparr>)))"

definition payloadInToTun :: "time \<Rightarrow> bool \<Rightarrow> error option \<Rightarrow> error + int \<Rightarrow> tunio \<Rightarrow> progress \<times> tunio" where
  "payloadInToTun now takeClose userErr wr io =
     (let c = io_sess io
      in if cs_CloseChan c \<and> (takeClose \<or> cs_PayloadIn c = []) then (Exit, in_exit (Some now) io)
         else (case cs_PayloadIn c of
                 [] \<Rightarrow> (Blocked, io)
               | pl # rest \<Rightarrow>
                   (let (routed, io1) = routeUserInbound now userErr (pl_Data pl) (io\<lparr>io_sess := c\<lparr>cs_PayloadIn := rest\<rparr>\<rparr>)
                    in if routed then (Continue, io1)
                       else if cs_DynamicSplitTunneling c then
                         (case ResolvePacket (pl_Data pl) of
                            None \<Rightarrow> (Panic, io1)
                          | Some (_, srcPort, _, _) \<Rightarrow>
                              if srcPort = 53 then
                                (case offer (io_dns io1) (cs_CloseChan c) takeClose of
                                   None \<Rightarrow> (Blocked, io)
                                 | Some False \<Rightarrow> (Exit, in_exit (Some now) io1)
                                 | Some True \<Rightarrow> write_tun (Some now) wr (pl_Data pl) (io1\<lparr>io_dns := io_dns io1 @ [pl_Data pl]\<rparr>))
                              else write_tun (Some now) wr (pl_Data pl) io1)
                       else write_tun (Some now) wr (pl_Data pl) io1)))"

text \<open>One iteration of \<open>watchTunEvents\<close>: an event with its \<open>EventDown\<close> bit, or the end of the channel.\<close>

definition watchTunEvents :: "stamp \<Rightarrow> bool \<Rightarrow> bool option \<Rightarrow> ConnSession \<Rightarrow> progress \<times> ConnSession" where
  "watchTunEvents now takeClose event c =
     (if cs_CloseChan c \<and> takeClose then (Exit, c)
      else (case event of
              None \<Rightarrow>
                if cs_CloseChan c then (Exit, c)
                else (Exit, session_Close now (RecordClose now ''tun_events_closed'' ''tun'' (Some EOF) c))
            | Some down \<Rightarrow>
                if down then (Exit, session_Close now (RecordClose now ''tun_down'' ''tun'' (Some (Errors ''TUN interface reported down'')) c))
                else (Continue, c)))"

section \<open>When the inbound worker panics\<close>

text \<open>The byte offset of the payload, as \<open>IPv4Payload\<close> computes it.\<close>

definition header_bytes :: "8 word list \<Rightarrow> nat" where
  "header_bytes packet = unat ((packet ! 0 AND 0x0F) * 4)"

lemma ResolvePacket_panics: "ResolvePacket packet = None \<longleftrightarrow> length packet < 20 \<or> length packet < header_bytes packet + 4"
  by (cases packet)
    (auto simp: ResolvePacket_def IPv4Source_def IPv4Destination_def IPv4SourcePort_def IPv4DestinationPort_def IPv4Payload_def header_bytes_def
       Let_def split: option.splits if_splits)

text \<open>A packet whose flow key is defined is long enough.\<close>

lemma packetFlowKey_bounds:
  assumes "packetFlowKey packet = Some key"
  shows "24 \<le> length packet"
  using assms by (auto simp: packetFlowKey_def Let_def split: if_splits)

lemma write_tun_no_panic: "fst (write_tun now wr data io) \<noteq> Panic"
  by (auto simp: write_tun_def Let_def split: option.splits)

lemma write_tun_progress: "fst (write_tun now wr data io) \<in> {Continue, Exit}"
  by (auto simp: write_tun_def Let_def split: option.splits)

lemma payloadInToTun_panics_iff:
  assumes "cs_PayloadIn (io_sess io) = pl # rest" "\<not> (cs_CloseChan (io_sess io) \<and> takeClose)"
  shows "fst (payloadInToTun now takeClose userErr wr io) = Panic \<longleftrightarrow>
    cs_DynamicSplitTunneling (io_sess io) \<and> (length (pl_Data pl) < 20 \<or> length (pl_Data pl) < header_bytes (pl_Data pl) + 4) \<and>
    \<not> fst (routeUserInbound now userErr (pl_Data pl) (io\<lparr>io_sess := (io_sess io)\<lparr>cs_PayloadIn := rest\<rparr>\<rparr>))"
proof -
  obtain routed io1 where r: "routeUserInbound now userErr (pl_Data pl) (io\<lparr>io_sess := (io_sess io)\<lparr>cs_PayloadIn := rest\<rparr>\<rparr>) = (routed, io1)"
    by fastforce
  have w: "fst (write_tun n wr d i) \<noteq> Panic" for n d i by (rule write_tun_no_panic)
  show ?thesis
    using assms by (cases "ResolvePacket (pl_Data pl)")
      (auto simp: payloadInToTun_def Let_def r w ResolvePacket_panics [symmetric] split: option.splits bool.splits if_splits)
qed

text \<open>C35: a short packet ends the daemon. When the server has configured split tunnelling by domain, the worker that passes inbound packets
  to the device looks at the ports of each packet without checking its length. A single CSTP data frame whose packet is shorter than an
  IPv4 header, or than the header length it claims plus the ports, is accepted by the TLS channel and queued, and the worker's next iteration
  indexes out of range: a panic in a goroutine, which ends the process and leaves routes, DNS and the device behind.\<close>

theorem short_packet_ends_daemon:
  assumes "cs_DynamicSplitTunneling c" "\<not> cs_CloseChan c" "cs_PayloadIn c = []"
    and "length data < 20 \<or> length data < header_bytes data + 4"
    and "tls_frame \<lparr>pl_Type = 0, pl_Data = data, pl_cap = length data + 8\<rparr> = Some bytes"
  shows "\<exists>c'. tlsChannel now False None timeout junk \<lparr>rd_bytes = bytes @ later, rd_end = e\<rparr> c = (Continue, \<lparr>rd_bytes = later, rd_end = e\<rparr>, c') \<and>
    fst (payloadInToTun t tc userErr wr \<lparr>io_sess = c', io_user = None, io_dns = dns, io_dev = dev, io_userDev = udev\<rparr>) = Panic"
proof -
  let ?pl = "\<lparr>pl_Type = 0, pl_Data = data, pl_cap = length data + 8\<rparr>"
  let ?c = "if cs_ResetTLSReadDead c then c\<lparr>cs_ResetTLSReadDead := False\<rparr> else c"
  have "header_bytes data < 2 ^ LENGTH(8)" unfolding header_bytes_def by (rule unsigned_less)
  with assms(4) have l: "length (pl_Data ?pl) < 65536" by auto
  obtain pl' where f: "readCSTPFrame \<lparr>rd_bytes = bytes @ later, rd_end = e\<rparr> (getPayloadBuffer junk (cs_MTU ?c)) =
      (Inr (0, length bytes), pl', \<lparr>rd_bytes = later, rd_end = e\<rparr>)" and d: "pl_Data pl' = data"
    using readCSTPFrame_tls_frame [OF assms(5) l, of later e "getPayloadBuffer junk (cs_MTU ?c)"] by (auto simp: delivered_def)
  define c' where "c' = add_received (length bytes) (?c\<lparr>cs_PayloadIn := [pl'\<lparr>pl_Type := 0\<rparr>]\<rparr>)"
  have "tls_dispatch now False 0 (length bytes) pl' ?c = (Continue, c')"
    using assms(2,3) by (auto simp: tls_dispatch_def offer_def queue_cap_def c'_def Let_def)
  then have "tlsChannel now False None timeout junk \<lparr>rd_bytes = bytes @ later, rd_end = e\<rparr> c = (Continue, \<lparr>rd_bytes = later, rd_end = e\<rparr>, c')"
    using f by (simp add: tlsChannel_def Let_def)
  moreover have "fst (payloadInToTun t tc userErr wr \<lparr>io_sess = c', io_user = None, io_dns = dns, io_dev = dev, io_userDev = udev\<rparr>) = Panic"
    using assms(1,2,4) d by (subst payloadInToTun_panics_iff) (auto simp: c'_def add_received_def routeUserInbound_def)
  ultimately show ?thesis by blast
qed

text \<open>A session with split tunnelling by domain, and a frame that carries one byte.\<close>

definition domain_session :: ConnSession where
  "domain_session = NewConnSession False (\<lambda>_. Inr (''example.com'', []))
     (\<lambda>key. if key = ''X-CSTP-Post-Auth-XML'' then [''config''] else [])"

theorem short_packet_ends_daemon_witness:
  "\<exists>c'. tlsChannel None False None (\<lambda>_. False) [] \<lparr>rd_bytes = [0x53, 0x54, 0x46, 1, 0, 1, 0, 0, 0x45], rd_end = EOF\<rparr> domain_session
       = (Continue, \<lparr>rd_bytes = [], rd_end = EOF\<rparr>, c') \<and>
     fst (payloadInToTun 0 False None (Inr 1) \<lparr>io_sess = c', io_user = None, io_dns = [], io_dev = [], io_userDev = []\<rparr>) = Panic"
proof -
  have c: "cs_DynamicSplitTunneling domain_session" "\<not> cs_CloseChan domain_session" "cs_PayloadIn domain_session = []"
    by (simp_all add: domain_session_def NewConnSession_def apply_post_auth_def Get_def Let_def)
  have "tls_frame \<lparr>pl_Type = 0, pl_Data = [0x45], pl_cap = length [0x45 :: 8 word] + 8\<rparr> = Some [0x53, 0x54, 0x46, 1, 0, 1, 0, 0, 0x45]"
    by (simp add: tls_frame_def Header_def PutUint16_def)
  from short_packet_ends_daemon [OF c _ this, of None "\<lambda>_. False" "[]" "[]" EOF 0 False None "Inr 1" "[]" "[]" "[]"]
  show ?thesis by simp
qed

section \<open>The flow router is exact\<close>

text \<open>The router after a history of outbound packets.\<close>

definition flows_after :: "(time \<times> 8 word list) list \<Rightarrow> userFlowRouter" where
  "flows_after hist = fold (\<lambda>(t, p) flows. snd (recordOutbound t p flows)) hist Map.empty"

definition answers :: "time \<Rightarrow> flowKey \<Rightarrow> time \<times> 8 word list \<Rightarrow> bool" where
  "answers now key h \<longleftrightarrow> (\<exists>k. packetFlowKey (snd h) = Some k \<and> reverse_flow k = key) \<and> now \<le> fst h + userFlowTTL"

lemma flows_after_snoc: "flows_after (hist @ [(t, p)]) = snd (recordOutbound t p (flows_after hist))"
  by (simp add: flows_after_def)

lemma flows_after_exact:
  assumes "sorted (map fst hist)" "\<forall>h \<in> set hist. fst h \<le> now"
  shows "(\<exists>e. flows_after hist key = Some e \<and> now \<le> e) \<longleftrightarrow> (\<exists>h \<in> set hist. answers now key h)"
  using assms
proof (induction hist arbitrary: now rule: rev_induct)
  case Nil
  show ?case by (simp add: flows_after_def)
next
  case (snoc h hist)
  obtain t p where h: "h = (t, p)" by (cases h)
  have IH: "(\<exists>e. flows_after hist key = Some e \<and> now \<le> e) \<longleftrightarrow> (\<exists>h \<in> set hist. answers now key h)"
    using snoc by (auto simp: sorted_append)
  have t: "t \<le> now" using snoc.prems h by simp
  have pr: "(\<exists>e. pruneLocked t (flows_after hist) k = Some e \<and> now \<le> e) \<longleftrightarrow> (\<exists>e. flows_after hist k = Some e \<and> now \<le> e)" for k
    using t by (auto simp: pruneLocked_def split: option.splits)
  show ?case
  proof (cases "packetFlowKey p")
    case None
    with IH show ?thesis by (auto simp: h flows_after_snoc recordOutbound_def answers_def)
  next
    case (Some k)
    show ?thesis
    proof (cases "reverse_flow k = key")
      case True
      have "now \<le> fst h' + userFlowTTL \<Longrightarrow> now \<le> t + userFlowTTL" if "h' \<in> set hist" for h'
        using snoc.prems(1) that h by (force simp: sorted_append)
      then have "(\<exists>h \<in> set (hist @ [h]). answers now key h) \<longleftrightarrow> now \<le> t + userFlowTTL"
        using Some True by (auto simp: answers_def h)
      with Some True show ?thesis by (simp add: h flows_after_snoc recordOutbound_def)
    next
      case False
      with Some IH pr [of key] show ?thesis by (auto simp: h flows_after_snoc recordOutbound_def answers_def)
    qed
  qed
qed

text \<open>C21: an inbound packet goes to the user-space tunnel exactly when it answers one of its packets. After any history of outbound packets of the
  user-space tunnel, in the order of their times, an inbound packet matches the flow router iff it is a TCP or UDP packet over IPv4 that has the
  addresses and ports of an outbound packet swapped, and that packet left no more than five minutes ago. Pruning never loses a live flow
  and never keeps a dead one.\<close>

theorem flow_router_exact:
  assumes "sorted (map fst hist)" "\<forall>h \<in> set hist. fst h \<le> now"
  shows "fst (matchesInbound now q (flows_after hist)) \<longleftrightarrow>
    (\<exists>key. packetFlowKey q = Some key \<and> (\<exists>(t, p) \<in> set hist. \<exists>k. packetFlowKey p = Some k \<and> reverse_flow k = key \<and> now \<le> t + userFlowTTL))"
proof (cases "packetFlowKey q")
  case None
  then show ?thesis by (simp add: matchesInbound_def)
next
  case (Some key)
  have "fst (matchesInbound now q (flows_after hist)) \<longleftrightarrow> (\<exists>e. flows_after hist key = Some e \<and> now \<le> e)"
    using Some by (auto simp: matchesInbound_def pruneLocked_def Let_def split: option.splits)
  with Some flows_after_exact [OF assms, of key] show ?thesis by (force simp: answers_def)
qed

text \<open>A UDP query to port 53 and its answer.\<close>

definition udp :: "8 word list \<Rightarrow> 8 word list \<Rightarrow> 8 word list \<Rightarrow> 8 word list" where
  "udp src dst ports = [0x45, 0, 0, 28, 0, 0, 0, 0, 64, 17, 0, 0] @ src @ dst @ ports @ [0, 8, 0, 0]"

theorem flow_router_exact_witness:
  "let q = udp [10, 0, 0, 2] [10, 0, 0, 1] [0x30, 0x39, 0, 53]; a = udp [10, 0, 0, 1] [10, 0, 0, 2] [0, 53, 0x30, 0x39]
   in fst (matchesInbound (7 + userFlowTTL) a (flows_after [(5, a), (7, q)])) \<and>
      \<not> fst (matchesInbound (8 + userFlowTTL) a (flows_after [(5, a), (7, q)]))"
proof -
  let ?q = "udp [10, 0, 0, 2] [10, 0, 0, 1] [0x30, 0x39, 0, 53]"
  let ?a = "udp [10, 0, 0, 1] [10, 0, 0, 2] [0, 53, 0x30, 0x39]"
  have "sorted (map fst [(5 :: time, ?a), (7, ?q)])" "\<forall>h \<in> set [(5, ?a), (7, ?q)]. fst h \<le> 7 + userFlowTTL"
    "\<forall>h \<in> set [(5, ?a), (7, ?q)]. fst h \<le> 8 + userFlowTTL" by (simp_all add: userFlowTTL_def)
  note ex = flow_router_exact [OF this(1,2), of ?a] flow_router_exact [OF this(1,3), of ?a]
  have "packetFlowKey ?q = Some \<lparr>fk_proto = 17, fk_src = [10, 0, 0, 2], fk_dst = [10, 0, 0, 1], fk_srcPort = 12345, fk_dstPort = 53\<rparr>"
    "packetFlowKey ?a = Some \<lparr>fk_proto = 17, fk_src = [10, 0, 0, 1], fk_dst = [10, 0, 0, 2], fk_srcPort = 53, fk_dstPort = 12345\<rparr>"
    by (simp_all add: packetFlowKey_def udp_def Uint16_def)
  with ex show ?thesis by (simp add: reverse_flow_def Let_def)
qed

end
