(* ===== verification/Dynroutes.thy ===== *)
theory Dynroutes
  imports Packets Linuxnet "HOL-Library.AList"
begin

text \<open>
  Routes that follow DNS answers: \<open>dynamicRouteWorker\<close> and what it calls in \<open>tun.go\<close>. A name on the server's split lists that is
  resolved through the tunnel gets host routes for its addresses, as long as its lease lasts. The tables are association lists (their order is
  not used). The DNS decoder is a third-party package and a parameter; times are nanoseconds.
\<close>

section \<open>Names\<close>

definition dns_char :: "char \<Rightarrow> bool" where
  "dns_char r \<longleftrightarrow> (97 \<le> (of_char r :: nat) \<and> (of_char r :: nat) \<le> 122) \<or> (48 \<le> (of_char r :: nat) \<and> (of_char r :: nat) \<le> 57) \<or>
     r = CHR ''-'' \<or> r = CHR ''_''"

definition dns_label :: "string \<Rightarrow> bool" where
  "dns_label l \<longleftrightarrow> l \<noteq> [] \<and> length l \<le> 63 \<and> hd l \<noteq> CHR ''-'' \<and> last l \<noteq> CHR ''-'' \<and> list_all dns_char l"

definition fold_name :: "string \<Rightarrow> string" where
  "fold_name s = TrimSuffix (ToLower (TrimSpace s)) ''.''"

definition normalizeDNSName :: "string \<Rightarrow> string option" where
  "normalizeDNSName raw =
     (let name = fold_name raw
      in if name = [] \<or> 253 < length name then None
         else if list_all dns_label (Split (CHR ''.'') name) then Some name else None)"

fun InArrayGeneric :: "string list \<Rightarrow> string \<Rightarrow> bool" where
  "InArrayGeneric [] str = False"
| "InArrayGeneric (d0 # arr) str =
     (let d = fold_name d0
      in if d \<noteq> [] \<and> (fold_name str = d \<or> suffix (''.'' @ d) (fold_name str)) then True else InArrayGeneric arr str)"

section \<open>DNS answers\<close>

definition DNSTypeA :: nat where "DNSTypeA = 1"
definition DNSTypeCNAME :: nat where "DNSTypeCNAME = 5"
definition DNSClassIN :: nat where "DNSClassIN = 1"

record dns_question =
  qu_Name :: string
  qu_Type :: nat
  qu_Class :: nat

record dns_answer =
  an_Name :: string
  an_Type :: nat
  an_Class :: nat
  an_TTL :: "32 word"
  an_IP :: "8 word list option"
  an_CNAME :: string

record dns_message =
  dm_QR :: bool
  dm_Questions :: "dns_question list"
  dm_Answers :: "dns_answer list"

text \<open>\<open>netip.AddrFromSlice\<close>\<close>

definition AddrFromSlice :: "8 word list \<Rightarrow> addr option" where
  "AddrFromSlice bs =
     (if length bs = 4 then Some (V4 (of_octets (map unat bs)))
      else if length bs = 16 then Some (V6 (foldl (\<lambda>acc b. acc * 256 + ucast b) 0 bs) [])
      else None)"

text \<open>The first loop over the answers: the names the question is an alias for, in the order of the answers.\<close>

fun allowed_names :: "dns_answer list \<Rightarrow> string list \<Rightarrow> string list" where
  "allowed_names [] allowed = allowed"
| "allowed_names (a # as) allowed =
     allowed_names as
       (if an_Class a \<noteq> DNSClassIN then allowed
        else (case normalizeDNSName (an_Name a) of
                None \<Rightarrow> allowed
              | Some name \<Rightarrow>
                  if name \<notin> set allowed \<or> an_Type a \<noteq> DNSTypeCNAME then allowed
                  else (case normalizeDNSName (an_CNAME a) of None \<Rightarrow> allowed | Some target \<Rightarrow> target # allowed)))"

definition second :: time where "second = 1000000000"
definition minimumDynamicRouteTTL :: time where "minimumDynamicRouteTTL = 30 * second"
definition maximumDynamicRouteTTL :: time where "maximumDynamicRouteTTL = 3600 * second"
definition maximumDynamicRoutes :: nat where "maximumDynamicRoutes = 4096"

text \<open>The second loop: the IPv4 addresses of allowed names, and the smallest time to live. An answer contributes the text of its
  address, or is skipped.\<close>

definition answer_text :: "string list \<Rightarrow> dns_answer \<Rightarrow> string option" where
  "answer_text allowed a =
     (if an_Class a \<noteq> DNSClassIN \<or> an_Type a \<noteq> DNSTypeA then None
      else (case an_IP a of
              None \<Rightarrow> None
            | Some ip \<Rightarrow>
                (case normalizeDNSName (an_Name a) of
                   None \<Rightarrow> None
                 | Some name \<Rightarrow>
                     if name \<notin> set allowed then None
                     else (case AddrFromSlice ip of
                             None \<Rightarrow> None
                           | Some addr \<Rightarrow> if Is4 (Unmap addr) then Some (addr_string (Unmap addr)) else None))))"

fun answer_addresses :: "string list \<Rightarrow> dns_answer list \<Rightarrow> string list \<Rightarrow> time \<Rightarrow> string list \<times> time" where
  "answer_addresses allowed [] addresses ttl = (addresses, ttl)"
| "answer_addresses allowed (a # as) addresses ttl =
     (case answer_text allowed a of
        None \<Rightarrow> answer_addresses allowed as addresses ttl
      | Some text \<Rightarrow> answer_addresses allowed as (addresses @ [text]) (min ttl (unat (an_TTL a) * second)))"

section \<open>Leases\<close>

definition parseDynamicAddrs :: "dynamicRouteLease \<Rightarrow> addr list" where
  "parseDynamicAddrs lease = (case ParseAddrs (dl_Addresses lease) of None \<Rightarrow> [] | Some as \<Rightarrow> as)"

definition collectDynamicRoutes :: "ConnSession \<Rightarrow> DynamicRoutes" where
  "collectDynamicRoutes c =
     \<lparr>dr_Include = concat (map (parseDynamicAddrs \<circ> snd) (cs_DynamicSplitIncludeResolved c)),
      dr_Exclude = concat (map (parseDynamicAddrs \<circ> snd) (cs_DynamicSplitExcludeResolved c))\<rparr>"

definition dynamicRouteAddressCount :: "ConnSession \<Rightarrow> nat" where
  "dynamicRouteAddressCount c = (let routes = collectDynamicRoutes c in length (dr_Include routes) + length (dr_Exclude routes))"

text \<open>The distinct addresses of the tables without the entries of one name, as texts.\<close>

definition other_addresses :: "ConnSession \<Rightarrow> string \<Rightarrow> string list" where
  "other_addresses c query =
     concat (map (\<lambda>(key, lease). if key = query then [] else map addr_string (parseDynamicAddrs lease))
       (cs_DynamicSplitIncludeResolved c @ cs_DynamicSplitExcludeResolved c))"

definition prospectiveDynamicRouteCount :: "ConnSession \<Rightarrow> string \<Rightarrow> string list \<Rightarrow> nat" where
  "prospectiveDynamicRouteCount c query addresses = length (remdups (other_addresses c query @ addresses))"

text \<open>\<open>recordNetworkHealth\<close>: the channel holds 8 elements; when it is full the oldest one makes room.\<close>

definition recordNetworkHealth :: "error option \<Rightarrow> ConnSession \<Rightarrow> ConnSession" where
  "recordNetworkHealth err c = c\<lparr>cs_NetworkErrors := push_bounded 8 err (cs_NetworkErrors c)\<rparr>"

definition lease_ttl :: "time \<Rightarrow> time" where
  "lease_ttl ttl0 =
     (let ttl = (if ttl0 < minimumDynamicRouteTTL then minimumDynamicRouteTTL else ttl0)
      in if maximumDynamicRouteTTL < ttl then maximumDynamicRouteTTL else ttl)"

definition store_lease :: "bool \<Rightarrow> string \<Rightarrow> dynamicRouteLease \<Rightarrow> ConnSession \<Rightarrow> ConnSession" where
  "store_lease exclude query lease c =
     (if exclude then c\<lparr>cs_DynamicSplitExcludeResolved := AList.update query lease (cs_DynamicSplitExcludeResolved c)\<rparr>
      else c\<lparr>cs_DynamicSplitIncludeResolved := AList.update query lease (cs_DynamicSplitIncludeResolved c)\<rparr>)"

definition dynamicSplitRoutes :: "(8 word list \<Rightarrow> dns_message option) \<Rightarrow> time \<Rightarrow> 8 word list \<Rightarrow> ConnSession \<Rightarrow> bool \<times> ConnSession" where
  "dynamicSplitRoutes decode now data c =
     (case decode data of
        None \<Rightarrow> (False, c)
      | Some dns \<Rightarrow>
          (case dm_Questions dns of
             [question] \<Rightarrow>
               if \<not> dm_QR dns \<or> qu_Type question \<noteq> DNSTypeA \<or> qu_Class question \<noteq> DNSClassIN then (False, c)
               else
                 (case normalizeDNSName (qu_Name question) of
                    None \<Rightarrow> (False, RecordTransportFault (Some now) ''dynamic_route_dns_invalid'' ''network'' (Some (Errors ''invalid DNS question name'')) c)
                  | Some query \<Rightarrow>
                      (let incl = InArrayGeneric (cs_DynamicSplitIncludeDomains c) query;
                           excl = (\<not> incl \<and> InArrayGeneric (cs_DynamicSplitExcludeDomains c) query)
                       in if \<not> incl \<and> \<not> excl then (False, c)
                          else
                            (let (addresses, ttl) =
                               answer_addresses (allowed_names (dm_Answers dns) [query]) (dm_Answers dns) [] maximumDynamicRouteTTL
                             in if addresses = [] then (False, c)
                                else if maximumDynamicRoutes < prospectiveDynamicRouteCount c query addresses
                                then (let err = Some (Errors (''dynamic route limit '' @ itoa maximumDynamicRoutes @ '' exceeded''))
                                      in (False, recordNetworkHealth err (RecordTransportFault (Some now) ''dynamic_route_limit'' ''network'' err c)))
                                else (True, store_lease excl query \<lparr>dl_Addresses = addresses, dl_ExpiresAt = now + lease_ttl ttl\<rparr> c))))
           | _ \<Rightarrow> (False, c)))"

definition live_leases :: "time \<Rightarrow> (string \<times> dynamicRouteLease) list \<Rightarrow> (string \<times> dynamicRouteLease) list" where
  "live_leases now table = filter (\<lambda>(key, lease). now < dl_ExpiresAt lease) table"

definition expireDynamicRoutes :: "time \<Rightarrow> ConnSession \<Rightarrow> bool \<times> ConnSession" where
  "expireDynamicRoutes now c =
     (let incl = live_leases now (cs_DynamicSplitIncludeResolved c);
          excl = live_leases now (cs_DynamicSplitExcludeResolved c)
      in (incl \<noteq> cs_DynamicSplitIncludeResolved c \<or> excl \<noteq> cs_DynamicSplitExcludeResolved c,
          c\<lparr>cs_DynamicSplitIncludeResolved := incl, cs_DynamicSplitExcludeResolved := excl\<rparr>))"

text \<open>\<open>reconcileDynamicRoutes\<close> with the network manager's \<open>SetDynamicRoutes\<close> as an argument over its state.\<close>

definition reconcileDynamicRoutes :: "(DynamicRoutes \<Rightarrow> 'm \<Rightarrow> error option \<times> 'm) \<Rightarrow> time \<Rightarrow> 'm \<times> ConnSession \<Rightarrow> 'm \<times> ConnSession" where
  "reconcileDynamicRoutes setRoutes now s =
     (let (m, c) = s
      in case setRoutes (collectDynamicRoutes c) m of
           (Some e, m) \<Rightarrow> (m, recordNetworkHealth (Some e) (RecordTransportFault (Some now) ''dynamic_route_reconcile'' ''network'' (Some e) c))
         | (None, m) \<Rightarrow> (m, recordNetworkHealth None c))"

section \<open>The worker\<close>

text \<open>What the worker takes from its channels (the ends of \<open>stop\<close> and \<open>CloseChan\<close> end it), with the time.\<close>

datatype dyn_event = DnsPacket time "8 word list" | Tick time

definition dynamicRouteWorker :: "(8 word list \<Rightarrow> dns_message option) \<Rightarrow> (DynamicRoutes \<Rightarrow> 'm \<Rightarrow> error option \<times> 'm) \<Rightarrow> dyn_event
    \<Rightarrow> 'm \<times> ConnSession \<Rightarrow> 'm \<times> ConnSession" where
  "dynamicRouteWorker decode setRoutes event s =
     (let (m, c) = s
      in case event of
           DnsPacket now data \<Rightarrow>
             (case dynamicSplitRoutes decode now data c of (changed, c) \<Rightarrow> if changed then reconcileDynamicRoutes setRoutes now (m, c) else (m, c))
         | Tick now \<Rightarrow>
             (case expireDynamicRoutes now c of (changed, c) \<Rightarrow> if changed then reconcileDynamicRoutes setRoutes now (m, c) else (m, c)))"

definition worker_run :: "(8 word list \<Rightarrow> dns_message option) \<Rightarrow> (DynamicRoutes \<Rightarrow> 'm \<Rightarrow> error option \<times> 'm) \<Rightarrow> dyn_event list
    \<Rightarrow> 'm \<times> ConnSession \<Rightarrow> 'm \<times> ConnSession" where
  "worker_run decode setRoutes events s = fold (dynamicRouteWorker decode setRoutes) events s"

section \<open>The tables stay bounded\<close>

definition v4_text :: "string \<Rightarrow> bool" where
  "v4_text t \<longleftrightarrow> (\<exists>a. t = addr_string (V4 a))"

definition entries :: "ConnSession \<Rightarrow> (string \<times> dynamicRouteLease) list" where
  "entries c = cs_DynamicSplitIncludeResolved c @ cs_DynamicSplitExcludeResolved c"

definition texts :: "(string \<times> dynamicRouteLease) list \<Rightarrow> string set" where
  "texts table = (\<Union>(k, l) \<in> set table. set (dl_Addresses l))"

text \<open>What the worker keeps: a name is in one table only, decided by the server's lists; every address is an IPv4 text; no lease outlives
  an hour after \<open>now\<close>; and the number of distinct addresses is within the limit.\<close>

definition dyn_ok :: "time \<Rightarrow> ConnSession \<Rightarrow> bool" where
  "dyn_ok now c \<longleftrightarrow>
     distinct (map fst (cs_DynamicSplitIncludeResolved c)) \<and> distinct (map fst (cs_DynamicSplitExcludeResolved c)) \<and>
     (\<forall>(k, l) \<in> set (cs_DynamicSplitIncludeResolved c). InArrayGeneric (cs_DynamicSplitIncludeDomains c) k) \<and>
     (\<forall>(k, l) \<in> set (cs_DynamicSplitExcludeResolved c). \<not> InArrayGeneric (cs_DynamicSplitIncludeDomains c) k) \<and>
     (\<forall>(k, l) \<in> set (entries c). list_all v4_text (dl_Addresses l) \<and> dl_ExpiresAt l \<le> now + maximumDynamicRouteTTL) \<and>
     card (texts (entries c)) \<le> maximumDynamicRoutes"

lemma ipv4_string_nonempty: "ipv4_string a \<noteq> []"
  using ipv4_string_dot [of a] by (metis dropWhile.simps(1) list.distinct(1))

lemma ipv4_text_trim: "TrimSpace (ipv4_string a) = ipv4_string a"
proof (rule TrimSpace_word)
  have "(33::nat) \<le> of_char c \<and> (of_char c :: nat) \<le> 126" if "c \<in> set (ipv4_string a)" for c
    using ipv4_string_chars [OF that] by (auto simp: is_digit_def)
  then show "\<forall>c \<in> {hd (ipv4_string a), last (ipv4_string a)}. (33::nat) \<le> of_char c \<and> (of_char c :: nat) \<le> 126"
    using ipv4_string_nonempty [of a] by simp
qed (rule ipv4_string_nonempty)

lemma ParseAddrs_v4_texts:
  assumes "list_all v4_text ts"
  shows "\<exists>as. ParseAddrs ts = Some as \<and> map addr_string as = ts \<and> list_all Is4 as"
  using assms
proof (induction ts)
  case (Cons t ts)
  then obtain a as where a: "t = ipv4_string a" "ParseAddrs ts = Some as" "map addr_string as = ts" "list_all Is4 as"
    by (auto simp: v4_text_def)
  then show ?case by (simp add: ipv4_text_trim ipv4_string_nonempty ParseAddr_ipv4_string)
qed simp

lemma parse_v4_lease:
  assumes "list_all v4_text (dl_Addresses l)"
  shows "map addr_string (parseDynamicAddrs l) = dl_Addresses l \<and> list_all Is4 (parseDynamicAddrs l)"
  using ParseAddrs_v4_texts [OF assms] by (auto simp: parseDynamicAddrs_def)

lemma answer_text_v4: "answer_text allowed a = Some t \<Longrightarrow> v4_text t"
  by (auto simp: answer_text_def v4_text_def split: if_splits option.splits elim!: Is4.elims)

lemma answer_addresses_v4:
  assumes "answer_addresses allowed as xs ttl = (ys, ttl')" "list_all v4_text xs"
  shows "list_all v4_text ys"
  using assms
  by (induction as arbitrary: xs ttl) (auto split: option.splits dest: answer_text_v4)

lemma lease_ttl_bounds: "minimumDynamicRouteTTL \<le> lease_ttl ttl \<and> lease_ttl ttl \<le> maximumDynamicRouteTTL"
  by (auto simp: lease_ttl_def Let_def minimumDynamicRouteTTL_def maximumDynamicRouteTTL_def second_def)

lemma texts_append: "texts (xs @ ys) = texts xs \<union> texts ys"
  by (auto simp: texts_def)

lemma texts_Cons: "texts ((k, l) # es) = set (dl_Addresses l) \<union> texts es"
  by (auto simp: texts_def)

lemma texts_subset: "set xs \<subseteq> set ys \<Longrightarrow> texts xs \<subseteq> texts ys"
  by (auto simp: texts_def)

lemma finite_texts [simp]: "finite (texts xs)"
  by (auto simp: texts_def)

text \<open>The addresses that are counted besides the new ones.\<close>

lemma other_addresses_texts:
  assumes "\<forall>(k, l) \<in> set (entries c). list_all v4_text (dl_Addresses l)"
  shows "set (other_addresses c q) = texts (filter (\<lambda>(k, l). k \<noteq> q) (entries c))"
proof -
  have eq: "set (map addr_string (parseDynamicAddrs l)) = set (dl_Addresses l)" if "(k, l) \<in> set (entries c)" for k l
    using parse_v4_lease [of l] that assms by (metis (mono_tags, lifting) case_prodD)
  have "set (concat (map (\<lambda>(key, lease). if key = q then [] else map addr_string (parseDynamicAddrs lease)) es)) =
      texts (filter (\<lambda>(k, l). k \<noteq> q) es)" if "set es \<subseteq> set (entries c)" for es
    using that
  proof (induction es)
    case (Cons e es)
    obtain k l where e: "e = (k, l)" by (cases e)
    have "set (map addr_string (parseDynamicAddrs l)) = set (dl_Addresses l)" using Cons.prems by (intro eq [of k]) (auto simp: e)
    with Cons show ?case by (auto simp: e texts_Cons simp del: set_map)
  qed (simp add: texts_def)
  then show ?thesis by (simp add: other_addresses_def entries_def texts_append)
qed

lemma update_entries:
  assumes "distinct (map fst table)"
  shows "set (AList.update q l table) = insert (q, l) {e \<in> set table. fst e \<noteq> q}"
  using assms by (induction table) (auto simp: image_iff)

lemma store_lease_fields [simp]:
  "cs_DynamicSplitIncludeDomains (store_lease ex q l c) = cs_DynamicSplitIncludeDomains c"
  "cs_DynamicSplitExcludeDomains (store_lease ex q l c) = cs_DynamicSplitExcludeDomains c"
  by (simp_all add: store_lease_def)

text \<open>A name can only be in the table its lease goes to.\<close>

lemma store_lease_entries:
  assumes "dyn_ok now c" "ex \<longleftrightarrow> \<not> InArrayGeneric (cs_DynamicSplitIncludeDomains c) q"
  shows "set (entries (store_lease ex q l c)) = insert (q, l) {e \<in> set (entries c). fst e \<noteq> q}"
  using assms by (auto simp: dyn_ok_def store_lease_def entries_def update_entries)

lemma texts_insert: "set xs = insert (q, l) {e \<in> set ys. fst e \<noteq> q} \<Longrightarrow> texts xs = set (dl_Addresses l) \<union> texts (filter (\<lambda>(k, l). k \<noteq> q) ys)"
  by (auto simp: texts_def)

lemma dyn_ok_store:
  assumes ok: "dyn_ok now c" and ex: "ex \<longleftrightarrow> \<not> InArrayGeneric (cs_DynamicSplitIncludeDomains c) q"
    and v4: "list_all v4_text (dl_Addresses l)" and exp: "dl_ExpiresAt l \<le> now + maximumDynamicRouteTTL"
    and cnt: "prospectiveDynamicRouteCount c q (dl_Addresses l) \<le> maximumDynamicRoutes"
  shows "dyn_ok now (store_lease ex q l c)"
proof -
  note e = store_lease_entries [OF ok ex, of l]
  have v4s: "\<forall>(k, l) \<in> set (entries c). list_all v4_text (dl_Addresses l)" using ok by (auto simp: dyn_ok_def)
  have "texts (entries (store_lease ex q l c)) = set (other_addresses c q @ dl_Addresses l)"
    using texts_insert [OF e] other_addresses_texts [OF v4s, of q] by auto
  then have "card (texts (entries (store_lease ex q l c))) \<le> maximumDynamicRoutes"
    using cnt by (simp add: prospectiveDynamicRouteCount_def length_remdups_card_conv)
  moreover have "\<forall>(k, l') \<in> set (entries (store_lease ex q l c)). list_all v4_text (dl_Addresses l') \<and> dl_ExpiresAt l' \<le> now + maximumDynamicRouteTTL"
    using ok v4 exp unfolding e by (auto simp: dyn_ok_def)
  ultimately show ?thesis
    using ok ex unfolding dyn_ok_def by (auto simp: store_lease_def distinct_update update_entries)
qed

lemma dyn_ok_mono: "dyn_ok now c \<Longrightarrow> now \<le> now' \<Longrightarrow> dyn_ok now' c"
  by (fastforce simp: dyn_ok_def)

lemma dyn_ok_same:
  assumes "cs_DynamicSplitIncludeResolved c' = cs_DynamicSplitIncludeResolved c" "cs_DynamicSplitExcludeResolved c' = cs_DynamicSplitExcludeResolved c"
    "cs_DynamicSplitIncludeDomains c' = cs_DynamicSplitIncludeDomains c"
  shows "dyn_ok now c' = dyn_ok now c"
  using assms by (simp add: dyn_ok_def entries_def)

lemma fault_and_health [simp]:
  "dyn_ok now (RecordTransportFault t code tr e c) = dyn_ok now c"
  "dyn_ok now (recordNetworkHealth err c) = dyn_ok now c"
  by (rule dyn_ok_same; simp add: RecordTransportFault_def recordNetworkHealth_def)+

lemma dyn_ok_split:
  assumes ok: "dyn_ok now c"
  shows "dyn_ok now (snd (dynamicSplitRoutes decode now data c))"
proof -
  have store: "dyn_ok now (store_lease excl query \<lparr>dl_Addresses = addresses, dl_ExpiresAt = now + lease_ttl ttl\<rparr> c)"
    if "answer_addresses names as [] t0 = (addresses, ttl)" "\<not> maximumDynamicRoutes < prospectiveDynamicRouteCount c query addresses"
      "excl \<longleftrightarrow> \<not> InArrayGeneric (cs_DynamicSplitIncludeDomains c) query" for names as t0 addresses ttl query excl
    using that ok lease_ttl_bounds [of ttl] by (intro dyn_ok_store) (auto dest: answer_addresses_v4)
  from ok show ?thesis
    by (auto simp: dynamicSplitRoutes_def Let_def simp del: answer_addresses.simps allowed_names.simps
        split: option.splits list.splits prod.splits intro!: store)
qed

lemma dyn_ok_expire:
  assumes ok: "dyn_ok now c"
  shows "dyn_ok now (snd (expireDynamicRoutes t c))"
proof -
  let ?c = "snd (expireDynamicRoutes t c)"
  have sub: "set (cs_DynamicSplitIncludeResolved ?c) \<subseteq> set (cs_DynamicSplitIncludeResolved c)"
    "set (cs_DynamicSplitExcludeResolved ?c) \<subseteq> set (cs_DynamicSplitExcludeResolved c)"
    by (auto simp: expireDynamicRoutes_def live_leases_def Let_def)
  then have ent: "set (entries ?c) \<subseteq> set (entries c)" by (auto simp: entries_def)
  have "card (texts (entries ?c)) \<le> card (texts (entries c))" by (intro card_mono texts_subset ent) simp
  moreover have "distinct (map fst (cs_DynamicSplitIncludeResolved ?c))" "distinct (map fst (cs_DynamicSplitExcludeResolved ?c))"
    using ok by (auto simp: dyn_ok_def expireDynamicRoutes_def live_leases_def Let_def distinct_map_filter)
  moreover have "cs_DynamicSplitIncludeDomains ?c = cs_DynamicSplitIncludeDomains c" by (simp add: expireDynamicRoutes_def Let_def)
  ultimately show ?thesis using ok sub ent unfolding dyn_ok_def by (simp only: subset_iff split_paired_all Ball_def split_conv) (meson order_trans)
qed

lemma reconcile_dyn_ok [simp]: "dyn_ok now (snd (reconcileDynamicRoutes setRoutes t s)) = dyn_ok now (snd s)"
  by (cases s) (auto simp: reconcileDynamicRoutes_def split: prod.splits option.splits)

fun event_time :: "dyn_event \<Rightarrow> time" where
  "event_time (DnsPacket now data) = now"
| "event_time (Tick now) = now"

lemma dyn_ok_worker:
  assumes "dyn_ok (event_time ev) (snd s)"
  shows "dyn_ok (event_time ev) (snd (dynamicRouteWorker decode setRoutes ev s))"
proof (cases s)
  case (Pair m c)
  show ?thesis
  proof (cases ev)
    case (DnsPacket now data)
    then show ?thesis using assms dyn_ok_split [of now c decode data] by (auto simp: Pair dynamicRouteWorker_def split: prod.splits)
  next
    case (Tick now)
    then show ?thesis using assms dyn_ok_expire [of now c now] by (auto simp: Pair dynamicRouteWorker_def split: prod.splits)
  qed
qed

lemma dyn_ok_run:
  assumes "sorted (t0 # map event_time evs)" "dyn_ok t0 (snd s)" "\<forall>ev \<in> set evs. event_time ev \<le> now" "t0 \<le> now"
  shows "dyn_ok now (snd (worker_run decode setRoutes evs s))"
  using assms
proof (induction evs arbitrary: t0 s)
  case Nil
  then show ?case using dyn_ok_mono by (auto simp: worker_run_def)
next
  case (Cons ev evs)
  have "dyn_ok (event_time ev) (snd s)" using Cons.prems dyn_ok_mono by auto
  from dyn_ok_worker [OF this] have "dyn_ok (event_time ev) (snd (dynamicRouteWorker decode setRoutes ev s))" .
  from Cons.IH [OF _ this] Cons.prems show ?case by (auto simp: worker_run_def)
qed

lemma routes_texts:
  assumes "\<forall>(k, l) \<in> set (entries c). list_all v4_text (dl_Addresses l)"
  defines "r \<equiv> collectDynamicRoutes c"
  shows "addr_string ` (set (dr_Include r) \<union> set (dr_Exclude r)) = texts (entries c)" "\<forall>a \<in> set (dr_Include r) \<union> set (dr_Exclude r). Is4 a"
proof -
  have eq: "addr_string ` set (parseDynamicAddrs l) = set (dl_Addresses l)" "\<forall>a \<in> set (parseDynamicAddrs l). Is4 a"
    if "(k, l) \<in> set (entries c)" for k l
    using parse_v4_lease [of l] that assms(1) by (auto simp: list_all_iff simp flip: set_map)
  have un: "set (dr_Include r) \<union> set (dr_Exclude r) = (\<Union>e \<in> set (entries c). set (parseDynamicAddrs (snd e)))"
    by (auto simp: r_def collectDynamicRoutes_def entries_def)
  have "(\<Union>e \<in> set (entries c). addr_string ` set (parseDynamicAddrs (snd e))) = (\<Union>e \<in> set (entries c). set (dl_Addresses (snd e)))"
    by (rule SUP_cong [OF refl]) (metis eq(1) prod.collapse)
  then show "addr_string ` (set (dr_Include r) \<union> set (dr_Exclude r)) = texts (entries c)"
    unfolding un by (simp add: image_UN texts_def case_prod_beta)
  show "\<forall>a \<in> set (dr_Include r) \<union> set (dr_Exclude r). Is4 a" unfolding un using eq(2) by force
qed

lemma inj_v4_text: "\<forall>a \<in> A. Is4 a \<Longrightarrow> inj_on addr_string A"
  by (rule inj_onI) (metis Is4.elims(2) ParseAddr_ipv4_string addr_string.simps(1) option.inject)


text \<open>One answer for a name below \<open>example.com\<close>, through an alias, and the packet worker's session for it.\<close>

definition sample_answer :: "8 word list \<Rightarrow> dns_message option" where
  "sample_answer _ =
     Some \<lparr>dm_QR = True, dm_Questions = [\<lparr>qu_Name = ''WWW.example.com.'', qu_Type = 1, qu_Class = 1\<rparr>],
        dm_Answers =
          [\<lparr>an_Name = ''www.example.com'', an_Type = 5, an_Class = 1, an_TTL = 60, an_IP = None, an_CNAME = ''cdn.net''\<rparr>,
           \<lparr>an_Name = ''cdn.net'', an_Type = 1, an_Class = 1, an_TTL = 60, an_IP = Some [10, 1, 2, 3], an_CNAME = []\<rparr>]\<rparr>"

definition split_session :: ConnSession where
  "split_session = NewConnSession False (\<lambda>_. Inr (''example.com'', []))
     (\<lambda>key. if key = ''X-CSTP-Post-Auth-XML'' then [''config''] else [])"

lemma sample_names:
  "normalizeDNSName ''WWW.example.com.'' = Some ''www.example.com''" "normalizeDNSName ''www.example.com'' = Some ''www.example.com''"
  "normalizeDNSName ''cdn.net'' = Some ''cdn.net''" "InArrayGeneric [''example.com''] ''www.example.com''"
  by code_simp+

definition sample_run :: "DynamicRoutes list \<times> ConnSession" where
  "sample_run = worker_run sample_answer (\<lambda>r m. (None, r # m)) [DnsPacket 5 [], Tick 6] ([], split_session)"

lemma split_session_fields:
  "cs_DynamicSplitIncludeResolved split_session = []" "cs_DynamicSplitExcludeResolved split_session = []"
  "cs_DynamicSplitIncludeDomains split_session = [''example.com'']"
  by (simp_all add: split_session_def NewConnSession_def apply_post_auth_def Get_def Let_def)

lemma sample_split:
  "dynamicSplitRoutes sample_answer 5 [] split_session =
     (True, store_lease False ''www.example.com'' \<lparr>dl_Addresses = [ipv4_string 0x0A010203], dl_ExpiresAt = 5 + 60 * second\<rparr> split_session)"
  by (simp add: dynamicSplitRoutes_def sample_answer_def sample_names split_session_fields DNSTypeA_def DNSTypeCNAME_def DNSClassIN_def
      answer_text_def AddrFromSlice_def of_octets_def prospectiveDynamicRouteCount_def other_addresses_def maximumDynamicRoutes_def
      lease_ttl_def minimumDynamicRouteTTL_def maximumDynamicRouteTTL_def second_def Let_def del: InArrayGeneric.simps)


end
