(* ===== verification/Tunsetup.thy ===== *)
theory Tunsetup
  imports Dynroutes Journal Profileio
begin

text \<open>
  How a tunnel is set up after authentication: \<open>internal/anyconnect/tunnel/tunnel.go\<close>, with \<open>setupTun\<close>, \<open>waitManagerUp\<close> and
  \<open>buildOSNetConfig\<close> of \<open>tun.go\<close>. The server, the device and the network manager answer from the record \<open>setup_env\<close>, one field per
  call, so that every branch of \<open>SetupTunnelWithClient\<close> is reached by some record; the state \<open>tun_setup\<close> says what is open and what was
  configured. This is the Linux branch; the fields of the session that are only reported (\<open>LocalAddress\<close>, the socket addresses,
  \<open>Hostname\<close>, \<open>TLSCipherSuite\<close>) are left out. The starting of the packet workers is \<open>Controller\<close>.
\<close>

section \<open>Small helpers\<close>

definition defaultMTU :: int where
  "defaultMTU = 1399"

definition effectiveMTU :: "int \<Rightarrow> int \<Rightarrow> error + int" where
  "effectiveMTU serverMTU profileMTU0 =
     (let profileMTU = (if profileMTU0 \<le> 0 then defaultMTU else profileMTU0)
      in if profileMTU < 576 \<or> 9000 < profileMTU then Inl (Errors (''invalid profile MTU '' @ fmt_d profileMTU))
         else if serverMTU \<le> 0 then Inr profileMTU
         else if serverMTU < 576 \<or> 9000 < serverMTU then Inl (Errors (''invalid server MTU '' @ fmt_d serverMTU))
         else if serverMTU < profileMTU then Inr serverMTU
         else Inr profileMTU)"

text \<open>\<open>net.SplitHostPort\<close> with the reason when it fails.\<close>

definition SplitHostPort_err :: "string \<Rightarrow> error + string \<times> string" where
  "SplitHostPort_err s =
     (case last_colon s of
        None \<Rightarrow> Inl (Errors ''missing port in address'')
      | Some (before, port) \<Rightarrow>
          if s \<noteq> [] \<and> hd s = CHR ''['' then
            (let inner = takeWhile (\<lambda>x. x \<noteq> CHR '']'') (tl s); rest = dropWhile (\<lambda>x. x \<noteq> CHR '']'') (tl s)
             in case rest of
                  [] \<Rightarrow> Inl (Errors (''missing '' @ [CHR 0x27] @ '']'' @ [CHR 0x27] @ '' in address''))
                | _ # after \<Rightarrow>
                    if after = [] then Inl (Errors ''missing port in address'')
                    else if length after \<noteq> length port + 1
                    then (if hd after = CHR '':'' then Inl (Errors ''too many colons in address'') else Inl (Errors ''missing port in address''))
                    else if CHR ''['' \<in> set (tl s) then Inl (Errors ''unexpected [ in address'')
                    else if CHR '']'' \<in> set after then Inl (Errors ''unexpected ] in address'')
                    else Inr (inner, port))
          else if CHR '':'' \<in> set before then Inl (Errors ''too many colons in address'')
          else if CHR ''['' \<in> set s then Inl (Errors ''unexpected [ in address'')
          else if CHR '']'' \<in> set s then Inl (Errors ''unexpected ] in address'')
          else Inr (before, port))"

text \<open>\<open>net.JoinHostPort\<close>\<close>

definition JoinHostPort :: "string \<Rightarrow> string \<Rightarrow> string" where
  "JoinHostPort host port =
     (if CHR '':'' \<in> set host then ''['' @ host @ '']:'' @ port else host @ '':'' @ port)"

definition tlsServerName :: "string \<Rightarrow> error + string" where
  "tlsServerName hostPort =
     (case SplitHostPort_err (TrimSpace hostPort) of
        Inl e \<Rightarrow> Inl (Wrap (''invalid VPN server address '' @ hostPort @ '': '') e [])
      | Inr (host, _) \<Rightarrow> if host = [] then Inl (Errors ''VPN server hostname is empty'') else Inr host)"

section \<open>The profile\<close>

text \<open>\<open>auth.Profile\<close>\<close>

record auth_Profile =
  ap_Host :: string
  ap_Username :: string
  ap_Password :: string
  ap_Group :: string
  ap_SecretKey :: string
  ap_AcceptServerRoutes :: bool
  ap_ApplyDNS :: bool
  ap_CustomInclude :: "string list"
  ap_CustomExclude :: "string list"
  ap_DNSOverrides :: "string list"
  ap_MTU :: int
  ap_Initialized :: bool
  ap_AppVersion :: string
  ap_GroupAccess :: string
  ap_HostWithPort :: string
  ap_Scheme :: string
  ap_AuthPath :: string
  ap_MacAddress :: string
  ap_TunnelGroup :: string
  ap_GroupAlias :: string
  ap_ConfigHash :: string
  ap_ComputerName :: string
  ap_DeviceType :: string
  ap_PlatformVersion :: string
  ap_UniqueId :: string

definition blank_profile :: auth_Profile where
  "blank_profile =
     \<lparr>ap_Host = [], ap_Username = [], ap_Password = [], ap_Group = [], ap_SecretKey = [], ap_AcceptServerRoutes = False, ap_ApplyDNS = False,
      ap_CustomInclude = [], ap_CustomExclude = [], ap_DNSOverrides = [], ap_MTU = 0, ap_Initialized = False, ap_AppVersion = [],
      ap_GroupAccess = [], ap_HostWithPort = [], ap_Scheme = [], ap_AuthPath = [], ap_MacAddress = [], ap_TunnelGroup = [],
      ap_GroupAlias = [], ap_ConfigHash = [], ap_ComputerName = [], ap_DeviceType = [], ap_PlatformVersion = [], ap_UniqueId = []\<rparr>"

text \<open>The request headers of \<open>initTunnel\<close>; \<open>secret\<close> is what \<open>utils.MakeMasterSecret\<close> returns.\<close>

definition initTunnel :: "auth_Profile \<Rightarrow> string \<Rightarrow> string \<Rightarrow> error + 8 word list \<Rightarrow> error + (string \<times> string) list" where
  "initTunnel prof token ip4 secret =
     (let requestedMTU = (if ap_MTU prof \<le> 0 then defaultMTU else ap_MTU prof)
      in case secret of
           Inl e \<Rightarrow> Inl (Wrap ''generate DTLS master secret: '' e [])
         | Inr masterSecret \<Rightarrow>
             Inr [(''X-CSTP-VPNAddress-Type'', ''IPv4''),
                  (''X-CSTP-MTU'', fmt_d requestedMTU),
                  (''X-CSTP-Base-MTU'', fmt_d requestedMTU),
                  (''Cookie'', ''webvpn='' @ token),
                  (''X-CSTP-Local-VPNAddress-IP4'', ip4),
                  (''X-DTLS-Master-Secret'', hex_encode masterSecret),
                  (''X-DTLS12-CipherSuite'',
                   ''ECDHE-ECDSA-AES256-GCM-SHA384:ECDHE-RSA-AES256-GCM-SHA384:ECDHE-ECDSA-AES128-GCM-SHA256:ECDHE-RSA-AES128-GCM-SHA256:AES128-GCM-SHA256'')])"

text \<open>\<open>makeMasterSecretFrom\<close>: the protocol version 1.2 of DTLS and 46 bytes of the random source.\<close>

definition makeMasterSecretFrom :: "reader \<Rightarrow> error + 8 word list" where
  "makeMasterSecretFrom r = (case fst (ReadFull 46 r) of Inl e \<Rightarrow> Inl e | Inr bs \<Rightarrow> Inr ([0xFE, 0xFD] @ bs))"

definition applyProfileOverridesWithProfile :: "auth_Profile \<Rightarrow> ConnSession \<Rightarrow> ConnSession" where
  "applyProfileOverridesWithProfile prof c =
     (let serverInclude = (if ap_AcceptServerRoutes prof then cs_SplitInclude c else []);
          serverExclude = (if ap_AcceptServerRoutes prof then cs_SplitExclude c else []);
          c = (if ap_AcceptServerRoutes prof then c
               else c\<lparr>cs_DynamicSplitTunneling := False, cs_DynamicSplitIncludeDomains := [], cs_DynamicSplitExcludeDomains := [],
                      cs_UseDefaultRouteWhenEmpty := False\<rparr>);
          merged = MergeRouteLists serverInclude serverExclude (ap_CustomInclude prof) (ap_CustomExclude prof);
          c = c\<lparr>cs_SplitInclude := rl_Include merged, cs_SplitExclude := rl_Exclude merged\<rparr>
      in if \<not> ap_ApplyDNS prof then c\<lparr>cs_DNS := []\<rparr>
         else
           (let c = (if ap_DNSOverrides prof \<noteq> [] then c\<lparr>cs_DNS := ap_DNSOverrides prof\<rparr> else c)
            in if cs_SplitInclude c = [] then c\<lparr>cs_UseDefaultRouteWhenEmpty := ap_AcceptServerRoutes prof\<rparr>
               else c\<lparr>cs_UseDefaultRouteWhenEmpty := False\<rparr>))"

section \<open>The network configuration\<close>

definition parseServerAddress :: "string \<Rightarrow> error + addr option" where
  "parseServerAddress raw0 =
     (let raw = TrimSpace raw0
      in if raw = [] then Inr None
         else (case ParseAddr raw of
                 None \<Rightarrow> Inl (Errors (''invalid VPN server address '' @ raw))
               | Some a \<Rightarrow> Inr (Some (Unmap a))))"

definition appendUniquePrefix :: "Netip.prefix list \<Rightarrow> Netip.prefix \<Rightarrow> Netip.prefix list" where
  "appendUniquePrefix ps p0 = (let p = Masked p0 in if p \<in> Masked ` set ps then ps else ps @ [p])"

text \<open>The last part of \<open>buildOSNetConfig\<close>: the physical side, from the session's snapshot or from the default interface.\<close>

definition config_underlay :: "error + LocalInterface \<Rightarrow> ConnSession \<Rightarrow> Config \<Rightarrow> error + Config" where
  "config_underlay localIf c cfg =
     (if us_LocalIPv4 (cs_Underlay c) \<noteq> None
      then Inr (cfg\<lparr>cf_Underlay := cs_Underlay c, cf_GatewayInterfaceIndex := us_GatewayInterface (cs_Underlay c),
                    cf_Gateway := us_Gateway (cs_Underlay c)\<rparr>)
      else (case localIf of
              Inl e \<Rightarrow> Inl (Wrap ''resolve physical underlay: '' e [])
            | Inr info \<Rightarrow>
                Inr (cfg\<lparr>cf_GatewayInterfaceIndex := li_InterfaceIndex info,
                         cf_Gateway := (if li_Gateway info = [] then None else map_option Unmap (ParseAddr (li_Gateway info)))\<rparr>)))"

definition buildOSNetConfig :: "error + LocalInterface \<Rightarrow> ConnSession \<Rightarrow> error + Config" where
  "buildOSNetConfig localIf c =
     (case PrefixFromIPMask (cs_VPNAddress c) (cs_VPNMask c) of
        None \<Rightarrow> Inl (Errors ''invalid VPN address'')
      | Some vpnPrefix \<Rightarrow>
          (case parseServerAddress (cs_ServerAddress c) of
             Inl e \<Rightarrow> Inl e
           | Inr serverAddress \<Rightarrow>
               (case ParsePrefixes (cs_SplitInclude c) of
                  None \<Rightarrow> Inl (Errors ''invalid included route'')
                | Some incl \<Rightarrow>
                    (case ParsePrefixes (cs_SplitExclude c) of
                       None \<Rightarrow> Inl (Errors ''invalid excluded route'')
                     | Some excl \<Rightarrow>
                         (let incl = (if cs_UseDefaultRouteWhenEmpty c \<and> incl = [] then [PrefixFrom (V4 0) 0] else incl);
                              excl = (case serverAddress of None \<Rightarrow> excl | Some a \<Rightarrow> appendUniquePrefix excl (PrefixFrom a (BitLen a)))
                          in case ParseAddrs (cs_DNS c) of
                               None \<Rightarrow> Inl (Errors ''invalid DNS server'')
                             | Some dns \<Rightarrow>
                                 (case config_underlay localIf c
                                         \<lparr>cf_InterfaceName = cs_TunName c, cf_InterfaceIndex = 0, cf_VPNAddress = Some vpnPrefix, cf_MTU = cs_MTU c,
                                          cf_Underlay = zero_underlay, cf_ServerAddress = None, cf_Gateway = None, cf_GatewayInterfaceIndex = 0,
                                          cf_IncludeRoutes = incl, cf_ExcludeRoutes = excl, cf_DNSServers = dns\<rparr> of
                                    Inl e \<Rightarrow> Inl e
                                  | Inr cfg \<Rightarrow> Inr (cfg\<lparr>cf_ServerAddress := serverAddress\<rparr>)))))))"

section \<open>Setting up\<close>

datatype dtls_outcome = DtlsUp | DtlsDown | ClosedMeanwhile | DtlsTimeout

record setup_env =
  se_secret :: "error + 8 word list"
  se_newRequest :: "error option"
  se_write :: "error option"
  se_response :: "error + int \<times> string \<times> (string \<Rightarrow> string list)"   \<comment> \<open>status code, status, headers\<close>
  se_unmarshal :: "string \<Rightarrow> error + string \<times> string"
  se_noDTLS :: bool
  se_remote :: string
  se_createTUN :: "error option"
  se_newManager :: "error option"
  se_up :: "error option list"                                      \<comment> \<open>the calls of \<open>manager.Up\<close> until the deadline, at least one\<close>
  se_devName :: "error + string"
  se_underlay :: "error + UnderlaySnapshot"
  se_localIf :: "error + LocalInterface"
  se_set :: "error option"
  se_startTun :: "error option"
  se_dtls :: dtls_outcome

record tun_setup =
  su_client :: bool                 \<comment> \<open>the TLS connection is open\<close>
  su_sess :: "ConnSession option"
  su_dev :: bool                    \<comment> \<open>the device exists\<close>
  su_mgr :: bool                    \<comment> \<open>there is a manager that was not closed\<close>
  su_config :: "Config option"      \<comment> \<open>what the manager has applied\<close>
  su_controller :: bool             \<comment> \<open>the controller has started the workers and owns device and manager\<close>
  su_channels :: bool               \<comment> \<open>the TLS channel runs\<close>
  su_timers :: bool

definition map_sess :: "(ConnSession \<Rightarrow> ConnSession) \<Rightarrow> tun_setup \<Rightarrow> tun_setup" where
  "map_sess f s = s\<lparr>su_sess := map_option f (su_sess s)\<rparr>"

definition close_client :: "tun_setup \<Rightarrow> tun_setup" where
  "close_client s = s\<lparr>su_client := False\<rparr>"

definition close_tun :: "tun_setup \<Rightarrow> tun_setup" where
  "close_tun s = s\<lparr>su_mgr := False, su_dev := False, su_config := None\<rparr>"

fun waitManagerUp :: "error option list \<Rightarrow> error option" where
  "waitManagerUp [] = Some (Errors ''context deadline exceeded'')"
| "waitManagerUp [r] = r"
| "waitManagerUp (r # rs) = (case r of None \<Rightarrow> None | Some _ \<Rightarrow> waitManagerUp rs)"

definition setupTun :: "setup_env \<Rightarrow> tun_setup \<Rightarrow> error option \<times> tun_setup" where
  "setupTun env s =
     (let s = map_sess (\<lambda>c. c\<lparr>cs_TunName := ''flexconnect''\<rparr>) s
      in case se_createTUN env of
           Some e \<Rightarrow> (Some e, s)
         | None \<Rightarrow>
             (case se_newManager env of
                Some e \<Rightarrow> (Some e, s)
              | None \<Rightarrow>
                  (case waitManagerUp (se_up env) of
                     Some e \<Rightarrow> (Some e, close_tun s)
                   | None \<Rightarrow>
                       (let s = (case se_devName env of
                                   Inr name \<Rightarrow> if name \<noteq> [] then map_sess (\<lambda>c. c\<lparr>cs_TunName := name\<rparr>) s else s
                                 | Inl _ \<Rightarrow> s)
                        in (None, s\<lparr>su_dev := True, su_mgr := True\<rparr>)))))"

text \<open>The answer to the CONNECT request, or an error.\<close>

definition negotiate :: "setup_env \<Rightarrow> auth_Profile \<Rightarrow> string \<Rightarrow> string \<Rightarrow> tun_setup \<Rightarrow> (error + (string \<Rightarrow> string list)) \<times> tun_setup" where
  "negotiate env prof token ip4 s =
     (if \<not> su_client s then (Inl (Errors ''authentication client is not connected''), s)
      else (case initTunnel prof token ip4 (se_secret env) of
              Inl e \<Rightarrow> (Inl e, s)
            | Inr _ \<Rightarrow>
                (case se_newRequest env of
                   Some e \<Rightarrow> (Inl e, s)
                 | None \<Rightarrow>
                     (case se_write env of
                        Some e \<Rightarrow> (Inl e, close_client s)
                      | None \<Rightarrow>
                          (case se_response env of
                             Inl e \<Rightarrow> (Inl e, close_client s)
                           | Inr (code, status, header) \<Rightarrow>
                               if code \<noteq> 200 then (Inl (Errors (''tunnel negotiation failed '' @ status)), close_client s)
                               else (Inr header, s))))))"

text \<open>The new session up to the profile's overrides.\<close>

definition new_session :: "stamp \<Rightarrow> setup_env \<Rightarrow> auth_Profile \<Rightarrow> (string \<Rightarrow> string list) \<Rightarrow> tun_setup \<Rightarrow> error option \<times> tun_setup" where
  "new_session now env prof header s =
     (let c = NewConnSession (se_noDTLS env) (se_unmarshal env) header; s = s\<lparr>su_sess := Some c\<rparr>
      in case tlsServerName (ap_HostWithPort prof) of
           Inl e \<Rightarrow> (Some e, close_client s)
         | Inr name \<Rightarrow>
             (let s = map_sess (\<lambda>c. c\<lparr>cs_TLSServerName := name\<rparr>) s
              in case effectiveMTU (cs_MTU c) (ap_MTU prof) of
                   Inl e \<Rightarrow> (Some e, map_sess (\<lambda>c. session_Close now (RecordClose now ''invalid_mtu'' ''tls'' (Some e) c)) (close_client s))
                 | Inr mtu \<Rightarrow>
                     (let s = map_sess (\<lambda>c. c\<lparr>cs_MTU := mtu\<rparr>) s
                      in case SplitHostPort_err (se_remote env) of
                           Inl e \<Rightarrow> (Some (Wrap ''parse VPN server socket: '' e []), map_sess (session_Close now) (close_client s))
                         | Inr (serverAddress, _) \<Rightarrow>
                             (None, map_sess (\<lambda>c. applyProfileOverridesWithProfile prof (c\<lparr>cs_ServerAddress := serverAddress\<rparr>)) s))))"

definition give_up :: "stamp \<Rightarrow> string \<Rightarrow> string \<Rightarrow> error \<Rightarrow> tun_setup \<Rightarrow> tun_setup" where
  "give_up now code transport e s = map_sess (\<lambda>c. session_Close now (RecordClose now code transport (Some e) c)) (close_tun (close_client s))"

text \<open>Device, physical path, configuration, workers. A failed \<open>Set\<close> is rolled back by closing the manager.\<close>

definition configure_tun :: "stamp \<Rightarrow> setup_env \<Rightarrow> tun_setup \<Rightarrow> error option \<times> tun_setup" where
  "configure_tun now env s =
     (case setupTun env s of
        (Some e, s) \<Rightarrow> (Some e, map_sess (session_Close now) (close_client s))
      | (None, s) \<Rightarrow>
          (case se_underlay env of
             Inl e \<Rightarrow> (Some e, give_up now ''underlay_snapshot_failed'' ''network'' e s)
           | Inr underlay \<Rightarrow>
               (let s = map_sess (\<lambda>c. c\<lparr>cs_Underlay := underlay\<rparr>) s
                in case su_sess s of
                     None \<Rightarrow> (None, s)
                   | Some c \<Rightarrow>
                       (case buildOSNetConfig (se_localIf env) c of
                          Inl e \<Rightarrow> (Some e, give_up now ''net_config_build_failed'' ''network'' e s)
                        | Inr netCfg \<Rightarrow>
                            (case se_set env of
                               Some e \<Rightarrow> (Some e, give_up now ''net_config_apply_failed'' ''network'' e s)
                             | None \<Rightarrow>
                                 (case se_startTun env of
                                    Some e \<Rightarrow> (Some e, give_up now ''tun_start_failed'' ''tun'' e s)
                                  | None \<Rightarrow> (None, s\<lparr>su_config := Some netCfg, su_controller := True, su_channels := True\<rparr>)))))))"

text \<open>The end: the DTLS channel, when it is offered, has to come up.\<close>

definition await_dtls :: "setup_env \<Rightarrow> tun_setup \<Rightarrow> error option \<times> tun_setup" where
  "await_dtls env s =
     (if \<not> se_noDTLS env \<and> (case su_sess s of None \<Rightarrow> False | Some c \<Rightarrow> cs_DTLSPort c \<noteq> [])
      then (case se_dtls env of
              DtlsUp \<Rightarrow> (None, s\<lparr>su_timers := True\<rparr>)
            | DtlsDown \<Rightarrow> (Some (Errors ''DTLS was offered but negotiation failed''), s)
            | ClosedMeanwhile \<Rightarrow> (Some (Errors ''VPN session closed during DTLS negotiation''), s)
            | DtlsTimeout \<Rightarrow> (Some (Errors ''DTLS negotiation exceeded 25 seconds''), s))
      else (None, s\<lparr>su_timers := True\<rparr>))"

definition SetupTunnelWithClient :: "stamp \<Rightarrow> setup_env \<Rightarrow> auth_Profile \<Rightarrow> string \<Rightarrow> string \<Rightarrow> tun_setup \<Rightarrow> error option \<times> tun_setup" where
  "SetupTunnelWithClient now env prof token ip4 s =
     (case negotiate env prof token ip4 s of
        (Inl e, s) \<Rightarrow> (Some e, s)
      | (Inr header, s) \<Rightarrow>
          (case new_session now env prof header s of
             (Some e, s) \<Rightarrow> (Some e, s)
           | (None, s) \<Rightarrow>
               (case configure_tun now env s of
                  (Some e, s) \<Rightarrow> (Some e, s)
                | (None, s) \<Rightarrow> await_dtls env s)))"

section \<open>What reaches the network manager\<close>

definition wf_prefix :: "Netip.prefix \<Rightarrow> bool" where
  "wf_prefix p \<longleftrightarrow> snd p \<le> BitLen (fst p) \<and> withoutZone (fst p) = fst p"

text \<open>A configuration the operating system can take: a VPN address, prefixes whose length fits their address and that have no zone,
  addresses that are not IPv4 in IPv6 form, and a route around the tunnel for the VPN server itself.\<close>

definition wf_config :: "Config \<Rightarrow> bool" where
  "wf_config cfg \<longleftrightarrow>
     (case cf_VPNAddress cfg of None \<Rightarrow> False | Some p \<Rightarrow> wf_prefix p) \<and>
     list_all wf_prefix (cf_IncludeRoutes cfg) \<and> list_all wf_prefix (cf_ExcludeRoutes cfg) \<and>
     list_all (\<lambda>a. Unmap a = a) (cf_DNSServers cfg) \<and>
     (case cf_ServerAddress cfg of
        None \<Rightarrow> True
      | Some a \<Rightarrow> Unmap a = a \<and> Masked (PrefixFrom a (BitLen a)) \<in> Masked ` set (cf_ExcludeRoutes cfg))"

lemma BitLen_withoutZone [simp]: "BitLen (withoutZone a) = BitLen a"
  by (cases a) auto

lemma withoutZone_idem [simp]: "withoutZone (withoutZone a) = withoutZone a"
  by (cases a) auto

lemma Unmap_idem [simp]: "Unmap (Unmap a) = Unmap a"
  by (cases a) auto

lemma wf_PrefixFrom: "b \<le> BitLen a \<Longrightarrow> wf_prefix (PrefixFrom a b)"
  by (simp add: wf_prefix_def PrefixFrom_def)

lemma wf_Masked: "wf_prefix p \<Longrightarrow> wf_prefix (Masked p)"
  by (cases p rule: Masked.cases) (auto simp: wf_prefix_def)

lemma mask_ones_le:
  assumes "mask_ones m = Some n"
  shows "n \<le> 32"
proof -
  have "n \<in> set [0..<33]" using assms unfolding mask_ones_def find_Some_iff by (metis nth_mem)
  then show ?thesis unfolding set_upt by simp
qed

lemma BitLen_ge: "n \<le> 32 \<Longrightarrow> n \<le> BitLen a"
  by (cases a) auto

lemma wf_PrefixFromIPMask:
  assumes "PrefixFromIPMask ip m = Some p"
  shows "wf_prefix p"
proof -
  obtain a pm n where "mask_ones pm = Some n" "p = PrefixFrom (Unmap a) n"
    using assms by (auto simp: PrefixFromIPMask_def split: option.splits)
  then show ?thesis by (simp add: wf_PrefixFrom BitLen_ge mask_ones_le)
qed

lemma wf_ParsePrefix: "Netip.ParsePrefix s = Some p \<Longrightarrow> wf_prefix p"
  by (auto simp: Netip.ParsePrefix_def wf_prefix_def Let_def split: if_splits option.splits)

lemma wf_osnet_ParsePrefix: "osnet_ParsePrefix raw = Some p \<Longrightarrow> wf_prefix p"
  by (auto simp: osnet_ParsePrefix_def Let_def intro: wf_PrefixFromIPMask wf_Masked wf_ParsePrefix wf_PrefixFrom split: if_splits option.splits)

lemma wf_ParsePrefixes: "ParsePrefixes raw = Some ps \<Longrightarrow> list_all wf_prefix ps"
  by (induction raw arbitrary: ps) (auto split: if_splits option.splits dest: wf_osnet_ParsePrefix)

lemma ParseAddrs_unmapped: "ParseAddrs raw = Some as \<Longrightarrow> list_all (\<lambda>a. Unmap a = a) as"
  by (induction raw arbitrary: as) (auto split: if_splits option.splits)

lemma appendUniquePrefix_protects:
  "list_all wf_prefix ps \<Longrightarrow> wf_prefix p \<Longrightarrow> list_all wf_prefix (appendUniquePrefix ps p) \<and> Masked p \<in> Masked ` set (appendUniquePrefix ps p)"
  by (auto simp: appendUniquePrefix_def Let_def wf_Masked)

lemma config_underlay_fields:
  assumes "config_underlay localIf c cfg = Inr cfg'"
  shows "cf_VPNAddress cfg' = cf_VPNAddress cfg \<and> cf_IncludeRoutes cfg' = cf_IncludeRoutes cfg \<and> cf_ExcludeRoutes cfg' = cf_ExcludeRoutes cfg \<and>
    cf_DNSServers cfg' = cf_DNSServers cfg \<and> cf_MTU cfg' = cf_MTU cfg"
  using assms by (auto simp: config_underlay_def split: if_splits sum.splits)

lemma parseServerAddress_unmapped: "parseServerAddress raw = Inr (Some a) \<Longrightarrow> Unmap a = a"
  by (auto simp: parseServerAddress_def Let_def split: if_splits option.splits)

lemma buildOSNetConfig_cases:
  assumes "buildOSNetConfig localIf c = Inr cfg"
  obtains vpn server incl excl dns cfg0 where "PrefixFromIPMask (cs_VPNAddress c) (cs_VPNMask c) = Some vpn"
    "parseServerAddress (cs_ServerAddress c) = Inr server" "ParsePrefixes (cs_SplitInclude c) = Some incl"
    "ParsePrefixes (cs_SplitExclude c) = Some excl" "ParseAddrs (cs_DNS c) = Some dns"
    "cf_VPNAddress cfg = Some vpn" "cf_IncludeRoutes cfg = (if cs_UseDefaultRouteWhenEmpty c \<and> incl = [] then [PrefixFrom (V4 0) 0] else incl)"
    "cf_ExcludeRoutes cfg = (case server of None \<Rightarrow> excl | Some a \<Rightarrow> appendUniquePrefix excl (PrefixFrom a (BitLen a)))"
    "cf_DNSServers cfg = dns" "cf_ServerAddress cfg = server" "cf_MTU cfg = cs_MTU c"
  using assms
  by (auto simp: buildOSNetConfig_def Let_def split: option.splits sum.splits dest!: config_underlay_fields)

lemma buildOSNetConfig_wf:
  assumes "buildOSNetConfig localIf c = Inr cfg"
  shows "wf_config cfg \<and> cf_MTU cfg = cs_MTU c"
proof -
  from assms obtain vpn server incl excl dns cfg0 where f: "PrefixFromIPMask (cs_VPNAddress c) (cs_VPNMask c) = Some vpn"
    "parseServerAddress (cs_ServerAddress c) = Inr server" "ParsePrefixes (cs_SplitInclude c) = Some incl"
    "ParsePrefixes (cs_SplitExclude c) = Some excl" "ParseAddrs (cs_DNS c) = Some dns"
    "cf_VPNAddress cfg = Some vpn" "cf_IncludeRoutes cfg = (if cs_UseDefaultRouteWhenEmpty c \<and> incl = [] then [PrefixFrom (V4 0) 0] else incl)"
    "cf_ExcludeRoutes cfg = (case server of None \<Rightarrow> excl | Some a \<Rightarrow> appendUniquePrefix excl (PrefixFrom a (BitLen a)))"
    "cf_DNSServers cfg = dns" "cf_ServerAddress cfg = server" "cf_MTU cfg = cs_MTU c" by (rule buildOSNetConfig_cases)
  have "wf_prefix vpn" "list_all wf_prefix incl" and e: "list_all wf_prefix excl" and "list_all (\<lambda>a. Unmap a = a) dns"
    using f wf_PrefixFromIPMask wf_ParsePrefixes ParseAddrs_unmapped by blast+
  moreover have "list_all wf_prefix (cf_ExcludeRoutes cfg) \<and>
      (case server of None \<Rightarrow> True | Some a \<Rightarrow> Unmap a = a \<and> Masked (PrefixFrom a (BitLen a)) \<in> Masked ` set (cf_ExcludeRoutes cfg))"
    using f(2) e appendUniquePrefix_protects [OF e wf_PrefixFrom] by (auto simp: f(8) parseServerAddress_unmapped split: option.splits)
  ultimately show ?thesis using f by (simp add: wf_config_def wf_PrefixFrom)
qed

lemma effectiveMTU_bounds: "effectiveMTU a b = Inr mtu \<Longrightarrow> 576 \<le> mtu \<and> mtu \<le> 9000"
  by (auto simp: effectiveMTU_def Let_def split: if_splits)

lemma overrides_MTU [simp]: "cs_MTU (applyProfileOverridesWithProfile prof c) = cs_MTU c"
  by (simp add: applyProfileOverridesWithProfile_def Let_def)

lemma negotiate_keeps:
  assumes "negotiate env prof token ip4 s = (r, t)"
  shows "su_config t = su_config s \<and> su_dev t = su_dev s \<and> su_mgr t = su_mgr s \<and> su_controller t = su_controller s \<and> su_sess t = su_sess s"
  using assms by (auto simp: negotiate_def close_client_def split: if_splits sum.splits option.splits)

lemma new_session_keeps:
  assumes "new_session now env prof header s = (r, t)"
  shows "su_config t = su_config s \<and> su_dev t = su_dev s \<and> su_mgr t = su_mgr s \<and> su_controller t = su_controller s"
  using assms by (auto simp: new_session_def Let_def close_client_def map_sess_def split: sum.splits)

lemma new_session_MTU:
  assumes "new_session now env prof header s = (None, t)"
  shows "\<exists>c. su_sess t = Some c \<and> 576 \<le> cs_MTU c \<and> cs_MTU c \<le> 9000"
  using assms by (auto simp: new_session_def Let_def map_sess_def dest!: effectiveMTU_bounds split: sum.splits)

lemma setupTun_keeps:
  assumes "setupTun env s = (r, t)"
  shows "su_controller t = su_controller s \<and> (su_config t = su_config s \<or> su_config t = None) \<and>
    map_option cs_MTU (su_sess t) = map_option cs_MTU (su_sess s)"
  using assms
  by (auto simp: setupTun_def Let_def map_sess_def close_tun_def option.map_comp comp_def split: option.splits sum.splits if_splits)

lemma configure_config:
  assumes "configure_tun now env s = (r, t)" "su_config s = None" "su_config t = Some cfg"
  shows "r = None \<and> (\<exists>c. su_sess t = Some c \<and> buildOSNetConfig (se_localIf env) c = Inr cfg \<and> cs_MTU c = cs_MTU (the (su_sess s)))"
proof -
  obtain r1 s1 where s1: "setupTun env s = (r1, s1)" by fastforce
  note k = setupTun_keeps [OF s1]
  show ?thesis
    using assms k
    by (cases "su_sess s") (auto simp: configure_tun_def s1 Let_def give_up_def map_sess_def close_tun_def close_client_def
        split: option.splits sum.splits)
qed

lemma setup_config_ok:
  assumes "SetupTunnelWithClient now env prof token ip4 s = (r, t)" "su_config s = None" "su_config t = Some cfg"
  shows "wf_config cfg \<and> 576 \<le> cf_MTU cfg \<and> cf_MTU cfg \<le> 9000"
proof -
  obtain h s1 where n: "negotiate env prof token ip4 s = (Inr h, s1)" and c1: "su_config s1 = None"
    using assms negotiate_keeps by (fastforce simp: SetupTunnelWithClient_def split: prod.splits sum.splits)
  obtain r2 s2 where ns: "new_session now env prof h s1 = (r2, s2)" by fastforce
  have c2: "su_config s2 = None" using new_session_keeps [OF ns] c1 by simp
  have r2: "r2 = None" using assms n ns c2 by (cases r2) (auto simp: SetupTunnelWithClient_def)
  obtain c where c: "su_sess s2 = Some c" "576 \<le> cs_MTU c" "cs_MTU c \<le> 9000" using new_session_MTU ns r2 by blast
  obtain r3 s3 where ct: "configure_tun now env s2 = (r3, s3)" by fastforce
  have "su_config t = su_config s3"
    using assms(1) n ns r2 ct by (auto simp: SetupTunnelWithClient_def await_dtls_def split: option.splits dtls_outcome.splits if_splits)
  with configure_config [OF ct c2] assms(3) c obtain c' where "buildOSNetConfig (se_localIf env) c' = Inr cfg" "cs_MTU c' = cs_MTU c"
    by auto
  with buildOSNetConfig_wf c show ?thesis by metis
qed

text \<open>C20: what the network manager is told is well formed. Whatever the server sends in its headers and the profile asks for, a
  configuration that \<open>SetupTunnelWithClient\<close> has applied names a VPN address; each of its prefixes has a length that fits its address family and
  no zone; its DNS servers are plain addresses; its MTU is between 576 and 9000; and the VPN server itself is excluded from the
  tunnel, so that the tunnel's own packets cannot be routed into it.\<close>

theorem applied_config_well_formed:
  assumes "SetupTunnelWithClient now env prof token ip4 s = (r, t)" "su_config s = None" "su_config t = Some cfg"
  shows "wf_config cfg \<and> 576 \<le> cf_MTU cfg \<and> cf_MTU cfg \<le> 9000"
  using assms by (rule setup_config_ok)

text \<open>A server that sends the whole traffic through the tunnel; \<open>Set\<close> answers \<open>set_result\<close>.\<close>

definition sample_headers :: "string \<Rightarrow> string list" where
  "sample_headers key =
     (if key = ''X-CSTP-Address'' then [''10.0.0.2''] else if key = ''X-CSTP-Netmask'' then [''255.255.255.0'']
      else if key = ''X-CSTP-MTU'' then [''1300''] else if key = ''X-CSTP-DNS'' then [''10.0.0.1''] else [])"

definition sample_underlay :: UnderlaySnapshot where
  "sample_underlay = zero_underlay\<lparr>us_LocalIPv4 := Some (V4 0xC0A80005), us_Gateway := Some (V4 0xC0A80001), us_GatewayInterface := 2\<rparr>"

definition sample_env :: "error option \<Rightarrow> setup_env" where
  "sample_env set_result =
     \<lparr>se_secret = Inr [], se_newRequest = None, se_write = None, se_response = Inr (200, ''200 OK'', sample_headers),
      se_unmarshal = (\<lambda>_. Inl (Errors [])), se_noDTLS = True, se_remote = ''198.51.100.7:443'', se_createTUN = None, se_newManager = None,
      se_up = [None], se_devName = Inr ''flexconnect'', se_underlay = Inr sample_underlay, se_localIf = Inl (Errors []), se_set = set_result, se_startTun = None,
      se_dtls = DtlsDown\<rparr>"

definition sample_auth_profile :: auth_Profile where
  "sample_auth_profile =
     blank_profile\<lparr>ap_Host := ''vpn.example.com'', ap_Username := ''u'', ap_Password := ''p'', ap_AcceptServerRoutes := True, ap_ApplyDNS := True,
       ap_HostWithPort := ''vpn.example.com:443'', ap_Scheme := ''https://''\<rparr>"

definition connected :: tun_setup where
  "connected = \<lparr>su_client = True, su_sess = None, su_dev = False, su_mgr = False, su_config = None, su_controller = False,
     su_channels = False, su_timers = False\<rparr>"

lemma sample_trims:
  "TrimSpace ''10.0.0.2'' = ''10.0.0.2''" "TrimSpace ''255.255.255.0'' = ''255.255.255.0''" "TrimSpace ''10.0.0.1'' = ''10.0.0.1''"
  "TrimSpace ''198.51.100.7'' = ''198.51.100.7''" "TrimSpace ''vpn.example.com:443'' = ''vpn.example.com:443''"
  by (rule TrimSpace_word; simp)+

lemma sample_parses:
  "tlsServerName ''vpn.example.com:443'' = Inr ''vpn.example.com''"
  "SplitHostPort_err ''198.51.100.7:443'' = Inr (''198.51.100.7'', ''443'')"
  "parseServerAddress ''198.51.100.7'' = Inr (Some (V4 0xC6336407))"
  "ParseAddrs [''10.0.0.1''] = Some [V4 0x0A000001]"
  "Atoi_value ''1300'' = 1300"
  by (simp_all add: tlsServerName_def SplitHostPort_err_def last_colon_def sample_trims parseServerAddress_def ipv4_eval Atoi_value_def)

lemma sample_vpn: "PrefixFromIPMask ''10.0.0.2'' ''255.255.255.0'' = Some (V4 0x0A000002, 24)"
  by (simp add: PrefixFromIPMask_def sample_trims ParseIP_To4_def ipv4_eval PrefixFrom_def mask_eval)

lemma no_routes: "MergeRouteLists [] [] [] [] = \<lparr>rl_Include = [], rl_Exclude = []\<rparr>"
  by (simp add: MergeRouteLists_def mergeRoutes_def)

lemma sample_new_session:
  "\<exists>s c. negotiate (sample_env r) sample_auth_profile ''token'' ''192.168.0.5'' connected = (Inr sample_headers, connected) \<and>
     new_session None (sample_env r) sample_auth_profile sample_headers connected = (None, s) \<and> su_sess s = Some c \<and> su_config s = None \<and>
     cs_VPNAddress c = ''10.0.0.2'' \<and> cs_VPNMask c = ''255.255.255.0'' \<and> cs_DNS c = [''10.0.0.1''] \<and> cs_MTU c = 1300 \<and>
     cs_ServerAddress c = ''198.51.100.7'' \<and> cs_SplitInclude c = [] \<and> cs_SplitExclude c = [] \<and> cs_UseDefaultRouteWhenEmpty c"
  by (simp add: negotiate_def new_session_def connected_def sample_env_def sample_auth_profile_def blank_profile_def initTunnel_def sample_parses map_sess_def
      NewConnSession_def Get_def sample_headers_def effectiveMTU_def defaultMTU_def applyProfileOverridesWithProfile_def no_routes Let_def)

lemma sample_env_fields:
  "se_underlay (sample_env r) = Inr sample_underlay" "se_set (sample_env r) = r" "se_startTun (sample_env r) = None" "se_localIf (sample_env r) = Inl (Errors [])"
  "se_noDTLS (sample_env r)"
  by (simp_all add: sample_env_def)

lemma sample_setupTun:
  assumes "su_sess s = Some c"
  shows "\<exists>s1. setupTun (sample_env r) s = (None, s1) \<and> su_sess s1 = Some (c\<lparr>cs_TunName := ''flexconnect''\<rparr>)"
  using assms by (simp add: setupTun_def sample_env_def map_sess_def)

lemma sample_build:
  assumes "cs_VPNAddress c = ''10.0.0.2''" "cs_VPNMask c = ''255.255.255.0''" "cs_DNS c = [''10.0.0.1'']"
    "cs_ServerAddress c = ''198.51.100.7''" "cs_SplitInclude c = []" "cs_SplitExclude c = []" "cs_UseDefaultRouteWhenEmpty c"
    "cs_Underlay c = sample_underlay"
  shows "\<exists>cfg. buildOSNetConfig (Inl (Errors [])) c = Inr cfg \<and> cf_IncludeRoutes cfg = [(V4 0, 0)] \<and> cf_ExcludeRoutes cfg = [(V4 0xC6336407, 32)]"
  by (simp add: buildOSNetConfig_def assms sample_vpn sample_parses config_underlay_def sample_underlay_def appendUniquePrefix_def
      PrefixFrom_def Let_def del: ParseAddrs.simps)

lemma sample_config:
  assumes "su_sess s = Some c"
    "cs_VPNAddress c = ''10.0.0.2''" "cs_VPNMask c = ''255.255.255.0''" "cs_DNS c = [''10.0.0.1'']"
    "cs_ServerAddress c = ''198.51.100.7''" "cs_SplitInclude c = []" "cs_SplitExclude c = []" "cs_UseDefaultRouteWhenEmpty c"
  shows "\<exists>s2 c2 cfg. su_sess s2 = Some c2 \<and> configure_tun None (sample_env r) s =
       (case r of None \<Rightarrow> (None, s2\<lparr>su_config := Some cfg, su_controller := True, su_channels := True\<rparr>)
        | Some e \<Rightarrow> (Some e, give_up None ''net_config_apply_failed'' ''network'' e s2)) \<and>
     cf_IncludeRoutes cfg = [(V4 0, 0)] \<and> cf_ExcludeRoutes cfg = [(V4 0xC6336407, 32)]"
proof -
  from sample_setupTun [OF assms(1)] obtain s1 where s1: "setupTun (sample_env r) s = (None, s1)"
    "su_sess s1 = Some (c\<lparr>cs_TunName := ''flexconnect''\<rparr>)" by blast
  define c2 where "c2 = c\<lparr>cs_TunName := ''flexconnect'', cs_Underlay := sample_underlay\<rparr>"
  from sample_build [of c2] obtain cfg where cfg: "buildOSNetConfig (Inl (Errors [])) c2 = Inr cfg" "cf_IncludeRoutes cfg = [(V4 0, 0)]"
    "cf_ExcludeRoutes cfg = [(V4 0xC6336407, 32)]" using assms by (auto simp: c2_def)
  have "map_sess (\<lambda>c. c\<lparr>cs_Underlay := sample_underlay\<rparr>) s1 = s1\<lparr>su_sess := Some c2\<rparr>" by (simp add: map_sess_def s1 c2_def)
  with s1(1) cfg show ?thesis
    by (intro exI [of _ "s1\<lparr>su_sess := Some c2\<rparr>"]) (auto simp: configure_tun_def sample_env_fields split: option.splits)
qed

lemma sample_setup_run:
  "\<exists>s2 c2 cfg. su_sess s2 = Some c2 \<and> SetupTunnelWithClient None (sample_env r) sample_auth_profile ''token'' ''192.168.0.5'' connected =
       (case r of None \<Rightarrow> (None, s2\<lparr>su_config := Some cfg, su_controller := True, su_channels := True, su_timers := True\<rparr>)
        | Some e \<Rightarrow> (Some e, give_up None ''net_config_apply_failed'' ''network'' e s2)) \<and>
     cf_IncludeRoutes cfg = [(V4 0, 0)] \<and> cf_ExcludeRoutes cfg = [(V4 0xC6336407, 32)]"
proof -
  obtain s c where n: "negotiate (sample_env r) sample_auth_profile ''token'' ''192.168.0.5'' connected = (Inr sample_headers, connected)"
    and s: "new_session None (sample_env r) sample_auth_profile sample_headers connected = (None, s)" "su_sess s = Some c"
    and c: "cs_VPNAddress c = ''10.0.0.2''" "cs_VPNMask c = ''255.255.255.0''" "cs_DNS c = [''10.0.0.1'']" "cs_ServerAddress c = ''198.51.100.7''"
      "cs_SplitInclude c = []" "cs_SplitExclude c = []" "cs_UseDefaultRouteWhenEmpty c" using sample_new_session by blast
  from sample_config [OF s(2) c, of r] obtain s2 c2 cfg where t: "su_sess s2 = Some c2" "configure_tun None (sample_env r) s =
       (case r of None \<Rightarrow> (None, s2\<lparr>su_config := Some cfg, su_controller := True, su_channels := True\<rparr>)
        | Some e \<Rightarrow> (Some e, give_up None ''net_config_apply_failed'' ''network'' e s2))"
    "cf_IncludeRoutes cfg = [(V4 0, 0)]" "cf_ExcludeRoutes cfg = [(V4 0xC6336407, 32)]" by blast
  then show ?thesis
    by (intro exI [of _ s2] exI [of _ c2] exI [of _ cfg])
      (auto simp: SetupTunnelWithClient_def n s t await_dtls_def sample_env_fields split: option.splits)
qed

theorem applied_config_well_formed_witness:
  "\<exists>t cfg. SetupTunnelWithClient None (sample_env None) sample_auth_profile ''token'' ''192.168.0.5'' connected = (None, t) \<and> su_config t = Some cfg \<and>
     cf_IncludeRoutes cfg = [(V4 0, 0)] \<and> cf_ExcludeRoutes cfg = [(V4 0xC6336407, 32)] \<and> wf_config cfg \<and> cf_MTU cfg \<le> 9000"
proof -
  from sample_setup_run [of None] obtain s2 cfg where
    r: "SetupTunnelWithClient None (sample_env None) sample_auth_profile ''token'' ''192.168.0.5'' connected =
       (None, s2\<lparr>su_config := Some cfg, su_controller := True, su_channels := True, su_timers := True\<rparr>)"
    and c: "cf_IncludeRoutes cfg = [(V4 0, 0)]" "cf_ExcludeRoutes cfg = [(V4 0xC6336407, 32)]" by auto
  show ?thesis using applied_config_well_formed [OF r] c r by (simp add: connected_def)
qed

section \<open>What a failure leaves\<close>

text \<open>The session is there and nobody has closed it, or it was closed.\<close>

definition fresh_sess :: "tun_setup \<Rightarrow> bool" where
  "fresh_sess s \<longleftrightarrow> (case su_sess s of None \<Rightarrow> True | Some c \<Rightarrow> \<not> cs_closeOnce c)"

definition ended_sess :: "tun_setup \<Rightarrow> bool" where
  "ended_sess s \<longleftrightarrow> (case su_sess s of None \<Rightarrow> True | Some c \<Rightarrow> cs_CloseChan c)"

lemma session_Close_closes: "\<not> cs_closeOnce c \<Longrightarrow> cs_CloseChan (session_Close now c)"
  by (auto simp: session_Close_def Close_body_def SetLifecycleState_def RecordClose_def DtlsSession_Close_def Let_def)

lemma closeOnce_keeps [simp]:
  "cs_closeOnce (RecordClose now code tr e c) = cs_closeOnce c"
  "cs_closeOnce (applyProfileOverridesWithProfile prof c) = cs_closeOnce c"
  "cs_closeOnce (NewConnSession noDTLS unmarshal header) = False"
  by (auto simp: RecordClose_def applyProfileOverridesWithProfile_def NewConnSession_def apply_post_auth_def Let_def split: prod.splits sum.splits)

lemma new_session_ends:
  assumes "new_session now env prof header s = (r, t)"
  shows "su_channels t = su_channels s \<and>
    (if r = None then fresh_sess t else ended_sess t \<or> (\<exists>e. tlsServerName (ap_HostWithPort prof) = Inl e))"
  using assms
  by (auto simp: new_session_def Let_def close_client_def map_sess_def fresh_sess_def ended_sess_def session_Close_closes split: sum.splits)

lemma setupTun_ends:
  assumes "setupTun env s = (Some e, t)" "\<not> su_dev s" "\<not> su_mgr s" "su_config s = None" "fresh_sess s"
  shows "\<not> su_dev t \<and> \<not> su_mgr t \<and> su_config t = None \<and> su_channels t = su_channels s \<and> fresh_sess t"
  using assms
  by (auto simp: setupTun_def Let_def map_sess_def close_tun_def fresh_sess_def split: option.splits)

lemma setupTun_fresh:
  assumes "setupTun env s = (None, t)" "fresh_sess s"
  shows "fresh_sess t \<and> su_channels t = su_channels s"
  using assms
  by (auto simp: setupTun_def Let_def map_sess_def fresh_sess_def split: option.splits sum.splits if_splits)

lemma give_up_ends: "fresh_sess s \<Longrightarrow> \<not> su_dev (give_up now code transport e s) \<and> \<not> su_mgr (give_up now code transport e s) \<and> su_config (give_up now code transport e s) = None \<and>
    su_channels (give_up now code transport e s) = su_channels s \<and> ended_sess (give_up now code transport e s)"
  by (auto simp: give_up_def map_sess_def close_tun_def close_client_def fresh_sess_def ended_sess_def session_Close_closes split: option.splits)

lemma configure_ends:
  assumes "configure_tun now env s = (Some e, t)" "\<not> su_dev s" "\<not> su_mgr s" "su_config s = None" "fresh_sess s"
  shows "\<not> su_dev t \<and> \<not> su_mgr t \<and> su_config t = None \<and> su_channels t = su_channels s \<and> ended_sess t"
proof -
  obtain r1 s1 where s1: "setupTun env s = (r1, s1)" by fastforce
  have up: "fresh_sess (map_sess (\<lambda>c. c\<lparr>cs_Underlay := u\<rparr>) s1)" if "fresh_sess s1" for u
    using that by (auto simp: map_sess_def fresh_sess_def split: option.splits)
  show ?thesis
  proof (cases r1)
    case (Some x)
    with s1 setupTun_ends [of env s x s1] assms show ?thesis
      by (auto simp: configure_tun_def map_sess_def close_client_def fresh_sess_def ended_sess_def session_Close_closes split: option.splits)
  next
    case None
    then have f: "fresh_sess s1" "su_channels s1 = su_channels s" using setupTun_fresh s1 assms(5) by blast+
    with None s1 assms(1) show ?thesis
      using give_up_ends [OF f(1)] give_up_ends [OF up [OF f(1)]]
      by (auto simp: configure_tun_def Let_def map_sess_def split: option.splits sum.splits)
  qed
qed

lemma configure_done:
  assumes "configure_tun now env s = (None, t)" "su_sess s \<noteq> None"
  shows "su_controller t \<and> su_config t \<noteq> None \<and> su_dev t \<and> su_mgr t"
  using assms by (auto simp: configure_tun_def setupTun_def Let_def map_sess_def split: option.splits sum.splits if_splits)

lemma await_dtls_keeps:
  "await_dtls env s = (r, t) \<Longrightarrow> su_controller t = su_controller s \<and> su_config t = su_config s \<and> su_dev t = su_dev s \<and> su_mgr t = su_mgr s"
  by (auto simp: await_dtls_def split: if_splits dtls_outcome.splits)

lemma setup_success:
  assumes "SetupTunnelWithClient now env prof token ip4 s = (None, t)"
  shows "su_controller t \<and> su_config t \<noteq> None \<and> su_dev t \<and> su_mgr t"
proof -
  obtain h s1 s2 s3 where ns: "new_session now env prof h s1 = (None, s2)" and c: "configure_tun now env s2 = (None, s3)" "await_dtls env s3 = (None, t)"
    using assms by (auto simp: SetupTunnelWithClient_def split: prod.splits sum.splits option.splits)
  have "su_sess s2 \<noteq> None" using new_session_MTU [OF ns] by auto
  with c show ?thesis using configure_done await_dtls_keeps by metis
qed

text \<open>A failed set-up leaves nothing behind. When \<open>SetupTunnelWithClient\<close> returns an error before the packet workers were started, there is no
  device, no network manager and no applied configuration, no channel runs, and the session it created is closed, so that nobody waits for it;
  the only exception is a profile whose server address has no host and port, for which the session stays open. An error after that point
  leaves the controller in charge, which is what \<open>Connection.Disconnect\<close> then waits for.\<close>

lemma failed_setup_releases:
  assumes "SetupTunnelWithClient now env prof token ip4 s = (Some e, t)"
    and "\<not> su_dev s" "\<not> su_mgr s" "su_config s = None" "\<not> su_controller s" "\<not> su_channels s" "su_sess s = None"
  shows "if su_controller t then su_config t \<noteq> None \<and> su_dev t \<and> su_mgr t
    else \<not> su_dev t \<and> \<not> su_mgr t \<and> su_config t = None \<and> \<not> su_channels t \<and>
      (ended_sess t \<or> (\<exists>e. tlsServerName (ap_HostWithPort prof) = Inl e))"
proof -
  obtain r1 s1 where n: "negotiate env prof token ip4 s = (r1, s1)" by fastforce
  have k1: "\<not> su_dev s1" "\<not> su_mgr s1" "su_config s1 = None" "\<not> su_controller s1" "\<not> su_channels s1" "su_sess s1 = None"
    using n assms(2-) negotiate_keeps [OF n] by (auto simp: negotiate_def close_client_def split: if_splits sum.splits option.splits)
  show ?thesis
  proof (cases r1)
    case (Inl x)
    with n assms(1) k1 show ?thesis by (simp add: SetupTunnelWithClient_def ended_sess_def)
  next
    case (Inr h)
    obtain r2 s2 where ns: "new_session now env prof h s1 = (r2, s2)" by fastforce
    note k2 = new_session_keeps [OF ns] new_session_ends [OF ns]
    show ?thesis
    proof (cases r2)
      case (Some x)
      with Inr n ns assms(1) k1 k2 show ?thesis by (auto simp: SetupTunnelWithClient_def)
    next
      case None
      obtain r3 s3 where c: "configure_tun now env s2 = (r3, s3)" by fastforce
      show ?thesis
      proof (cases r3)
        case (Some x)
        have "su_controller s3 = su_controller s2"
          using c Some setupTun_keeps by (fastforce simp: configure_tun_def give_up_def map_sess_def close_tun_def close_client_def Let_def
              split: prod.splits option.splits sum.splits)
        with Some None Inr n ns c assms(1) k1 k2 configure_ends [of now env s2 x s3] show ?thesis by (auto simp: SetupTunnelWithClient_def)
      next
        case none: None
        have "su_controller s3 \<and> su_config s3 \<noteq> None \<and> su_dev s3 \<and> su_mgr s3"
          using c none new_session_MTU [of now env prof h s1 s2] ns None by (intro configure_done) auto
        then show ?thesis
          using none None Inr n ns c assms(1)
          by (auto simp: SetupTunnelWithClient_def await_dtls_def split: if_splits option.splits dtls_outcome.splits)
      qed
    qed
  qed
qed

text \<open>A \<open>Set\<close> that fails: the set-up had come as far as it can, and everything is released.\<close>

lemma failed_setup_example:
  "\<exists>t. SetupTunnelWithClient None (sample_env (Some (Errors ''route exists''))) sample_auth_profile ''token'' ''192.168.0.5'' connected =
     (Some (Errors ''route exists''), t) \<and> su_sess t \<noteq> None \<and> ended_sess t \<and> \<not> su_dev t \<and> \<not> su_mgr t \<and> su_config t = None"
proof -
  from sample_setup_run [of "Some (Errors ''route exists'')"] obtain s2 c2 t where
    r: "SetupTunnelWithClient None (sample_env (Some (Errors ''route exists''))) sample_auth_profile ''token'' ''192.168.0.5'' connected =
       (Some (Errors ''route exists''), t)" and t: "t = give_up None ''net_config_apply_failed'' ''network'' (Errors ''route exists'') s2" "su_sess s2 = Some c2" by auto
  have "tlsServerName (ap_HostWithPort sample_auth_profile) \<noteq> Inl e" for e by (simp add: sample_auth_profile_def sample_parses)
  moreover have "su_config t = None" "su_sess t \<noteq> None"
    by (simp_all add: t give_up_def map_sess_def close_tun_def close_client_def)
  ultimately show ?thesis using failed_setup_releases [OF r] r by (auto simp: connected_def split: if_splits)
qed

section \<open>Routes and DNS\<close>

text \<open>When the profile accepts the server's routes but every included route is overridden, whether the default route is used depends on the
  DNS setting: the branch without DNS returns before the flag is computed.\<close>

lemma dns_setting_changes_routes:
  assumes "ap_AcceptServerRoutes prof" "\<not> cs_UseDefaultRouteWhenEmpty c"
    "rl_Include (MergeRouteLists (cs_SplitInclude c) (cs_SplitExclude c) (ap_CustomInclude prof) (ap_CustomExclude prof)) = []"
  shows "cs_UseDefaultRouteWhenEmpty (applyProfileOverridesWithProfile (prof\<lparr>ap_ApplyDNS := True\<rparr>) c)"
    "\<not> cs_UseDefaultRouteWhenEmpty (applyProfileOverridesWithProfile (prof\<lparr>ap_ApplyDNS := False\<rparr>) c)"
  using assms by (simp_all add: applyProfileOverridesWithProfile_def Let_def)

end
