(* ===== verification/Socks5.thy ===== *)
theory Socks5
  imports Tunsetup
begin

text \<open>
  The SOCKS5 proxy of a connection, \<open>internal/socks5/server.go\<close>: what one client is answered (\<open>handleConn\<close> and what it calls), and the life
  of the server (\<open>serve\<close>, \<open>CloseContext\<close>) as steps of its goroutines.

  A client is the bytes it sends. What a handler does is the list of its effects; the dialer of the VPN tunnel and the results of writes
  are parameters. \<open>errors.As\<close> to \<open>*net.DNSError\<close> is the parameter \<open>isDNSError\<close>.
\<close>

section \<open>Errors and addresses\<close>

definition ErrClosed :: error where "ErrClosed = Errors ''use of closed network connection''"

definition errNoTunnelAddress :: error where "errNoTunnelAddress = Errors ''no VPN DNS address''"

definition errUnsupportedIPv6Proxy :: error where
  "errUnsupportedIPv6Proxy = Errors ''SOCKS5 VPN proxy supports IPv4 TCP targets only''"

text \<open>\<open>net.ParseIP\<close>: a zone is not accepted.\<close>

definition ParseIP :: "string \<Rightarrow> addr option" where
  "ParseIP s = (case ParseAddr s of None \<Rightarrow> None | Some ip \<Rightarrow> if withoutZone ip \<noteq> ip then None else Some ip)"

definition IP_To4 :: "addr \<Rightarrow> 32 word option" where
  "IP_To4 a = (case Unmap a of V4 w \<Rightarrow> Some w | V6 _ _ \<Rightarrow> None)"

text \<open>\<open>net.IP.String\<close> of 4 and of 16 bytes.\<close>

definition ip4_bytes :: "8 word list \<Rightarrow> 32 word" where
  "ip4_bytes bs = of_octets (map unat bs)"

definition ip6_bytes :: "8 word list \<Rightarrow> 128 word" where
  "ip6_bytes bs = word_of_nat (foldl (\<lambda>a b. 256 * a + unat b) 0 bs)"

definition IP4_String :: "8 word list \<Rightarrow> string" where
  "IP4_String bs = ipv4_string (ip4_bytes bs)"

definition IP6_String :: "8 word list \<Rightarrow> string" where
  "IP6_String bs = addr_string (Unmap (V6 (ip6_bytes bs) []))"

record TCPAddr =
  ta_IP :: "8 word list"
  ta_Port :: int

section \<open>One client\<close>

datatype sock_effect =
    Wrote "8 word list"
  | LookedUp string
  | Dialed string string         \<comment> \<open>network, address\<close>
  | Proxied TCPAddr              \<comment> \<open>the copying between client and target began\<close>

text \<open>The dialer: a connection is its local address, if that is a TCP address.\<close>

record tunnel_dialer =
  dl_DialContext :: "string \<Rightarrow> string \<Rightarrow> error + TCPAddr option"
  dl_LookupContextHost :: "string \<Rightarrow> error + string list"

record socks_env =
  sk_dialer :: "tunnel_dialer option"
  sk_isDNSError :: "error \<Rightarrow> bool"
  sk_deadline :: "error option"        \<comment> \<open>\<open>SetDeadline\<close> at the start\<close>
  sk_greet :: "error option"           \<comment> \<open>writing the chosen method\<close>
  sk_nodeadline :: "error option"      \<comment> \<open>\<open>SetDeadline\<close> before copying\<close>
  sk_reply :: "error option"           \<comment> \<open>writing the reply\<close>
  sk_copy1 :: "error option"           \<comment> \<open>the two ends of the copying, in order\<close>
  sk_copy2 :: "error option"

record targetAddr =
  tg_host :: string
  tg_port :: string
  tg_atyp :: "8 word"

definition readHost :: "reader \<Rightarrow> 8 word \<Rightarrow> (error + string) \<times> reader" where
  "readHost r atyp =
     (if atyp = 1 then (case ReadFull 4 r of (Inl e, r) \<Rightarrow> (Inl e, r) | (Inr ip, r) \<Rightarrow> (Inr (IP4_String ip), r))
      else if atyp = 3 then
        (case ReadFull 1 r of
           (Inl e, r) \<Rightarrow> (Inl e, r)
         | (Inr len, r) \<Rightarrow>
             (case ReadFull (unat (len ! 0)) r of
                (Inl e, r) \<Rightarrow> (Inl e, r)
              | (Inr bs, r) \<Rightarrow> (Inr (map (\<lambda>b. char_of (unat b)) bs), r)))
      else if atyp = 4 then (case ReadFull 16 r of (Inl e, r) \<Rightarrow> (Inl e, r) | (Inr ip, r) \<Rightarrow> (Inr (IP6_String ip), r))
      else (Inl (Errors (''unsupported address type '' @ itoa (unat atyp))), r))"

definition readTarget :: "reader \<Rightarrow> 8 word \<Rightarrow> (error + targetAddr) \<times> reader" where
  "readTarget r atyp =
     (case readHost r atyp of
        (Inl e, r) \<Rightarrow> (Inl e, r)
      | (Inr host, r) \<Rightarrow>
          (case ReadFull 2 r of
             (Inl e, r) \<Rightarrow> (Inl e, r)
           | (Inr portBuf, r) \<Rightarrow> (Inr \<lparr>tg_host = host, tg_port = itoa (Uint16 portBuf), tg_atyp = atyp\<rparr>, r)))"

text \<open>The loop of \<open>dialTarget\<close> over the addresses of a name.\<close>

fun dial_first :: "tunnel_dialer \<Rightarrow> string \<Rightarrow> error option \<Rightarrow> string list \<Rightarrow> (error + TCPAddr option) \<times> sock_effect list" where
  "dial_first d port firstErr [] = (Inl (case firstErr of Some e \<Rightarrow> e | None \<Rightarrow> errNoTunnelAddress), [])"
| "dial_first d port firstErr (a # as) =
     (case ParseIP a of
        None \<Rightarrow> dial_first d port firstErr as
      | Some ip \<Rightarrow>
          (case IP_To4 ip of
             None \<Rightarrow> dial_first d port firstErr as
           | Some v4 \<Rightarrow>
               (let address = JoinHostPort (ipv4_string v4) port
                in case dl_DialContext d ''tcp4'' address of
                     Inr conn \<Rightarrow> (Inr conn, [Dialed ''tcp4'' address])
                   | Inl e \<Rightarrow>
                       (case dial_first d port (if firstErr = None then Some e else firstErr) as of
                          (res, es) \<Rightarrow> (res, Dialed ''tcp4'' address # es)))))"

definition dialTarget :: "tunnel_dialer option \<Rightarrow> targetAddr \<Rightarrow> (error + TCPAddr option) \<times> sock_effect list" where
  "dialTarget dialer target =
     (case dialer of
        None \<Rightarrow> (Inl (Errors ''missing VPN tunnel dialer''), [])
      | Some d \<Rightarrow>
          (case ParseIP (tg_host target) of
             Some ip \<Rightarrow>
               (case IP_To4 ip of
                  None \<Rightarrow> (Inl errUnsupportedIPv6Proxy, [])
                | Some v4 \<Rightarrow>
                    (let address = JoinHostPort (ipv4_string v4) (tg_port target)
                     in (dl_DialContext d ''tcp4'' address, [Dialed ''tcp4'' address])))
           | None \<Rightarrow>
               (case dl_LookupContextHost d (tg_host target) of
                  Inl e \<Rightarrow> (Inl (Wrap [] errNoTunnelAddress ('': '' @ err_msg e)), [LookedUp (tg_host target)])
                | Inr addrs \<Rightarrow>
                    (case dial_first d (tg_port target) None addrs of (res, es) \<Rightarrow> (res, LookedUp (tg_host target) # es)))))"

definition replyCodeForDialError :: "(error \<Rightarrow> bool) \<Rightarrow> error \<Rightarrow> 8 word" where
  "replyCodeForDialError isDNSError e =
     (if errors_is e errUnsupportedIPv6Proxy then 8
      else if errors_is e errNoTunnelAddress then 4
      else if isDNSError e then 4
      else 5)"

text \<open>The ten bytes that refuse a request.\<close>

definition refusal :: "8 word \<Rightarrow> 8 word list" where
  "refusal code = [5, code, 0, 1, 0, 0, 0, 0, 0, 0]"

definition bytes_To4 :: "8 word list \<Rightarrow> 8 word list option" where
  "bytes_To4 ip =
     (if length ip = 4 then Some ip
      else if length ip = 16 \<and> take 12 ip = replicate 10 0 @ [0xFF, 0xFF] then Some (drop 12 ip)
      else None)"

definition bytes_To16 :: "8 word list \<Rightarrow> 8 word list" where
  "bytes_To16 ip = (if length ip = 4 then replicate 10 0 @ [0xFF, 0xFF] @ ip else if length ip = 16 then ip else [])"

text \<open>\<open>uint16(addr.Port)\<close> keeps the low 16 bits.\<close>

definition writeReply :: "TCPAddr \<Rightarrow> 8 word list" where
  "writeReply a =
     (let port = PutUint16 (nat (ta_Port a mod 65536))
      in case bytes_To4 (ta_IP a) of
           Some v4 \<Rightarrow> [5, 0, 0, 1] @ v4 @ port
         | None \<Rightarrow> [5, 0, 0, 4] @ bytes_To16 (ta_IP a) @ port)"

definition proxyBidirectional :: "error option \<Rightarrow> error option \<Rightarrow> error option" where
  "proxyBidirectional err1 err2 =
     (case err1 of
        Some e \<Rightarrow> if errors_is e ErrClosed then (case err2 of Some f \<Rightarrow> if errors_is f ErrClosed then None else Some f | None \<Rightarrow> None) else Some e
      | None \<Rightarrow> (case err2 of Some f \<Rightarrow> if errors_is f ErrClosed then None else Some f | None \<Rightarrow> None))"

text \<open>The choice of the authentication method.\<close>

definition choose_method :: "socks_env \<Rightarrow> reader \<Rightarrow> (error + reader) \<times> sock_effect list" where
  "choose_method env r =
     (case sk_deadline env of
        Some e \<Rightarrow> (Inl e, [])
      | None \<Rightarrow>
          (case ReadFull 2 r of
             (Inl e, r) \<Rightarrow> (Inl e, [])
           | (Inr hdr, r) \<Rightarrow>
               if hdr ! 0 \<noteq> 5 then (Inl (Errors (''unsupported SOCKS version '' @ itoa (unat (hdr ! 0)))), [])
               else
                 (case ReadFull (unat (hdr ! 1)) r of
                    (Inl e, r) \<Rightarrow> (Inl e, [])
                  | (Inr methods, r) \<Rightarrow>
                      if 0 \<notin> set methods
                      then (Inl (Errors ''SOCKS5 client did not offer no-authentication method''), [Wrote [5, 0xFF]])
                      else (case sk_greet env of Some e \<Rightarrow> (Inl e, [Wrote [5, 0]]) | None \<Rightarrow> (Inr r, [Wrote [5, 0]])))))"

text \<open>The request.\<close>

definition read_request :: "reader \<Rightarrow> (error + targetAddr) \<times> sock_effect list" where
  "read_request r =
     (case ReadFull 4 r of
        (Inl e, r) \<Rightarrow> (Inl e, [])
      | (Inr reqHdr, r) \<Rightarrow>
          if reqHdr ! 0 \<noteq> 5 then (Inl (Errors (''unsupported request version '' @ itoa (unat (reqHdr ! 0)))), [])
          else if reqHdr ! 1 \<noteq> 1 then (Inl (Errors (''unsupported command '' @ itoa (unat (reqHdr ! 1)))), [Wrote (refusal 7)])
          else (case readTarget r (reqHdr ! 3) of
                  (Inl e, _) \<Rightarrow> (Inl e, [Wrote (refusal 8)])
                | (Inr target, _) \<Rightarrow> (Inr target, [])))"

text \<open>The target is dialled, the client told, and the two connections are joined.\<close>

definition connect_target :: "socks_env \<Rightarrow> targetAddr \<Rightarrow> error option \<times> sock_effect list" where
  "connect_target env target =
     (case dialTarget (sk_dialer env) target of
        (Inl e, es) \<Rightarrow> (Some e, es @ [Wrote (refusal (replyCodeForDialError (sk_isDNSError env) e))])
      | (Inr upstream, es) \<Rightarrow>
          (case sk_nodeadline env of
             Some e \<Rightarrow> (Some e, es)
           | None \<Rightarrow>
               (let bindAddr = (case upstream of Some a \<Rightarrow> a | None \<Rightarrow> \<lparr>ta_IP = [0, 0, 0, 0], ta_Port = 0\<rparr>)
                in case sk_reply env of
                     Some e \<Rightarrow> (Some e, es @ [Wrote (writeReply bindAddr)])
                   | None \<Rightarrow> (proxyBidirectional (sk_copy1 env) (sk_copy2 env), es @ [Wrote (writeReply bindAddr), Proxied bindAddr]))))"

definition handleConn :: "socks_env \<Rightarrow> reader \<Rightarrow> error option \<times> sock_effect list" where
  "handleConn env r =
     (case choose_method env r of
        (Inl e, es) \<Rightarrow> (Some e, es)
      | (Inr r, es) \<Rightarrow>
          (case read_request r of
             (Inl e, es') \<Rightarrow> (Some e, es @ es')
           | (Inr target, es') \<Rightarrow> (case connect_target env target of (res, es'') \<Rightarrow> (res, es @ es' @ es''))))"

section \<open>What a request means\<close>

text \<open>A request of a client: methods it offers, the address and port it wants.\<close>

datatype socks_host = Host4 "32 word" | Name "8 word list" | Host6 "8 word list"

fun host_bytes :: "socks_host \<Rightarrow> 8 word list" where
  "host_bytes (Host4 a) = 1 # map word_of_nat (octets a)"
| "host_bytes (Name bs) = 3 # word_of_nat (length bs) # bs"
| "host_bytes (Host6 bs) = 4 # bs"

fun host_text :: "socks_host \<Rightarrow> string" where
  "host_text (Host4 a) = ipv4_string a"
| "host_text (Name bs) = map (\<lambda>b. char_of (unat b)) bs"
| "host_text (Host6 bs) = IP6_String bs"

fun host_ok :: "socks_host \<Rightarrow> bool" where
  "host_ok (Host4 a) = True"
| "host_ok (Name bs) = (length bs < 256)"
| "host_ok (Host6 bs) = (length bs = 16)"

definition request_bytes :: "8 word list \<Rightarrow> 8 word \<Rightarrow> socks_host \<Rightarrow> nat \<Rightarrow> 8 word list" where
  "request_bytes methods rsv host port = [5, word_of_nat (length methods)] @ methods @ [5, 1, rsv] @ host_bytes host @ PutUint16 port"

definition request_ok :: "8 word list \<Rightarrow> socks_host \<Rightarrow> nat \<Rightarrow> bool" where
  "request_ok methods host port \<longleftrightarrow> length methods < 256 \<and> 0 \<in> set methods \<and> host_ok host \<and> port < 65536"

lemma ReadFull_append: "length xs = n \<Longrightarrow> ReadFull n \<lparr>rd_bytes = xs @ ys, rd_end = e\<rparr> = (Inr xs, \<lparr>rd_bytes = ys, rd_end = e\<rparr>)"
  by (simp add: ReadFull_def)

lemma ReadFull_Inr: "ReadFull n r = (Inr xs, r') \<Longrightarrow> rd_bytes r = xs @ rd_bytes r' \<and> length xs = n \<and> rd_end r' = rd_end r"
  by (auto simp: ReadFull_def split: if_splits)

lemma ip4_bytes_octets: "ip4_bytes (map word_of_nat (octets a)) = a"
proof -
  have "map (unat \<circ> (word_of_nat :: nat \<Rightarrow> 8 word)) (octets a) = octets a"
    using octets_bound by (intro map_idI) (force simp: unat_of_nat)
  then show ?thesis by (simp add: ip4_bytes_def of_octets_octets)
qed

lemma length_octets [simp]: "length (octets a) = 4"
  by (simp add: octets_def)

lemma unat_length: "n < 256 \<Longrightarrow> unat (word_of_nat n :: 8 word) = n"
  by (simp add: unat_of_nat)

lemma readHost_host_bytes:
  assumes "host_ok h"
  shows "readHost \<lparr>rd_bytes = tl (host_bytes h) @ ys, rd_end = e\<rparr> (hd (host_bytes h)) = (Inr (host_text h), \<lparr>rd_bytes = ys, rd_end = e\<rparr>)"
  using assms
proof (cases h)
  case (Name bs)
  with assms show ?thesis
    using ReadFull_append [of "[word_of_nat (length bs)]" 1 "bs @ ys" e] by (simp add: readHost_def ReadFull_append unat_length)
qed (simp_all add: readHost_def ReadFull_append IP4_String_def ip4_bytes_octets)

lemma read_request_bytes:
  assumes "host_ok h" "p < 65536"
  shows "read_request \<lparr>rd_bytes = [5, 1, rsv] @ host_bytes h @ PutUint16 p @ ys, rd_end = e\<rparr> =
    (Inr \<lparr>tg_host = host_text h, tg_port = itoa p, tg_atyp = hd (host_bytes h)\<rparr>, [])"
proof -
  have h: "host_bytes h = hd (host_bytes h) # tl (host_bytes h)" by (cases h) auto
  have "ReadFull 4 \<lparr>rd_bytes = [5, 1, rsv] @ host_bytes h @ PutUint16 p @ ys, rd_end = e\<rparr> =
      (Inr [5, 1, rsv, hd (host_bytes h)], \<lparr>rd_bytes = tl (host_bytes h) @ PutUint16 p @ ys, rd_end = e\<rparr>)"
    by (subst h) (simp add: ReadFull_def)
  then show ?thesis
    by (simp add: read_request_def readTarget_def readHost_host_bytes [OF assms(1)] ReadFull_append Uint16_PutUint16 [OF assms(2)])
qed

lemma choose_method_bytes:
  assumes "length ms < 256" "0 \<in> set ms" "sk_deadline env = None" "sk_greet env = None"
  shows "choose_method env \<lparr>rd_bytes = [5, word_of_nat (length ms)] @ ms @ ys, rd_end = e\<rparr> = (Inr \<lparr>rd_bytes = ys, rd_end = e\<rparr>, [Wrote [5, 0]])"
proof -
  have "ReadFull 2 \<lparr>rd_bytes = [5, word_of_nat (length ms)] @ ms @ ys, rd_end = e\<rparr> =
      (Inr [5, word_of_nat (length ms)], \<lparr>rd_bytes = ms @ ys, rd_end = e\<rparr>)"
    by (simp add: ReadFull_def)
  then show ?thesis using assms by (simp add: choose_method_def ReadFull_append unat_length)
qed

lemma handleConn_request:
  assumes "request_ok ms h p" "sk_deadline env = None" "sk_greet env = None"
  shows "handleConn env \<lparr>rd_bytes = request_bytes ms rsv h p @ ys, rd_end = e\<rparr> =
    (case connect_target env \<lparr>tg_host = host_text h, tg_port = itoa p, tg_atyp = hd (host_bytes h)\<rparr> of (res, es) \<Rightarrow> (res, Wrote [5, 0] # es))"
  using assms choose_method_bytes [of ms env "[5, 1, rsv] @ host_bytes h @ PutUint16 p @ ys" e] read_request_bytes [of h p rsv ys e]
  by (simp add: handleConn_def request_ok_def request_bytes_def)

section \<open>What is dialled\<close>

lemma JoinHostPort_v4: "JoinHostPort (ipv4_string a) port = ipv4_string a @ '':'' @ port"
  using ipv4_string_chars by (fastforce simp: JoinHostPort_def is_digit_def)

lemma ParseIP_ipv4_string: "ParseIP (ipv4_string a) = Some (V4 a)"
  by (simp add: ParseIP_def ParseAddr_ipv4_string)

lemma IP_To4_V4 [simp]: "IP_To4 (V4 a) = Some a"
  by (simp add: IP_To4_def)

text \<open>A well-formed request for an IPv4 address is served. The client is told that no authentication is needed, exactly that address
  and port are dialled through the tunnel, once, and then the client gets either the refusal for the error or the bound address, after
  which its bytes are copied.\<close>

theorem socks_request_served:
  assumes "request_ok methods (Host4 a) port" "sk_dialer env = Some d" "sk_deadline env = None" "sk_greet env = None"
    and "sk_nodeadline env = None" "sk_reply env = None" "address = ipv4_string a @ '':'' @ itoa port"
  shows "handleConn env \<lparr>rd_bytes = request_bytes methods rsv (Host4 a) port @ rest, rd_end = e\<rparr> =
    (case dl_DialContext d ''tcp4'' address of
       Inl err \<Rightarrow> (Some err, [Wrote [5, 0], Dialed ''tcp4'' address, Wrote (refusal (replyCodeForDialError (sk_isDNSError env) err))])
     | Inr upstream \<Rightarrow>
         (let bound = (case upstream of Some b \<Rightarrow> b | None \<Rightarrow> \<lparr>ta_IP = [0, 0, 0, 0], ta_Port = 0\<rparr>)
          in (proxyBidirectional (sk_copy1 env) (sk_copy2 env),
              [Wrote [5, 0], Dialed ''tcp4'' address, Wrote (writeReply bound), Proxied bound])))"
  by (simp add: handleConn_request [OF assms(1,3,4)] connect_target_def dialTarget_def assms(2,5,6,7) ParseIP_ipv4_string JoinHostPort_v4
      Let_def split: sum.split)

definition sample_dialer :: tunnel_dialer where
  "sample_dialer = \<lparr>dl_DialContext = \<lambda>_ _. Inr None, dl_LookupContextHost = \<lambda>_. Inr []\<rparr>"

definition sample_socks :: socks_env where
  "sample_socks =
     \<lparr>sk_dialer = Some sample_dialer, sk_isDNSError = (\<lambda>_. False),
      sk_deadline = None, sk_greet = None, sk_nodeadline = None, sk_reply = None, sk_copy1 = None, sk_copy2 = None\<rparr>"

theorem socks_request_served_witness:
  "snd (handleConn sample_socks \<lparr>rd_bytes = request_bytes [0] 0 (Host4 0x0A000001) 443 @ [7], rd_end = EOF\<rparr>) =
   [Wrote [5, 0], Dialed ''tcp4'' ''10.0.0.1:443'', Wrote [5, 0, 0, 1, 0, 0, 0, 0, 0, 0], Proxied \<lparr>ta_IP = [0, 0, 0, 0], ta_Port = 0\<rparr>]"
proof -
  have a: "''10.0.0.1:443'' = ipv4_string 0x0A000001 @ '':'' @ itoa 443" by (simp add: ipv4_print_eval)
  have r: "request_ok [0] (Host4 0x0A000001) 443" by (simp add: request_ok_def)
  have "sk_dialer sample_socks = Some sample_dialer" "sk_deadline sample_socks = None" "sk_greet sample_socks = None"
    "sk_nodeadline sample_socks = None" "sk_reply sample_socks = None" by (simp_all add: sample_socks_def)
  from socks_request_served [OF r this a] show ?thesis
    by (simp add: sample_dialer_def writeReply_def bytes_To4_def PutUint16_def)
qed

text \<open>The addresses a host of a request stands for: itself, or what the tunnel's resolver says.\<close>

definition stands_for :: "tunnel_dialer \<Rightarrow> string \<Rightarrow> 32 word \<Rightarrow> bool" where
  "stands_for d host v4 \<longleftrightarrow>
     (case ParseIP host of
        Some ip \<Rightarrow> IP_To4 ip = Some v4
      | None \<Rightarrow> (case dl_LookupContextHost d host of
                  Inl _ \<Rightarrow> False
                | Inr addrs \<Rightarrow> \<exists>a\<in>set addrs. \<exists>ip. ParseIP a = Some ip \<and> IP_To4 ip = Some v4))"

lemma dial_first_dials:
  assumes "Dialed net address \<in> set (snd (dial_first d port err addrs))"
  shows "net = ''tcp4'' \<and> (\<exists>v4. address = ipv4_string v4 @ '':'' @ port \<and> (\<exists>a\<in>set addrs. \<exists>ip. ParseIP a = Some ip \<and> IP_To4 ip = Some v4))"
  using assms
proof (induction addrs arbitrary: err)
  case (Cons a addrs)
  show ?case
  proof (cases "\<exists>ip v4. ParseIP a = Some ip \<and> IP_To4 ip = Some v4")
    case True
    then obtain ip v4 where ip: "ParseIP a = Some ip" "IP_To4 ip = Some v4" by blast
    show ?thesis
    proof (cases "dl_DialContext d ''tcp4'' (ipv4_string v4 @ '':'' @ port)")
      case (Inl e)
      obtain res es where r: "dial_first d port (if err = None then Some e else err) addrs = (res, es)" by fastforce
      have "Dialed net address = Dialed ''tcp4'' (ipv4_string v4 @ '':'' @ port) \<or> Dialed net address \<in> set es"
        using Cons.prems ip Inl r by (simp add: JoinHostPort_v4)
      with Cons.IH [of "if err = None then Some e else err"] r ip show ?thesis by auto
    next
      case (Inr conn)
      with Cons.prems ip show ?thesis by (auto simp: JoinHostPort_v4)
    qed
  next
    case False
    with Cons show ?thesis by (auto split: option.splits)
  qed
qed simp

lemma dialTarget_dials:
  assumes "Dialed net address \<in> set (snd (dialTarget dialer t))"
  shows "net = ''tcp4'' \<and> (\<exists>d v4. dialer = Some d \<and> address = ipv4_string v4 @ '':'' @ tg_port t \<and> stands_for d (tg_host t) v4)"
proof -
  obtain d where d: "dialer = Some d" using assms by (auto simp: dialTarget_def split: option.splits)
  show ?thesis
  proof (cases "ParseIP (tg_host t)")
    case (Some ip)
    with assms show ?thesis by (auto simp: dialTarget_def d stands_for_def JoinHostPort_v4 Let_def split: option.splits)
  next
    case None
    then obtain addrs where l: "dl_LookupContextHost d (tg_host t) = Inr addrs"
      and a: "Dialed net address \<in> set (snd (dial_first d (tg_port t) None addrs))"
      using assms by (auto simp: dialTarget_def d split: sum.splits prod.splits)
    from dial_first_dials [OF a] None l show ?thesis by (auto simp: d stands_for_def)
  qed
qed

lemma mod_digit: "x < 256 \<Longrightarrow> (256 * k + x) mod 256 = (x :: nat)"
  by simp

lemma of_octets_inverse:
  assumes "length xs = 4" "list_all (\<lambda>x. x < 256) xs"
  shows "octets (of_octets xs) = xs"
proof -
  obtain x0 x1 x2 x3 where xs: "xs = [x0, x1, x2, x3]" using assms(1) by (auto simp: numeral_eq_Suc length_Suc_conv)
  define n where "n = 16777216 * x0 + 65536 * x1 + 256 * x2 + x3"
  have b: "x0 < 256" "x1 < 256" "x2 < 256" "x3 < 256" using assms(2) by (simp_all add: xs)
  then have "n < 2 ^ 32" by (simp add: n_def)
  then have "unat (word_of_nat n :: 32 word) = n" by (simp add: unat_of_nat)
  moreover have "foldl (\<lambda>a b. 256 * a + b) 0 xs = n" by (simp add: xs n_def)
  moreover have "n mod 256 = x3" "(65536 * x0 + 256 * x1 + x2) mod 256 = x2"
    using b mod_digit [of x3 "65536 * x0 + 256 * x1 + x2"] mod_digit [of x2 "256 * x0 + x1"] by (simp_all add: n_def)
  moreover have "n div 2 ^ 24 = x0" "n div 2 ^ 16 = 256 * x0 + x1" "n div 2 ^ 8 = 65536 * x0 + 256 * x1 + x2"
    using b by (simp_all add: n_def)
  ultimately show ?thesis using b by (simp add: octets_def of_octets_def xs)
qed

lemma unat_byte: "unat (b :: 8 word) < 256"
  using unsigned_less [of b] by simp

lemma octets_ip4_bytes: "length bs = 4 \<Longrightarrow> map word_of_nat (octets (ip4_bytes bs)) = bs"
  by (simp add: ip4_bytes_def of_octets_inverse list_all_iff comp_def unat_byte)

lemma readHost_inverse:
  assumes "readHost r atyp = (Inr host, r')"
  shows "\<exists>h. host_ok h \<and> host = host_text h \<and> hd (host_bytes h) = atyp \<and> rd_bytes r = tl (host_bytes h) @ rd_bytes r'"
proof -
  consider bs where "atyp = 1" "ReadFull 4 r = (Inr bs, r')" "host = IP4_String bs"
    | l bs r1 where "atyp = 3" "ReadFull 1 r = (Inr l, r1)" "ReadFull (unat (l ! 0)) r1 = (Inr bs, r')" "host = map (\<lambda>b. char_of (unat b)) bs"
    | bs where "atyp = 4" "ReadFull 16 r = (Inr bs, r')" "host = IP6_String bs"
    using assms by (auto simp: readHost_def split: if_splits prod.splits sum.splits)
  then show ?thesis
  proof cases
    case (1 bs)
    then show ?thesis
      using ReadFull_Inr [OF 1(2)] by (intro exI [of _ "Host4 (ip4_bytes bs)"]) (simp add: IP4_String_def octets_ip4_bytes)
  next
    case (2 l bs r1)
    from ReadFull_Inr [OF 2(2)] obtain b where "l = [b]" "rd_bytes r = b # rd_bytes r1" by (auto simp: length_Suc_conv)
    then show ?thesis
      using ReadFull_Inr [OF 2(3)] 2 unat_byte [of b] by (intro exI [of _ "Name bs"]) simp
  next
    case (3 bs)
    then show ?thesis using ReadFull_Inr [OF 3(2)] by (intro exI [of _ "Host6 bs"]) simp
  qed
qed

lemma PutUint16_Uint16: "length bs = 2 \<Longrightarrow> PutUint16 (Uint16 bs) = bs \<and> Uint16 bs < 65536"
proof -
  assume "length bs = 2"
  then obtain a b where "bs = [a, b]" by (auto simp: numeral_eq_Suc length_Suc_conv)
  moreover have "unat a < 256" "unat b < 256" using unat_byte [of a] unat_byte [of b] by simp_all
  ultimately show ?thesis by (simp add: PutUint16_def Uint16_def)
qed

lemma readTarget_inverse:
  assumes "readTarget r atyp = (Inr t, r')"
  shows "\<exists>h p. host_ok h \<and> p < 65536 \<and> tg_host t = host_text h \<and> tg_port t = itoa p \<and> hd (host_bytes h) = atyp \<and>
    rd_bytes r = tl (host_bytes h) @ PutUint16 p @ rd_bytes r'"
proof -
  obtain host r1 bs where h: "readHost r atyp = (Inr host, r1)" and b: "ReadFull 2 r1 = (Inr bs, r')"
    and t: "t = \<lparr>tg_host = host, tg_port = itoa (Uint16 bs), tg_atyp = atyp\<rparr>"
    using assms by (auto simp: readTarget_def split: prod.splits sum.splits)
  from readHost_inverse [OF h] ReadFull_Inr [OF b] PutUint16_Uint16 [of bs] t show ?thesis
    by (metis append_assoc targetAddr.select_convs(1,2))
qed

lemma read_request_inverse:
  assumes "read_request r = (Inr t, es)"
  shows "es = [] \<and> (\<exists>rsv h p rest. host_ok h \<and> p < 65536 \<and> tg_host t = host_text h \<and> tg_port t = itoa p \<and>
    rd_bytes r = [5, 1, rsv] @ host_bytes h @ PutUint16 p @ rest)"
proof -
  obtain hdr r1 r2 where h: "ReadFull 4 r = (Inr hdr, r1)" and k: "hdr ! 0 = 5" "hdr ! 1 = 1" and t: "readTarget r1 (hdr ! 3) = (Inr t, r2)" and "es = []"
    using assms by (auto simp: read_request_def split: prod.splits sum.splits if_splits)
  from ReadFull_Inr [OF h] k obtain c d where hdr: "hdr = [5, 1, c, d]" by (auto simp: numeral_eq_Suc length_Suc_conv)
  from readTarget_inverse [OF t] obtain hs p where hp: "host_ok hs" "p < 65536" "tg_host t = host_text hs" "tg_port t = itoa p"
    "hd (host_bytes hs) = d" "rd_bytes r1 = tl (host_bytes hs) @ PutUint16 p @ rd_bytes r2" by (auto simp: hdr)
  have "host_bytes hs = d # tl (host_bytes hs)" using hp(5) by (cases hs) auto
  with hp ReadFull_Inr [OF h] hdr have "rd_bytes r = [5, 1, c] @ host_bytes hs @ PutUint16 p @ rd_bytes r2" by simp
  with hp \<open>es = []\<close> show ?thesis by blast
qed

lemma choose_method_inverse:
  assumes "choose_method env r = (Inr r', es)"
  shows "es = [Wrote [5, 0]] \<and> (\<exists>ms. length ms < 256 \<and> 0 \<in> set ms \<and> rd_bytes r = [5, word_of_nat (length ms)] @ ms @ rd_bytes r')"
proof -
  obtain hdr r1 ms where h: "ReadFull 2 r = (Inr hdr, r1)" and k: "hdr ! 0 = 5" and m: "ReadFull (unat (hdr ! 1)) r1 = (Inr ms, r')" "0 \<in> set ms"
    and "es = [Wrote [5, 0]]"
    using assms by (auto simp: choose_method_def split: option.splits prod.splits sum.splits if_splits)
  from ReadFull_Inr [OF h] k obtain n where hdr: "hdr = [5, n]" by (auto simp: numeral_eq_Suc length_Suc_conv)
  with ReadFull_Inr [OF h] ReadFull_Inr [OF m(1)] m(2) unat_byte [of n] \<open>es = _\<close> show ?thesis by auto
qed

text \<open>C18: the proxy dials nothing but what its client asked for. Whatever bytes a client sends, a connection the proxy opens is an IPv4 TCP
  connection through the tunnel's dialer to the port of a complete, well-formed request that offered to go without authentication, and
  to an address the host of that request stands for: the literal itself or an answer of the tunnel's resolver.\<close>

theorem socks_dials_what_was_asked:
  assumes "Dialed net address \<in> set (snd (handleConn env r))"
  shows "net = ''tcp4'' \<and> (\<exists>methods rsv host port rest d v4. rd_bytes r = request_bytes methods rsv host port @ rest \<and> request_ok methods host port \<and>
    sk_dialer env = Some d \<and> address = ipv4_string v4 @ '':'' @ itoa port \<and> stands_for d (host_text host) v4)"
proof -
  obtain r1 t es where m: "choose_method env r = (Inr r1, [Wrote [5, 0]])" and q: "read_request r1 = (Inr t, [])"
    and c: "Dialed net address \<in> set (snd (connect_target env t))"
  proof -
    obtain r0 es0 where cm: "choose_method env r = (r0, es0)" by fastforce
    show ?thesis
    proof (cases r0)
      case (Inl e)
      with assms cm show ?thesis
        by (auto simp: handleConn_def choose_method_def split: option.splits prod.splits sum.splits if_splits)
    next
      case (Inr r1)
      obtain t0 es1 where rq: "read_request r1 = (t0, es1)" by fastforce
      show ?thesis
      proof (cases t0)
        case (Inl e)
        with assms cm rq Inr choose_method_inverse show ?thesis
          by (fastforce simp: handleConn_def read_request_def split: prod.splits sum.splits if_splits)
      next
        case r: (Inr t)
        with Inr cm rq choose_method_inverse [of env r r1 es0] read_request_inverse [of r1 t es1] assms that show ?thesis
          by (auto simp: handleConn_def split: prod.splits)
      qed
    qed
  qed
  from choose_method_inverse [OF m] obtain ms where ms: "length ms < 256" "0 \<in> set ms" "rd_bytes r = [5, word_of_nat (length ms)] @ ms @ rd_bytes r1" by blast
  from read_request_inverse [OF q] obtain rsv h p rest where h: "host_ok h" "p < 65536" "tg_host t = host_text h" "tg_port t = itoa p"
    "rd_bytes r1 = [5, 1, rsv] @ host_bytes h @ PutUint16 p @ rest" by blast
  have "Dialed net address \<in> set (snd (dialTarget (sk_dialer env) t))"
    using c by (auto simp: connect_target_def Let_def split: prod.splits sum.splits option.splits)
  from dialTarget_dials [OF this] h(3,4) obtain d v4 where d: "net = ''tcp4''" "sk_dialer env = Some d"
    "address = ipv4_string v4 @ '':'' @ itoa p" "stands_for d (host_text h) v4" by auto
  have "rd_bytes r = request_bytes ms rsv h p @ rest" "request_ok ms h p" using ms h by (simp_all add: request_bytes_def request_ok_def)
  with d show ?thesis by blast
qed

theorem socks_dials_what_was_asked_witness:
  "\<exists>methods rsv host port rest d v4. [5, 1, 0, 5, 1, 0, 1, 10, 0, 0, 1, 1, 187] = request_bytes methods rsv host port @ rest \<and>
     request_ok methods host port \<and> sk_dialer sample_socks = Some d \<and> ''10.0.0.1:443'' = ipv4_string v4 @ '':'' @ itoa port \<and>
     stands_for d (host_text host) v4"
proof -
  have b: "[5, 1, 0, 5, 1, 0, 1, 10, 0, 0, 1, 1, 187] = request_bytes [0] 0 (Host4 0x0A000001) 443 @ []"
    by (simp add: request_bytes_def octets_def PutUint16_def)
  have a: "''10.0.0.1:443'' = ipv4_string 0x0A000001 @ '':'' @ itoa 443" by (simp add: ipv4_print_eval)
  have "Dialed ''tcp4'' ''10.0.0.1:443'' \<in> set (snd (handleConn sample_socks \<lparr>rd_bytes = [5, 1, 0, 5, 1, 0, 1, 10, 0, 0, 1, 1, 187], rd_end = EOF\<rparr>))"
    unfolding a b by (subst handleConn_request) (simp_all add: request_ok_def sample_socks_def sample_dialer_def connect_target_def dialTarget_def
        ParseIP_ipv4_string JoinHostPort_v4 Let_def)
  from socks_dials_what_was_asked [OF this] show ?thesis by simp
qed

section \<open>The server\<close>

text \<open>Client connections are numbers. \<open>sv_handling\<close> are the handlers whose connection is registered, \<open>sv_leaving\<close> those that have
  removed it and have still to close it and to count themselves out.\<close>

record socks_server =
  sv_listening :: bool
  sv_serving :: bool               \<comment> \<open>\<open>serve\<close> runs\<close>
  sv_accepted :: "nat option"      \<comment> \<open>accepted by \<open>serve\<close>, not yet registered\<close>
  sv_conns :: "nat list"           \<comment> \<open>the keys of \<open>conns\<close>\<close>
  sv_handling :: "nat list"
  sv_leaving :: "nat list"
  sv_open :: "nat list"            \<comment> \<open>connections that are not closed\<close>
  sv_closed :: bool
  sv_closeOnce :: bool
  sv_closeErr :: "error option"
  sv_wg :: nat
  sv_errors :: "error list"        \<comment> \<open>channel of capacity 1\<close>
  sv_errorsClosed :: bool

definition socks_Listen :: "tunnel_dialer option \<Rightarrow> error option \<Rightarrow> error + socks_server" where
  "socks_Listen dialer listenErr =
     (case dialer of
        None \<Rightarrow> Inl (Errors ''SOCKS5 requires a VPN tunnel dialer'')
      | Some _ \<Rightarrow>
          (case listenErr of
             Some e \<Rightarrow> Inl e
           | None \<Rightarrow>
               Inr \<lparr>sv_listening = True, sv_serving = True, sv_accepted = None, sv_conns = [], sv_handling = [], sv_leaving = [], sv_open = [],
                    sv_closed = False, sv_closeOnce = False, sv_closeErr = None, sv_wg = 1, sv_errors = [], sv_errorsClosed = False\<rparr>))"

text \<open>\<open>serve\<close> returns.\<close>

definition serve_return :: "socks_server \<Rightarrow> socks_server" where
  "serve_return s = s\<lparr>sv_serving := False, sv_wg := sv_wg s - 1, sv_errorsClosed := True\<rparr>"

text \<open>What \<open>Accept\<close> returned.\<close>

definition serve_accept :: "error + nat \<Rightarrow> socks_server \<Rightarrow> socks_server" where
  "serve_accept r s =
     (case r of
        Inr conn \<Rightarrow> s\<lparr>sv_accepted := Some conn, sv_open := conn # sv_open s\<rparr>
      | Inl e \<Rightarrow>
          if errors_is e ErrClosed then serve_return s
          else serve_return (if sv_errors s = [] then s\<lparr>sv_errors := [Wrap ''SOCKS5 accept failed: '' e []]\<rparr> else s))"

definition serve_register :: "nat \<Rightarrow> socks_server \<Rightarrow> socks_server" where
  "serve_register conn s =
     (if sv_closed s then serve_return (s\<lparr>sv_accepted := None, sv_open := removeAll conn (sv_open s)\<rparr>)
      else s\<lparr>sv_accepted := None, sv_conns := conn # sv_conns s, sv_wg := sv_wg s + 1, sv_handling := conn # sv_handling s\<rparr>)"

text \<open>The deferred calls of a handler: the section that forgets the connection, then the closing.\<close>

definition handler_forget :: "nat \<Rightarrow> socks_server \<Rightarrow> socks_server" where
  "handler_forget conn s =
     s\<lparr>sv_conns := removeAll conn (sv_conns s), sv_handling := remove1 conn (sv_handling s), sv_leaving := conn # sv_leaving s\<rparr>"

definition handler_end :: "nat \<Rightarrow> socks_server \<Rightarrow> socks_server" where
  "handler_end conn s =
     s\<lparr>sv_open := removeAll conn (sv_open s), sv_leaving := remove1 conn (sv_leaving s), sv_wg := sv_wg s - 1\<rparr>"

fun close_errors :: "(nat \<Rightarrow> error option) \<Rightarrow> nat list \<Rightarrow> error option \<Rightarrow> error option" where
  "close_errors connErr [] acc = acc"
| "close_errors connErr (c # cs) acc =
     close_errors connErr cs
       (case connErr c of None \<Rightarrow> acc | Some e \<Rightarrow> if \<not> errors_is e ErrClosed \<and> acc = None then Some e else acc)"

text \<open>The function \<open>CloseContext\<close> runs once.\<close>

definition close_body :: "error option \<Rightarrow> (nat \<Rightarrow> error option) \<Rightarrow> socks_server \<Rightarrow> socks_server" where
  "close_body listenerErr connErr s =
     (if sv_closeOnce s then s
      else
        (let err = (case listenerErr of None \<Rightarrow> None | Some e \<Rightarrow> if errors_is e ErrClosed then None else Some e)
         in s\<lparr>sv_closeOnce := True, sv_closed := True, sv_listening := False, sv_closeErr := close_errors connErr (sv_conns s) err,
              sv_open := filter (\<lambda>c. c \<notin> set (sv_conns s)) (sv_open s)\<rparr>))"

text \<open>\<open>CloseContext\<close> returns when the count is down, or with the error of its context.\<close>

definition CloseContext_result :: "error option \<Rightarrow> socks_server \<Rightarrow> error option option" where
  "CloseContext_result ctxErr s =
     (if sv_wg s = 0 then Some (sv_closeErr s)
      else (case ctxErr of Some e \<Rightarrow> Some (Some (Wrap ''close SOCKS5 server: '' e [])) | None \<Rightarrow> None))"

datatype socks_event = Accepts "error + nat" | Registers | Forgets nat | Ends nat | Closes "error option" "nat \<Rightarrow> error option"

text \<open>One step; \<open>None\<close> when it cannot happen. A new connection has a new number, and a closed listener accepts nothing.\<close>

definition socks_step :: "socks_event \<Rightarrow> socks_server \<Rightarrow> socks_server option" where
  "socks_step ev s =
     (case ev of
        Accepts r \<Rightarrow>
          if \<not> sv_serving s \<or> sv_accepted s \<noteq> None then None
          else if (case r of Inr conn \<Rightarrow> \<not> sv_listening s \<or> conn \<in> set (sv_handling s @ sv_leaving s @ sv_open s) | Inl _ \<Rightarrow> False) then None
          else Some (serve_accept r s)
      | Registers \<Rightarrow> (case sv_accepted s of None \<Rightarrow> None | Some conn \<Rightarrow> Some (serve_register conn s))
      | Forgets conn \<Rightarrow> if conn \<in> set (sv_handling s) then Some (handler_forget conn s) else None
      | Ends conn \<Rightarrow> if conn \<in> set (sv_leaving s) then Some (handler_end conn s) else None
      | Closes listenerErr connErr \<Rightarrow> Some (close_body listenerErr connErr s))"

fun socks_run :: "socks_event list \<Rightarrow> socks_server \<Rightarrow> socks_server option" where
  "socks_run [] s = Some s"
| "socks_run (ev # evs) s = (case socks_step ev s of None \<Rightarrow> None | Some s' \<Rightarrow> socks_run evs s')"

text \<open>The counting part of the invariant and the part about open connections.\<close>

definition socks_count :: "socks_server \<Rightarrow> bool" where
  "socks_count s \<longleftrightarrow>
     sv_wg s = of_bool (sv_serving s) + length (sv_handling s) + length (sv_leaving s) \<and>
     distinct (sv_handling s @ sv_leaving s) \<and>
     (\<forall>c. sv_accepted s = Some c \<longrightarrow> c \<notin> set (sv_handling s @ sv_leaving s)) \<and>
     (sv_accepted s \<noteq> None \<longrightarrow> sv_serving s) \<and> length (sv_errors s) \<le> 1"

definition socks_held :: "socks_server \<Rightarrow> bool" where
  "socks_held s \<longleftrightarrow>
     (\<forall>c. c \<in> set (sv_conns s) \<longleftrightarrow> c \<in> set (sv_handling s)) \<and>
     (\<forall>c. c \<in> set (sv_open s) \<longrightarrow> c \<in> set (sv_leaving s) \<or> sv_accepted s = Some c \<or> \<not> sv_closed s \<and> c \<in> set (sv_handling s)) \<and>
     (sv_closeOnce s \<longleftrightarrow> sv_closed s)"

lemma serve_return_fields [simp]:
  "sv_handling (serve_return s) = sv_handling s" "sv_leaving (serve_return s) = sv_leaving s" "sv_open (serve_return s) = sv_open s"
  "sv_conns (serve_return s) = sv_conns s" "sv_accepted (serve_return s) = sv_accepted s" "sv_closed (serve_return s) = sv_closed s"
  "sv_closeOnce (serve_return s) = sv_closeOnce s" "sv_errors (serve_return s) = sv_errors s" "sv_wg (serve_return s) = sv_wg s - 1"
  "sv_serving (serve_return s) = False"
  by (simp_all add: serve_return_def)

lemma accept_count:
  assumes "socks_count s" "sv_serving s" "sv_accepted s = None" "\<And>c. r = Inr c \<Longrightarrow> c \<notin> set (sv_handling s @ sv_leaving s)"
  shows "socks_count (serve_accept r s)"
proof (cases r)
  case (Inl e)
  with assms show ?thesis by (simp add: serve_accept_def socks_count_def)
next
  case (Inr c)
  with assms show ?thesis by (simp add: serve_accept_def socks_count_def)
qed

lemma accept_held:
  assumes "socks_held s" "sv_accepted s = None"
  shows "socks_held (serve_accept r s)"
proof (cases r)
  case (Inl e)
  with assms show ?thesis by (simp add: serve_accept_def socks_held_def)
next
  case (Inr c)
  with assms show ?thesis by (auto simp: serve_accept_def socks_held_def)
qed

lemma register_count: "socks_count s \<Longrightarrow> sv_accepted s = Some c \<Longrightarrow> socks_count (serve_register c s)"
  by (simp add: serve_register_def socks_count_def)

lemma register_held: "socks_held s \<Longrightarrow> sv_accepted s = Some c \<Longrightarrow> socks_held (serve_register c s)"
  by (cases "sv_closed s") (fastforce simp: serve_register_def socks_held_def)+

lemma forget_count: "socks_count s \<Longrightarrow> c \<in> set (sv_handling s) \<Longrightarrow> socks_count (handler_forget c s)"
  using length_pos_if_in_set [of c "sv_handling s"]
  by (auto simp: handler_forget_def socks_count_def length_remove1 set_remove1_eq)

lemma forget_held: "socks_held s \<Longrightarrow> distinct (sv_handling s) \<Longrightarrow> socks_held (handler_forget c s)"
  by (auto simp: handler_forget_def socks_held_def set_remove1_eq)

lemma end_count:
  assumes "socks_count s" "c \<in> set (sv_leaving s)"
  shows "socks_count (handler_end c s)"
proof -
  obtain n where "length (sv_leaving s) = Suc n" using length_pos_if_in_set [OF assms(2)] gr0_implies_Suc by blast
  with assms show ?thesis by (auto simp: handler_end_def socks_count_def length_remove1 set_remove1_eq)
qed

lemma end_held: "socks_held s \<Longrightarrow> distinct (sv_leaving s) \<Longrightarrow> socks_held (handler_end c s)"
  by (auto simp: handler_end_def socks_held_def set_remove1_eq)

lemma close_inv: "socks_count s \<Longrightarrow> socks_count (close_body le ce s)" "socks_held s \<Longrightarrow> socks_held (close_body le ce s)"
  by (auto simp: close_body_def socks_count_def socks_held_def Let_def)

lemma socks_step_inv:
  assumes "socks_step ev s = Some s'" "socks_count s \<and> socks_held s"
  shows "socks_count s' \<and> socks_held s'"
proof -
  have d: "distinct (sv_handling s)" "distinct (sv_leaving s)" using assms(2) by (simp_all add: socks_count_def)
  show ?thesis
  proof (cases ev)
    case (Accepts r)
    with assms(1) have g: "sv_serving s" "sv_accepted s = None" "s' = serve_accept r s"
      "\<And>c. r = Inr c \<Longrightarrow> c \<notin> set (sv_handling s @ sv_leaving s)" by (simp_all add: socks_step_def split: if_splits)
    with assms(2) show ?thesis by (simp add: accept_count accept_held)
  next
    case Registers
    with assms(1) obtain c where "sv_accepted s = Some c" "s' = serve_register c s" by (auto simp: socks_step_def split: option.splits)
    with assms(2) show ?thesis by (simp add: register_count register_held)
  next
    case (Forgets c)
    with assms d show ?thesis by (auto simp: socks_step_def forget_count forget_held split: if_splits)
  next
    case (Ends c)
    with assms d show ?thesis by (auto simp: socks_step_def end_count end_held split: if_splits)
  next
    case (Closes le ce)
    with assms(1) have "s' = close_body le ce s" by (simp add: socks_step_def)
    with assms(2) show ?thesis by (simp add: close_inv)
  qed
qed

lemma socks_run_inv: "socks_run evs s = Some s' \<Longrightarrow> socks_count s \<and> socks_held s \<Longrightarrow> socks_count s' \<and> socks_held s'"
  by (induction evs arbitrary: s) (auto split: option.splits dest: socks_step_inv)

lemma socks_Listen_inv: "socks_Listen dialer e = Inr s \<Longrightarrow> socks_count s \<and> socks_held s"
  by (auto simp: socks_Listen_def socks_count_def socks_held_def split: option.splits)

text \<open>C19: a closed proxy serves nobody. Under every interleaving of \<open>serve\<close>, the handlers and any number of callers of
  \<open>CloseContext\<close>: when \<open>CloseContext\<close> returns without the error of its context, no client connection is open, no handler runs and
  \<open>serve\<close> has returned; and from the moment the server is closed the only connections still open are one that \<open>serve\<close> has accepted
  and is about to close, and those whose handlers are about to close them. At most one error is ever reported.\<close>

theorem closed_proxy_serves_nobody:
  assumes "socks_Listen dialer listenErr = Inr s" "socks_run evs s = Some t"
  shows "(CloseContext_result None t \<noteq> None \<longrightarrow> sv_open t = [] \<and> sv_handling t = [] \<and> sv_leaving t = [] \<and> \<not> sv_serving t) \<and>
    (sv_closed t \<longrightarrow> set (sv_open t) \<subseteq> set (sv_leaving t) \<union> set_option (sv_accepted t)) \<and> length (sv_errors t) \<le> 1"
proof -
  have i: "socks_count t \<and> socks_held t" using socks_run_inv [OF assms(2) socks_Listen_inv [OF assms(1)]] .
  have "sv_open t = [] \<and> sv_handling t = [] \<and> sv_leaving t = [] \<and> \<not> sv_serving t" if "sv_wg t = 0"
  proof -
    have e: "sv_handling t = []" "sv_leaving t = []" "\<not> sv_serving t" "sv_accepted t = None"
      using i that by (auto simp: socks_count_def split: if_splits)
    then have "c \<notin> set (sv_open t)" for c using i by (auto simp: socks_held_def)
    with e show ?thesis by (metis list.set_intros(1) neq_Nil_conv)
  qed
  moreover have "sv_closed t \<longrightarrow> set (sv_open t) \<subseteq> set (sv_leaving t) \<union> set_option (sv_accepted t)" using i by (auto simp: socks_held_def)
  ultimately show ?thesis using i by (simp add: CloseContext_result_def socks_count_def)
qed

text \<open>Two clients; the second is accepted while the server closes.\<close>

theorem closed_proxy_serves_nobody_witness:
  "\<exists>s t. socks_Listen (Some sample_dialer) None = Inr s \<and>
     socks_run [Accepts (Inr 1), Registers, Accepts (Inr 2), Closes None (\<lambda>_. None), Registers, Forgets 1, Ends 1] s = Some t \<and>
     CloseContext_result None t = Some None \<and> sv_open t = [] \<and> \<not> sv_serving t"
proof -
  obtain s where s: "socks_Listen (Some sample_dialer) None = Inr s" by (simp add: socks_Listen_def)
  have "\<exists>t. socks_run [Accepts (Inr 1), Registers, Accepts (Inr 2), Closes None (\<lambda>_. None), Registers, Forgets 1, Ends 1] s = Some t \<and>
      CloseContext_result None t = Some None"
    using s by (auto simp: socks_Listen_def socks_step_def serve_accept_def serve_register_def serve_return_def handler_forget_def handler_end_def
        close_body_def CloseContext_result_def)
  with s obtain t where r: "socks_Listen (Some sample_dialer) None = Inr s"
    "socks_run [Accepts (Inr 1), Registers, Accepts (Inr 2), Closes None (\<lambda>_. None), Registers, Forgets 1, Ends 1] s = Some t"
    "CloseContext_result None t = Some None" by blast
  have "sv_open t = [] \<and> \<not> sv_serving t" using closed_proxy_serves_nobody [OF r(1,2)] r(3) by simp
  with r show ?thesis by (intro exI [of _ s] exI [of _ t]) simp
qed

end
