(* ===== verification/Auth.thy ===== *)
theory Auth
  imports Tunsetup
begin

text \<open>
  Authentication against the VPN server, \<open>internal/anyconnect/auth/auth.go\<close>, and the two probes of the interactive login,
  \<open>internal/loginprobe/loginprobe.go\<close>. One HTTP exchange is a record of what its calls return; the XML decoder and \<open>fmt.Sprintf\<close> are
  parameters. The client remembers what it has sent.
\<close>

section \<open>Messages\<close>

record AuthError =
  er_Param1 :: string
  er_Value :: string

text \<open>The parts of \<open>proto.DTD\<close> that are read.\<close>

record DTD =
  dt_Type :: string
  dt_SessionToken :: string
  dt_Error :: AuthError
  dt_AuthError :: AuthError
  dt_Message :: string
  dt_Action :: string
  dt_Groups :: "string list"
  dt_TunnelGroup :: string
  dt_GroupAlias :: string
  dt_ConfigHash :: string

record http_response =
  hr_StatusCode :: int
  hr_Status :: string
  hr_Body :: "string \<times> error option"          \<comment> \<open>the bytes of the body, then the end or an error\<close>
  hr_Cookies :: "(string \<times> string) list"

record exchange =
  ex_newRequest :: "error option"
  ex_write :: "error option"
  ex_response :: "error + http_response"

record auth_env =
  ae_AgentVersion :: string
  ae_Sprintf :: "string \<Rightarrow> string \<Rightarrow> string"
  ae_Unmarshal :: "string \<Rightarrow> error + DTD"

record Client =
  cl_Prof :: auth_Profile
  cl_Conn :: bool                                \<comment> \<open>\<open>Conn\<close> and \<open>BufR\<close> are there\<close>
  cl_WebVpnCookie :: string
  cl_LocalInterface :: LocalInterface
  cl_serverGroups :: "string list"
  cl_sent :: "(string \<times> string) list"          \<comment> \<open>address and body of every request written\<close>

definition newline :: string where "newline = [CHR 0x0A]"

definition quoted :: "string \<Rightarrow> string" where "quoted s = CHR 0x22 # s @ [CHR 0x22]"

definition element :: "string \<Rightarrow> string \<Rightarrow> string" where
  "element name body = ''<'' @ name @ ''>'' @ body @ ''</'' @ name @ ''>''"

text \<open>Both templates; \<open>text/template\<close> copies the fields as they are.\<close>

definition xml_head :: "string \<Rightarrow> string" where
  "xml_head typ = ''<?xml version='' @ quoted ''1.0'' @ '' encoding='' @ quoted ''UTF-8'' @ ''?>'' @ newline @
     ''<config-auth client='' @ quoted ''vpn'' @ '' type='' @ quoted typ @ ''>'' @ newline"

definition xml_version :: "auth_Profile \<Rightarrow> string" where
  "xml_version prof = ''    <version who='' @ quoted ''vpn'' @ ''>'' @ ap_AppVersion prof @ ''</version>'' @ newline @
     ''    '' @ element ''device-id'' (ap_DeviceType prof) @ newline"

definition templateInit :: "auth_Profile \<Rightarrow> string" where
  "templateInit prof =
     xml_head ''init'' @ xml_version prof @ ''    '' @ element ''group-access'' (ap_GroupAccess prof) @
     (if ap_Group prof \<noteq> [] then newline @ ''    '' @ element ''group-select'' (ap_Group prof) else []) @ newline @ ''</config-auth>''"

definition opaque_part :: "auth_Profile \<Rightarrow> string" where
  "opaque_part prof =
     ''    <opaque is-for='' @ quoted ''sg'' @ ''>'' @ newline @
     ''        '' @ element ''tunnel-group'' (ap_TunnelGroup prof) @ newline @
     ''        '' @ element ''group-alias'' (ap_GroupAlias prof) @ newline @
     ''        '' @ element ''config-hash'' (ap_ConfigHash prof) @ newline @
     ''    </opaque>'' @ newline"

definition mac_part :: "auth_Profile \<Rightarrow> string" where
  "mac_part prof =
     ''    <mac-address-list>'' @ newline @
     ''        <mac-address public-interface='' @ quoted ''true'' @ ''>'' @ ap_MacAddress prof @ ''</mac-address>'' @ newline @
     ''    </mac-address-list>'' @ newline"

definition credentials_part :: "string \<Rightarrow> string \<Rightarrow> string" where
  "credentials_part username password =
     ''    <auth>'' @ newline @
     ''        '' @ element ''username'' username @ newline @
     ''        '' @ element ''password'' password @ newline @
     ''    </auth>'' @ newline"

definition templateAuthReply :: "auth_Profile \<Rightarrow> string" where
  "templateAuthReply prof =
     xml_head ''auth-reply'' @ xml_version prof @ opaque_part prof @ mac_part prof @
     credentials_part (ap_Username prof) (ap_Password prof) @
     ''    '' @ element ''group-select'' (ap_Group prof) @ newline @ ''</config-auth>''"

section \<open>The client\<close>

definition client_Close :: "Client \<Rightarrow> Client" where
  "client_Close c = c\<lparr>cl_Conn := False\<rparr>"

definition maxAuthResponseBytes :: nat where "maxAuthResponseBytes = 4194304"

text \<open>\<open>readAuthResponse\<close>: an error of the body that comes after the limit is not seen.\<close>

definition readAuthResponse :: "string \<times> error option \<Rightarrow> error + string" where
  "readAuthResponse body =
     (case body of (bs, err) \<Rightarrow>
        (case err of
           Some e \<Rightarrow>
             if length bs \<le> maxAuthResponseBytes then Inl (Wrap ''read authentication response: '' e [])
             else Inl (Errors (''authentication response exceeds '' @ itoa maxAuthResponseBytes @ '' bytes''))
         | None \<Rightarrow>
             if length bs \<le> maxAuthResponseBytes then Inr bs
             else Inl (Errors (''authentication response exceeds '' @ itoa maxAuthResponseBytes @ '' bytes''))))"

definition formatAuthError :: "(string \<Rightarrow> string \<Rightarrow> string) \<Rightarrow> AuthError \<Rightarrow> string" where
  "formatAuthError Sprintf e =
     (let message = (if TrimSpace (er_Value e) = [] then ''authentication failed'' else TrimSpace (er_Value e))
      in if er_Param1 e \<noteq> [] \<and> CHR ''%'' \<in> set message then Sprintf message (er_Param1 e)
         else if er_Param1 e \<noteq> [] then message @ '' '' @ er_Param1 e
         else message)"

text \<open>What is made of a response with its body read; the second component is the cookie.\<close>

definition read_answer :: "auth_env \<Rightarrow> http_response \<Rightarrow> string \<Rightarrow> error + DTD \<times> string option" where
  "read_answer env resp body =
     (case ae_Unmarshal env body of
        Inl e \<Rightarrow> Inl e
      | Inr dtd \<Rightarrow>
          if er_Value (dt_Error dtd) \<noteq> [] then Inl (Errors (''vpn server error: '' @ formatAuthError (ae_Sprintf env) (dt_Error dtd)))
          else if er_Value (dt_AuthError dtd) \<noteq> [] then Inl (Errors (''vpn auth error: '' @ formatAuthError (ae_Sprintf env) (dt_AuthError dtd)))
          else Inr (dtd, if dt_Type dtd = ''complete'' \<and> dt_SessionToken dtd = [] then map_of (hr_Cookies resp) ''webvpn'' else None))"

definition tplPost :: "auth_env \<Rightarrow> (auth_Profile \<Rightarrow> string) \<Rightarrow> string \<Rightarrow> exchange \<Rightarrow> Client \<Rightarrow> (error + DTD) \<times> Client" where
  "tplPost env template path ex c =
     (if \<not> cl_Conn c then (Inl (Errors ''authentication connection is not initialized''), c)
      else
        (let body = template (cl_Prof c);
             url0 = ap_Scheme (cl_Prof c) @ ap_HostWithPort (cl_Prof c) @ path;
             address = (if ap_SecretKey (cl_Prof c) \<noteq> [] then url0 @ ''?'' @ ap_SecretKey (cl_Prof c) else url0)
         in case ex_newRequest ex of
              Some e \<Rightarrow> (Inl e, c)
            | None \<Rightarrow>
                (case ex_write ex of
                   Some e \<Rightarrow> (Inl e, client_Close c)
                 | None \<Rightarrow>
                     (let c = c\<lparr>cl_sent := cl_sent c @ [(address, body)]\<rparr>
                      in case ex_response ex of
                           Inl e \<Rightarrow> (Inl e, client_Close c)
                         | Inr resp \<Rightarrow>
                             (case readAuthResponse (hr_Body resp) of
                                Inl e \<Rightarrow> (Inl e, client_Close c)
                              | Inr bs \<Rightarrow>
                                  if hr_StatusCode resp \<noteq> 200 then (Inl (Errors (''auth error '' @ hr_Status resp)), client_Close c)
                                  else (case read_answer env resp bs of
                                          Inl e \<Rightarrow> (Inl e, c)
                                        | Inr (dtd, None) \<Rightarrow> (Inr dtd, c)
                                        | Inr (dtd, Some cookie) \<Rightarrow> (Inr dtd, c\<lparr>cl_WebVpnCookie := cookie\<rparr>)))))))"

definition configuredLocalAddr :: "Client \<Rightarrow> 32 word option" where
  "configuredLocalAddr c = ParseIP_To4 (TrimSpace (li_IP4 (cl_LocalInterface c)))"

definition auth_tlsServerName :: "string \<Rightarrow> error + string" where
  "auth_tlsServerName hostPort =
     (case SplitHostPort_err (TrimSpace hostPort) of
        Inl e \<Rightarrow> Inl (Wrap (''invalid VPN server address '' @ hostPort @ '': '') e [])
      | Inr (host, _) \<Rightarrow> if TrimSpace host = [] then Inl (Errors ''VPN server hostname is empty'') else Inr (TrimSpace host))"

text \<open>What \<open>InitAuth\<close> keeps of the login form.\<close>

definition take_form :: "DTD \<Rightarrow> Client \<Rightarrow> Client" where
  "take_form dtd c =
     c\<lparr>cl_Prof := (cl_Prof c)\<lparr>ap_AuthPath := (if dt_Action dtd = [] then ''/'' else dt_Action dtd), ap_TunnelGroup := dt_TunnelGroup dtd,
         ap_GroupAlias := dt_GroupAlias dtd, ap_ConfigHash := dt_ConfigHash dtd\<rparr>,
       cl_serverGroups := dt_Groups dtd\<rparr>"

text \<open>\<open>InitAuth\<close>; \<open>dial\<close> is what connecting with TLS to the server gives, from the given local address.\<close>

definition InitAuth :: "auth_env \<Rightarrow> (32 word option \<Rightarrow> string \<Rightarrow> string \<Rightarrow> error option) \<Rightarrow> exchange \<Rightarrow> Client \<Rightarrow> error option \<times> Client" where
  "InitAuth env dial ex c =
     (let c = c\<lparr>cl_WebVpnCookie := []\<rparr>
      in case auth_tlsServerName (ap_HostWithPort (cl_Prof c)) of
           Inl e \<Rightarrow> (Some e, c)
         | Inr serverName \<Rightarrow>
             (case dial (configuredLocalAddr c) serverName (ap_HostWithPort (cl_Prof c)) of
                Some e \<Rightarrow> (Some e, c)
              | None \<Rightarrow>
                  (let c = c\<lparr>cl_Conn := True, cl_Prof := (cl_Prof c)\<lparr>ap_AppVersion := ae_AgentVersion env,
                        ap_MacAddress := li_MAC (cl_LocalInterface c)\<rparr>\<rparr>
                   in case tplPost env templateInit [] ex c of
                        (Inl e, c) \<Rightarrow> (Some e, c)
                      | (Inr dtd, c) \<Rightarrow>
                          if dt_Type dtd = [] then (Some (Errors ''vpn server returned an unrecognized authentication response''), c)
                          else
                            (let c = take_form dtd c
                             in if dt_Groups dtd \<noteq> [] \<and> ap_Group (cl_Prof c) \<notin> set (dt_Groups dtd)
                                then (Some (Errors (''available user groups are: '' @ Join (dt_Groups dtd) '' '')), c)
                                else (None, c\<lparr>cl_Prof := (cl_Prof c)\<lparr>ap_Initialized := True\<rparr>\<rparr>)))))"

text \<open>The end of \<open>PasswordAuth\<close>: the token of the session.\<close>

definition take_token :: "auth_env \<Rightarrow> DTD \<Rightarrow> Client \<Rightarrow> (error + string) \<times> Client" where
  "take_token env dtd c =
     (if dt_Type dtd = ''auth-request'' then
        (if er_Value (dt_AuthError dtd) \<noteq> [] then (Inl (Errors (formatAuthError (ae_Sprintf env) (dt_AuthError dtd))), c)
         else (Inl (Errors (dt_Message dtd)), c))
      else (Inr (if cl_WebVpnCookie c \<noteq> [] then cl_WebVpnCookie c else dt_SessionToken dtd), c))"

definition PasswordAuth :: "auth_env \<Rightarrow> exchange \<Rightarrow> exchange \<Rightarrow> Client \<Rightarrow> (error + string) \<times> Client" where
  "PasswordAuth env ex1 ex2 c =
     (case tplPost env templateAuthReply (ap_AuthPath (cl_Prof c)) ex1 c of
        (Inl e, c) \<Rightarrow> (Inl e, c)
      | (Inr dtd, c) \<Rightarrow>
          if dt_Type dtd = ''auth-request'' \<and> er_Value (dt_AuthError dtd) = [] then
            (case tplPost env templateAuthReply (ap_AuthPath (cl_Prof c)) ex2 c of
               (Inl e, c) \<Rightarrow> (Inl e, c)
             | (Inr dtd, c) \<Rightarrow> take_token env dtd c)
          else take_token env dtd c)"

section \<open>Probes\<close>

definition TrimRight_slash :: "string \<Rightarrow> string" where
  "TrimRight_slash s = rev (dropWhile (\<lambda>c. c = CHR ''/'') (rev s))"

text \<open>\<open>serverParts\<close>; \<open>U\<close> is \<open>url.Parse\<close>, and \<open>url_base\<close> parses a URL, drops query and fragment and prints it again.\<close>

definition serverParts :: "urlparser \<Rightarrow> (string \<Rightarrow> string) \<Rightarrow> string \<Rightarrow> error + string \<times> string \<times> string" where
  "serverParts U url_base raw0 =
     (let raw = TrimSpace raw0
      in if raw = [] then Inl (Errors ''server URL is empty'')
         else
           (let parseRaw = (if Contains raw ''://'' then raw else ''https://'' @ raw)
            in case U parseRaw of
              Inl e \<Rightarrow> Inl (Wrap ''invalid server URL: '' e [])
            | Inr parsed \<Rightarrow>
                if u_Host parsed = [] then Inl (Wrap ''invalid server URL: '' (Errors ''missing host'') [])
                else if u_Scheme parsed \<noteq> ''https'' then Inl (Errors ''server URL must use https'')
                else if u_HasUser parsed then Inl (Errors ''server URL must not contain user info'')
                else
                  Inr (u_Host parsed,
                       if Port parsed = [] then JoinHostPort (Hostname parsed) ''443'' else u_Host parsed,
                       TrimRight_slash (url_base parseRaw))))"

text \<open>\<open>NewClient\<close>; \<open>defaults\<close> is the profile \<open>newDefaultProfile\<close> makes from the host.\<close>

definition NewClient :: "auth_Profile \<Rightarrow> auth_Profile \<Rightarrow> LocalInterface \<Rightarrow> Client" where
  "NewClient defaults prof local =
     \<lparr>cl_Prof = prof\<lparr>ap_Scheme := (if ap_Scheme prof = [] then ap_Scheme defaults else ap_Scheme prof),
        ap_DeviceType := (if ap_DeviceType prof = [] then ap_DeviceType defaults else ap_DeviceType prof),
        ap_PlatformVersion := (if ap_PlatformVersion prof = [] then ap_PlatformVersion defaults else ap_PlatformVersion prof),
        ap_ComputerName := (if ap_ComputerName prof = [] then ap_ComputerName defaults else ap_ComputerName prof),
        ap_UniqueId := (if ap_UniqueId prof = [] then ap_UniqueId defaults else ap_UniqueId prof)\<rparr>,
      cl_Conn = False, cl_WebVpnCookie = [], cl_LocalInterface = local, cl_serverGroups = [], cl_sent = []\<rparr>"

definition newAuthClient :: "urlparser \<Rightarrow> (string \<Rightarrow> string) \<Rightarrow> auth_Profile \<Rightarrow> error + LocalInterface \<Rightarrow> string \<Rightarrow> error + Client" where
  "newAuthClient U url_base defaults localIf serverURL =
     (case serverParts U url_base serverURL of
        Inl e \<Rightarrow> Inl e
      | Inr (host, hostWithPort, groupAccess) \<Rightarrow>
          (case localIf of
             Inl e \<Rightarrow> Inl (Wrap ''inspect local interface: '' e [])
           | Inr info \<Rightarrow>
               Inr (NewClient defaults
                      (blank_profile\<lparr>ap_Host := host, ap_HostWithPort := hostWithPort, ap_GroupAccess := groupAccess, ap_Scheme := ''https://''\<rparr>)
                      info)))"

definition FetchGroups :: "auth_env \<Rightarrow> (32 word option \<Rightarrow> string \<Rightarrow> string \<Rightarrow> error option) \<Rightarrow> exchange \<Rightarrow> error + Client \<Rightarrow> error + string list" where
  "FetchGroups env dial ex client =
     (case client of
        Inl e \<Rightarrow> Inl e
      | Inr c \<Rightarrow>
          (case InitAuth env dial ex c of
             (Some e, c) \<Rightarrow> if cl_serverGroups c \<noteq> [] then Inr (cl_serverGroups c) else Inl e
           | (None, c) \<Rightarrow> Inr (cl_serverGroups c)))"

definition VerifyCredentials ::
  "auth_env \<Rightarrow> (32 word option \<Rightarrow> string \<Rightarrow> string \<Rightarrow> error option) \<Rightarrow> exchange \<Rightarrow> exchange \<Rightarrow> exchange \<Rightarrow> error + Client \<Rightarrow>
   string \<Rightarrow> string \<Rightarrow> string \<Rightarrow> error option" where
  "VerifyCredentials env dial ex0 ex1 ex2 client grp username password =
     (if TrimSpace username = [] then Some (Errors ''username is empty'')
      else if password = [] then Some (Errors ''password is empty'')
      else
        (case client of
           Inl e \<Rightarrow> Some e
         | Inr c \<Rightarrow>
             (let c = c\<lparr>cl_Prof := (cl_Prof c)\<lparr>ap_Group := TrimSpace grp, ap_Username := TrimSpace username, ap_Password := password\<rparr>\<rparr>
              in case InitAuth env dial ex0 c of
                   (Some e, c) \<Rightarrow>
                     if cl_serverGroups c \<noteq> [] \<and> ap_Group (cl_Prof c) = []
                     then Some (Errors (''select one of the advertised user groups: '' @ Join (cl_serverGroups c) '', ''))
                     else Some e
                 | (None, c) \<Rightarrow> (case fst (PasswordAuth env ex1 ex2 c) of Inl e \<Rightarrow> Some e | Inr _ \<Rightarrow> None))))"

section \<open>What is sent and what is accepted\<close>

text \<open>An answer that lets the login go on: status 200, a body within the limit that decodes, and no error element.\<close>

definition good_answer :: "auth_env \<Rightarrow> exchange \<Rightarrow> DTD \<Rightarrow> bool" where
  "good_answer env ex dtd \<longleftrightarrow>
     (\<exists>resp body. ex_response ex = Inr resp \<and> hr_StatusCode resp = 200 \<and> hr_Body resp = (body, None) \<and> length body \<le> maxAuthResponseBytes \<and>
        ae_Unmarshal env body = Inr dtd \<and> er_Value (dt_Error dtd) = [] \<and> er_Value (dt_AuthError dtd) = [])"

lemma tplPost_Inr:
  assumes "tplPost env template path ex c = (Inr dtd, c')"
  shows "good_answer env ex dtd \<and> cl_Prof c' = cl_Prof c \<and>
    cl_sent c' = cl_sent c @ [(fst (last (cl_sent c')), template (cl_Prof c))]"
  using assms
  by (auto simp: tplPost_def Let_def good_answer_def readAuthResponse_def read_answer_def client_Close_def
      split: if_splits option.splits sum.splits prod.splits)

lemma tplPost_sent:
  assumes "tplPost env template path ex c = (r, c')"
  shows "cl_Prof c' = cl_Prof c \<and> (cl_sent c' = cl_sent c \<or> (\<exists>address. cl_sent c' = cl_sent c @ [(address, template (cl_Prof c))]))"
  using assms
  by (auto simp: tplPost_def Let_def client_Close_def split: if_splits option.splits sum.splits prod.splits)

lemma take_token_cases:
  assumes "take_token env dtd c = (r, c')"
  shows "c' = c \<and> (\<forall>tok. r = Inr tok \<longrightarrow> dt_Type dtd \<noteq> ''auth-request'' \<and> tok = (if cl_WebVpnCookie c \<noteq> [] then cl_WebVpnCookie c else dt_SessionToken dtd))"
  using assms by (auto simp: take_token_def split: if_splits)

lemma PasswordAuth_sent:
  assumes "PasswordAuth env ex1 ex2 c = (r, c')"
  shows "cl_Prof c' = cl_Prof c \<and> (\<exists>as. length as \<le> 2 \<and> cl_sent c' = cl_sent c @ map (\<lambda>a. (a, templateAuthReply (cl_Prof c))) as)"
proof -
  obtain r1 c1 where p1: "tplPost env templateAuthReply (ap_AuthPath (cl_Prof c)) ex1 c = (r1, c1)" by fastforce
  obtain r2 c2 where p2: "tplPost env templateAuthReply (ap_AuthPath (cl_Prof c1)) ex2 c1 = (r2, c2)" by fastforce
  note t = tplPost_sent [OF p1] tplPost_sent [OF p2]
  have "c' = c1 \<or> c' = c2"
    using assms p1 p2 by (auto simp: PasswordAuth_def split: sum.splits if_splits dest: take_token_cases)
  moreover obtain as1 where "length as1 \<le> 1" "cl_sent c1 = cl_sent c @ map (\<lambda>a. (a, templateAuthReply (cl_Prof c))) as1"
    using t(1) by (metis append_Nil2 le_numeral_extra(4) length_0_conv length_Cons list.map(1,2) One_nat_def zero_le)
  moreover obtain as2 where "length as2 \<le> 1" "cl_sent c2 = cl_sent c1 @ map (\<lambda>a. (a, templateAuthReply (cl_Prof c))) as2"
    using t by (metis append_Nil2 le_numeral_extra(4) length_0_conv length_Cons list.map(1,2) One_nat_def zero_le)
  ultimately show ?thesis
    using t by (auto intro: exI [of _ as1] exI [of _ "as1 @ as2"])
qed

lemma PasswordAuth_Inr:
  assumes "PasswordAuth env ex1 ex2 c = (Inr token, c')"
  shows "\<exists>ex dtd c0. ex \<in> {ex1, ex2} \<and> good_answer env ex dtd \<and> take_token env dtd c0 = (Inr token, c')"
proof -
  obtain r1 c1 where p1: "tplPost env templateAuthReply (ap_AuthPath (cl_Prof c)) ex1 c = (r1, c1)" by fastforce
  obtain r2 c2 where p2: "tplPost env templateAuthReply (ap_AuthPath (cl_Prof c1)) ex2 c1 = (r2, c2)" by fastforce
  obtain dtd1 where r1: "r1 = Inr dtd1" using assms p1 by (cases r1) (auto simp: PasswordAuth_def)
  show ?thesis
  proof (cases "take_token env dtd1 c1 = (Inr token, c')")
    case True
    moreover have "good_answer env ex1 dtd1" using tplPost_Inr [OF p1 [unfolded r1]] by simp
    ultimately show ?thesis by (intro exI [of _ ex1] exI [of _ dtd1] exI [of _ c1]) simp
  next
    case False
    with assms p1 p2 r1 obtain dtd2 where r2: "r2 = Inr dtd2" and t: "take_token env dtd2 c2 = (Inr token, c')"
      by (cases r2) (auto simp: PasswordAuth_def split: if_splits)
    have "good_answer env ex2 dtd2" using tplPost_Inr [OF p2 [unfolded r2]] by simp
    with t show ?thesis by (intro exI [of _ ex2] exI [of _ dtd2] exI [of _ c2]) simp
  qed
qed

text \<open>A login is accepted only on the word of the server. If \<open>PasswordAuth\<close> succeeds, the last answer had status 200, decoded,
  contained no error and was not another request for credentials, and the session's token is the cookie or the token of that answer.
  And whatever the server answers, the password is sent at most twice.\<close>

theorem login_follows_the_server:
  assumes "PasswordAuth env ex1 ex2 c = (r, c')"
  shows "(\<forall>token. r = Inr token \<longrightarrow>
      (\<exists>ex dtd. ex \<in> {ex1, ex2} \<and> good_answer env ex dtd \<and> dt_Type dtd \<noteq> ''auth-request'' \<and> token \<in> {cl_WebVpnCookie c', dt_SessionToken dtd})) \<and>
    length (cl_sent c') \<le> length (cl_sent c) + 2"
proof -
  have "\<exists>ex dtd. ex \<in> {ex1, ex2} \<and> good_answer env ex dtd \<and> dt_Type dtd \<noteq> ''auth-request'' \<and> token \<in> {cl_WebVpnCookie c', dt_SessionToken dtd}"
    if "r = Inr token" for token
  proof -
    from PasswordAuth_Inr [of env ex1 ex2 c token c'] assms that
    obtain ex dtd c0 where e: "ex \<in> {ex1, ex2}" "good_answer env ex dtd" and t: "take_token env dtd c0 = (Inr token, c')" by auto
    from take_token_cases [OF t] have "dt_Type dtd \<noteq> ''auth-request'' \<and> token \<in> {cl_WebVpnCookie c', dt_SessionToken dtd}" by simp
    with e show ?thesis by (intro exI [of _ ex] exI [of _ dtd]) simp
  qed
  then show ?thesis using PasswordAuth_sent [OF assms] by auto
qed

text \<open>A server that answers every request with status 200 and one document.\<close>

definition answer_with :: "DTD \<Rightarrow> auth_env" where
  "answer_with dtd = \<lparr>ae_AgentVersion = ''4'', ae_Sprintf = (\<lambda>m p. m), ae_Unmarshal = (\<lambda>_. Inr dtd)\<rparr>"

definition plain_dtd :: "string \<Rightarrow> string \<Rightarrow> DTD" where
  "plain_dtd typ token =
     \<lparr>dt_Type = typ, dt_SessionToken = token, dt_Error = \<lparr>er_Param1 = [], er_Value = []\<rparr>, dt_AuthError = \<lparr>er_Param1 = [], er_Value = []\<rparr>,
      dt_Message = [], dt_Action = [], dt_Groups = [], dt_TunnelGroup = [], dt_GroupAlias = [], dt_ConfigHash = []\<rparr>"

definition ok_exchange :: exchange where
  "ok_exchange = \<lparr>ex_newRequest = None, ex_write = None, ex_response = Inr \<lparr>hr_StatusCode = 200, hr_Status = ''200 OK'', hr_Body = ([], None), hr_Cookies = []\<rparr>\<rparr>"

definition sample_client :: Client where
  "sample_client =
     \<lparr>cl_Prof = sample_auth_profile, cl_Conn = True, cl_WebVpnCookie = [],
      cl_LocalInterface = \<lparr>li_Name = [], li_IP4 = [], li_MAC = [], li_Gateway = [], li_InterfaceIndex = 0\<rparr>, cl_serverGroups = [], cl_sent = []\<rparr>"

lemmas sample_login_defs = answer_with_def plain_dtd_def ok_exchange_def sample_client_def tplPost_def readAuthResponse_def read_answer_def
  PasswordAuth_def take_token_def

theorem login_follows_the_server_witness:
  "\<exists>c'. PasswordAuth (answer_with (plain_dtd ''complete'' ''t'')) ok_exchange ok_exchange sample_client = (Inr ''t'', c') \<and> length (cl_sent c') \<le> 2 \<and>
     (\<exists>ex dtd. good_answer (answer_with (plain_dtd ''complete'' ''t'')) ex dtd \<and> dt_Type dtd \<noteq> ''auth-request'')"
proof -
  obtain c' where c': "PasswordAuth (answer_with (plain_dtd ''complete'' ''t'')) ok_exchange ok_exchange sample_client = (Inr ''t'', c')"
    by (simp add: sample_login_defs Let_def)
  from login_follows_the_server [OF c'] have "\<exists>ex dtd. good_answer (answer_with (plain_dtd ''complete'' ''t'')) ex dtd \<and> dt_Type dtd \<noteq> ''auth-request''"
    "length (cl_sent c') \<le> 2" by (blast, simp add: sample_client_def)
  with c' show ?thesis by blast
qed

text \<open>A nil error of \<open>VerifyCredentials\<close> does not mean that the server accepted the credentials, as its comment says. Any document
  without error elements whose type is neither empty nor \<open>auth-request\<close> is taken for success, with an empty session token when there
  is neither a token nor a cookie; the probe of the login form and the probe of the password then both succeed.\<close>

theorem probe_accepts_without_token:
  assumes "typ \<noteq> []" "typ \<noteq> ''auth-request''" "TrimSpace username \<noteq> []" "password \<noteq> []"
    and "auth_tlsServerName (ap_HostWithPort (cl_Prof c)) = Inr name" "\<And>a. dial a name (ap_HostWithPort (cl_Prof c)) = None"
  shows "VerifyCredentials (answer_with (plain_dtd typ [])) dial ok_exchange ok_exchange ok_exchange (Inr c) grp username password = None"
  using assms by (simp add: VerifyCredentials_def InitAuth_def sample_login_defs take_form_def Let_def)

theorem probe_accepts_without_token_witness:
  "VerifyCredentials (answer_with (plain_dtd ''logout'' [])) (\<lambda>_ _ _. None) ok_exchange ok_exchange ok_exchange (Inr sample_client) [] ''u'' ''p'' = None"
proof -
  have "auth_tlsServerName (ap_HostWithPort (cl_Prof sample_client)) = Inr ''vpn.example.com''"
    by (simp add: auth_tlsServerName_def sample_client_def sample_auth_profile_def sample_trims sample_parses SplitHostPort_err_def last_colon_def TrimSpace_word)
  then show ?thesis by (intro probe_accepts_without_token) (simp_all add: TrimSpace_word)
qed



end
