(* ===== verification/Controller.thy ===== *)
theory Controller
  imports Connsession "HOL-Library.Multiset"
begin

text \<open>
  The end of a tunnel: \<open>internal/anyconnect/tunnel/controller.go\<close>, with \<open>ConnSession.Close\<close> and \<open>SetCloseHook\<close> of
  \<open>session.go\<close> and the ways the four packet workers of \<open>tun.go\<close> end. Everything runs in goroutines, so this is a transition
  system: a goroutine is a stack of actions, the top one is what it does next, and \<open>tstep\<close> lets one goroutine make one step, or
  says that it has to wait.

  A \<open>sync.Once\<close> is idle, busy at a stage of its function (one goroutine is executing it, the others wait), or finished. The network
  manager and the device are represented by the number of times they were closed; the errors of those calls are arguments.
\<close>

section \<open>State\<close>

datatype ctl_stage = Drain | WaitDynamic | CloseManager | CloseDevice | SpawnDrain | StoreError
datatype sess_stage = CloseChannels | CallHook | Leave

datatype 'st once = Idle | Busy 'st | Finished

datatype act =
    SessCall        \<comment> \<open>about to call \<open>cSess.Close()\<close>\<close>
  | SessRun         \<comment> \<open>inside \<open>closeOnce\<close>\<close>
  | CtlCall         \<comment> \<open>about to call \<open>c.Close(context.Background())\<close>\<close>
  | CtlRun          \<comment> \<open>inside \<open>close\<close>\<close>
  | Watch           \<comment> \<open>the goroutine that waits for \<open>CloseChan\<close> and closes the controller\<close>
  | DrainWait       \<comment> \<open>the goroutine that waits for the workers\<close>
  | DynamicRun | DynamicEnd | EventsRun | ReadRun | WriteRun   \<comment> \<open>the workers\<close>
  | WorkerDone      \<comment> \<open>\<open>c.workers.Done()\<close>\<close>
  | StBegin | StHook | StDone | StLifecycle | StSpawn          \<comment> \<open>\<open>Start\<close>\<close>

record tunnel =
  tn_sess :: ConnSession
  tn_sessOnce :: "sess_stage once"
  tn_hook :: bool                         \<comment> \<open>\<open>closeHook\<close> is set\<close>
  tn_tunnelDone :: bool                   \<comment> \<open>\<open>tunnelDone\<close> is registered\<close>
  tc_state :: string
  tc_closeErr :: "error option"
  tc_once :: "ctl_stage once"
  tc_firstErr :: "error option"           \<comment> \<open>the variable of the running \<open>Close\<close>\<close>
  tc_workers :: nat
  tc_done :: bool
  tc_dynamicStop :: bool
  tc_dynamicDone :: bool
  tc_managerCalls :: nat
  tc_deviceCalls :: nat
  tn_threads :: "act list list"

text \<open>\<open>newTunnelController\<close> for a device, a manager and a session that are there.\<close>

definition newTunnelController :: "ConnSession \<Rightarrow> act list list \<Rightarrow> tunnel" where
  "newTunnelController c threads =
     \<lparr>tn_sess = c, tn_sessOnce = Idle, tn_hook = False, tn_tunnelDone = False, tc_state = ''Configuring'', tc_closeErr = None,
      tc_once = Idle, tc_firstErr = None, tc_workers = 0, tc_done = False, tc_dynamicStop = False, tc_dynamicDone = False,
      tc_managerCalls = 0, tc_deviceCalls = 0, tn_threads = threads\<rparr>"

section \<open>Closing\<close>

text \<open>One stage of the function \<open>ConnSession.Close\<close> runs once: what it does, and the actions that replace \<open>SessRun\<close>.\<close>

definition run_sess_stage :: "stamp \<Rightarrow> sess_stage \<Rightarrow> tunnel \<Rightarrow> act list \<times> tunnel" where
  "run_sess_stage now st s =
     (case st of
        CloseChannels \<Rightarrow> ([SessRun], s\<lparr>tn_sess := Close_body now ((tn_sess s)\<lparr>cs_closeOnce := True\<rparr>), tn_sessOnce := Busy CallHook\<rparr>)
      | CallHook \<Rightarrow> (if tn_hook s then [CtlCall, SessRun] else [SessRun], s\<lparr>tn_sessOnce := Busy Leave\<rparr>)
      | Leave \<Rightarrow> ([], s\<lparr>tn_sessOnce := Finished\<rparr>))"

text \<open>One stage of the function \<open>TunnelController.Close\<close> runs once; \<open>None\<close> while it waits for the dynamic route worker. The last
  component are the goroutines it starts.\<close>

definition run_ctl_stage :: "error option \<Rightarrow> error option \<Rightarrow> ctl_stage \<Rightarrow> tunnel \<Rightarrow> (act list \<times> tunnel \<times> act list list) option" where
  "run_ctl_stage managerErr deviceErr st s =
     (case st of
        Drain \<Rightarrow>
          Some ([CtlRun], s\<lparr>tc_state := ''Draining'', tn_sess := SetLifecycleState ''Draining'' (tn_sess s), tc_dynamicStop := True,
                  tc_firstErr := None, tc_once := Busy WaitDynamic\<rparr>, [])
      | WaitDynamic \<Rightarrow> if tc_dynamicDone s then Some ([CtlRun], s\<lparr>tc_once := Busy CloseManager\<rparr>, []) else None
      | CloseManager \<Rightarrow>
          Some ([CtlRun], s\<lparr>tc_managerCalls := tc_managerCalls s + 1,
                  tc_firstErr := (if managerErr \<noteq> None then managerErr else tc_firstErr s), tc_once := Busy CloseDevice\<rparr>, [])
      | CloseDevice \<Rightarrow>
          Some ([CtlRun], s\<lparr>tc_deviceCalls := tc_deviceCalls s + 1,
                  tc_firstErr := (if deviceErr \<noteq> None \<and> tc_firstErr s = None then deviceErr else tc_firstErr s),
                  tc_once := Busy SpawnDrain\<rparr>, [])
      | SpawnDrain \<Rightarrow> Some ([CtlRun], s\<lparr>tc_once := Busy StoreError\<rparr>, [[DrainWait]])
      | StoreError \<Rightarrow>
          Some ([], s\<lparr>tc_closeErr := tc_firstErr s, tn_sess := SetTunnelError (tc_firstErr s) (tn_sess s), tc_once := Finished\<rparr>, []))"

section \<open>Goroutines\<close>

abbreviation closed :: "tunnel \<Rightarrow> bool" where
  "closed s \<equiv> cs_CloseChan (tn_sess s)"

text \<open>What the outside contributes to a step: nothing, a packet, a failed or nonsensical call of the device, the event that the device
  is down, the end of its event channel.\<close>

datatype wake = Quiet | Packet | DeviceError error | BadRead error | DeviceDown | EventsClosed

definition worker_fails :: "stamp \<Rightarrow> string \<Rightarrow> error \<Rightarrow> tunnel \<Rightarrow> tunnel" where
  "worker_fails now code e s = s\<lparr>tn_sess := RecordClose now code ''tun'' (Some e) (tn_sess s)\<rparr>"

text \<open>The next step of a goroutine whose top action is \<open>a\<close>: the actions that replace it, the new state, the goroutines it starts.
  A packet that is simply passed on is no step; so is an event that is not \<open>EventDown\<close>. A device that was closed fails the pending read.\<close>

definition act_step :: "stamp \<Rightarrow> error option \<Rightarrow> error option \<Rightarrow> wake \<Rightarrow> act \<Rightarrow> tunnel \<Rightarrow> (act list \<times> tunnel \<times> act list list) option" where
  "act_step now managerErr deviceErr ext a s =
     (case a of
        SessCall \<Rightarrow>
          (case tn_sessOnce s of
             Idle \<Rightarrow> Some ([SessRun], s\<lparr>tn_sessOnce := Busy CloseChannels\<rparr>, [])
           | Busy _ \<Rightarrow> None
           | Finished \<Rightarrow> Some ([], s, []))
      | SessRun \<Rightarrow>
          (case tn_sessOnce s of Busy st \<Rightarrow> (case run_sess_stage now st s of (as, s) \<Rightarrow> Some (as, s, [])) | _ \<Rightarrow> None)
      | CtlCall \<Rightarrow>
          (case tc_once s of
             Idle \<Rightarrow> Some ([CtlRun], s\<lparr>tc_once := Busy Drain\<rparr>, [])
           | Busy _ \<Rightarrow> None
           | Finished \<Rightarrow> Some ([], s, []))
      | CtlRun \<Rightarrow> (case tc_once s of Busy st \<Rightarrow> run_ctl_stage managerErr deviceErr st s | _ \<Rightarrow> None)
      | Watch \<Rightarrow> if closed s then Some ([CtlCall], s, []) else None
      | DrainWait \<Rightarrow>
          if tc_workers s = 0
          then Some ([], s\<lparr>tc_state := ''Closed'', tn_sess := SetLifecycleState ''Closed'' (tn_sess s), tc_done := True\<rparr>, [])
          else None
      | DynamicRun \<Rightarrow> if tc_dynamicStop s \<or> closed s then Some ([DynamicEnd, WorkerDone], s, []) else None
      | DynamicEnd \<Rightarrow> Some ([], s\<lparr>tc_dynamicDone := True\<rparr>, [])
      | EventsRun \<Rightarrow>
          if ext = DeviceDown
          then Some ([SessCall, WorkerDone], worker_fails now ''tun_down'' (Errors ''TUN interface reported down'') s, [])
          else if closed s then Some ([WorkerDone], s, [])
          else if ext = EventsClosed then Some ([SessCall, WorkerDone], worker_fails now ''tun_events_closed'' (Errors ''EOF'') s, [])
          else None
      | ReadRun \<Rightarrow>
          (case ext of
             DeviceError e \<Rightarrow> Some ([SessCall, WorkerDone], worker_fails now ''tun_read_error'' e s, [])
           | BadRead e \<Rightarrow> Some ([SessCall, WorkerDone], worker_fails now ''tun_read_invalid'' e s, [])
           | _ \<Rightarrow>
               if ext = Packet \<and> closed s then Some ([WorkerDone], s, [])
               else if 0 < tc_deviceCalls s
               then Some ([SessCall, WorkerDone], worker_fails now ''tun_read_error'' (Errors ''file already closed'') s, [])
               else None)
      | WriteRun \<Rightarrow>
          (case ext of
             DeviceError e \<Rightarrow> Some ([SessCall, WorkerDone], worker_fails now ''tun_write_error'' e s, [])
           | _ \<Rightarrow> if closed s then Some ([SessCall, WorkerDone], s, []) else None)
      | WorkerDone \<Rightarrow> Some ([], s\<lparr>tc_workers := tc_workers s - 1\<rparr>, [])
      | StBegin \<Rightarrow>
          if tc_state s \<noteq> ''Configuring'' then Some ([], s, [])
          else Some ([StHook], s\<lparr>tc_state := ''Running''\<rparr>, [])
      | StHook \<Rightarrow> if closed s then Some ([CtlCall, StDone], s, []) else Some ([StDone], s\<lparr>tn_hook := True\<rparr>, [])
      | StDone \<Rightarrow> Some ([StLifecycle], s\<lparr>tn_tunnelDone := True\<rparr>, [])
      | StLifecycle \<Rightarrow> Some ([StSpawn], s\<lparr>tn_sess := SetLifecycleState ''Running'' (tn_sess s)\<rparr>, [])
      | StSpawn \<Rightarrow> Some ([], s\<lparr>tc_workers := tc_workers s + 4\<rparr>, [[DynamicRun], [EventsRun], [ReadRun], [WriteRun], [Watch]]))"

text \<open>A step of goroutine \<open>i\<close>.\<close>

definition tstep :: "stamp \<Rightarrow> error option \<Rightarrow> error option \<Rightarrow> wake \<Rightarrow> nat \<Rightarrow> tunnel \<Rightarrow> tunnel option" where
  "tstep now me de ext i s =
     (if length (tn_threads s) \<le> i then None
      else (case tn_threads s ! i of
              [] \<Rightarrow> None
            | a # rest \<Rightarrow>
                (case act_step now me de ext a s of
                   None \<Rightarrow> None
                 | Some (as, s', new) \<Rightarrow> Some (s'\<lparr>tn_threads := (tn_threads s)[i := as @ rest] @ new\<rparr>))))"

text \<open>A schedule: which goroutine goes next, with the outside's contributions.\<close>

type_synonym move = "stamp \<times> error option \<times> error option \<times> wake \<times> nat"

fun run_moves :: "move list \<Rightarrow> tunnel \<Rightarrow> tunnel option" where
  "run_moves [] s = Some s"
| "run_moves ((now, me, de, ext, i) # ms) s =
     (case tstep now me de ext i s of None \<Rightarrow> None | Some s' \<Rightarrow> run_moves ms s')"

text \<open>Nothing can go on by itself.\<close>

definition stuck :: "tunnel \<Rightarrow> bool" where
  "stuck s \<longleftrightarrow> (\<forall>i < length (tn_threads s). \<forall>now me de. tstep now me de Quiet i s = None)"

section \<open>Every schedule ends\<close>

text \<open>What is still to do, counted: every action has a weight, and a \<open>sync.Once\<close> has the number of its stages that are left. The
  numbers are chosen such that every step makes the sum smaller, whoever makes it.\<close>

fun weight :: "act \<Rightarrow> nat" where
  "weight SessRun = 0" | "weight CtlRun = 0" | "weight SessCall = 1" | "weight CtlCall = 1" | "weight Watch = 2"
| "weight DrainWait = 1" | "weight WorkerDone = 1" | "weight DynamicEnd = 1" | "weight DynamicRun = 3"
| "weight EventsRun = 3" | "weight ReadRun = 3" | "weight WriteRun = 3"
| "weight StBegin = 20" | "weight StHook = 19" | "weight StDone = 17" | "weight StLifecycle = 16" | "weight StSpawn = 15"

fun sess_left :: "sess_stage once \<Rightarrow> nat" where
  "sess_left Idle = 5" | "sess_left (Busy CloseChannels) = 4" | "sess_left (Busy CallHook) = 3" | "sess_left (Busy Leave) = 1"
| "sess_left Finished = 0"

fun ctl_left :: "ctl_stage once \<Rightarrow> nat" where
  "ctl_left Idle = 8" | "ctl_left (Busy Drain) = 7" | "ctl_left (Busy WaitDynamic) = 6" | "ctl_left (Busy CloseManager) = 5"
| "ctl_left (Busy CloseDevice) = 4" | "ctl_left (Busy SpawnDrain) = 3" | "ctl_left (Busy StoreError) = 1" | "ctl_left Finished = 0"

definition acts_left :: "act list \<Rightarrow> nat" where
  "acts_left as = sum_list (map weight as)"

definition work_left :: "tunnel \<Rightarrow> nat" where
  "work_left s = acts_left (concat (tn_threads s)) + sess_left (tn_sessOnce s) + ctl_left (tc_once s)"

lemma acts_left_simps [simp]:
  "acts_left [] = 0" "acts_left (a # as) = weight a + acts_left as" "acts_left (as @ bs) = acts_left as + acts_left bs"
  by (simp_all add: acts_left_def)

lemma concat_update:
  assumes "i < length ths" "ths ! i = a # rest"
  shows "mset (concat (ths[i := as @ rest] @ new)) + {#a#} = mset (concat ths) + mset as + mset (concat new)"
proof -
  have "ths = take i ths @ (a # rest) # drop (Suc i) ths" using assms by (metis id_take_nth_drop)
  moreover have "ths[i := as @ rest] = take i ths @ (as @ rest) # drop (Suc i) ths" using assms(1) by (rule upd_conv_take_nth_drop)
  ultimately have "concat ths = concat (take i ths) @ (a # rest) @ concat (drop (Suc i) ths)"
    and "concat (ths[i := as @ rest] @ new) = concat (take i ths) @ (as @ rest) @ concat (drop (Suc i) ths) @ concat new"
    by (metis concat.simps(2) concat_append, simp)
  then show ?thesis by simp
qed

lemma acts_left_mset: "acts_left as = sum_mset (image_mset weight (mset as))"
  by (simp add: acts_left_def sum_mset_sum_list flip: mset_map)

lemma acts_left_update:
  assumes "i < length ths" "ths ! i = a # rest"
  shows "acts_left (concat (ths[i := as @ rest] @ new)) + weight a = acts_left (concat ths) + acts_left as + acts_left (concat new)"
  using arg_cong [OF concat_update [OF assms, of as new], of "\<lambda>m. sum_mset (image_mset weight m)"]
  by (simp add: acts_left_mset)

lemma tstepE:
  assumes "tstep now me de ext i s = Some t"
  obtains a rest as s' new where "i < length (tn_threads s)" "tn_threads s ! i = a # rest"
    "act_step now me de ext a s = Some (as, s', new)" "t = s'\<lparr>tn_threads := (tn_threads s)[i := as @ rest] @ new\<rparr>"
  using assms by (auto simp: tstep_def split: if_splits list.splits option.splits prod.splits)

lemmas step_defs = act_step_def run_sess_stage_def run_ctl_stage_def worker_fails_def

lemma act_step_left:
  assumes "act_step now me de ext a s = Some (as, s', new)"
  shows "acts_left as + acts_left (concat new) + sess_left (tn_sessOnce s') + ctl_left (tc_once s')
    < weight a + sess_left (tn_sessOnce s) + ctl_left (tc_once s)"
  using assms
  by (cases a) (auto simp: step_defs split: if_splits once.splits sess_stage.splits ctl_stage.splits wake.splits)

lemma tstep_left:
  assumes "tstep now me de ext i s = Some t"
  shows "work_left t < work_left s"
proof -
  obtain a rest as s' new where "i < length (tn_threads s)" "tn_threads s ! i = a # rest"
    and st: "act_step now me de ext a s = Some (as, s', new)" and t: "t = s'\<lparr>tn_threads := (tn_threads s)[i := as @ rest] @ new\<rparr>"
    using assms by (rule tstepE)
  then show ?thesis
    using acts_left_update [of i "tn_threads s" a rest as new] act_step_left [OF st] by (simp add: work_left_def)
qed

lemma run_moves_length: "run_moves ms s = Some t \<Longrightarrow> length ms + work_left t \<le> work_left s"
proof (induction ms arbitrary: s)
  case (Cons m ms)
  obtain now me de ext i where m: "m = (now, me, de, ext, i)" by (metis prod_cases5)
  from Cons.prems obtain u where u: "tstep now me de ext i s = Some u" "run_moves ms u = Some t"
    by (auto simp: m split: option.splits)
  show ?case using Cons.IH [OF u(2)] tstep_left [OF u(1)] by simp
qed simp

text \<open>So from every state a state in which nothing goes on by itself is reached.\<close>

lemma stuck_reachable: "\<exists>ms t. run_moves ms s = Some t \<and> stuck t"
proof (induction "work_left s" arbitrary: s rule: less_induct)
  case less
  show ?case
  proof (cases "stuck s")
    case True
    then show ?thesis by (intro exI [of _ "[]"] exI [of _ s]) simp
  next
    case False
    then obtain i now me de u where u: "tstep now me de Quiet i s = Some u" by (auto simp: stuck_def)
    obtain ms t where "run_moves ms u = Some t" "stuck t" using less [OF tstep_left [OF u]] by blast
    with u have "run_moves ((now, me, de, Quiet, i) # ms) s = Some t \<and> stuck t" by simp
    then show ?thesis by blast
  qed
qed

section \<open>What holds while a started tunnel is taken down\<close>

text \<open>How many goroutines are at, or will come back to, an action.\<close>

definition num :: "act \<Rightarrow> tunnel \<Rightarrow> nat" where
  "num a s = count (mset (concat (tn_threads s))) a"

text \<open>The stacks that occur after \<open>Start\<close>.\<close>

definition stacks :: "act list set" where
  "stacks = {[], [SessCall], [SessRun], [CtlCall, SessRun], [CtlRun, SessRun], [Watch], [CtlCall], [CtlRun], [DrainWait],
     [DynamicRun], [DynamicEnd, WorkerDone], [WorkerDone], [EventsRun], [ReadRun], [WriteRun], [SessCall, WorkerDone],
     [SessRun, WorkerDone], [CtlCall, SessRun, WorkerDone], [CtlRun, SessRun, WorkerDone]}"

fun is_busy :: "'st once \<Rightarrow> bool" where
  "is_busy (Busy _) = True"
| "is_busy _ = False"

fun ctl_rank :: "ctl_stage once \<Rightarrow> nat" where
  "ctl_rank Idle = 0" | "ctl_rank (Busy Drain) = 1" | "ctl_rank (Busy WaitDynamic) = 2" | "ctl_rank (Busy CloseManager) = 3"
| "ctl_rank (Busy CloseDevice) = 4" | "ctl_rank (Busy SpawnDrain) = 5" | "ctl_rank (Busy StoreError) = 6" | "ctl_rank Finished = 7"

text \<open>Who is inside which \<open>sync.Once\<close>, and that somebody will still enter one that is idle.\<close>

definition owners :: "tunnel \<Rightarrow> bool" where
  "owners s \<longleftrightarrow>
     num SessRun s = of_bool (is_busy (tn_sessOnce s)) \<and>
     num CtlRun s = of_bool (is_busy (tc_once s)) \<and>
     (tn_sessOnce s = Idle \<longrightarrow> 1 \<le> num SessCall s) \<and>
     (tc_once s = Idle \<longrightarrow> 1 \<le> num Watch s + num CtlCall s) \<and>
     (tn_sessOnce s \<noteq> Idle \<and> tn_sessOnce s \<noteq> Busy CloseChannels \<longrightarrow> closed s)"

text \<open>The wait group and the channel of the dynamic route worker.\<close>

definition workers_ok :: "tunnel \<Rightarrow> bool" where
  "workers_ok s \<longleftrightarrow>
     num DynamicRun s + num DynamicEnd s = of_bool (\<not> tc_dynamicDone s) \<and>
     tc_workers s = num WorkerDone s + num DynamicRun s + num EventsRun s + num ReadRun s + num WriteRun s"

text \<open>What the stage of \<open>TunnelController.Close\<close> says about what has been done.\<close>

definition shutdown_order :: "tunnel \<Rightarrow> bool" where
  "shutdown_order s \<longleftrightarrow>
     (let n = ctl_rank (tc_once s)
      in tc_dynamicStop s = (2 \<le> n) \<and> (3 \<le> n \<longrightarrow> tc_dynamicDone s) \<and> tc_managerCalls s = of_bool (4 \<le> n) \<and>
         tc_deviceCalls s = of_bool (5 \<le> n) \<and> num DrainWait s + of_bool (tc_done s) = of_bool (6 \<le> n) \<and>
         (tc_done s \<longrightarrow> tc_state s = ''Closed''))"

definition running_inv :: "tunnel \<Rightarrow> bool" where
  "running_inv s \<longleftrightarrow> set (tn_threads s) \<subseteq> stacks \<and> owners s \<and> workers_ok s \<and> shutdown_order s"

lemma num_update:
  assumes "i < length (tn_threads s)" "tn_threads s ! i = a # rest"
  shows "num b (s'\<lparr>tn_threads := (tn_threads s)[i := as @ rest] @ new\<rparr>) + of_bool (a = b)
    = num b s + count (mset as) b + count (mset (concat new)) b"
  using arg_cong [OF concat_update [OF assms, of as new], of "\<lambda>m. count m b"] by (simp add: num_def split: if_splits)

lemma CloseChan_keeps [simp]:
  "cs_CloseChan (RecordClose now code tr e c) = cs_CloseChan c"
  "cs_CloseChan (SetLifecycleState st c) = cs_CloseChan c"
  "cs_CloseChan (SetTunnelError e c) = cs_CloseChan c"
  "cs_CloseChan (Close_body now c)"
  by (auto simp: RecordClose_def SetLifecycleState_def SetTunnelError_def Close_body_def Let_def split: prod.splits)

lemma running_acts: "a # rest \<in> stacks \<Longrightarrow> a \<notin> {StBegin, StHook, StDone, StLifecycle, StSpawn}"
  by (auto simp: stacks_def)

text \<open>What can follow an action.\<close>

fun next_acts :: "act \<Rightarrow> act list set" where
  "next_acts SessCall = {[SessRun], []}"
| "next_acts SessRun = {[SessRun], [CtlCall, SessRun], []}"
| "next_acts CtlCall = {[CtlRun], []}"
| "next_acts CtlRun = {[CtlRun], []}"
| "next_acts Watch = {[CtlCall]}"
| "next_acts DynamicRun = {[DynamicEnd, WorkerDone]}"
| "next_acts EventsRun = {[SessCall, WorkerDone], [WorkerDone]}"
| "next_acts ReadRun = {[SessCall, WorkerDone], [WorkerDone]}"
| "next_acts WriteRun = {[SessCall, WorkerDone]}"
| "next_acts _ = {[]}"

lemma act_step_next:
  assumes "act_step now me de ext a s = Some (as, s', new)" "a \<notin> {StBegin, StHook, StDone, StLifecycle, StSpawn}"
  shows "as \<in> next_acts a \<and> set new \<subseteq> {[DrainWait]}"
  using assms
  by (cases a) (auto simp: step_defs split: if_splits once.splits sess_stage.splits ctl_stage.splits wake.splits)

lemma stacks_next: "a # rest \<in> stacks \<Longrightarrow> as \<in> next_acts a \<Longrightarrow> as @ rest \<in> stacks"
  by (cases a) (auto simp: stacks_def)

lemma stacks_step:
  assumes "a # rest \<in> stacks" "act_step now me de ext a s = Some (as, s', new)"
  shows "as @ rest \<in> stacks" "set new \<subseteq> stacks"
proof -
  have "as \<in> next_acts a \<and> set new \<subseteq> {[DrainWait]}" using act_step_next [OF assms(2) running_acts [OF assms(1)]] .
  moreover have "[DrainWait] \<in> stacks" by (simp add: stacks_def)
  ultimately show "as @ rest \<in> stacks" "set new \<subseteq> stacks" using stacks_next [OF assms(1)] by blast+
qed

lemma tstep_threads:
  assumes "tstep now me de ext i s = Some t" "set (tn_threads s) \<subseteq> stacks"
  shows "set (tn_threads t) \<subseteq> stacks"
proof -
  obtain a rest as s' new where i: "i < length (tn_threads s)" and th: "tn_threads s ! i = a # rest"
    and st: "act_step now me de ext a s = Some (as, s', new)" and t: "t = s'\<lparr>tn_threads := (tn_threads s)[i := as @ rest] @ new\<rparr>"
    using assms(1) by (rule tstepE)
  have "a # rest \<in> stacks" using assms(2) i th nth_mem by force
  then show ?thesis
    using stacks_step [OF _ st] assms(2) set_update_subset_insert [of "tn_threads s" i "as @ rest"] by (auto simp: t)
qed

text \<open>One step in terms of the numbers.\<close>

lemma tstep_num:
  assumes "tstep now me de ext i s = Some t" "set (tn_threads s) \<subseteq> stacks"
  obtains a as s' new where "act_step now me de ext a s = Some (as, s', new)" "t = s'\<lparr>tn_threads := tn_threads t\<rparr>"
    "\<And>b. num b t + of_bool (a = b) = num b s + count (mset as) b + count (mset (concat new)) b"
    "a \<notin> {StBegin, StHook, StDone, StLifecycle, StSpawn}" "0 < num a s"
proof -
  obtain a rest as s' new where i: "i < length (tn_threads s)" and th: "tn_threads s ! i = a # rest"
    and st: "act_step now me de ext a s = Some (as, s', new)" and t: "t = s'\<lparr>tn_threads := (tn_threads s)[i := as @ rest] @ new\<rparr>"
    using assms(1) by (rule tstepE)
  have "a # rest \<in> set (tn_threads s)" using i th nth_mem by force
  then have a: "a \<notin> {StBegin, StHook, StDone, StLifecycle, StSpawn}" and "a \<in> set (concat (tn_threads s))"
    using assms(2) running_acts [of a rest] by (auto intro!: bexI [of _ "a # rest"])
  then have "0 < num a s" by (simp add: num_def count_greater_zero_iff)
  then show ?thesis
    using st a num_update [OF i th, where s' = s' and as = as and new = new] by (intro that [of a as s' new]) (simp_all add: t)
qed

lemma fields_upd:
  "t = s'\<lparr>tn_threads := ths\<rparr> \<Longrightarrow>
     tn_sess t = tn_sess s' \<and> tn_sessOnce t = tn_sessOnce s' \<and> tc_once t = tc_once s' \<and> tc_workers t = tc_workers s' \<and>
     tc_done t = tc_done s' \<and> tc_state t = tc_state s' \<and> tc_dynamicStop t = tc_dynamicStop s' \<and>
     tc_dynamicDone t = tc_dynamicDone s' \<and> tc_managerCalls t = tc_managerCalls s' \<and> tc_deviceCalls t = tc_deviceCalls s'"
  by simp

lemmas act_splits = if_splits once.splits sess_stage.splits ctl_stage.splits wake.splits

text \<open>The steps after \<open>Start\<close>, one by one.\<close>

lemma act_step_cases [consumes 2, case_names SessEnter SessSkip SessChannels SessHook SessLeave CtlEnter CtlSkip Drain WaitDynamic
    CloseManager CloseDevice SpawnDrain StoreError Watch DrainWait DynamicRun DynamicEnd Worker WorkerDone]:
  assumes st: "act_step now me de ext a s = Some (as, s', new)" and a: "a \<notin> {StBegin, StHook, StDone, StLifecycle, StSpawn}"
  obtains
    "a = SessCall" "tn_sessOnce s = Idle" "as = [SessRun]" "s' = s\<lparr>tn_sessOnce := Busy CloseChannels\<rparr>" "new = []"
  | "a = SessCall" "tn_sessOnce s = Finished" "as = []" "s' = s" "new = []"
  | c where "a = SessRun" "tn_sessOnce s = Busy CloseChannels" "as = [SessRun]"
      "s' = s\<lparr>tn_sess := c, tn_sessOnce := Busy CallHook\<rparr>" "cs_CloseChan c" "new = []"
  | "a = SessRun" "tn_sessOnce s = Busy CallHook" "as = [CtlCall, SessRun] \<or> as = [SessRun]" "s' = s\<lparr>tn_sessOnce := Busy Leave\<rparr>" "new = []"
  | "a = SessRun" "tn_sessOnce s = Busy Leave" "as = []" "s' = s\<lparr>tn_sessOnce := Finished\<rparr>" "new = []"
  | "a = CtlCall" "tc_once s = Idle" "as = [CtlRun]" "s' = s\<lparr>tc_once := Busy ctl_stage.Drain\<rparr>" "new = []"
  | "a = CtlCall" "tc_once s = Finished" "as = []" "s' = s" "new = []"
  | c where "a = CtlRun" "tc_once s = Busy ctl_stage.Drain" "as = [CtlRun]" "cs_CloseChan c = closed s" "new = []"
      "s' = s\<lparr>tc_state := ''Draining'', tn_sess := c, tc_dynamicStop := True, tc_firstErr := None, tc_once := Busy WaitDynamic\<rparr>"
  | "a = CtlRun" "tc_once s = Busy WaitDynamic" "tc_dynamicDone s" "as = [CtlRun]" "s' = s\<lparr>tc_once := Busy CloseManager\<rparr>" "new = []"
  | e where "a = CtlRun" "tc_once s = Busy CloseManager" "as = [CtlRun]" "new = []"
      "s' = s\<lparr>tc_managerCalls := tc_managerCalls s + 1, tc_firstErr := e, tc_once := Busy CloseDevice\<rparr>"
  | e where "a = CtlRun" "tc_once s = Busy CloseDevice" "as = [CtlRun]" "new = []"
      "s' = s\<lparr>tc_deviceCalls := tc_deviceCalls s + 1, tc_firstErr := e, tc_once := Busy SpawnDrain\<rparr>"
  | "a = CtlRun" "tc_once s = Busy SpawnDrain" "as = [CtlRun]" "s' = s\<lparr>tc_once := Busy StoreError\<rparr>" "new = [[DrainWait]]"
  | c where "a = CtlRun" "tc_once s = Busy StoreError" "as = []" "cs_CloseChan c = closed s" "new = []"
      "s' = s\<lparr>tc_closeErr := tc_firstErr s, tn_sess := c, tc_once := Finished\<rparr>"
  | "a = Watch" "closed s" "as = [CtlCall]" "s' = s" "new = []"
  | c where "a = DrainWait" "tc_workers s = 0" "as = []" "cs_CloseChan c = closed s" "new = []"
      "s' = s\<lparr>tc_state := ''Closed'', tn_sess := c, tc_done := True\<rparr>"
  | "a = DynamicRun" "as = [DynamicEnd, WorkerDone]" "s' = s" "new = []"
  | "a = DynamicEnd" "as = []" "s' = s\<lparr>tc_dynamicDone := True\<rparr>" "new = []"
  | c where "a \<in> {EventsRun, ReadRun, WriteRun}" "as = [SessCall, WorkerDone] \<or> as = [WorkerDone]" "s' = s\<lparr>tn_sess := c\<rparr>"
      "cs_CloseChan c = closed s" "new = []"
  | "a = WorkerDone" "as = []" "s' = s\<lparr>tc_workers := tc_workers s - 1\<rparr>" "new = []"
proof (cases a)
  case SessRun
  with st obtain x where x: "tn_sessOnce s = Busy x" by (auto simp: act_step_def split: once.splits)
  with st SessRun have st: "run_sess_stage now x s = (as, s')" and new: "new = []" by (auto simp: act_step_def split: prod.splits)
  show ?thesis
  proof (cases x)
    case CloseChannels
    with st show ?thesis by (intro that(3) [OF SessRun, of "tn_sess s'"]) (auto simp: run_sess_stage_def x new)
  next
    case CallHook
    with st show ?thesis by (intro that(4) [OF SessRun]) (auto simp: run_sess_stage_def x new split: if_splits)
  next
    case Leave
    with st show ?thesis by (intro that(5) [OF SessRun]) (auto simp: run_sess_stage_def x new)
  qed
next
  case CtlRun
  with st obtain x where x: "tc_once s = Busy x" by (auto simp: act_step_def split: once.splits)
  with st CtlRun have st: "run_ctl_stage me de x s = Some (as, s', new)" by (simp add: act_step_def)
  show ?thesis
  proof (cases x)
    case Drain
    with st show ?thesis by (intro that(8) [OF CtlRun, of "tn_sess s'"]) (auto simp: run_ctl_stage_def x)
  next
    case WaitDynamic
    with st show ?thesis by (intro that(9) [OF CtlRun]) (auto simp: run_ctl_stage_def x split: if_splits)
  next
    case CloseManager
    with st show ?thesis by (intro that(10) [OF CtlRun, of "tc_firstErr s'"]) (auto simp: run_ctl_stage_def x)
  next
    case CloseDevice
    with st show ?thesis by (intro that(11) [OF CtlRun, of "tc_firstErr s'"]) (auto simp: run_ctl_stage_def x)
  next
    case SpawnDrain
    with st show ?thesis by (intro that(12) [OF CtlRun]) (auto simp: run_ctl_stage_def x)
  next
    case StoreError
    with st show ?thesis by (intro that(13) [OF CtlRun, of "tn_sess s'"]) (auto simp: run_ctl_stage_def x)
  qed
next
  case EventsRun
  with st show ?thesis by (intro that(18) [of "tn_sess s'"]) (auto simp: step_defs split: if_splits wake.splits)
next
  case ReadRun
  with st show ?thesis by (intro that(18) [of "tn_sess s'"]) (auto simp: step_defs split: if_splits wake.splits)
next
  case WriteRun
  with st show ?thesis by (intro that(18) [of "tn_sess s'"]) (auto simp: step_defs split: if_splits wake.splits)
next
  case SessCall
  show ?thesis
  proof (cases "tn_sessOnce s")
    case Idle
    with st SessCall show ?thesis by (intro that(1)) (auto simp: act_step_def)
  next
    case Finished
    with st SessCall show ?thesis by (intro that(2)) (auto simp: act_step_def)
  qed (use st SessCall in \<open>simp add: act_step_def\<close>)
next
  case CtlCall
  show ?thesis
  proof (cases "tc_once s")
    case Idle
    with st CtlCall show ?thesis by (intro that(6)) (auto simp: act_step_def)
  next
    case Finished
    with st CtlCall show ?thesis by (intro that(7)) (auto simp: act_step_def)
  qed (use st CtlCall in \<open>simp add: act_step_def\<close>)
next
  case DrainWait
  with st show ?thesis by (intro that(15) [of "tn_sess s'"]) (auto simp: act_step_def split: if_splits)
next
  case Watch
  with st show ?thesis by (intro that(14)) (auto simp: act_step_def split: if_splits)
next
  case DynamicRun
  with st show ?thesis by (intro that(16)) (auto simp: act_step_def split: if_splits)
next
  case DynamicEnd
  with st show ?thesis by (intro that(17)) (auto simp: act_step_def)
next
  case WorkerDone
  with st show ?thesis by (intro that(19)) (auto simp: act_step_def)
next
  case StBegin
  with a show ?thesis by blast
next
  case StHook
  with a show ?thesis by blast
next
  case StDone
  with a show ?thesis by blast
next
  case StLifecycle
  with a show ?thesis by blast
next
  case StSpawn
  with a show ?thesis by blast
qed

lemma owners_step:
  assumes st: "act_step now me de ext a s = Some (as, s', new)" and f: "tn_sess t = tn_sess s'" "tn_sessOnce t = tn_sessOnce s'"
    "tc_once t = tc_once s'"
    and n: "\<And>b. num b t + of_bool (a = b) = num b s + count (mset as) b + count (mset (concat new)) b"
    and a: "a \<notin> {StBegin, StHook, StDone, StLifecycle, StSpawn}" and inv: "owners s"
  shows "owners t"
  using st a
  by (cases rule: act_step_cases)
    (use inv n [of SessRun] n [of CtlRun] n [of SessCall] n [of Watch] n [of CtlCall] in
      \<open>auto simp: owners_def f split del: split_of_bool\<close>)

lemma workers_step:
  assumes st: "act_step now me de ext a s = Some (as, s', new)"
    and f: "tc_workers t = tc_workers s'" "tc_dynamicDone t = tc_dynamicDone s'"
    and n: "\<And>b. num b t + of_bool (a = b) = num b s + count (mset as) b + count (mset (concat new)) b"
    and a: "a \<notin> {StBegin, StHook, StDone, StLifecycle, StSpawn}" and inv: "workers_ok s"
  shows "workers_ok t"
  using st a
  by (cases rule: act_step_cases)
    (use inv n [of DynamicRun] n [of DynamicEnd] n [of WorkerDone] n [of EventsRun] n [of ReadRun] n [of WriteRun]
      in \<open>auto simp: workers_ok_def f of_bool_def split: if_splits\<close>)

lemma shutdown_step:
  assumes st: "act_step now me de ext a s = Some (as, s', new)"
    and f: "tc_once t = tc_once s'" "tc_dynamicStop t = tc_dynamicStop s'" "tc_dynamicDone t = tc_dynamicDone s'"
      "tc_managerCalls t = tc_managerCalls s'" "tc_deviceCalls t = tc_deviceCalls s'" "tc_done t = tc_done s'" "tc_state t = tc_state s'"
    and n: "\<And>b. num b t + of_bool (a = b) = num b s + count (mset as) b + count (mset (concat new)) b"
    and a: "a \<notin> {StBegin, StHook, StDone, StLifecycle, StSpawn}" "0 < num a s" and inv: "shutdown_order s"
  shows "shutdown_order t"
proof -
  have "num DrainWait s + of_bool (tc_done s) \<le> 1" using inv by (simp add: shutdown_order_def Let_def)
  from st a(1) show ?thesis
    by (cases rule: act_step_cases) (use inv a(2) n [of DrainWait] \<open>_ \<le> 1\<close> in \<open>auto simp: shutdown_order_def Let_def f split del: split_of_bool\<close>)
qed

lemma tstep_running_inv:
  assumes st: "tstep now me de ext i s = Some t" and inv: "running_inv s"
  shows "running_inv t"
proof -
  have ths: "set (tn_threads s) \<subseteq> stacks" and "owners s" "workers_ok s" "shutdown_order s" using inv by (auto simp: running_inv_def)
  from tstep_num [OF st ths] obtain a as s' new where *: "act_step now me de ext a s = Some (as, s', new)"
    and t: "t = s'\<lparr>tn_threads := tn_threads t\<rparr>"
    and n: "\<And>b. num b t + of_bool (a = b) = num b s + count (mset as) b + count (mset (concat new)) b"
    and a: "a \<notin> {StBegin, StHook, StDone, StLifecycle, StSpawn}" "0 < num a s" by metis
  note f = fields_upd [OF t]
  have "owners t" using f by (intro owners_step [OF * _ _ _ n a(1) \<open>owners s\<close>]) auto
  moreover have "workers_ok t" using f by (intro workers_step [OF * _ _ n a(1) \<open>workers_ok s\<close>]) auto
  moreover have "shutdown_order t" using f by (intro shutdown_step [OF * _ _ _ _ _ _ _ n a \<open>shutdown_order s\<close>]) auto
  ultimately show ?thesis using tstep_threads [OF st ths] by (simp add: running_inv_def)
qed

lemma run_moves_running_inv: "run_moves ms s = Some t \<Longrightarrow> running_inv s \<Longrightarrow> running_inv t"
proof (induction ms arbitrary: s)
  case (Cons m ms)
  obtain now me de ext i where m: "m = (now, me, de, ext, i)" by (metis prod_cases5)
  show ?case using Cons tstep_running_inv by (fastforce simp: m split: option.splits)
qed simp

section \<open>Where the shutdown can stop\<close>

lemma num_pos: "0 < num a s \<longleftrightarrow> (\<exists>th \<in> set (tn_threads s). a \<in> set th)"
  by (auto simp: num_def count_greater_zero_iff)

lemma stuckD:
  assumes "stuck s" "a # rest \<in> set (tn_threads s)"
  shows "act_step now me de Quiet a s = None"
proof -
  obtain i where i: "i < length (tn_threads s)" "tn_threads s ! i = a # rest" using assms(2) by (auto simp: in_set_conv_nth)
  with assms(1) have "tstep now me de Quiet i s = None" by (simp add: stuck_def)
  with i show ?thesis by (simp add: tstep_def split: option.splits prod.splits)
qed

text \<open>The action of a goroutine that has to wait is at the top of its stack, or it is the rest of a \<open>cSess.Close\<close> or of a worker.\<close>

lemma stack_top:
  assumes "th \<in> stacks" "a \<in> set th" "a \<notin> {SessRun, WorkerDone}"
  obtains rest where "th = a # rest"
  using assms by (auto simp: stacks_def)

lemma stuck_none:
  assumes "stuck s" "set (tn_threads s) \<subseteq> stacks" "a \<notin> {SessRun, WorkerDone}" "act_step None None None Quiet a s \<noteq> None"
  shows "num a s = 0"
proof (rule ccontr)
  assume "num a s \<noteq> 0"
  then obtain th where th: "th \<in> set (tn_threads s)" "a \<in> set th" using num_pos by auto
  moreover obtain rest where "th = a # rest" using stack_top [of th a] assms(2,3) th by blast
  ultimately show False using stuckD [OF assms(1), of a rest None None None] assms(4) by simp
qed

lemma stuck_sess_not_idle:
  assumes "stuck s" "running_inv s"
  shows "tn_sessOnce s \<noteq> Idle"
  using stuck_none [OF assms(1), of SessCall] assms(2) by (auto simp: running_inv_def owners_def act_step_def)

lemma stuck_ctl_not_busy:
  assumes "stuck s" "running_inv s"
  shows "\<not> is_busy (tc_once s)"
proof
  assume b: "is_busy (tc_once s)"
  then obtain x where x: "tc_once s = Busy x" by (cases "tc_once s") auto
  have inv: "set (tn_threads s) \<subseteq> stacks" "num CtlRun s = 1" "num DynamicRun s + num DynamicEnd s = of_bool (\<not> tc_dynamicDone s)"
    "tc_dynamicStop s = (2 \<le> ctl_rank (tc_once s))"
    using assms(2) b by (auto simp: running_inv_def owners_def workers_ok_def shutdown_order_def Let_def)
  have none: "run_ctl_stage None None x s = None"
    using stuck_none [OF assms(1) inv(1), of CtlRun] inv(2) x by (cases "run_ctl_stage None None x s") (auto simp: act_step_def)
  then have xw: "x = WaitDynamic" and nd: "\<not> tc_dynamicDone s" by (auto simp: run_ctl_stage_def split: ctl_stage.splits if_splits)
  then have "num DynamicRun s = 0" "num DynamicEnd s = 0"
    using stuck_none [OF assms(1) inv(1)] inv(4) x by (auto simp: act_step_def)
  with inv(3) nd show False by simp
qed

lemma stuck_sess_finished:
  assumes "stuck s" "running_inv s"
  shows "tn_sessOnce s = Finished"
proof (rule ccontr)
  assume "tn_sessOnce s \<noteq> Finished"
  with stuck_sess_not_idle [OF assms] obtain x where x: "tn_sessOnce s = Busy x" by (cases "tn_sessOnce s") auto
  have inv: "set (tn_threads s) \<subseteq> stacks" "num SessRun s = 1" "num CtlRun s = of_bool (is_busy (tc_once s))"
    using assms(2) x by (auto simp: running_inv_def owners_def)
  then obtain th where th: "th \<in> set (tn_threads s)" "SessRun \<in> set th" using num_pos [of SessRun s] by auto
  have "num CtlRun s = 0" using inv(3) stuck_ctl_not_busy [OF assms] by simp
  moreover have "num CtlCall s = 0"
    using stuck_none [OF assms(1) inv(1), of CtlCall] stuck_ctl_not_busy [OF assms] by (cases "tc_once s") (auto simp: act_step_def)
  ultimately have "CtlRun \<notin> set th" "CtlCall \<notin> set th" using th num_pos [of _ s] by (metis less_numeral_extra(3))+
  then obtain rest where "th = SessRun # rest" using th inv(1) by (auto simp: stacks_def)
  with stuckD [OF assms(1), of SessRun rest None] th x show False by (cases "run_sess_stage None x s") (simp add: act_step_def)
qed

lemma stuck_ctl_finished:
  assumes "stuck s" "running_inv s"
  shows "tc_once s = Finished"
proof (rule ccontr)
  assume "tc_once s \<noteq> Finished"
  with stuck_ctl_not_busy [OF assms] have idle: "tc_once s = Idle" by (cases "tc_once s") auto
  have inv: "set (tn_threads s) \<subseteq> stacks" "1 \<le> num Watch s + num CtlCall s" "closed s"
    using assms(2) idle stuck_sess_finished [OF assms] by (auto simp: running_inv_def owners_def)
  have "num Watch s = 0" "num CtlCall s = 0" using stuck_none [OF assms(1) inv(1)] inv(3) idle by (auto simp: act_step_def)
  with inv(2) show False by simp
qed

text \<open>When nothing goes on by itself, everything has been done and every goroutine has ended.\<close>

lemma stuck_is_down:
  assumes "stuck s" "running_inv s"
  shows "tc_done s \<and> tc_state s = ''Closed'' \<and> tc_managerCalls s = 1 \<and> tc_deviceCalls s = 1 \<and> set (tn_threads s) \<subseteq> {[]}"
proof -
  have fin: "tn_sessOnce s = Finished" "tc_once s = Finished" using stuck_sess_finished stuck_ctl_finished assms by blast+
  have inv: "set (tn_threads s) \<subseteq> stacks" "owners s" "workers_ok s" "shutdown_order s" using assms(2) by (auto simp: running_inv_def)
  have c: "closed s" "tc_dynamicStop s" "tc_managerCalls s = 1" "tc_deviceCalls s = 1"
    and dw: "num DrainWait s + of_bool (tc_done s) = 1" and st: "tc_done s \<longrightarrow> tc_state s = ''Closed''"
    using inv fin by (auto simp: owners_def shutdown_order_def)
  note none = stuck_none [OF assms(1) inv(1)]
  have z: "num SessCall s = 0" "num CtlCall s = 0" "num Watch s = 0" "num DynamicRun s = 0" "num DynamicEnd s = 0"
    "num EventsRun s = 0" "num ReadRun s = 0" "num WriteRun s = 0" "num SessRun s = 0" "num CtlRun s = 0"
    using none c fin inv(2) by (auto simp: act_step_def owners_def)
  have wd: "num WorkerDone s = 0"
  proof (rule ccontr)
    assume "num WorkerDone s \<noteq> 0"
    then obtain th where th: "th \<in> set (tn_threads s)" "WorkerDone \<in> set th" using num_pos [of WorkerDone s] by auto
    have "SessCall \<notin> set th" "SessRun \<notin> set th" "CtlCall \<notin> set th" "CtlRun \<notin> set th" "DynamicEnd \<notin> set th"
      using z th num_pos [of _ s] by (metis less_numeral_extra(3))+
    then have "th = [WorkerDone]" using th inv(1) by (auto simp: stacks_def)
    with stuckD [OF assms(1), of WorkerDone "[]"] th show False by (simp add: act_step_def)
  qed
  then have "num DrainWait s = 0" using none [of DrainWait] inv(3) z by (simp add: workers_ok_def act_step_def)
  with dw have dn: "tc_done s" by (cases "tc_done s") auto
  have "a \<notin> set th" if "th \<in> set (tn_threads s)" for a th
  proof
    assume "a \<in> set th"
    then have "0 < num a s" "th \<in> stacks" using num_pos that inv(1) by blast+
    then have "a \<in> {DrainWait, WorkerDone, StBegin, StHook, StDone, StLifecycle, StSpawn}" using z by (cases a) auto
    then show False using \<open>0 < num a s\<close> wd \<open>num DrainWait s = 0\<close> \<open>th \<in> stacks\<close> \<open>a \<in> set th\<close> by (auto simp: stacks_def)
  qed
  then have "set (tn_threads s) \<subseteq> {[]}" by (metis last_in_set singletonI subsetI)
  with dn st c show ?thesis by blast
qed

section \<open>The tunnel comes down\<close>

text \<open>\<open>Start\<close> on a fresh session, alone, and the callers that will close the session at some time.\<close>

definition started :: "ConnSession \<Rightarrow> nat \<Rightarrow> tunnel" where
  "started c n =
     (newTunnelController (SetLifecycleState ''Running'' c)
        ([] # replicate n [SessCall] @ [[DynamicRun], [EventsRun], [ReadRun], [WriteRun], [Watch]]))
     \<lparr>tc_state := ''Running'', tn_hook := True, tn_tunnelDone := True, tc_workers := 4\<rparr>"

lemma Start_started:
  assumes "\<not> cs_CloseChan c"
  shows "run_moves (replicate 5 (now, me, de, ext, 0)) (newTunnelController c ([StBegin] # replicate n [SessCall])) = Some (started c n)"
  using assms by (simp add: numeral_eq_Suc tstep_def act_step_def newTunnelController_def started_def)

lemma started_inv:
  assumes "0 < n"
  shows "running_inv (started c n)"
proof -
  have num: "num a (started c n) = (if a = SessCall then n else of_bool (a \<in> {DynamicRun, EventsRun, ReadRun, WriteRun, Watch}))" for a
    by (cases a) (auto simp: num_def started_def newTunnelController_def count_mset_0_iff concat_replicate_trivial)
  have "set (tn_threads (started c n)) \<subseteq> stacks" by (auto simp: started_def newTunnelController_def stacks_def)
  moreover have "owners (started c n)" "workers_ok (started c n)" "shutdown_order (started c n)"
    using assms by (simp_all add: owners_def workers_ok_def shutdown_order_def num)
       (simp_all add: started_def newTunnelController_def)
  ultimately show ?thesis by (simp add: running_inv_def)
qed

lemma started_work: "work_left (started c n) = n + 27"
  by (induction n) (simp_all add: work_left_def started_def newTunnelController_def)

text \<open>C7: a tunnel that was started comes down when its session is closed, whatever the goroutines do meanwhile. Let \<open>Start\<close>
  have run on an open session, and let one or more callers close the session at any time; the device may fail or report that it is
  down at any time, and closing the manager or the device may return errors. Then no schedule of the callers, the four workers, the
  watching goroutine, \<open>ConnSession.Close\<close> and \<open>TunnelController.Close\<close> is longer than \<open>n + 27\<close> steps; when nobody can go on,
  every goroutine has ended, the manager and the device were closed exactly once, \<open>done\<close> is closed and the controller is \<open>Closed\<close>;
  and at every moment the manager is closed only after the dynamic route worker has ended, and the device only after the manager.\<close>

theorem teardown_completes:
  assumes "\<not> cs_CloseChan c" "0 < n"
    and "run_moves (replicate 5 (now, me, de, ext, 0)) (newTunnelController c ([StBegin] # replicate n [SessCall])) = Some s"
    and "run_moves ms s = Some t"
  shows "length ms \<le> n + 27 \<and> (\<exists>ms' u. run_moves ms' t = Some u \<and> stuck u) \<and>
    (stuck t \<longrightarrow> tc_done t \<and> tc_state t = ''Closed'' \<and> tc_managerCalls t = 1 \<and> tc_deviceCalls t = 1 \<and> set (tn_threads t) \<subseteq> {[]}) \<and>
    tc_deviceCalls t \<le> tc_managerCalls t \<and> tc_managerCalls t \<le> of_bool (tc_dynamicDone t)"
proof -
  have s: "s = started c n" using assms(3) Start_started [OF assms(1), of now me de ext n] by simp
  have "running_inv t" using run_moves_running_inv [OF assms(4)] started_inv [OF assms(2)] s by simp
  moreover from this have "tc_deviceCalls t \<le> tc_managerCalls t \<and> tc_managerCalls t \<le> of_bool (tc_dynamicDone t)"
    by (auto simp: running_inv_def shutdown_order_def Let_def)
  moreover have "length ms \<le> n + 27" using run_moves_length [OF assms(4)] started_work [of c n] s by simp
  ultimately show ?thesis using stuck_reachable [of t] stuck_is_down [of t] by blast
qed

lemma NewConnSession_open [simp]: "\<not> cs_CloseChan (NewConnSession noDTLS unmarshal header)"
  by (auto simp: NewConnSession_def apply_post_auth_def Let_def split: prod.splits sum.splits)

text \<open>A session from no headers, and a complete schedule in which the watching goroutine closes the controller before the hook does.\<close>

definition blank_session :: ConnSession where
  "blank_session = NewConnSession False (\<lambda>_. Inl (Errors [])) (\<lambda>_. [])"

definition down_schedule :: "move list" where
  "down_schedule = map (\<lambda>i. (None, None, None, Quiet, i)) [1, 1, 6, 6, 6, 2, 2, 2, 6, 6, 6, 6, 6, 1, 1, 1, 3, 3, 4, 4, 4, 5, 5, 5, 7]"

theorem teardown_completes_witness:
  "\<exists>s t. run_moves (replicate 5 (None, None, None, Quiet, 0)) (newTunnelController blank_session ([StBegin] # replicate 1 [SessCall])) = Some s \<and>
    run_moves down_schedule s = Some t \<and> length down_schedule \<le> 28 \<and> stuck t \<and> tc_done t \<and> tc_managerCalls t = 1 \<and> tc_deviceCalls t = 1"
proof -
  have o: "\<not> cs_CloseChan blank_session" by (simp add: blank_session_def)
  have s: "run_moves (replicate 5 (None, None, None, Quiet, 0)) (newTunnelController blank_session ([StBegin] # replicate 1 [SessCall]))
    = Some (started blank_session 1)"
    by (rule Start_started [OF o])
  have "\<exists>t. run_moves down_schedule (started blank_session 1) = Some t \<and> set (tn_threads t) \<subseteq> {[]}"
    by (simp add: down_schedule_def started_def newTunnelController_def tstep_def step_defs)
  then obtain t where t: "run_moves down_schedule (started blank_session 1) = Some t" "set (tn_threads t) \<subseteq> {[]}" by blast
  then have "stuck t" by (auto simp: stuck_def tstep_def split: list.splits dest: nth_mem)
  then show ?thesis using teardown_completes [OF o _ s t(1)] s t by auto
qed

section \<open>Starting on a session that is already closed\<close>


end
