(* ===== verification/Backend.thy ===== *)
theory Backend
  imports Auth Controller
begin

text \<open>
  The AnyConnect backend: one connection (\<open>internal/anyconnect/rpc/connect.go\<close>) and the object that holds the active one
  (\<open>internal/vpn/anyconnect/backend.go\<close>). \<open>Connection.Connect\<close> composes authentication (\<open>Auth\<close>) and tunnel set-up (\<open>Tunsetup\<close>). The
  backend's calls run in parallel: each critical section of \<open>Connect\<close>, \<open>Disconnect\<close> and of the goroutines they start is one step.
\<close>

section \<open>One connection\<close>

text \<open>\<open>errors.As\<close> to the certificate errors, to \<open>*net.DNSError\<close> and to \<open>net.Error\<close>.\<close>

record error_kinds =
  ek_certificate :: "error \<Rightarrow> bool"
  ek_dns :: "error \<Rightarrow> bool"
  ek_net :: "error \<Rightarrow> bool"

definition isTransientNetworkError :: "error_kinds \<Rightarrow> error \<Rightarrow> bool" where
  "isTransientNetworkError k e =
     (if ek_certificate k e then False
      else if errors_is e DeadlineExceeded then True
      else if ek_dns k e then True
      else ek_net k e)"

record rpc_env =
  rp_localIf :: "error + LocalInterface"
  rp_auth :: auth_env
  rp_dial :: "32 word option \<Rightarrow> string \<Rightarrow> string \<Rightarrow> error option"
  rp_init :: exchange
  rp_reply1 :: exchange
  rp_reply2 :: exchange
  rp_kinds :: error_kinds
  rp_now :: stamp
  rp_setup :: setup_env

definition refreshConnectionInterface :: "error + LocalInterface \<Rightarrow> Client \<Rightarrow> error + Client" where
  "refreshConnectionInterface localIf c = (case localIf of Inl e \<Rightarrow> Inl e | Inr info \<Rightarrow> Inr (c\<lparr>cl_LocalInterface := info\<rparr>))"

definition host_with_port :: "string \<Rightarrow> string" where
  "host_with_port host = (if CHR '':'' \<in> set host then host else host @ '':443'')"

definition rpc_Connect :: "rpc_env \<Rightarrow> Client \<Rightarrow> tun_setup \<Rightarrow> error option \<times> Client \<times> tun_setup" where
  "rpc_Connect env c s =
     (case refreshConnectionInterface (rp_localIf env) c of
        Inl e \<Rightarrow> (WrapConnectError ''underlay'' True (Some e), c, s)
      | Inr c \<Rightarrow>
          (let c = c\<lparr>cl_Prof := (cl_Prof c)\<lparr>ap_HostWithPort := host_with_port (ap_Host (cl_Prof c))\<rparr>\<rparr>
           in case InitAuth (rp_auth env) (rp_dial env) (rp_init env) c of
                (Some e, c) \<Rightarrow> (WrapConnectError ''tls'' (isTransientNetworkError (rp_kinds env) e) (Some e), c, s)
              | (None, c) \<Rightarrow>
                  (case PasswordAuth (rp_auth env) (rp_reply1 env) (rp_reply2 env) c of
                     (Inl e, c) \<Rightarrow> (WrapConnectError ''authentication'' False (Some e), client_Close c, s)
                   | (Inr token, c) \<Rightarrow>
                       (case SetupTunnelWithClient (rp_now env) (rp_setup env) (cl_Prof c) token (li_IP4 (cl_LocalInterface c))
                               (s\<lparr>su_client := cl_Conn c\<rparr>) of
                          (Some e, s) \<Rightarrow>
                            (WrapConnectError ''tunnel'' (isTransientNetworkError (rp_kinds env) e) (Some e), client_Close c, s\<lparr>su_client := False\<rparr>)
                        | (None, s) \<Rightarrow> (None, c, s)))))"

text \<open>\<open>Disconnect\<close> up to the point where it waits: \<open>Session.CSess\<close> is the session while that is current. The result says whether the call
  goes on to wait, with its own goroutine closing the session.\<close>

datatype disconnect_outcome = Return "error option" | CloseAndWait "error option"

definition rpc_Disconnect :: "stamp \<Rightarrow> error option \<Rightarrow> tunnel \<Rightarrow> disconnect_outcome \<times> tunnel" where
  "rpc_Disconnect now authErr t =
     (let t = t\<lparr>tn_sess := (tn_sess t)\<lparr>cs_ActiveClose := True\<rparr>\<rparr>
      in if cs_isCurrent (tn_sess t)
         then (CloseAndWait authErr, t\<lparr>tn_sess := RecordClose now ''local_requested'' ''local'' None (tn_sess t), tn_threads := tn_threads t @ [[SessCall]]\<rparr>)
         else (Return authErr, t))"

datatype drain_wait = TunnelDrained | ContextDone error | DrainTimeout "error option"

text \<open>The rest, once the session was closed; \<open>DrainTimeout\<close> carries what closing the manager returns, as does \<open>managerErr\<close> when no controller
  had taken over.\<close>

definition keep_first :: "error option \<Rightarrow> error option \<Rightarrow> error option" where
  "keep_first first e = (if first = None then e else first)"

definition rpc_Disconnect_wait :: "error option \<Rightarrow> error option \<Rightarrow> drain_wait \<Rightarrow> tunnel \<Rightarrow> (error option \<times> tunnel) option" where
  "rpc_Disconnect_wait first managerErr w t =
     (if tn_tunnelDone t then
        (case w of
           TunnelDrained \<Rightarrow> if tc_done t then Some (keep_first first (cs_tunnelErr (tn_sess t)), t) else None
         | ContextDone e \<Rightarrow> Some (keep_first first (Some e), t)
         | DrainTimeout e \<Rightarrow> Some (keep_first first e, t\<lparr>tc_managerCalls := tc_managerCalls t + 1\<rparr>))
      else Some (keep_first first managerErr, t\<lparr>tc_managerCalls := tc_managerCalls t + 1\<rparr>))"

section \<open>Conversions\<close>

definition Addr_String :: "addr option \<Rightarrow> string" where
  "Addr_String a = (case a of None \<Rightarrow> ''invalid IP'' | Some a \<Rightarrow> addr_string a)"

definition convertNetworkSnapshot :: "UnderlaySnapshot \<Rightarrow> NetworkSnapshot" where
  "convertNetworkSnapshot s =
     \<lparr>ns_InterfaceName = us_InterfaceName s, ns_InterfaceIndex = us_InterfaceIndex s, ns_LocalIPv4 = Addr_String (us_LocalIPv4 s),
      ns_Gateway = Addr_String (us_Gateway s), ns_GatewayInterface = us_GatewayInterface s, ns_RouteMetric = us_RouteMetric s,
      ns_Generation = us_Generation s\<rparr>"

definition diagnosticNetworkError :: "error option \<Rightarrow> string" where
  "diagnosticNetworkError err = (case err of None \<Rightarrow> [] | Some e \<Rightarrow> take 512 (err_msg e))"

definition convertNetworkChange :: "UnderlayChange \<Rightarrow> NetworkChange" where
  "convertNetworkChange c =
     \<lparr>nc_Before = convertNetworkSnapshot (uc_Before c), nc_After = convertNetworkSnapshot (uc_After c), nc_Reasons = uc_Reasons c,
      nc_RebindRequired = uc_RebindRequired c, nc_Error = diagnosticNetworkError (uc_Err c)\<rparr>"

text \<open>The fields of \<open>ConnSession\<close> that are only reported.\<close>

record reported =
  rd_ConnectionID :: string
  rd_LocalSocketAddress :: string
  rd_RemoteSocketAddress :: string
  rd_Hostname :: string
  rd_TLSCipherSuite :: string

definition sessionInfo :: "reported \<Rightarrow> ConnSession \<Rightarrow> SessionInfo" where
  "sessionInfo r c =
     \<lparr>si_ConnectionID = rd_ConnectionID r, si_ServerAddress = cs_ServerAddress c, si_LocalAddress = rd_LocalSocketAddress r,
      si_RemoteAddress = rd_RemoteSocketAddress r, si_Hostname = rd_Hostname r, si_TUNName = cs_TunName c, si_VPNAddress = cs_VPNAddress c,
      si_VPNMask = cs_VPNMask c, si_DNS = cs_DNS c, si_MTU = cs_MTU c, si_SplitInclude = cs_SplitInclude c, si_SplitExclude = cs_SplitExclude c,
      si_TLSCipher = rd_TLSCipherSuite r, si_DTLSCipher = cs_DTLSCipherSuite c,
      si_Underlay =
        (let u = cs_Underlay c
         in if us_LocalIPv4 u \<noteq> None
            then Some \<lparr>ui_InterfaceName = us_InterfaceName u, ui_InterfaceIndex = us_InterfaceIndex u, ui_LocalIPv4 = Addr_String (us_LocalIPv4 u),
                       ui_Gateway = Addr_String (us_Gateway u), ui_GatewayInterface = us_GatewayInterface u, ui_RouteMetric = us_RouteMetric u,
                       ui_Generation = us_Generation u\<rparr>
            else None)\<rparr>"

definition Traffic :: "ConnSession option \<Rightarrow> TrafficStats option" where
  "Traffic c = map_option (\<lambda>c. \<lparr>ts_BytesSent = st_BytesSent (cs_Stat c), ts_BytesReceived = st_BytesReceived (cs_Stat c)\<rparr>) c"

record TunnelRuntime =
  tr_State :: string
  tr_TLSState :: string
  tr_DTLSState :: string
  tr_TUNReads :: u64
  tr_TUNWrites :: u64
  tr_TUNReadErrors :: u64
  tr_TUNWriteErrors :: u64
  tr_DPDSent :: u64
  tr_DPDResponses :: u64
  tr_QueueDrops :: u64

definition runtimeDiagnostics :: "reported \<Rightarrow> ConnSession \<Rightarrow> UnderlayInfo option \<times> TunnelRuntime" where
  "runtimeDiagnostics r c =
     (let stats = RuntimeStats c
      in (si_Underlay (sessionInfo r c),
          \<lparr>tr_State = cs_LifecycleState c, tr_TLSState = cs_TLSState c, tr_DTLSState = cs_DTLSState c,
           tr_TUNReads = st_TUNReads stats, tr_TUNWrites = st_TUNWrites stats, tr_TUNReadErrors = st_TUNReadErrors stats,
           tr_TUNWriteErrors = st_TUNWriteErrors stats, tr_DPDSent = st_DPDSent stats, tr_DPDResponses = st_DPDResponses stats,
           tr_QueueDrops = st_QueueDrops stats\<rparr>))"

text \<open>The event of a session that ended.\<close>

definition disconnected_event :: "stamp \<Rightarrow> string \<Rightarrow> ConnSession \<Rightarrow> Event" where
  "disconnected_event now connectionID c =
     (let info = session_CloseInfo now c
      in \<lparr>ev_Type = ''disconnected'', ev_ConnectionID = connectionID, ev_Err = None,
          ev_Close = Some \<lparr>di_Code = ci_Code info, di_Transport = ci_Transport info, di_Error = ci_Error info, di_Time = ci_Time info,
            di_TransportFaults = map (\<lambda>f. \<lparr>cf_Code = tf_Code f, cf_Transport = tf_Transport f, cf_Error = tf_Error f, cf_Time = tf_Time f\<rparr>)
              (ci_TransportFaults info)\<rparr>,
          ev_Network = None, ev_Component = []\<rparr>)"

text \<open>\<open>groupAccessURL\<close>; \<open>as_https\<close> parses a URL, makes it HTTPS without query and fragment and prints it.\<close>

definition strip_scheme :: "string \<Rightarrow> string" where
  "strip_scheme s = TrimPrefix (TrimPrefix s ''https://'') ''http://''"

definition groupAccessURL :: "urlparser \<Rightarrow> (string \<Rightarrow> string) \<Rightarrow> string \<Rightarrow> string" where
  "groupAccessURL U as_https rawURL =
     (case U rawURL of
        Inl _ \<Rightarrow> ''https://'' @ TrimRight_slash (strip_scheme rawURL)
      | Inr parsed \<Rightarrow>
          if u_Host parsed = [] then ''https://'' @ TrimRight_slash (strip_scheme rawURL) else TrimRight_slash (as_https rawURL))"

definition buildAuthProfile :: "urlparser \<Rightarrow> (string \<Rightarrow> string) \<Rightarrow> Profile \<Rightarrow> string \<Rightarrow> auth_Profile" where
  "buildAuthProfile U as_https p password =
     blank_profile\<lparr>
       ap_Host := strip_scheme (case U (prof_ServerURL p) of
           Inr parsed \<Rightarrow> if u_Host parsed \<noteq> [] then u_Host parsed else prof_ServerURL p
         | Inl _ \<Rightarrow> prof_ServerURL p),
       ap_GroupAccess := groupAccessURL U as_https (prof_ServerURL p), ap_Username := prof_Username p, ap_Password := password,
       ap_Group := prof_Group p, ap_SecretKey := [], ap_Scheme := ''https://'', ap_AcceptServerRoutes := prof_AcceptServerRoutes p,
       ap_ApplyDNS := BoolValue (prof_ApplyDNS p) True, ap_CustomInclude := prof_CustomInclude p, ap_CustomExclude := prof_CustomExclude p,
       ap_DNSOverrides := prof_DNSOverrides p, ap_MTU := prof_MTU p\<rparr>"

section \<open>The backend\<close>

text \<open>Where the goroutine of \<open>connection.Connect\<close> is: not started, before there is a TLS connection, with one, with a token, returned.\<close>

datatype rstage = RIdle | RDial | RLogin | RSetup | RReturned "error option"

record rconn =
  rc_ID :: string            \<comment> \<open>\<open>ConnectionID\<close>, once it is set\<close>
  rc_client :: bool          \<comment> \<open>\<open>Auth.Conn\<close> is there\<close>
  rc_tunnel :: bool          \<comment> \<open>\<open>Session.CSess\<close> is there: the tunnel is up and its session open\<close>
  rc_stage :: rstage

definition NewConnection :: rconn where
  "NewConnection = \<lparr>rc_ID = [], rc_client = False, rc_tunnel = False, rc_stage = RIdle\<rparr>"

text \<open>\<open>Connection.Disconnect\<close> closes what is there at that moment.\<close>

definition hang_up :: "rconn \<Rightarrow> rconn" where
  "hang_up k = k\<lparr>rc_client := False, rc_tunnel := False\<rparr>"

text \<open>Where a call of \<open>Backend.Connect\<close> is: tearing down the lingering connection, waiting for \<open>connection.Connect\<close> or the context,
  draining after the context ended, starting the monitor, publishing.\<close>

datatype bcall = TearDown nat | Waiting | Draining | Starting | Publishing

text \<open>Connections are numbered in the order in which they are made. \<open>be_closing\<close> are the connections that calls of \<open>Disconnect\<close> have taken
  and have still to disconnect.\<close>

record vpn_backend =
  be_active :: "nat option"
  be_connecting :: "nat option"
  be_monitor :: bool
  be_monitorID :: string
  be_conns :: "nat \<Rightarrow> rconn"
  be_next :: nat
  be_calls :: "nat \<Rightarrow> bcall option"
  be_closing :: "nat list"

definition backend_New :: vpn_backend where
  "backend_New = \<lparr>be_active = None, be_connecting = None, be_monitor = False, be_monitorID = [], be_conns = (\<lambda>_. NewConnection), be_next = 0,
     be_calls = (\<lambda>_. None), be_closing = []\<rparr>"

definition upd_conn :: "nat \<Rightarrow> (rconn \<Rightarrow> rconn) \<Rightarrow> vpn_backend \<Rightarrow> vpn_backend" where
  "upd_conn c f b = b\<lparr>be_conns := (be_conns b)(c := f (be_conns b c))\<rparr>"

definition set_call :: "nat \<Rightarrow> bcall option \<Rightarrow> vpn_backend \<Rightarrow> vpn_backend" where
  "set_call c x b = b\<lparr>be_calls := (be_calls b)(c := x)\<rparr>"

definition disconnectConnection :: "nat \<Rightarrow> vpn_backend \<Rightarrow> vpn_backend" where
  "disconnectConnection c b = upd_conn c hang_up b"

definition clearConnecting :: "nat \<Rightarrow> vpn_backend \<Rightarrow> vpn_backend" where
  "clearConnecting c b = (if be_connecting b = Some c then b\<lparr>be_connecting := None\<rparr> else b)"

definition stopUnderlayMonitor :: "vpn_backend \<Rightarrow> vpn_backend" where
  "stopUnderlayMonitor b = b\<lparr>be_monitor := False, be_monitorID := []\<rparr>"

definition stopMonitorFor :: "string \<Rightarrow> vpn_backend \<Rightarrow> vpn_backend" where
  "stopMonitorFor connectionID b =
     (if connectionID \<noteq> [] \<and> be_monitorID b \<noteq> connectionID then b else stopUnderlayMonitor b)"

definition startUnderlayMonitor :: "error option \<Rightarrow> string \<Rightarrow> vpn_backend \<Rightarrow> error option \<times> vpn_backend" where
  "startUnderlayMonitor monitorErr connectionID b =
     (let b = (if be_monitor b then stopUnderlayMonitor b else b)
      in case monitorErr of Some e \<Rightarrow> (Some e, b) | None \<Rightarrow> (None, b\<lparr>be_monitor := True, be_monitorID := connectionID\<rparr>))"

text \<open>\<open>Connect\<close>: the first section; \<open>None\<close> when an attempt is under way.\<close>

definition connect_enter :: "vpn_backend \<Rightarrow> vpn_backend option" where
  "connect_enter b =
     (if be_connecting b \<noteq> None then None
      else
        (let c = be_next b; stale = be_active b;
             b = b\<lparr>be_active := None, be_connecting := Some c, be_next := c + 1, be_conns := (be_conns b)(c := NewConnection)\<rparr>
         in Some (case stale of
                    Some s \<Rightarrow> set_call c (Some (TearDown s)) b
                  | None \<Rightarrow> set_call c (Some Waiting) (upd_conn c (\<lambda>k. k\<lparr>rc_stage := RDial\<rparr>) b))))"

text \<open>The lingering connection was disconnected, with an error or not.\<close>

definition connect_stale :: "nat \<Rightarrow> nat \<Rightarrow> error option \<Rightarrow> vpn_backend \<Rightarrow> vpn_backend" where
  "connect_stale c s err b =
     (let b = disconnectConnection s b
      in if err \<noteq> None then set_call c None (clearConnecting c b)
         else set_call c (Some Waiting) (upd_conn c (\<lambda>k. k\<lparr>rc_stage := RDial\<rparr>) b))"

text \<open>\<open>connection.Connect\<close> has returned \<open>err\<close>.\<close>

definition connect_result :: "nat \<Rightarrow> string \<Rightarrow> error option \<Rightarrow> vpn_backend \<Rightarrow> vpn_backend" where
  "connect_result c connectionID err b =
     (if err \<noteq> None then set_call c None (clearConnecting c (disconnectConnection c b))
      else if \<not> rc_tunnel (be_conns b c) then set_call c None (clearConnecting c b)
      else if be_connecting b \<noteq> Some c then set_call c None (disconnectConnection c b)
      else set_call c (Some Starting) (upd_conn c (\<lambda>k. k\<lparr>rc_ID := connectionID\<rparr>) b))"

definition connect_monitor :: "nat \<Rightarrow> error option \<Rightarrow> vpn_backend \<Rightarrow> vpn_backend" where
  "connect_monitor c monitorErr b =
     (case startUnderlayMonitor monitorErr (rc_ID (be_conns b c)) b of
        (Some _, b) \<Rightarrow> set_call c None (clearConnecting c (disconnectConnection c b))
      | (None, b) \<Rightarrow> set_call c (Some Publishing) b)"

definition connect_publish :: "nat \<Rightarrow> vpn_backend \<Rightarrow> vpn_backend" where
  "connect_publish c b =
     (if be_connecting b \<noteq> Some c
      then set_call c None (disconnectConnection c (stopMonitorFor (rc_ID (be_conns b c)) b))
      else set_call c None (b\<lparr>be_connecting := None, be_active := Some c\<rparr>))"

text \<open>The context of the call ended first; then \<open>done\<close> or the timeout.\<close>

definition connect_canceled :: "nat \<Rightarrow> vpn_backend \<Rightarrow> vpn_backend" where
  "connect_canceled c b = set_call c (Some Draining) (disconnectConnection c b)"

definition connect_drained :: "nat \<Rightarrow> vpn_backend \<Rightarrow> vpn_backend" where
  "connect_drained c b = set_call c None (clearConnecting c b)"

text \<open>\<open>Disconnect\<close>: its section, and one of the disconnects that follow.\<close>

definition backend_Disconnect :: "vpn_backend \<Rightarrow> vpn_backend" where
  "backend_Disconnect b =
     stopUnderlayMonitor (b\<lparr>be_active := None, be_connecting := None,
       be_closing := be_closing b @ (case be_connecting b of Some c \<Rightarrow> if be_active b = Some c then [] else [c] | None \<Rightarrow> [])
         @ (case be_active b of Some c \<Rightarrow> [c] | None \<Rightarrow> [])\<rparr>)"

definition disconnect_next :: "vpn_backend \<Rightarrow> vpn_backend option" where
  "disconnect_next b =
     (case be_closing b of [] \<Rightarrow> None | c # cs \<Rightarrow> Some (disconnectConnection c (b\<lparr>be_closing := cs\<rparr>)))"

text \<open>The stages of \<open>connection.Connect\<close> in its own goroutine. A connection that was hung up meanwhile fails the stage that uses it; \<open>InitAuth\<close>
  can fail with the TLS connection open (\<open>conn\<close>), a set-up with the tunnel running (\<open>up\<close>). A stage is one step.\<close>

definition dial_stage :: "bool \<Rightarrow> error option \<Rightarrow> rconn \<Rightarrow> rconn" where
  "dial_stage conn err k =
     (case err of Some e \<Rightarrow> k\<lparr>rc_client := conn, rc_stage := RReturned (Some e)\<rparr> | None \<Rightarrow> k\<lparr>rc_client := True, rc_stage := RLogin\<rparr>)"

definition login_stage :: "error option \<Rightarrow> rconn \<Rightarrow> rconn" where
  "login_stage err k =
     (if \<not> rc_client k then k\<lparr>rc_stage := RReturned (Some (Errors ''authentication connection is not initialized''))\<rparr>
      else case err of Some e \<Rightarrow> k\<lparr>rc_client := False, rc_stage := RReturned (Some e)\<rparr> | None \<Rightarrow> k\<lparr>rc_stage := RSetup\<rparr>)"

definition setup_stage :: "bool \<Rightarrow> error option \<Rightarrow> rconn \<Rightarrow> rconn" where
  "setup_stage up err k =
     (if \<not> rc_client k then k\<lparr>rc_stage := RReturned (Some (Errors ''authentication client is not connected''))\<rparr>
      else case err of
             Some e \<Rightarrow> k\<lparr>rc_client := False, rc_tunnel := up, rc_stage := RReturned (Some e)\<rparr>
           | None \<Rightarrow> k\<lparr>rc_tunnel := True, rc_stage := RReturned None\<rparr>)"

datatype bstep =
    Enter
  | StaleDown nat "error option"
  | Dials nat bool "error option"
  | LogsIn nat "error option"
  | SetsUp nat bool "error option"
  | Result nat string
  | Monitors nat "error option"
  | Publishes nat
  | Cancels nat
  | Drains nat bool               \<comment> \<open>by timeout\<close>
  | DisconnectCall
  | DisconnectNext
  | SessionEnds nat               \<comment> \<open>the server or a transport ended it\<close>
  | MonitorCloses nat             \<comment> \<open>\<open>monitorClose\<close>\<close>

fun has_returned :: "rstage \<Rightarrow> bool" where
  "has_returned (RReturned err) = True"
| "has_returned st = False"

fun bexec :: "bstep \<Rightarrow> vpn_backend \<Rightarrow> vpn_backend option" where
  "bexec Enter b = connect_enter b"
| "bexec (StaleDown c err) b = (case be_calls b c of Some (TearDown s) \<Rightarrow> Some (connect_stale c s err b) | _ \<Rightarrow> None)"
| "bexec (Dials c conn err) b = (if rc_stage (be_conns b c) = RDial then Some (upd_conn c (dial_stage conn err) b) else None)"
| "bexec (LogsIn c err) b = (if rc_stage (be_conns b c) = RLogin then Some (upd_conn c (login_stage err) b) else None)"
| "bexec (SetsUp c up err) b = (if rc_stage (be_conns b c) = RSetup then Some (upd_conn c (setup_stage up err) b) else None)"
| "bexec (Result c connectionID) b =
     (case (be_calls b c, rc_stage (be_conns b c)) of (Some Waiting, RReturned err) \<Rightarrow> Some (connect_result c connectionID err b) | _ \<Rightarrow> None)"
| "bexec (Monitors c err) b = (if be_calls b c = Some Starting then Some (connect_monitor c err b) else None)"
| "bexec (Publishes c) b = (if be_calls b c = Some Publishing then Some (connect_publish c b) else None)"
| "bexec (Cancels c) b = (if be_calls b c = Some Waiting then Some (connect_canceled c b) else None)"
| "bexec (Drains c timeout) b =
     (if be_calls b c = Some Draining \<and> (timeout \<or> has_returned (rc_stage (be_conns b c))) then Some (connect_drained c b) else None)"
| "bexec DisconnectCall b = Some (backend_Disconnect b)"
| "bexec DisconnectNext b = disconnect_next b"
| "bexec (SessionEnds c) b = (if rc_tunnel (be_conns b c) then Some (upd_conn c (\<lambda>k. k\<lparr>rc_tunnel := False\<rparr>) b) else None)"
| "bexec (MonitorCloses c) b =
     (if be_calls b c = None \<and> \<not> rc_tunnel (be_conns b c) then Some (stopMonitorFor (rc_ID (be_conns b c)) b) else None)"

fun brun :: "bstep list \<Rightarrow> vpn_backend \<Rightarrow> vpn_backend option" where
  "brun [] b = Some b"
| "brun (st # sts) b = (case bexec st b of None \<Rightarrow> None | Some b' \<Rightarrow> brun sts b')"

section \<open>A connection is complete or nothing\<close>

lemma InitAuth_sent:
  assumes "InitAuth env dial ex c = (r, c')"
  shows "length (cl_sent c') \<le> length (cl_sent c) + 1"
proof -
  define c1 where "c1 = c\<lparr>cl_WebVpnCookie := [], cl_Conn := True, cl_Prof := (cl_Prof c)\<lparr>ap_AppVersion := ae_AgentVersion env,
    ap_MacAddress := li_MAC (cl_LocalInterface c)\<rparr>\<rparr>"
  obtain r2 c2 where p: "tplPost env templateInit [] ex c1 = (r2, c2)" by fastforce
  have "cl_sent c' = cl_sent c \<or> cl_sent c' = cl_sent c2"
    using assms p by (auto simp: InitAuth_def c1_def take_form_def Let_def split: sum.splits option.splits if_splits)
  with tplPost_sent [OF p] show ?thesis by (auto simp: c1_def)
qed

lemma PasswordAuth_accepted:
  assumes "PasswordAuth env ex1 ex2 c = (Inr token, c')"
  shows "\<exists>ex dtd. ex \<in> {ex1, ex2} \<and> good_answer env ex dtd \<and> dt_Type dtd \<noteq> ''auth-request''"
proof -
  from PasswordAuth_Inr [OF assms] obtain ex dtd c0 where e: "ex \<in> {ex1, ex2}" "good_answer env ex dtd" and t: "take_token env dtd c0 = (Inr token, c')" by auto
  from take_token_cases [OF t] have "dt_Type dtd \<noteq> ''auth-request''" by simp
  with e show ?thesis by (intro exI [of _ ex] exI [of _ dtd]) simp
qed

definition nothing_up :: "tun_setup \<Rightarrow> bool" where
  "nothing_up s \<longleftrightarrow> \<not> su_dev s \<and> \<not> su_mgr s \<and> su_config s = None \<and> \<not> su_controller s \<and> \<not> su_channels s"

definition fully_up :: "tun_setup \<Rightarrow> bool" where
  "fully_up s \<longleftrightarrow> su_dev s \<and> su_mgr s \<and> su_controller s \<and>
     (case su_config s of None \<Rightarrow> False | Some cfg \<Rightarrow> wf_config cfg \<and> 576 \<le> cf_MTU cfg \<and> cf_MTU cfg \<le> 9000)"

lemma setup_outcome:
  assumes "SetupTunnelWithClient now env prof token ip4 s = (r, t)" "nothing_up s" "su_sess s = None"
  shows "(r = None \<longrightarrow> fully_up t) \<and> (nothing_up t \<or> fully_up t)"
proof (cases r)
  case None
  with assms setup_success [of now env prof token ip4 s t] obtain cfg where "su_controller t" "su_config t = Some cfg" "su_dev t" "su_mgr t" by auto
  with setup_config_ok [OF assms(1)] assms(2) show ?thesis by (simp add: fully_up_def nothing_up_def)
next
  case (Some e)
  with assms failed_setup_releases [of now env prof token ip4 s e t]
  have "if su_controller t then su_config t \<noteq> None \<and> su_dev t \<and> su_mgr t else nothing_up t" by (auto simp: nothing_up_def split: if_splits)
  then show ?thesis
    using Some setup_config_ok [OF assms(1)] assms(2) by (cases "su_config t") (auto simp: fully_up_def nothing_up_def split: if_splits)
qed


text \<open>A server that asks for the credentials again and again.\<close>

definition refusing :: rpc_env where
  "refusing =
     \<lparr>rp_localIf = Inr (cl_LocalInterface sample_client), rp_auth = answer_with (plain_dtd ''auth-request'' []), rp_dial = (\<lambda>_ _ _. None),
      rp_init = ok_exchange, rp_reply1 = ok_exchange, rp_reply2 = ok_exchange,
      rp_kinds = \<lparr>ek_certificate = (\<lambda>_. False), ek_dns = (\<lambda>_. False), ek_net = (\<lambda>_. False)\<rparr>, rp_now = None, rp_setup = sample_env None\<rparr>"


section \<open>Every tunnel has an owner\<close>

text \<open>Somebody will take the tunnel of \<open>c\<close> down or already publishes it: it is the active connection, a call of \<open>Connect\<close> made it and has not
  returned, a call of \<open>Disconnect\<close> has taken it, or a call of \<open>Connect\<close> found it lingering.\<close>

definition owned :: "vpn_backend \<Rightarrow> nat \<Rightarrow> bool" where
  "owned b c \<longleftrightarrow> be_active b = Some c \<or> be_calls b c \<noteq> None \<or> c \<in> set (be_closing b) \<or> (\<exists>d. be_calls b d = Some (TearDown c))"

text \<open>The state of one connection and of the call that made it.\<close>

fun stage_fits :: "bcall option \<Rightarrow> rstage \<Rightarrow> bool" where
  "stage_fits None st \<longleftrightarrow> st = RIdle \<or> has_returned st"
| "stage_fits (Some (TearDown s)) st \<longleftrightarrow> st = RIdle"
| "stage_fits (Some Waiting) st \<longleftrightarrow> st \<noteq> RIdle"
| "stage_fits (Some Draining) st \<longleftrightarrow> False"
| "stage_fits (Some Starting) st \<longleftrightarrow> has_returned st"
| "stage_fits (Some Publishing) st \<longleftrightarrow> has_returned st"

definition call_ok :: "nat \<Rightarrow> nat \<Rightarrow> bcall option \<Rightarrow> rconn \<Rightarrow> bool" where
  "call_ok nxt c call k \<longleftrightarrow>
     (call = None \<or> c < nxt) \<and> stage_fits call (rc_stage k) \<and> (rc_stage k \<noteq> RIdle \<or> \<not> rc_tunnel k)"

definition calls_ok :: "vpn_backend \<Rightarrow> bool" where
  "calls_ok b \<longleftrightarrow> (\<forall>c. call_ok (be_next b) c (be_calls b c) (be_conns b c)) \<and> (be_connecting b \<noteq> None \<longrightarrow> be_active b = None)"

definition tunnels_owned :: "vpn_backend \<Rightarrow> bool" where
  "tunnels_owned b \<longleftrightarrow> (\<forall>c. rc_tunnel (be_conns b c) \<longrightarrow> owned b c)"

lemma calls_okD: "calls_ok b \<Longrightarrow> call_ok (be_next b) c (be_calls b c) (be_conns b c)"
  by (simp add: calls_ok_def)

lemma calls_ok_set_call: "calls_ok b \<Longrightarrow> call_ok (be_next b) c x (be_conns b c) \<Longrightarrow> calls_ok (set_call c x b)"
  by (simp add: calls_ok_def set_call_def)

lemma calls_ok_upd_conn: "calls_ok b \<Longrightarrow> call_ok (be_next b) c (be_calls b c) (f (be_conns b c)) \<Longrightarrow> calls_ok (upd_conn c f b)"
  by (simp add: calls_ok_def upd_conn_def)

lemma calls_ok_hang_up: "calls_ok b \<Longrightarrow> calls_ok (disconnectConnection c b)"
  using calls_okD [of b c] by (auto simp: disconnectConnection_def call_ok_def hang_up_def intro!: calls_ok_upd_conn)

lemma calls_ok_clear: "calls_ok b \<Longrightarrow> calls_ok (clearConnecting c b)"
  by (simp add: calls_ok_def clearConnecting_def)

lemma calls_ok_start:
  assumes "calls_ok b" "be_calls b c \<noteq> None"
  shows "calls_ok (set_call c (Some Waiting) (upd_conn c (\<lambda>k. k\<lparr>rc_stage := RDial\<rparr>) b))"
proof -
  have "c < be_next b" using calls_okD [OF assms(1), of c] assms(2) by (simp add: call_ok_def)
  then have "call_ok (be_next b) c (Some Waiting) ((be_conns b c)\<lparr>rc_stage := RDial\<rparr>)" by (simp add: call_ok_def)
  with assms(1) show ?thesis by (simp add: calls_ok_def set_call_def upd_conn_def)
qed

lemma calls_ok_stop: "calls_ok b \<Longrightarrow> calls_ok (stopMonitorFor i b)" "calls_ok b \<Longrightarrow> calls_ok (snd (startUnderlayMonitor e i b))"
  by (auto simp: calls_ok_def stopMonitorFor_def stopUnderlayMonitor_def startUnderlayMonitor_def Let_def split: option.splits)

lemma backend_fields [simp]:
  "be_conns (set_call c x b) = be_conns b" "be_next (set_call c x b) = be_next b" "be_conns (clearConnecting c b) = be_conns b"
  "be_calls (clearConnecting c b) = be_calls b" "be_next (clearConnecting c b) = be_next b"
  "be_calls (disconnectConnection c b) = be_calls b" "be_next (disconnectConnection c b) = be_next b"
  "be_conns (disconnectConnection c b) = (be_conns b)(c := hang_up (be_conns b c))"
  "be_calls (upd_conn c f b) = be_calls b" "be_next (upd_conn c f b) = be_next b"
  "be_conns (stopMonitorFor i b) = be_conns b" "be_calls (stopMonitorFor i b) = be_calls b" "be_next (stopMonitorFor i b) = be_next b"
  "be_conns (snd (startUnderlayMonitor e i b)) = be_conns b" "be_calls (snd (startUnderlayMonitor e i b)) = be_calls b"
  "be_next (snd (startUnderlayMonitor e i b)) = be_next b"
  by (auto simp: set_call_def clearConnecting_def disconnectConnection_def upd_conn_def stopMonitorFor_def stopUnderlayMonitor_def
      startUnderlayMonitor_def Let_def split: option.splits)

lemma hang_up_fields [simp]: "rc_tunnel (hang_up k) = False" "rc_stage (hang_up k) = rc_stage k" "rc_ID (hang_up k) = rc_ID k"
  by (simp_all add: hang_up_def)

lemma owned_set_call:
  assumes "tunnels_owned b" "\<And>s. be_calls b c = Some (TearDown s) \<Longrightarrow> \<not> rc_tunnel (be_conns b s)"
    and "x = None \<Longrightarrow> rc_tunnel (be_conns b c) \<Longrightarrow> be_active b = Some c"
  shows "tunnels_owned (set_call c x b)"
  unfolding tunnels_owned_def
proof (intro allI impI)
  fix d
  assume t: "rc_tunnel (be_conns (set_call c x b) d)"
  then have d: "rc_tunnel (be_conns b d)" by simp
  with assms(1) consider "be_active b = Some d" | "be_calls b d \<noteq> None" | "d \<in> set (be_closing b)" | e where "be_calls b e = Some (TearDown d)"
    by (auto simp: tunnels_owned_def owned_def)
  then show "owned (set_call c x b) d"
  proof cases
    case 2
    with assms(3) d show ?thesis by (cases "d = c"; cases x) (auto simp: owned_def set_call_def)
  next
    case (4 e)
    with assms(2) d have "e \<noteq> c" by blast
    with 4 have "be_calls (set_call c x b) e = Some (TearDown d)" by (simp add: set_call_def)
    then show ?thesis by (auto simp: owned_def)
  qed (simp_all add: owned_def set_call_def)
qed

lemma owned_mono:
  assumes "tunnels_owned b" "\<And>c. rc_tunnel (be_conns b' c) \<Longrightarrow> rc_tunnel (be_conns b c)" "\<And>c. owned b c \<Longrightarrow> owned b' c"
  shows "tunnels_owned b'"
  using assms by (simp add: tunnels_owned_def)

lemma owned_hang_up: "tunnels_owned b \<Longrightarrow> tunnels_owned (disconnectConnection c b)"
  by (erule owned_mono) (auto simp: owned_def disconnectConnection_def upd_conn_def hang_up_def split: if_splits)

lemma owned_clear: "tunnels_owned b \<Longrightarrow> tunnels_owned (clearConnecting c b)"
  by (erule owned_mono) (simp_all add: owned_def clearConnecting_def split: if_splits)

lemma owned_stop: "tunnels_owned b \<Longrightarrow> tunnels_owned (stopMonitorFor i b)" "tunnels_owned b \<Longrightarrow> tunnels_owned (snd (startUnderlayMonitor e i b))"
  by (simp_all add: tunnels_owned_def owned_def stopMonitorFor_def stopUnderlayMonitor_def startUnderlayMonitor_def Let_def split: option.splits)

lemma owned_upd_conn: "tunnels_owned b \<Longrightarrow> be_calls b c \<noteq> None \<Longrightarrow> tunnels_owned (upd_conn c f b)"
  by (auto simp: tunnels_owned_def owned_def upd_conn_def)

lemmas backend_ok = calls_ok_set_call calls_ok_hang_up calls_ok_clear calls_ok_stop
lemmas backend_owned = owned_set_call owned_hang_up owned_clear owned_stop

lemma enter_inv:
  assumes "connect_enter b = Some b'" "calls_ok b" "tunnels_owned b"
  shows "calls_ok b' \<and> tunnels_owned b'"
proof -
  define b1 where "b1 = b\<lparr>be_active := None, be_connecting := Some (be_next b), be_next := be_next b + 1, be_conns := (be_conns b)(be_next b := NewConnection)\<rparr>"
  have n: "be_calls b (be_next b) = None" using calls_okD [OF assms(2), of "be_next b"] by (simp add: call_ok_def)
  have "call_ok (be_next b + 1) c (be_calls b c) (be_conns b c)" for c using calls_okD [OF assms(2), of c] by (auto simp: call_ok_def)
  then have c1: "calls_ok b1"
    using n by (simp add: b1_def calls_ok_def) (simp add: call_ok_def NewConnection_def)
  have o1: "owned b1 c \<or> be_active b = Some c" if "rc_tunnel (be_conns b1 c)" for c
    using assms(3) that by (auto simp: b1_def tunnels_owned_def owned_def NewConnection_def split: if_splits)
  have k: "be_calls b1 (be_next b) = None" "be_next b1 = be_next b + 1" "rc_stage (be_conns b1 (be_next b)) = RIdle"
    using n by (simp_all add: b1_def NewConnection_def)
  show ?thesis
  proof (cases "be_active b")
    case None
    with assms(1) have b': "b' = set_call (be_next b) (Some Waiting) (upd_conn (be_next b) (\<lambda>k. k\<lparr>rc_stage := RDial\<rparr>) b1)"
      by (auto simp: connect_enter_def b1_def Let_def split: if_splits)
    have "calls_ok b'" using c1 k by (simp add: b' calls_ok_def set_call_def upd_conn_def) (simp add: call_ok_def)
    moreover have "tunnels_owned b1" using o1 None by (simp add: tunnels_owned_def)
    then have "tunnels_owned (upd_conn (be_next b) (\<lambda>k. k\<lparr>rc_stage := RDial\<rparr>) b1)"
      by (rule owned_mono) (simp_all add: owned_def upd_conn_def split: if_splits)
    then have "tunnels_owned b'" using k by (auto simp: b' intro!: owned_set_call)
    ultimately show ?thesis ..
  next
    case (Some s)
    with assms(1) have b': "b' = set_call (be_next b) (Some (TearDown s)) b1" by (auto simp: connect_enter_def b1_def Let_def split: if_splits)
    have "calls_ok b'" unfolding b' using c1 by (rule calls_ok_set_call) (use k calls_okD [OF c1, of "be_next b"] in \<open>simp add: call_ok_def\<close>)
    moreover have "owned b' c" if "rc_tunnel (be_conns b' c)" for c
      using o1 [of c] that Some k by (auto simp: b' owned_def set_call_def) (metis option.distinct(1))
    ultimately show ?thesis by (simp add: tunnels_owned_def)
  qed
qed

lemma stale_inv:
  assumes "be_calls b c = Some (TearDown s)" "calls_ok b" "tunnels_owned b"
  shows "calls_ok (connect_stale c s err b) \<and> tunnels_owned (connect_stale c s err b)"
proof -
  have i: "rc_stage (be_conns b c) = RIdle" "\<not> rc_tunnel (be_conns b c)"
    using calls_okD [OF assms(2), of c] assms(1) by (auto simp: call_ok_def)
  have "calls_ok (connect_stale c s err b)"
    using assms i by (auto simp: connect_stale_def Let_def call_ok_def intro!: backend_ok calls_ok_start)
  moreover have "tunnels_owned (upd_conn c (\<lambda>k. k\<lparr>rc_stage := RDial\<rparr>) (disconnectConnection s b))"
    using assms by (intro owned_upd_conn owned_hang_up) auto
  then have "tunnels_owned (connect_stale c s err b)"
    using assms i by (auto simp: connect_stale_def Let_def upd_conn_def intro!: backend_owned split: if_splits)
  ultimately show ?thesis ..
qed

lemma stage_inv:
  assumes "calls_ok b" "tunnels_owned b" "rc_stage (be_conns b c) \<in> {RDial, RLogin, RSetup}" "rc_stage (f (be_conns b c)) \<noteq> RIdle"
  shows "calls_ok (upd_conn c f b) \<and> tunnels_owned (upd_conn c f b)"
proof -
  have f: "stage_fits (be_calls b c) (rc_stage (be_conns b c))" "be_calls b c = None \<or> c < be_next b"
    using calls_okD [OF assms(1), of c] by (simp_all add: call_ok_def)
  from f(1) assms(3) have w: "be_calls b c = Some Waiting" by (cases "be_calls b c"; cases "the (be_calls b c)") auto
  have "call_ok (be_next b) c (be_calls b c) (f (be_conns b c))" using f(2) assms(4) by (simp add: w call_ok_def)
  with assms(1,2) show ?thesis by (simp add: calls_ok_upd_conn owned_upd_conn w)
qed

lemma result_inv:
  assumes "be_calls b c = Some Waiting" "rc_stage (be_conns b c) = RReturned err" "calls_ok b" "tunnels_owned b"
  shows "calls_ok (connect_result c i err b) \<and> tunnels_owned (connect_result c i err b)"
proof -
  have n: "c < be_next b" using calls_okD [OF assms(3), of c] assms(1) by (simp add: call_ok_def)
  have "calls_ok (upd_conn c (\<lambda>k. k\<lparr>rc_ID := i\<rparr>) b)" using assms n by (intro calls_ok_upd_conn) (auto simp: call_ok_def)
  then have "calls_ok (connect_result c i err b)"
    using assms n by (auto simp: connect_result_def call_ok_def upd_conn_def intro!: backend_ok)
  moreover have "tunnels_owned (upd_conn c (\<lambda>k. k\<lparr>rc_ID := i\<rparr>) b)" using assms by (intro owned_upd_conn) auto
  then have "tunnels_owned (connect_result c i err b)"
    using assms by (auto simp: connect_result_def intro!: backend_owned)
  ultimately show ?thesis ..
qed

lemma call_stage:
  assumes "calls_ok b" "be_calls b c = Some x" "x \<in> {Starting, Publishing}"
  shows "has_returned (rc_stage (be_conns b c)) \<and> c < be_next b \<and> (rc_stage (be_conns b c) \<noteq> RIdle \<or> \<not> rc_tunnel (be_conns b c))"
  using calls_okD [OF assms(1), of c] assms(2,3) by (auto simp: call_ok_def)

lemma monitor_step_inv:
  assumes "be_calls b c = Some Starting" "calls_ok b" "tunnels_owned b"
  shows "calls_ok (connect_monitor c err b) \<and> tunnels_owned (connect_monitor c err b)"
proof -
  define b1 where "b1 = snd (startUnderlayMonitor err (rc_ID (be_conns b c)) b)"
  have b1: "calls_ok b1" "tunnels_owned b1" "be_calls b1 c = Some Starting" using assms by (simp_all add: b1_def calls_ok_stop owned_stop)
  have e: "connect_monitor c err b = (if err \<noteq> None then set_call c None (clearConnecting c (disconnectConnection c b1)) else set_call c (Some Publishing) b1)"
    by (auto simp: connect_monitor_def b1_def startUnderlayMonitor_def Let_def split: option.splits)
  note k = call_stage [OF b1(1,3)]
  have "calls_ok (connect_monitor c err b)" using b1 k by (auto simp: e call_ok_def intro!: backend_ok)
  moreover have "tunnels_owned (connect_monitor c err b)" using b1 by (auto simp: e intro!: backend_owned)
  ultimately show ?thesis ..
qed

lemma publish_inv:
  assumes "be_calls b c = Some Publishing" "calls_ok b" "tunnels_owned b"
  shows "calls_ok (connect_publish c b) \<and> tunnels_owned (connect_publish c b)"
proof (cases "be_connecting b = Some c")
  case True
  define b1 where "b1 = b\<lparr>be_connecting := None, be_active := Some c\<rparr>"
  have "be_active b = None" using assms(2) True by (simp add: calls_ok_def)
  then have "tunnels_owned b1" using assms(3) by (auto simp: b1_def tunnels_owned_def owned_def)
  moreover have "calls_ok b1" using assms(2) by (simp add: b1_def calls_ok_def)
  moreover have f: "be_calls b1 c = Some Publishing" "be_active b1 = Some c" using assms(1) by (simp_all add: b1_def)
  moreover note call_stage [OF \<open>calls_ok b1\<close> f(1)]
  moreover have "connect_publish c b = set_call c None b1" using True by (simp add: connect_publish_def b1_def)
  ultimately show ?thesis by (auto simp: call_ok_def intro!: calls_ok_set_call owned_set_call)
next
  case False
  note k = call_stage [OF assms(2,1)]
  have "calls_ok (connect_publish c b)" using assms k False by (auto simp: connect_publish_def call_ok_def intro!: backend_ok)
  moreover have "tunnels_owned (connect_publish c b)" using assms False by (auto simp: connect_publish_def intro!: backend_owned)
  ultimately show ?thesis ..
qed

lemma disconnect_inv: "calls_ok b \<Longrightarrow> tunnels_owned b \<Longrightarrow> calls_ok (backend_Disconnect b) \<and> tunnels_owned (backend_Disconnect b)"
  by (auto simp: backend_Disconnect_def calls_ok_def tunnels_owned_def owned_def stopUnderlayMonitor_def split: option.splits)

lemma next_inv:
  assumes "disconnect_next b = Some b'" "calls_ok b" "tunnels_owned b"
  shows "calls_ok b' \<and> tunnels_owned b'"
proof -
  obtain c cs where c: "be_closing b = c # cs" and b': "b' = disconnectConnection c (b\<lparr>be_closing := cs\<rparr>)"
    using assms(1) by (auto simp: disconnect_next_def split: list.splits)
  have "calls_ok (b\<lparr>be_closing := cs\<rparr>)" using assms(2) by (simp add: calls_ok_def)
  moreover have "owned b' d" if "rc_tunnel (be_conns b' d)" for d
  proof -
    have "d \<noteq> c" "rc_tunnel (be_conns b d)" using that by (auto simp: b' split: if_splits)
    with assms(3) c show ?thesis by (auto simp: b' tunnels_owned_def owned_def disconnectConnection_def upd_conn_def)
  qed
  ultimately show ?thesis by (simp add: b' calls_ok_hang_up tunnels_owned_def)
qed

lemma session_end_inv:
  assumes "calls_ok b" "tunnels_owned b"
  shows "calls_ok (upd_conn c (\<lambda>k. k\<lparr>rc_tunnel := False\<rparr>) b) \<and> tunnels_owned (upd_conn c (\<lambda>k. k\<lparr>rc_tunnel := False\<rparr>) b)"
proof
  show "calls_ok (upd_conn c (\<lambda>k. k\<lparr>rc_tunnel := False\<rparr>) b)"
    using assms(1) calls_okD [OF assms(1), of c] by (intro calls_ok_upd_conn) (simp_all add: call_ok_def)
  show "tunnels_owned (upd_conn c (\<lambda>k. k\<lparr>rc_tunnel := False\<rparr>) b)"
    using assms(2) by (rule owned_mono) (auto simp: owned_def upd_conn_def split: if_splits)
qed

lemma stage_leaves_idle:
  "rc_stage (dial_stage conn err k) \<noteq> RIdle" "rc_stage k = RLogin \<Longrightarrow> rc_stage (login_stage err k) \<noteq> RIdle"
  "rc_stage k = RSetup \<Longrightarrow> rc_stage (setup_stage up err k) \<noteq> RIdle"
  by (auto simp: dial_stage_def login_stage_def setup_stage_def split: option.splits)

lemma bexec_inv:
  assumes "bexec st b = Some b'" "\<And>c. st \<noteq> Cancels c" and inv: "calls_ok b \<and> tunnels_owned b"
  shows "calls_ok b' \<and> tunnels_owned b'"
proof (cases st)
  case Enter
  with assms(1) inv show ?thesis by (auto intro: enter_inv [THEN conjunct1] enter_inv [THEN conjunct2])
next
  case (StaleDown c err)
  with assms(1) obtain s where "be_calls b c = Some (TearDown s)" "b' = connect_stale c s err b" by (auto split: option.splits bcall.splits)
  with inv show ?thesis by (simp add: stale_inv)
next
  case (Dials c conn err)
  with assms(1) have "rc_stage (be_conns b c) = RDial" "b' = upd_conn c (dial_stage conn err) b" by (auto split: if_splits)
  with inv show ?thesis by (simp add: stage_inv stage_leaves_idle)
next
  case (LogsIn c err)
  with assms(1) have "rc_stage (be_conns b c) = RLogin" "b' = upd_conn c (login_stage err) b" by (auto split: if_splits)
  with inv show ?thesis by (simp add: stage_inv stage_leaves_idle)
next
  case (SetsUp c up err)
  with assms(1) have "rc_stage (be_conns b c) = RSetup" "b' = upd_conn c (setup_stage up err) b" by (auto split: if_splits)
  with inv show ?thesis by (simp add: stage_inv stage_leaves_idle)
next
  case (Result c i)
  with assms(1) obtain err where "be_calls b c = Some Waiting" "rc_stage (be_conns b c) = RReturned err" "b' = connect_result c i err b"
    by (auto split: option.splits bcall.splits rstage.splits)
  with inv show ?thesis by (simp add: result_inv)
next
  case (Monitors c err)
  with assms(1) inv show ?thesis by (auto simp: monitor_step_inv split: if_splits)
next
  case (Publishes c)
  with assms(1) inv show ?thesis by (auto simp: publish_inv split: if_splits)
next
  case (Drains c t)
  with assms(1) have "be_calls b c = Some Draining" by (simp split: if_splits)
  with inv calls_okD [of b c] show ?thesis by (simp add: call_ok_def)
next
  case DisconnectNext
  with assms(1) inv show ?thesis by (auto intro: next_inv [THEN conjunct1] next_inv [THEN conjunct2])
next
  case (SessionEnds c)
  with assms(1) inv show ?thesis by (auto simp: session_end_inv split: if_splits)
next
  case (MonitorCloses c)
  with assms(1) inv show ?thesis by (auto simp: calls_ok_stop owned_stop split: if_splits)
qed (use assms in \<open>auto simp: disconnect_inv\<close>)

lemma brun_inv:
  assumes "brun sts b = Some b'" "\<forall>c. Cancels c \<notin> set sts" "calls_ok b \<and> tunnels_owned b"
  shows "calls_ok b' \<and> tunnels_owned b'"
  using assms
proof (induction sts arbitrary: b)
  case (Cons st sts)
  then obtain b1 where "bexec st b = Some b1" "brun sts b1 = Some b'" by (auto split: option.splits)
  with Cons bexec_inv [of st b b1] show ?case by auto
qed simp

lemmas backend_defs = upd_conn_def set_call_def disconnectConnection_def clearConnecting_def hang_up_def stopUnderlayMonitor_def
  stopMonitorFor_def startUnderlayMonitor_def NewConnection_def Let_def

lemma backend_New_inv: "calls_ok backend_New \<and> tunnels_owned backend_New"
  by (simp add: backend_New_def calls_ok_def call_ok_def tunnels_owned_def NewConnection_def)

text \<open>C17: no tunnel is left without an owner. In every interleaving of calls of \<open>Connect\<close> and \<open>Disconnect\<close> with the goroutines they start, as
  long as no context of a \<open>Connect\<close> ends early, a tunnel that is up belongs to the active connection or to a call that has not returned
  and will either publish it or take it down. When no call is under way, only the active connection has a tunnel.\<close>

theorem tunnels_have_owners:
  assumes "brun sts backend_New = Some b" "\<forall>c. Cancels c \<notin> set sts" "rc_tunnel (be_conns b c)"
  shows "be_active b = Some c \<or> be_calls b c \<noteq> None \<or> c \<in> set (be_closing b) \<or> (\<exists>d. be_calls b d = Some (TearDown c))"
  using brun_inv [OF assms(1,2) backend_New_inv] assms(3) by (auto simp: tunnels_owned_def owned_def)

text \<open>A connection is replaced by a second one, and a user disconnects during the third attempt.\<close>

definition sample_calls :: "bstep list" where
  "sample_calls =
     [Enter, Dials 0 True None, LogsIn 0 None, SetsUp 0 True None, Result 0 ''a'', Monitors 0 None, Publishes 0,
      Enter, StaleDown 1 None, Dials 1 True None, LogsIn 1 None, SetsUp 1 True None, Result 1 ''b'', Monitors 1 None, Publishes 1,
      Enter, StaleDown 2 None, Dials 2 True None, DisconnectCall, LogsIn 2 None, SetsUp 2 True None]"

theorem tunnels_have_owners_witness:
  "\<exists>b. brun sample_calls backend_New = Some b \<and> rc_tunnel (be_conns b 2) \<and> be_active b = None \<and> be_connecting b = None \<and>
     (be_calls b 2 \<noteq> None \<or> 2 \<in> set (be_closing b) \<or> (\<exists>d. be_calls b d = Some (TearDown 2)))"
proof -
  have "\<exists>b. brun sample_calls backend_New = Some b \<and> rc_tunnel (be_conns b 2) \<and> be_active b = None \<and> be_connecting b = None"
    by (simp add: sample_calls_def backend_New_def connect_enter_def connect_stale_def connect_result_def connect_monitor_def connect_publish_def
        backend_Disconnect_def dial_stage_def login_stage_def setup_stage_def backend_defs numeral_2_eq_2)
  then obtain b where b: "brun sample_calls backend_New = Some b" "rc_tunnel (be_conns b 2)" "be_active b = None" "be_connecting b = None" by blast
  moreover have "\<forall>c. Cancels c \<notin> set sample_calls" by (simp add: sample_calls_def)
  ultimately show ?thesis using tunnels_have_owners [of sample_calls b 2] by auto
qed


section \<open>Waiting for a teardown\<close>

text \<open>C37: a disconnect does not wait for a tunnel whose session has already ended by itself, although \<open>SetTunnelDone\<close> says that disconnect
  paths wait so that a replacement connection never races the previous teardown. \<open>ConnSession.Close\<close> clears \<open>Session.CSess\<close> before the hook that
  closes the tunnel runs; a \<open>Connection.Disconnect\<close> from then on finds no session and returns at once without an error, with the manager
  and the device not yet closed, so that \<open>Backend.Connect\<close> sets the next tunnel up while the old one is still being taken down.\<close>

theorem replacement_races_teardown:
  assumes "\<not> cs_CloseChan c" "0 < n"
  shows "\<exists>t. run_moves [(now, me, de, ext, 1), (now, me, de, ext, 1)] (started c n) = Some t \<and>
    fst (rpc_Disconnect now authErr t) = Return authErr \<and>
    tc_managerCalls t = 0 \<and> tc_deviceCalls t = 0 \<and> \<not> tc_done t \<and> tn_tunnelDone t"
proof -
  obtain m where n: "n = Suc m" using assms(2) gr0_implies_Suc by blast
  show ?thesis
    using assms(1)
    by (simp add: n started_def newTunnelController_def tstep_def step_defs rpc_Disconnect_def Close_body_def SetLifecycleState_def RecordClose_def
        DtlsSession_Close_def Let_def)
qed

theorem replacement_races_teardown_witness:
  "\<exists>t. run_moves [(None, None, None, Quiet, 1), (None, None, None, Quiet, 1)] (started blank_session 1) = Some t \<and>
    fst (rpc_Disconnect None None t) = Return None \<and> tc_managerCalls t = 0 \<and> \<not> tc_done t"
proof -
  have "\<not> cs_CloseChan blank_session" by (simp add: blank_session_def)
  from replacement_races_teardown [OF this zero_less_one, of None None None Quiet None] show ?thesis by auto
qed

end
