(* ===== verification/Spec2Isabelle.thy ===== *)
theory Spec2Isabelle
  imports Isolation Recovery Socks5 Backend
begin

text \<open>
  FlexConnect is an AnyConnect VPN client: a daemon (\<open>flexconnectd\<close>) that keeps profiles and one connection, and
  clients (command line, tray) that talk to it over a local API. This development models the core of the daemon: the data it
  stores, how it plans routes, how it publishes events, how it connects, loses and recovers a connection, and who may do what; and
  below it the connection itself: authentication, the set-up of a tunnel, the shared state of a session, its packets and the framing of its
  channels, the goroutines that end it, what it does to the network of a Linux host, and the SOCKS5 proxy in front of it.

  \<^bold>\<open>The parts and their theories\<close>, in the order they build on each other. File names are under \<open>src/\<close>.

  \<^item> \<open>Prelude\<close>: errors as values (\<open>error\<close>, \<open>errors.Is\<close>, \<open>errors.As\<close>), the functions of \<open>strings\<close> the code
    uses, bounded lists, association lists; \<open>Types\<close>: the structs of \<open>internal/types\<close> and \<open>internal/vpn\<close> as records;
    64-bit counters are words, times are nanoseconds, an RFC 3339 text is the optional time it prints.
  \<^item> \<open>Netip\<close>, \<open>Router\<close>: the part of \<open>net/netip\<close> in use, \<open>internal/osnet/types.go\<close> and
    \<open>internal/router/planner.go\<close>. Shown: which list decides each destination, that the reported routes are the installed
    ones, that route differences are exact.
  \<^item> \<open>Profileio\<close>: normalisation and validation (\<open>internal/profileio\<close>). \<open>url.Parse\<close> is a parameter of type
    \<open>urlparser\<close>. Shown: normalising twice is normalising once.
  \<^item> \<open>Store\<close>: the state file (\<open>internal/store/file\<close>) and the secret stores (\<open>internal/secret\<close>). A save runs through its
    stages and a \<open>fault\<close> makes one of them fail; the decoder's outcomes are the cases of \<open>state_file\<close>. The locales
    \<open>state_store\<close> and \<open>secret_store\<close> state what the daemon relies on, interpreted on the file and memory stores. Shown: a save is
    atomic and durable under every fault.
  \<^item> \<open>Bus\<close>: revisions, event ring, watchers, log buffer, connection history, traffic rates. Shown: streams and replays
    have no gaps, everything is bounded.
  \<^item> \<open>Service\<close>: the state of \<open>appd.Service\<close> and its persistence (\<open>internal/appd/daemon.go\<close>); \<open>Txn\<close>, \<open>Delete\<close>: the
    profile transactions under crashes. The world (disk, secrets, random source, faults to come) is part of the state and records every
    durable state it goes through; a crash is a restart from any of them. \<open>spec_recover\<close> is the abstract recovery, which
    \<open>recoverIntentLocked\<close> refines.
  \<^item> \<open>Supervisor\<close>, \<open>Reconnect\<close>: connecting, disconnecting, closing, the proxy, backend events, timers, network repair. Every
    critical section (the code between taking and releasing \<open>s.mu\<close>) is a definition, a Go function is their composition with the
    outside calls between. The backend answers from scripts in the record \<open>backend\<close>.
  \<^item> \<open>Access\<close>: \<open>internal/appd/v2.go\<close>: actors, authorization, views, commands, operations, control mode.
  \<^item> \<open>Sections\<close>, \<open>Invariants\<close>, \<open>Schedules\<close>: the sections as a transition system in which any section may run between any
    two others; the connection as an abstract machine (\<open>conn_step\<close>) that every section refines; invariants through the locales
    \<open>section_invariant\<close> and \<open>view_invariant\<close>; every command is a schedule. Shown: the status is coherent in every schedule,
    a completed disconnect is final, timers and memory are bounded, a disarmed timer is inert.
  \<^item> \<open>Attempts\<close>, \<open>Isolation\<close>: one attempt is all or nothing; what a loss leaves behind; the answers to a client depend only on
    what it may know; writes are refused when they are unsafe. Both also prove where the code falls short.
  \<^item> \<open>Netlink\<close>: what the code uses of the kernel, D-Bus and resolvconf, as a record of functions (\<open>netlink\<close>) over an arbitrary
    type of machines; the locale \<open>route_table\<close> states the documented behaviour of the routing table that the proofs rely on.
    \<open>Monitor\<close>: the snapshot of the physical path and its monitor (\<open>internal/osnet/monitor.go\<close>, \<open>monitor_linux.go\<close>). Shown: the stream of
    changes is a complete account.
  \<^item> \<open>Linuxnet\<close>, \<open>Ownership\<close>: the Linux network manager (\<open>manager_linux.go\<close>) and, in the context of \<open>route_table\<close>, that every
    route it added is one it remembers. \<open>Journal\<close>, \<open>Crash\<close>, \<open>Recovery\<close>: the ownership journal around a manager (\<open>journal.go\<close>,
    \<open>journal_recover_linux.go\<close>). The locale \<open>tracked_manager\<close> is what the journal relies on, the Linux manager provides it; the
    locales are interpreted on a simulated machine with a kernel routing table. Shown: a daemon killed at any point leaves no
    route behind after the next start, and where a failed cleanup is forgotten.
  \<^item> \<open>Connsession\<close>: the state of one VPN connection (\<open>internal/anyconnect/session\<close>). \<open>Cstp\<close>: buffers, frames and the loops of the TLS and
    DTLS channels (\<open>tunnel/buffer.go\<close>, \<open>tls.go\<close>, \<open>dtls.go\<close>). Shown: when probes keep a connection alive, that the framing is
    lossless, what every frame type does.
  \<^item> \<open>Controller\<close>: the goroutines of a tunnel (\<open>tunnel/controller.go\<close>) as a transition system over stacks of actions. Shown: every
    schedule is finite and ends with everything closed once and in order, except when \<open>Start\<close> meets a closed session.
  \<^item> \<open>Packets\<close>, \<open>Dynroutes\<close>: the packet workers and the flow router of the user-space tunnel (\<open>tunnel/tun.go\<close>, \<open>usernet.go\<close>), and the routes
    that follow DNS answers. Reading past a packet is a panic and a value of the model. Shown: which packets end the daemon, that the flow
    router is exact, that dynamic routes are bounded.
  \<^item> \<open>Tunsetup\<close>: from the CONNECT request to a running tunnel (\<open>tunnel/tunnel.go\<close>, set-up of \<open>tun.go\<close>); the record \<open>setup_env\<close> has an answer
    for every call that can fail. Shown: what reaches the network manager is well formed, and what a failure leaves.
  \<^item> \<open>Auth\<close>: the login (\<open>internal/anyconnect/auth\<close>) and the login probes (\<open>internal/loginprobe\<close>). Shown: on which answers a login is
    accepted, and that credentials are not escaped.
  \<^item> \<open>Backend\<close>: one connection (\<open>internal/anyconnect/rpc\<close>) as the composition of \<open>Auth\<close> and \<open>Tunsetup\<close>, and the backend
    (\<open>internal/vpn/anyconnect\<close>) as a machine of critical sections. Shown: a connection is complete or nothing and a refused login is final;
    every tunnel has an owner as long as no context ends early; where a cancelled attempt leaks a tunnel and where a disconnect does
    not wait.
  \<^item> \<open>Socks5\<close>: the proxy (\<open>internal/socks5\<close>): what one client is answered, and the life of the server. Shown: only what a complete request
    asks for is dialled, and a closed server serves nobody.

  \<^bold>\<open>Bounds and loops.\<close> All definitions are total. The only loops that are not over a list are \<open>drop_runes\<close> and \<open>read_frames\<close> (a measure on
  the length) and the delay loop, which recurses on the attempt number. An endless loop of a goroutine is its iteration, with what
  it waits for as arguments. Schedules are finite lists of any length.

  \<^bold>\<open>Assumptions.\<close> A critical section runs without interruption. Cloned values are values. A context is its error, if it has
  ended. Watch channels are unbounded towards the client; the channel of 32 events inside the daemon is modelled. The order of map
  iteration does not matter where maps are association lists. Attempt identifiers are not empty where a theorem says so.

  \<^bold>\<open>Parameters.\<close> Libraries that are not part of the repository are arguments: \<open>url.Parse\<close>, the XML and JSON decoders, \<open>fmt.Sprintf\<close> with a
  server's format, the HTTP exchanges, TLS and DTLS, the tunnel's dialer, the kernel and D-Bus. The stages of \<open>connection.Connect\<close> are single
  steps in \<open>Backend\<close>; what happens when a session is closed during a set-up is shown in \<open>Controller\<close>.

  \<^bold>\<open>Not modelled.\<close> The managers of routes and DNS of Windows and macOS, the network stack behind the user-space tunnel, the measurements of
  \<open>internal/netcheck\<close>, the local API's HTTP layer, the clients, the update check, packaging, logging. They are input and output over
  third-party packages with little state of their own. \<open>Diagnostics\<close> and \<open>ReadServerConfig\<close> copy untyped maps. The OS keyring is a third-party
  package.
\<close>

end
